(* ===== verification/Prelude.thy ===== *)
theory Prelude
  imports Main "HOL-Library.Word"
begin

text \<open>
  Shared by every component: the type of a C function that reads and writes the daemon's state
  and may end the process (\<open>exit\<close>, a failed \<open>assert\<close>) or leave the language (undefined
  behaviour), the few combinators the models are written with, a semantic Hoare triple with its
  rules, and generic lemmas on lists and flag words.

  A statement block of the source is \<open>sq [s1, s2, ...]\<close>, a call whose value is used is
  \<open>bnd m k\<close>, an \<open>if\<close> without \<open>else\<close> is \<open>guard b m\<close>, and an expression that reads
  globals is evaluated under \<open>look\<close>.
\<close>

named_theorems prog_simps "evaluation of the statement combinators"
named_theorems frame_rules "structural rules for operations that stay within a frame"
named_theorems keeps_rules "structural rules for operations that keep an invariant"

section \<open>Programs\<close>

text \<open>
  How a call does not return: \<open>exit (n)\<close>, a failing \<open>assert\<close>, undefined behaviour, or a loop
  that the environment keeps going for ever.
\<close>

datatype halt = Exit int | Assert_Failed | Undefined | Hangs

datatype ('s, 'a) outcome = Run 'a 's | Halt halt 's

type_synonym ('s, 'a) prog = "'s \<Rightarrow> ('s, 'a) outcome"

definition ret :: "'a \<Rightarrow> ('s, 'a) prog" where
  "ret x s = Run x s"

definition halt :: "halt \<Rightarrow> ('s, 'a) prog" where
  "halt h s = Halt h s"

definition bnd :: "('s, 'a) prog \<Rightarrow> ('a \<Rightarrow> ('s, 'b) prog) \<Rightarrow> ('s, 'b) prog" where
  "bnd m k s = (case m s of Run x t \<Rightarrow> k x t | Halt h t \<Rightarrow> Halt h t)"

definition upd :: "('s \<Rightarrow> 's) \<Rightarrow> ('s, unit) prog" where
  "upd f s = Run () (f s)"

definition look :: "('s \<Rightarrow> ('s, 'a) prog) \<Rightarrow> ('s, 'a) prog" where
  "look f s = f s s"

definition guard :: "bool \<Rightarrow> ('s, unit) prog \<Rightarrow> ('s, unit) prog" where
  "guard b m = (if b then m else ret ())"

primrec sq :: "('s, unit) prog list \<Rightarrow> ('s, unit) prog" where
  "sq [] = ret ()"
| "sq (m # ms) = bnd m (\<lambda>_. sq ms)"

declare ret_def [prog_simps] halt_def [prog_simps] bnd_def [prog_simps] upd_def [prog_simps]
  look_def [prog_simps] guard_def [prog_simps]

text \<open>The state in which a program ended, by whatever way.\<close>

fun final_state :: "('s, 'a) outcome \<Rightarrow> 's" where
  "final_state (Run _ t) = t"
| "final_state (Halt _ t) = t"

fun is_run :: "('s, 'a) outcome \<Rightarrow> bool" where
  "is_run (Run _ _) = True"
| "is_run (Halt _ _) = False"

lemma bnd_ret [simp]: "bnd (ret x) k = k x"
  by (rule ext) (simp add: prog_simps)

lemma bnd_halt [simp]: "bnd (halt h) k = halt h"
  by (rule ext) (simp add: prog_simps)

lemma bnd_ret_right: "bnd m ret = m"
  by (rule ext) (simp add: prog_simps split: outcome.split)

lemma bnd_assoc: "bnd (bnd m k) l = bnd m (\<lambda>x. bnd (k x) l)"
  by (rule ext) (simp add: prog_simps split: outcome.split)

lemma bnd_Run: "m s = Run x t \<Longrightarrow> bnd m k s = k x t"
  by (simp add: bnd_def)

lemma bnd_RunE:
  assumes "bnd m k s = Run y t"
  obtains x r where "m s = Run x r" "k x r = Run y t"
  using assms by (auto simp: bnd_def split: outcome.splits)

lemma bnd_Halt: "m s = Halt h t \<Longrightarrow> bnd m k s = Halt h t"
  by (simp add: bnd_def)

lemma sq_append: "sq (ms @ ns) = bnd (sq ms) (\<lambda>_. sq ns)"
  by (induction ms) (simp_all add: bnd_assoc)

lemma guard_True [simp]: "guard True m = m" and guard_False [simp]: "guard False m = ret ()"
  by (simp_all add: guard_def)

section \<open>Triples\<close>

text \<open>
  From a state with \<open>P\<close>, a run that returns ends with \<open>Q\<close> and one that stops the process
  ends with \<open>E\<close>. A program always does one of the two, so the triple is about total correctness.
\<close>

definition hoare :: "('s \<Rightarrow> bool) \<Rightarrow> ('s, 'a) prog \<Rightarrow> ('a \<Rightarrow> 's \<Rightarrow> bool) \<Rightarrow> (halt \<Rightarrow> 's \<Rightarrow> bool) \<Rightarrow> bool"
  where "hoare P m Q E \<longleftrightarrow>
    (\<forall>s. P s \<longrightarrow> (case m s of Run x t \<Rightarrow> Q x t | Halt h t \<Rightarrow> E h t))"

text \<open>
  Stopping by \<open>exit\<close> is a decision of the program, and never returning one of the environment; the
  other two ways are faults of the program.
\<close>

fun orderly :: "halt \<Rightarrow> bool" where
  "orderly (Exit _) = True"
| "orderly Assert_Failed = False"
| "orderly Undefined = False"
| "orderly Hangs = True"

text \<open>\<open>keeps I m\<close>: from \<open>I\<close>, the program \<open>m\<close> restores \<open>I\<close> or exits; it never faults.\<close>

definition keeps :: "('s \<Rightarrow> bool) \<Rightarrow> ('s, 'a) prog \<Rightarrow> bool" where
  "keeps I m \<longleftrightarrow> hoare I m (\<lambda>_. I) (\<lambda>h t. orderly h \<and> I t)"

lemma hoareI:
  "(\<And>s. P s \<Longrightarrow> case m s of Run x t \<Rightarrow> Q x t | Halt h t \<Rightarrow> E h t) \<Longrightarrow> hoare P m Q E"
  by (simp add: hoare_def)

lemma hoare_Run: "hoare P m Q E \<Longrightarrow> P s \<Longrightarrow> m s = Run x t \<Longrightarrow> Q x t"
  unfolding hoare_def by fastforce

lemma hoare_Halt: "hoare P m Q E \<Longrightarrow> P s \<Longrightarrow> m s = Halt h t \<Longrightarrow> E h t"
  unfolding hoare_def by fastforce

lemma hoare_bnd:
  assumes "hoare P m R E" and "\<And>x. hoare (R x) (k x) Q E"
  shows "hoare P (bnd m k) Q E"
  using assms unfolding hoare_def bnd_def by (fastforce split: outcome.splits)

lemma hoare_conseq:
  assumes "hoare P' m Q' E'" and "\<And>s. P s \<Longrightarrow> P' s" and "\<And>x s. Q' x s \<Longrightarrow> Q x s"
    and "\<And>h s. E' h s \<Longrightarrow> E h s"
  shows "hoare P m Q E"
  using assms unfolding hoare_def by (fastforce split: outcome.splits)

lemma keepsI:
  "(\<And>s. I s \<Longrightarrow> case m s of Run x t \<Rightarrow> I t | Halt h t \<Rightarrow> orderly h \<and> I t) \<Longrightarrow> keeps I m"
  by (simp add: keeps_def hoare_def)

lemma keepsD: "keeps I m \<Longrightarrow> I s \<Longrightarrow> case m s of Run x t \<Rightarrow> I t | Halt h t \<Rightarrow> orderly h \<and> I t"
  by (simp add: keeps_def hoare_def)

lemma keeps_Run: "keeps I m \<Longrightarrow> I s \<Longrightarrow> m s = Run x t \<Longrightarrow> I t"
  by (drule (1) keepsD) simp

lemma keeps_Halt: "keeps I m \<Longrightarrow> I s \<Longrightarrow> m s = Halt h t \<Longrightarrow> orderly h \<and> I t"
  by (drule (1) keepsD) simp

lemma keeps_final: "keeps I m \<Longrightarrow> I s \<Longrightarrow> I (final_state (m s))"
  by (drule (1) keepsD) (simp split: outcome.splits)

lemma keeps_ret [keeps_rules]: "keeps I (ret x)"
  by (simp add: keeps_def hoare_def ret_def)

lemma keeps_exit [keeps_rules]: "keeps I (halt (Exit n))"
  by (simp add: keeps_def hoare_def halt_def)

lemma keeps_bnd [keeps_rules]:
  "keeps I m \<Longrightarrow> (\<And>x. keeps I (k x)) \<Longrightarrow> keeps I (bnd m k)"
  unfolding keeps_def by (rule hoare_bnd)

lemma keeps_look [keeps_rules]: "(\<And>s. I s \<Longrightarrow> keeps I (f s)) \<Longrightarrow> keeps I (look f)"
  unfolding keeps_def hoare_def look_def by fast

lemma keeps_guard [keeps_rules]: "(b \<Longrightarrow> keeps I m) \<Longrightarrow> keeps I (guard b m)"
  by (simp add: guard_def keeps_ret)

lemma keeps_if [keeps_rules]:
  "(b \<Longrightarrow> keeps I m) \<Longrightarrow> (\<not> b \<Longrightarrow> keeps I n) \<Longrightarrow> keeps I (if b then m else n)"
  by simp

lemma keeps_sq_Nil [keeps_rules]: "keeps I (sq [])"
  by (simp add: keeps_ret)

lemma keeps_sq_Cons [keeps_rules]: "keeps I m \<Longrightarrow> keeps I (sq ms) \<Longrightarrow> keeps I (sq (m # ms))"
  by (simp add: keeps_bnd)

lemma keeps_option [keeps_rules]:
  "(x = None \<Longrightarrow> keeps I m) \<Longrightarrow> (\<And>y. x = Some y \<Longrightarrow> keeps I (k y)) \<Longrightarrow>
    keeps I (case x of None \<Rightarrow> m | Some y \<Rightarrow> k y)"
  by (cases x) simp_all

lemma keeps_prod [keeps_rules]:
  "(\<And>a b. x = (a, b) \<Longrightarrow> keeps I (k a b)) \<Longrightarrow> keeps I (case x of (a, b) \<Rightarrow> k a b)"
  by (cases x) simp

lemma keeps_upd: "(\<And>s. I s \<Longrightarrow> I (f s)) \<Longrightarrow> keeps I (upd f)"
  by (simp add: keeps_def hoare_def upd_def)

text \<open>\<open>completes I m\<close>: from \<open>I\<close>, the program \<open>m\<close> returns, and restores \<open>I\<close>.\<close>

definition completes :: "('s \<Rightarrow> bool) \<Rightarrow> ('s, 'a) prog \<Rightarrow> bool" where
  "completes I m \<longleftrightarrow> hoare I m (\<lambda>_. I) (\<lambda>_ _. False)"

lemma completesI: "(\<And>s. I s \<Longrightarrow> \<exists>x t. m s = Run x t \<and> I t) \<Longrightarrow> completes I m"
  unfolding completes_def hoare_def by fastforce

lemma completesD: "completes I m \<Longrightarrow> I s \<Longrightarrow> \<exists>x t. m s = Run x t \<and> I t"
  unfolding completes_def hoare_def by (cases "m s") fastforce+

lemma completes_ret: "completes I (ret x)"
  by (rule completesI) (simp add: ret_def)

lemma completes_bnd: "completes I m \<Longrightarrow> (\<And>x. completes I (k x)) \<Longrightarrow> completes I (bnd m k)"
  unfolding completes_def by (rule hoare_bnd)

lemma completes_look: "(\<And>s. I s \<Longrightarrow> completes I (f s)) \<Longrightarrow> completes I (look f)"
  unfolding completes_def hoare_def look_def by fast

lemma completes_guard: "(b \<Longrightarrow> completes I m) \<Longrightarrow> completes I (guard b m)"
  by (simp add: guard_def completes_ret)

lemma completes_if: "(b \<Longrightarrow> completes I m) \<Longrightarrow> (\<not> b \<Longrightarrow> completes I n) \<Longrightarrow> completes I (if b then m else n)"
  by simp

lemma completes_sq: "completes I (sq [])"
  "completes I m \<Longrightarrow> completes I (sq ms) \<Longrightarrow> completes I (sq (m # ms))"
  by (simp_all add: completes_ret completes_bnd)

lemma completes_upd: "(\<And>s. I s \<Longrightarrow> I (f s)) \<Longrightarrow> completes I (upd f)"
  by (rule completesI) (simp add: upd_def)

lemmas completes_rules = completes_ret completes_bnd completes_look completes_guard completes_if completes_sq

text \<open>\<open>preserves I m\<close>: from \<open>I\<close>, if the program \<open>m\<close> returns, \<open>I\<close> holds again.\<close>

definition preserves :: "('s \<Rightarrow> bool) \<Rightarrow> ('s, 'a) prog \<Rightarrow> bool" where
  "preserves I m \<longleftrightarrow> hoare I m (\<lambda>_. I) (\<lambda>_ _. True)"

lemma preservesI: "(\<And>s x t. I s \<Longrightarrow> m s = Run x t \<Longrightarrow> I t) \<Longrightarrow> preserves I m"
  unfolding preserves_def hoare_def by (simp split: outcome.split)

lemma preservesD: "preserves I m \<Longrightarrow> I s \<Longrightarrow> m s = Run x t \<Longrightarrow> I t"
  unfolding preserves_def by (rule hoare_Run)

lemma preserves_ret: "preserves I (ret x)"
  by (rule preservesI) (simp add: ret_def)

lemma preserves_halt: "preserves I (halt h)"
  by (rule preservesI) (simp add: halt_def)

lemma preserves_bnd: "preserves I m \<Longrightarrow> (\<And>x. preserves I (k x)) \<Longrightarrow> preserves I (bnd m k)"
  unfolding preserves_def by (rule hoare_bnd)

lemma preserves_look: "(\<And>s. I s \<Longrightarrow> preserves I (f s)) \<Longrightarrow> preserves I (look f)"
  unfolding preserves_def hoare_def look_def by fast

lemma preserves_guard: "(b \<Longrightarrow> preserves I m) \<Longrightarrow> preserves I (guard b m)"
  by (simp add: guard_def preserves_ret)

lemma preserves_if: "(b \<Longrightarrow> preserves I m) \<Longrightarrow> (\<not> b \<Longrightarrow> preserves I n) \<Longrightarrow> preserves I (if b then m else n)"
  by simp

lemma preserves_sq: "preserves I (sq [])"
  "preserves I m \<Longrightarrow> preserves I (sq ms) \<Longrightarrow> preserves I (sq (m # ms))"
  by (simp_all add: preserves_ret preserves_bnd)

lemma preserves_option:
  "(x = None \<Longrightarrow> preserves I m) \<Longrightarrow> (\<And>y. x = Some y \<Longrightarrow> preserves I (k y)) \<Longrightarrow>
    preserves I (case x of None \<Rightarrow> m | Some y \<Rightarrow> k y)"
  by (cases x) simp_all

lemma preserves_prod:
  "(\<And>a b. x = (a, b) \<Longrightarrow> preserves I (k a b)) \<Longrightarrow> preserves I (case x of (a, b) \<Rightarrow> k a b)"
  by (cases x) simp

lemma preserves_upd: "(\<And>s. I s \<Longrightarrow> I (f s)) \<Longrightarrow> preserves I (upd f)"
  by (rule preservesI) (auto simp: upd_def)

lemmas preserves_rules = preserves_ret preserves_halt preserves_bnd preserves_look preserves_guard preserves_if
  preserves_sq preserves_option preserves_prod

section \<open>Frames\<close>

text \<open>
  \<open>within R m\<close>: whatever way \<open>m\<close> ends, without a fault, the final state is related by \<open>R\<close> to the
  initial one. For a preorder \<open>R\<close> ("changes at most these variables") the property is closed under
  all statement combinators; the rules are proved once here and hold for each frame of the model.
\<close>

definition within :: "('s \<Rightarrow> 's \<Rightarrow> bool) \<Rightarrow> ('s, 'a) prog \<Rightarrow> bool" where
  "within R m \<longleftrightarrow> (\<forall>s. case m s of Run x t \<Rightarrow> R s t | Halt h t \<Rightarrow> orderly h \<and> R s t)"

lemma withinI:
  "(\<And>s. case m s of Run x t \<Rightarrow> R s t | Halt h t \<Rightarrow> orderly h \<and> R s t) \<Longrightarrow> within R m"
  by (simp add: within_def)

lemma withinD: "within R m \<Longrightarrow> case m s of Run x t \<Rightarrow> R s t | Halt h t \<Rightarrow> orderly h \<and> R s t"
  by (simp add: within_def)

lemma within_Run: "within R m \<Longrightarrow> m s = Run x t \<Longrightarrow> R s t"
  using withinD [of R m s] by simp

lemma within_Halt: "within R m \<Longrightarrow> m s = Halt h t \<Longrightarrow> orderly h \<and> R s t"
  using withinD [of R m s] by simp

lemma within_mono: "within R m \<Longrightarrow> (\<And>s t. R s t \<Longrightarrow> R' s t) \<Longrightarrow> within R' m"
  unfolding within_def by (fastforce split: outcome.splits)

lemma keeps_within: "within R m \<Longrightarrow> (\<And>s t. I s \<Longrightarrow> R s t \<Longrightarrow> I t) \<Longrightarrow> keeps I m"
  unfolding keeps_def hoare_def within_def by (fastforce split: outcome.splits)

lemma preserves_within: "within R m \<Longrightarrow> (\<And>s t. I s \<Longrightarrow> R s t \<Longrightarrow> I t) \<Longrightarrow> preserves I m"
  by (rule preservesI) (blast dest: within_Run)

locale frame =
  fixes R :: "'s \<Rightarrow> 's \<Rightarrow> bool"
  assumes R_refl: "R s s"
    and R_trans: "R s t \<Longrightarrow> R t r \<Longrightarrow> R s r"
begin

lemma within_ret [frame_rules]: "within R (ret x)"
  by (rule withinI) (simp add: ret_def R_refl)

lemma within_exit [frame_rules]: "within R (halt (Exit n))"
  by (rule withinI) (simp add: halt_def R_refl)

lemma within_bnd [frame_rules]: "within R m \<Longrightarrow> (\<And>x. within R (k x)) \<Longrightarrow> within R (bnd m k)"
  unfolding within_def bnd_def by (fastforce split: outcome.splits intro: R_trans)

lemma within_look [frame_rules]: "(\<And>s. within R (f s)) \<Longrightarrow> within R (look f)"
  unfolding within_def look_def by blast

lemma within_guard [frame_rules]: "within R m \<Longrightarrow> within R (guard b m)"
  by (simp add: guard_def within_ret)

lemma within_if [frame_rules]: "within R m \<Longrightarrow> within R n \<Longrightarrow> within R (if b then m else n)"
  by simp

lemma within_sq_Nil [frame_rules]: "within R (sq [])"
  by (simp add: within_ret)

lemma within_sq_Cons [frame_rules]: "within R m \<Longrightarrow> within R (sq ms) \<Longrightarrow> within R (sq (m # ms))"
  by (simp add: within_bnd)

lemma within_option [frame_rules]:
  "within R m \<Longrightarrow> (\<And>y. within R (k y)) \<Longrightarrow> within R (case x of None \<Rightarrow> m | Some y \<Rightarrow> k y)"
  by (cases x) simp_all

lemma within_prod [frame_rules]:
  "(\<And>a b. within R (k a b)) \<Longrightarrow> within R (case x of (a, b) \<Rightarrow> k a b)"
  by (cases x) simp

lemma within_sq: "(\<And>m. m \<in> set ms \<Longrightarrow> within R m) \<Longrightarrow> within R (sq ms)"
  by (induction ms) (simp_all add: within_ret within_bnd)

end

end
