(* ===== verification/Utils.thy ===== *)
theory Utils
  imports Prelude "HOL-Library.Sublist"
begin

text \<open>
  Models \<^verbatim>\<open>src/src/utils.c\<close>: parsing of decimal numbers and of \<open>key=value\<close> options, and
  construction of device paths; before it the functions of the C library they call, in the "C"
  locale. A C string is the list of its characters without the terminating NUL; a pointer that
  the code compares with NULL is an \<open>option\<close>. \<open>long\<close> has 64 bits and \<open>int\<close> 32.
\<close>

section \<open>C library\<close>

definition LONG_MAX :: int where "LONG_MAX = 9223372036854775807"
definition LONG_MIN :: int where "LONG_MIN = - 9223372036854775808"
definition INT_MAX :: int where "INT_MAX = 2147483647"
definition EINVAL :: int where "EINVAL = 22"
definition ENAMETOOLONG :: int where "ENAMETOOLONG = 36"

text \<open>The value of a \<^verbatim>\<open>char\<close> as \<^verbatim>\<open>unsigned char\<close>.\<close>

definition byte :: "char \<Rightarrow> nat" where
  "byte c = of_char c"

definition is_space :: "char \<Rightarrow> bool" where
  "is_space c \<longleftrightarrow> c = CHR '' '' \<or> (9 \<le> byte c \<and> byte c \<le> 13)"

definition is_digit :: "char \<Rightarrow> bool" where
  "is_digit c \<longleftrightarrow> 48 \<le> byte c \<and> byte c \<le> 57"

definition to_lower :: "char \<Rightarrow> char" where
  "to_lower c = (if 65 \<le> byte c \<and> byte c \<le> 90 then char_of (byte c + 32) else c)"

definition digit_val :: "char \<Rightarrow> nat" where
  "digit_val c = byte c - 48"

definition dec_val :: "string \<Rightarrow> int" where
  "dec_val ds = foldl (\<lambda>v c. 10 * v + int (digit_val c)) 0 ds"

text \<open>\<open>cstr\<close> reads an array of bytes as a C string: everything before the first NUL.\<close>

definition cstr :: "char list \<Rightarrow> string" where
  "cstr = takeWhile (\<lambda>c. c \<noteq> CHR 0x00)"

text \<open>\<open>strcasecmp (a, b) = 0\<close>.\<close>

definition same_nocase :: "string \<Rightarrow> string \<Rightarrow> bool" where
  "same_nocase a b \<longleftrightarrow> map to_lower a = map to_lower b"

text \<open>\<open>strtol (s, &ep, 10)\<close>: the value, whether \<open>errno\<close> became ERANGE, and what \<open>ep\<close> points to.\<close>

fun split_sign :: "string \<Rightarrow> int \<times> string" where
  "split_sign (c # cs) =
     (if c = CHR ''-'' then (- 1, cs) else if c = CHR ''+'' then (1, cs) else (1, c # cs))"
| "split_sign [] = (1, [])"

definition strtol :: "string \<Rightarrow> int \<times> bool \<times> string" where
  "strtol s = (let (sg, u) = split_sign (dropWhile is_space s);
                   ds = takeWhile is_digit u;
                   v = sg * dec_val ds
     in if ds = [] then (0, False, s)
        else if v > LONG_MAX then (LONG_MAX, True, dropWhile is_digit u)
        else if v < LONG_MIN then (LONG_MIN, True, dropWhile is_digit u)
        else (v, False, dropWhile is_digit u))"

text \<open>
  \<open>snprintf (buf, sz, "%s", text)\<close> for \<open>sz > 0\<close>: what \<open>buf\<close> then holds and the result,
  which is negative when the length of the text does not fit in an \<open>int\<close>.
\<close>

definition snprintf :: "nat \<Rightarrow> string \<Rightarrow> string \<times> int" where
  "snprintf sz text = (take (sz - 1) text,
     if int (length text) > INT_MAX then - 1 else int (length text))"

section \<open>cwdaemon\_get\_long()\<close>

definition cwdaemon_get_long :: "string option \<Rightarrow> int option" where
  "cwdaemon_get_long buf = (case buf of
     None \<Rightarrow> None
   | Some s \<Rightarrow>
       if s = [] then None
       else let (lv, erange, ep) = strtol s
            in if ep \<noteq> [] then None
               else if erange \<and> (lv = LONG_MAX \<or> lv = LONG_MIN) then None
               else Some lv)"

section \<open>find\_opt\_value()\<close>

datatype opt_t = opt_success | opt_key_not_found | opt_eq_not_found | opt_extra_spaces

text \<open>
  \<open>strchr (input, '=')\<close> splits the input in what stands before the sign and what follows it.
  The second component of the result is \<open>*value\<close> when it was written.
\<close>

definition find_opt_value :: "string \<Rightarrow> string \<Rightarrow> opt_t \<times> string option" where
  "find_opt_value input keyword =
     (let key = takeWhile (\<lambda>c. c \<noteq> CHR ''='') input;
          equal = dropWhile (\<lambda>c. c \<noteq> CHR ''='') input
      in if equal = [] then (opt_eq_not_found, None)
         else if key = [] then (opt_key_not_found, None)
         else if is_space (last key) \<or> (tl equal \<noteq> [] \<and> is_space (hd (tl equal)))
           then (opt_extra_spaces, None)
         else if length key \<noteq> length keyword then (opt_key_not_found, None)
         else if \<not> same_nocase key keyword then (opt_key_not_found, None)
         else (opt_success, Some (tl equal)))"

section \<open>build\_full\_device\_path()\<close>

text \<open>
  \<open>have_result\<close> says that \<open>result\<close> is not NULL. The result is the return code and the
  string left in the buffer, when the buffer was written.
\<close>

definition build_full_device_path :: "bool \<Rightarrow> nat \<Rightarrow> string option \<Rightarrow> int \<times> string option" where
  "build_full_device_path have_result sz input =
     (if \<not> have_result then (- EINVAL, None)
      else if sz = 0 then (- EINVAL, None)
      else case input of
        None \<Rightarrow> (- EINVAL, None)
      | Some inp \<Rightarrow>
          let dir = ''/dev/'';
              (buf, n) = (if take (length dir) inp = dir then snprintf sz inp
                          else snprintf sz (dir @ inp))
          in if n \<le> 0 \<or> n \<ge> int sz then (- ENAMETOOLONG, Some buf) else (0, Some buf))"

section \<open>Properties of the number parser\<close>

lemma digit_not_space: "is_digit c \<Longrightarrow> \<not> is_space c"
  by (auto simp: is_digit_def is_space_def byte_def)

lemma sign_chars [simp]:
  "\<not> is_space CHR ''-''" "\<not> is_space CHR ''+''" "\<not> is_digit CHR ''-''" "\<not> is_digit CHR ''+''"
  by (simp_all add: is_digit_def is_space_def byte_def)

lemma dec_val_snoc: "dec_val (ds @ [c]) = 10 * dec_val ds + int (digit_val c)"
  by (simp add: dec_val_def)

lemma dec_val_Nil [simp]: "dec_val [] = 0"
  by (simp add: dec_val_def)

lemma dec_val_nonneg [simp]: "0 \<le> dec_val ds"
  by (induction ds rule: rev_induct) (simp_all add: dec_val_snoc)

lemma dropWhile_all_append: "list_all p xs \<Longrightarrow> dropWhile p (xs @ ys) = dropWhile p ys"
  by (induction xs) auto

lemma takeWhile_all: "list_all p xs \<Longrightarrow> takeWhile p xs = xs"
  by (induction xs) auto

lemma dropWhile_all: "list_all p xs \<Longrightarrow> dropWhile p xs = []"
  by (induction xs) auto

lemma dropWhile_Nil_takeWhile: "dropWhile p xs = [] \<Longrightarrow> takeWhile p xs = xs \<and> list_all p xs"
  by (induction xs) (auto split: if_splits)

text \<open>
  The strings the parser is meant to accept and their values: white space, at most one sign, and
  at least one decimal digit up to the end of the string.
\<close>

inductive decimal_syntax :: "string \<Rightarrow> int \<Rightarrow> bool" where
  plain: "list_all is_space ws \<Longrightarrow> list_all is_digit ds \<Longrightarrow> ds \<noteq> [] \<Longrightarrow>
    decimal_syntax (ws @ ds) (dec_val ds)"
| plus: "list_all is_space ws \<Longrightarrow> list_all is_digit ds \<Longrightarrow> ds \<noteq> [] \<Longrightarrow>
    decimal_syntax (ws @ CHR ''+'' # ds) (dec_val ds)"
| minus: "list_all is_space ws \<Longrightarrow> list_all is_digit ds \<Longrightarrow> ds \<noteq> [] \<Longrightarrow>
    decimal_syntax (ws @ CHR ''-'' # ds) (- dec_val ds)"

definition fits_long :: "int \<Rightarrow> bool" where
  "fits_long v \<longleftrightarrow> LONG_MIN \<le> v \<and> v \<le> LONG_MAX"

lemma dropWhile_space_digits:
  assumes "list_all is_space ws" "list_all is_digit ds"
  shows "dropWhile is_space (ws @ ds) = ds"
  using assms by (cases ds) (auto simp: dropWhile_all_append dropWhile_all dest: digit_not_space)

lemma split_sign_digits:
  assumes "list_all is_digit ds"
  shows "split_sign ds = (1, ds)"
proof (cases ds)
  case (Cons d t)
  with assms have "d \<noteq> CHR ''-''" "d \<noteq> CHR ''+''"
    using sign_chars by auto
  with Cons show ?thesis by simp
qed simp

text \<open>What is left to parse decides everything: the sign and digits after the white space.\<close>

lemma get_long_after_sign:
  assumes "split_sign (dropWhile is_space s) = (sg, u)" and "s \<noteq> []"
  shows "cwdaemon_get_long (Some s) =
    (if u \<noteq> [] \<and> list_all is_digit u \<and> fits_long (sg * dec_val u) then Some (sg * dec_val u) else None)"
proof (cases "dropWhile is_digit u = []")
  case True
  then have u: "takeWhile is_digit u = u" "list_all is_digit u"
    by (blast dest: dropWhile_Nil_takeWhile)+
  show ?thesis
    using assms by (simp add: cwdaemon_get_long_def strtol_def Let_def fits_long_def LONG_MAX_def
        LONG_MIN_def u True del: dropWhile_eq_Nil_conv takeWhile_eq_all_conv)
next
  case False
  then have "\<not> list_all is_digit u"
    using dropWhile_all by blast
  with False assms show ?thesis
    by (auto simp: cwdaemon_get_long_def strtol_def Let_def)
qed

lemma get_long_accepts:
  assumes "decimal_syntax s v"
  shows "cwdaemon_get_long (Some s) = (if fits_long v then Some v else None)"
  using assms
proof cases
  case (plain ws ds)
  then have "split_sign (dropWhile is_space s) = (1, ds)" "s \<noteq> []"
    by (simp_all add: dropWhile_space_digits split_sign_digits)
  from get_long_after_sign [OF this] plain show ?thesis by simp
next
  case (plus ws ds)
  then have "split_sign (dropWhile is_space s) = (1, ds)" "s \<noteq> []"
    by (simp_all add: dropWhile_all_append)
  from get_long_after_sign [OF this] plus show ?thesis by simp
next
  case (minus ws ds)
  then have "split_sign (dropWhile is_space s) = (- 1, ds)" "s \<noteq> []"
    by (simp_all add: dropWhile_all_append)
  from get_long_after_sign [OF this] minus show ?thesis by simp
qed

lemma get_long_only:
  assumes "cwdaemon_get_long (Some s) = Some v"
  shows "decimal_syntax s v"
proof -
  obtain sg u where u: "split_sign (dropWhile is_space s) = (sg, u)" by fastforce
  have "s \<noteq> []" using assms by (auto simp: cwdaemon_get_long_def)
  with get_long_after_sign [OF u] assms have ds: "u \<noteq> []" "list_all is_digit u" "v = sg * dec_val u"
    by (auto split: if_splits)
  define ws where "ws = takeWhile is_space s"
  have ws: "list_all is_space ws" by (auto simp: ws_def list_all_iff dest: set_takeWhileD)
  have s: "s = ws @ dropWhile is_space s" by (simp add: ws_def)
  show ?thesis
  proof (cases "dropWhile is_space s")
    case Nil
    with u ds show ?thesis by simp
  next
    case (Cons c cs)
    with u ds ws s show ?thesis
      using decimal_syntax.plain [of ws "c # cs"] decimal_syntax.plus [of ws cs]
        decimal_syntax.minus [of ws cs]
      by (auto split: if_splits)
  qed
qed

text \<open>The decimal notation of an integer, as \<^verbatim>\<open>printf ("%ld")\<close> writes it.\<close>

fun show_nat :: "nat \<Rightarrow> string" where
  "show_nat n = (if n < 10 then [char_of (48 + n)] else show_nat (n div 10) @ [char_of (48 + n mod 10)])"

declare show_nat.simps [simp del]

definition show_long :: "int \<Rightarrow> string" where
  "show_long v = (if v < 0 then CHR ''-'' # show_nat (nat (- v)) else show_nat (nat v))"

lemma byte_char_of [simp]: "n < 256 \<Longrightarrow> byte (char_of n) = n"
  by (simp add: byte_def)

lemma show_nat_digits: "list_all is_digit (show_nat n) \<and> show_nat n \<noteq> [] \<and> dec_val (show_nat n) = int n"
proof (induction n rule: show_nat.induct)
  case (1 n)
  show ?case
  proof (cases "n < 10")
    case True
    then show ?thesis
      by (subst (1 2 3) show_nat.simps) (simp add: is_digit_def dec_val_def digit_val_def)
  next
    case False
    with "1.IH" show ?thesis
      by (subst (1 2 3) show_nat.simps)
        (simp add: is_digit_def [of "char_of _"] digit_val_def dec_val_snoc zdiv_int zmod_int)
  qed
qed

lemma show_long_syntax: "decimal_syntax (show_long v) v"
  using decimal_syntax.plain [of "[]" "show_nat (nat v)"]
    decimal_syntax.minus [of "[]" "show_nat (nat (- v))"]
  by (auto simp: show_long_def show_nat_digits)

lemma get_long_char:
  "cwdaemon_get_long buf = Some v \<longleftrightarrow> (\<exists>s. buf = Some s \<and> decimal_syntax s v \<and> fits_long v)"
proof (cases buf)
  case None
  then show ?thesis by (simp add: cwdaemon_get_long_def)
next
  case (Some s)
  then show ?thesis
    using get_long_only [of s v] get_long_accepts [of s v] by (auto split: if_splits)
qed




section \<open>Properties of the option parser\<close>

lemma split_at_eq:
  assumes "CHR ''='' \<notin> set k"
  shows "takeWhile (\<lambda>c. c \<noteq> CHR ''='') (k @ CHR ''='' # v) = k"
    and "dropWhile (\<lambda>c. c \<noteq> CHR ''='') (k @ CHR ''='' # v) = CHR ''='' # v"
  using assms by (induction k) auto

lemma split_at_eq_conv:
  "dropWhile (\<lambda>c. c \<noteq> CHR ''='') s = [] \<or>
   (\<exists>k v. s = k @ CHR ''='' # v \<and> CHR ''='' \<notin> set k)"
proof (cases "CHR ''='' \<in> set s")
  case True
  then show ?thesis by (metis split_list_first)
next
  case False
  then show ?thesis by auto
qed

text \<open>
  C39: the option parser succeeds with value \<open>v\<close> exactly on the keyword (in any case), a \<open>=\<close> with
  no white space on either side, and \<open>v\<close>; in particular a proper prefix of the keyword is refused.
\<close>

theorem find_opt_value_iff:
  "find_opt_value input keyword = (opt_success, Some v) \<longleftrightarrow>
     (\<exists>k. input = k @ CHR ''='' # v \<and> k \<noteq> [] \<and> CHR ''='' \<notin> set k \<and> same_nocase k keyword \<and>
       \<not> is_space (last k) \<and> (v = [] \<or> \<not> is_space (hd v)))"
  (is "_ \<longleftrightarrow> ?R")
proof
  assume suc: "find_opt_value input keyword = (opt_success, Some v)"
  then have "dropWhile (\<lambda>c. c \<noteq> CHR ''='') input \<noteq> []"
    by (cases "dropWhile (\<lambda>c. c \<noteq> CHR ''='') input = []")
      (simp_all add: find_opt_value_def del: dropWhile_eq_Nil_conv)
  with split_at_eq_conv obtain k u where "input = k @ CHR ''='' # u" "CHR ''='' \<notin> set k" by blast
  with suc show ?R
    by (auto simp: find_opt_value_def split_at_eq Let_def split: if_splits)
next
  assume ?R
  then obtain k where k: "input = k @ CHR ''='' # v" "CHR ''='' \<notin> set k" "k \<noteq> []"
    "same_nocase k keyword" "\<not> is_space (last k)" "v = [] \<or> \<not> is_space (hd v)" by blast
  moreover from k(4) have "length k = length keyword"
    unfolding same_nocase_def by (rule map_eq_imp_length_eq)
  ultimately show "find_opt_value input keyword = (opt_success, Some v)"
    by (simp add: find_opt_value_def split_at_eq)
qed

theorem find_opt_value_iff_witness:
  "find_opt_value ''KEY=dtr'' ''key'' = (opt_success, Some ''dtr'')"
proof -
  have "same_nocase ''KEY'' ''key'' \<and> \<not> is_space (last ''KEY'') \<and> \<not> is_space (hd ''dtr'')"
    by code_simp
  then show ?thesis
    by (subst find_opt_value_iff, intro exI [of _ "''KEY''"]) simp
qed

section \<open>Properties of device paths\<close>

text \<open>The path a device name stands for.\<close>

definition dev_path :: "string \<Rightarrow> string" where
  "dev_path inp = (if take 5 inp = ''/dev/'' then inp else ''/dev/'' @ inp)"

lemma dev_path_prefix: "take 5 (dev_path inp) = ''/dev/''"
  by (simp add: dev_path_def)

lemma dev_path_idem [simp]: "dev_path (dev_path inp) = dev_path inp"
  using dev_path_prefix [of inp] by (simp add: dev_path_def [of "dev_path inp"])

lemma dev_path_nonempty: "5 \<le> length (dev_path inp)"
  using dev_path_prefix [of inp] by (cases "5 \<le> length (dev_path inp)") (auto dest: arg_cong [of _ _ length])

text \<open>
  C40: when there is a buffer and an input, the path built is the input itself below \<open>/dev/\<close> or the
  input with \<open>/dev/\<close> in front of it; it is refused, never silently cut, when it does not fit in the
  buffer with its NUL.
\<close>

theorem build_full_device_path_spec:
  assumes "0 < sz"
  shows "build_full_device_path True sz (Some inp) =
    (if length (dev_path inp) < sz \<and> int (length (dev_path inp)) \<le> INT_MAX
     then (0, Some (dev_path inp)) else (- ENAMETOOLONG, Some (take (sz - 1) (dev_path inp))))"
proof -
  have "0 < length (dev_path inp)" using dev_path_nonempty [of inp] by linarith
  moreover have "build_full_device_path True sz (Some inp) =
    (let (buf, n) = snprintf sz (dev_path inp)
     in if n \<le> 0 \<or> n \<ge> int sz then (- ENAMETOOLONG, Some buf) else (0, Some buf))"
    using assms by (simp add: build_full_device_path_def dev_path_def Let_def numeral_eq_Suc)
  ultimately show ?thesis
    using assms by (auto simp: snprintf_def)
qed

theorem build_full_device_path_spec_witness:
  "build_full_device_path True 11 (Some ''ttyS0'') = (0, Some ''/dev/ttyS0'')"
  by (subst build_full_device_path_spec) (simp_all add: dev_path_def INT_MAX_def)

end
