(* ===== verification/Daemon.thy ===== *)
theory Daemon
  imports Utils
begin

text \<open>
  The data of the daemon: constants and types of \<^verbatim>\<open>src/src/cwdaemon.h\<close> and \<^verbatim>\<open>src/src/ttys.h\<close>,
  the file-scope variables of \<^verbatim>\<open>src/src/cwdaemon.c\<close> as one record, and the boundary to the code
  that is not part of the program (libcw and the operating system).

  Every call across that boundary is appended to the \<open>trace\<close> of the state, in program order, with
  its arguments. What a call answers is not modelled: the record \<open>env\<close> holds arbitrary functions
  that give the answer from the whole history of calls, the present one last. So the same call may
  answer differently each time, and nothing is assumed of libcw or of the kernel unless a theorem
  says so. Writing of log messages is modelled in the theory \<open>Log\<close> only.
\<close>

unbundle bit_operations_syntax

section \<open>Constants\<close>

definition ASCII_ESC :: char where "ASCII_ESC = CHR 0x1B"
definition CWDAEMON_REQUEST_SIZE_MAX :: nat where "CWDAEMON_REQUEST_SIZE_MAX = 256"
definition CWDAEMON_REPLY_SIZE_MAX :: nat where
  "CWDAEMON_REPLY_SIZE_MAX = CWDAEMON_REQUEST_SIZE_MAX + 1"
definition CWDAEMON_REQUEST_QUEUE_SIZE_MAX :: nat where "CWDAEMON_REQUEST_QUEUE_SIZE_MAX = 4000"

definition CWDAEMON_MORSE_SPEED_DEFAULT :: int where "CWDAEMON_MORSE_SPEED_DEFAULT = 24"
definition CWDAEMON_MORSE_TONE_DEFAULT :: int where "CWDAEMON_MORSE_TONE_DEFAULT = 800"
definition CWDAEMON_MORSE_VOLUME_DEFAULT :: int where "CWDAEMON_MORSE_VOLUME_DEFAULT = 70"
definition CWDAEMON_MORSE_WEIGHTING_DEFAULT :: int where "CWDAEMON_MORSE_WEIGHTING_DEFAULT = 0"
definition CWDAEMON_MORSE_WEIGHTING_MIN :: int where "CWDAEMON_MORSE_WEIGHTING_MIN = - 50"
definition CWDAEMON_MORSE_WEIGHTING_MAX :: int where "CWDAEMON_MORSE_WEIGHTING_MAX = 50"
definition CWDAEMON_NETWORK_PORT_MIN :: int where "CWDAEMON_NETWORK_PORT_MIN = 1024"
definition CWDAEMON_NETWORK_PORT_MAX :: int where "CWDAEMON_NETWORK_PORT_MAX = 65535"
definition CWDAEMON_NETWORK_PORT_DEFAULT :: "16 word" where "CWDAEMON_NETWORK_PORT_DEFAULT = 6789"
definition CWDAEMON_PTT_DELAY_DEFAULT :: "32 word" where "CWDAEMON_PTT_DELAY_DEFAULT = 0"
definition CWDAEMON_PTT_DELAY_MIN :: int where "CWDAEMON_PTT_DELAY_MIN = 0"
definition CWDAEMON_PTT_DELAY_MAX :: int where "CWDAEMON_PTT_DELAY_MAX = 50"
definition CWDAEMON_TUNE_SECONDS_MAX :: int where "CWDAEMON_TUNE_SECONDS_MAX = 10"
definition CWDAEMON_MICROSECS_PER_SEC :: int where "CWDAEMON_MICROSECS_PER_SEC = 1000000"
definition tq_low_watermark :: int where "tq_low_watermark = 1"

definition PTT_ACTIVE_AUTO :: "8 word" where "PTT_ACTIVE_AUTO = 0x01"
definition PTT_ACTIVE_MANUAL :: "8 word" where "PTT_ACTIVE_MANUAL = 0x02"
definition PTT_ACTIVE_ECHO :: "8 word" where "PTT_ACTIVE_ECHO = 0x04"

definition ON :: int where "ON = 1"
definition OFF :: int where "OFF = 0"
definition MICROPHONE :: int where "MICROPHONE = 0"
definition SOUNDCARD :: int where "SOUNDCARD = 1"

text \<open>Values of \<^verbatim>\<open><syslog.h>\<close>, \<^verbatim>\<open><errno.h>\<close> and \<^verbatim>\<open><sys/ioctl.h>\<close>, and \<open>EXIT_*\<close>.\<close>

definition LOG_CRIT :: int where "LOG_CRIT = 2"
definition LOG_ERR :: int where "LOG_ERR = 3"
definition LOG_WARNING :: int where "LOG_WARNING = 4"
definition LOG_NOTICE :: int where "LOG_NOTICE = 5"
definition LOG_INFO :: int where "LOG_INFO = 6"
definition LOG_DEBUG :: int where "LOG_DEBUG = 7"
definition EINTR :: int where "EINTR = 4"
definition EAGAIN :: int where "EAGAIN = 11"
definition EWOULDBLOCK :: int where "EWOULDBLOCK = 11"
definition TIOCM_DTR :: "32 word" where "TIOCM_DTR = 2"
definition TIOCM_RTS :: "32 word" where "TIOCM_RTS = 4"
definition EXIT_SUCCESS :: int where "EXIT_SUCCESS = 0"
definition EXIT_FAILURE :: int where "EXIT_FAILURE = 1"

section \<open>The boundary: calls of libcw and of the operating system\<close>

text \<open>The sound systems of libcw's enumeration that the program names.\<close>

datatype audio = CW_AUDIO_NULL | CW_AUDIO_CONSOLE | CW_AUDIO_OSS | CW_AUDIO_ALSA | CW_AUDIO_PA
  | CW_AUDIO_SOUNDCARD

text \<open>The levels of libcw's debug object.\<close>

datatype cw_level = CW_DEBUG_NONE | CW_DEBUG_ERROR | CW_DEBUG_WARNING | CW_DEBUG_INFO | CW_DEBUG_DEBUG

text \<open>The three cwdevice objects; a pointer to one of them is its name.\<close>

datatype devid = Dev_Null | Dev_Ttys | Dev_Lp

type_synonym sockaddr = "32 word \<times> 16 word"

datatype open_flag = O_RDWR | O_NOCTTY | O_NONBLOCK

datatype ioctl_req = TIOCMGET | TIOCMBIS "32 word" | TIOCMBIC "32 word"
  | PPGETMODE | PPSETMODE | PPEXCL | PPCLAIM | PPRELEASE
  | PPFCONTROL "8 word" "8 word" | PPWDATA "8 word" | PPRSTATUS
  | PPIGCTRL | PPISCTRL "8 word" | PPISDATA "8 word" | PPISSTATUS

text \<open>Where messages are written: a standard stream, or the file behind a \<^verbatim>\<open>FILE\<close> pointer.\<close>

datatype stream = Stdout | Stderr | Disc_File int

text \<open>The functions that the program passes to \<^verbatim>\<open>atexit()\<close>.\<close>

datatype handler = Cwdevices_Free | Cwdevice_Free | Debug_Close | Close_Socket_Wrapper | Close_Libcw_Output

datatype call =
    Cw_generator_new audio | Cw_generator_start | Cw_generator_stop | Cw_generator_delete
  | Cw_register_tone_queue_low_callback int | Cw_register_keying_callback "devid option"
  | Cw_set_frequency int | Cw_set_send_speed int | Cw_set_volume int | Cw_set_gap int
  | Cw_set_weighting int | Cw_get_gap | Cw_get_tone_queue_length
  | Cw_flush_tone_queue | Cw_wait_for_tone_queue | Cw_queue_tone int int | Cw_send_character char
  | Open string "open_flag list" | Close int | Fstat int | Ioctl int ioctl_req | Geteuid
  | Nanosleep int int | Sleep int
  | Strdup string | Socket | Bind int sockaddr nat | Fcntl_GETFL int | Fcntl_SETFL int "32 word"
  | Getpid | Setpriority int int | Cw_debug_set_flags "32 word" | Cw_debug_level cw_level
  | Recvfrom int nat | Sendto int string sockaddr nat | Select int int
  | Atexit handler | Fork | Openlog string | Setsid | Chdir string | Umask int | Dup2 int int | Signal_Sigint
  | Syslog int string | Fprintf stream string | Fflush stream | Fopen string string | Fclose int | Cw_version

text \<open>How the parallel port driver was compiled: for Linux, for FreeBSD, or not at all.\<close>

datatype lp_build = Linux_ppdev | BSD_ppi | No_parport

datatype platform = Linux | FreeBSD | OpenBSD | Other_platform

text \<open>
  The environment: returned values, \<open>errno\<close>, and the values written through pointers
  (an integer, bytes, a peer address with its length, a time), each given by the history of calls;
  the messages of \<^verbatim>\<open>strerror()\<close>; then libcw's limits and the build configuration.
\<close>

record env =
  ret_of :: "call list \<Rightarrow> int"
  errno_of :: "call list \<Rightarrow> int"
  out_int :: "call list \<Rightarrow> int"
  out_bytes :: "call list \<Rightarrow> char list"
  out_addr :: "call list \<Rightarrow> sockaddr \<times> nat"
  out_time :: "call list \<Rightarrow> int \<times> int"
  strerror :: "int \<Rightarrow> string"
  CW_FAILURE :: int
  CW_SUCCESS :: int
  CW_SPEED_MIN :: int
  CW_SPEED_MAX :: int
  CW_FREQUENCY_MIN :: int
  CW_FREQUENCY_MAX :: int
  CW_VOLUME_MIN :: int
  CW_VOLUME_MAX :: int
  lp_build :: lp_build
  platform :: platform

section \<open>State\<close>

text \<open>
  A cwdevice: descriptor, name, and the tty options (pins for keying and PTT, 0 for none). Its
  method pointers never change after start-up and are the functions of the theory \<open>Cwdevice\<close>.
\<close>

record cwdevice =
  dev_fd :: int
  dev_desc :: "string option"
  opt_key :: "32 word"
  opt_ptt :: "32 word"

text \<open>
  The file-scope variables. \<open>reply_buffer\<close> and \<open>request_queue\<close> are C strings in arrays of
  \<open>CWDAEMON_REPLY_SIZE_MAX + 1\<close> and \<open>CWDAEMON_REQUEST_QUEUE_SIZE_MAX\<close> bytes; the model holds the
  string, and the operations that write them compare with the size of the array.
\<close>

record daemon =
  default_morse_speed :: int
  default_morse_tone :: int
  default_morse_volume :: int
  g_default_ptt_delay_ms :: "32 word"
  default_audio_system :: audio
  default_weighting :: int
  default_log_threshold :: int
  current_morse_speed :: int
  current_morse_tone :: int
  current_morse_volume :: int
  g_current_ptt_delay_ms :: "32 word"
  current_audio_system :: audio
  current_weighting :: int
  current_log_threshold :: int
  has_audio_output :: bool
  reply_buffer :: string
  socket_descriptor :: int
  network_port :: "16 word"
  request_addr :: sockaddr
  request_addrlen :: nat
  reply_addr :: sockaddr
  reply_addrlen :: nat
  wordmode :: int
  g_forking :: bool
  process_priority :: int
  async_abort :: int
  inactivity_seconds :: int
  g_libcw_debug_flags :: "32 word"
  cwdaemon_debug_f :: "stream option"
  cwdaemon_debug_f_path :: "string option"
  request_queue :: string
  ptt_flag :: "8 word"
  devs :: "devid \<Rightarrow> cwdevice"
  global_cwdevice :: "devid option"
  trace :: "call list"

text \<open>Values of the variables when the process starts.\<close>

definition zero_device :: cwdevice where
  "zero_device = \<lparr>dev_fd = 0, dev_desc = None, opt_key = 0, opt_ptt = 0\<rparr>"

definition daemon_init :: daemon where
  "daemon_init = \<lparr>
    default_morse_speed = CWDAEMON_MORSE_SPEED_DEFAULT,
    default_morse_tone = CWDAEMON_MORSE_TONE_DEFAULT,
    default_morse_volume = CWDAEMON_MORSE_VOLUME_DEFAULT,
    g_default_ptt_delay_ms = CWDAEMON_PTT_DELAY_DEFAULT,
    default_audio_system = CW_AUDIO_CONSOLE,
    default_weighting = CWDAEMON_MORSE_WEIGHTING_DEFAULT,
    default_log_threshold = LOG_WARNING,
    current_morse_speed = CWDAEMON_MORSE_SPEED_DEFAULT,
    current_morse_tone = CWDAEMON_MORSE_TONE_DEFAULT,
    current_morse_volume = CWDAEMON_MORSE_VOLUME_DEFAULT,
    g_current_ptt_delay_ms = CWDAEMON_PTT_DELAY_DEFAULT,
    current_audio_system = CW_AUDIO_CONSOLE,
    current_weighting = CWDAEMON_MORSE_WEIGHTING_DEFAULT,
    current_log_threshold = LOG_WARNING,
    has_audio_output = False,
    reply_buffer = '''',
    socket_descriptor = - 1,
    network_port = CWDAEMON_NETWORK_PORT_DEFAULT,
    request_addr = (0, 0), request_addrlen = 0, reply_addr = (0, 0), reply_addrlen = 0,
    wordmode = 0,
    g_forking = True,
    process_priority = 0,
    async_abort = 0,
    inactivity_seconds = 9999,
    g_libcw_debug_flags = 0,
    cwdaemon_debug_f = None,
    cwdaemon_debug_f_path = None,
    request_queue = '''',
    ptt_flag = 0,
    devs = (\<lambda>_. zero_device),
    global_cwdevice = None,
    trace = []\<rparr>"

type_synonym 'a act = "(daemon, 'a) prog"

section \<open>Crossing the boundary\<close>

text \<open>\<open>ask\<close> makes a call and yields its result; \<open>emit\<close> makes a call whose result is not used.\<close>

definition ask :: "env \<Rightarrow> call \<Rightarrow> int act" where
  "ask w c s = (let t = trace s @ [c] in Run (ret_of w t) (s\<lparr>trace := t\<rparr>))"

definition emit :: "call \<Rightarrow> unit act" where
  "emit c = upd (\<lambda>s. s\<lparr>trace := trace s @ [c]\<rparr>)"

declare ask_def [prog_simps] emit_def [prog_simps]

text \<open>The current device; using it while it is NULL is undefined.\<close>

definition with_device :: "(devid \<Rightarrow> 'a act) \<Rightarrow> 'a act" where
  "with_device f = look (\<lambda>s. case global_cwdevice s of None \<Rightarrow> halt Undefined | Some d \<Rightarrow> f d)"

text \<open>
  \<open>strdup\<close>, whose failure the environment decides; and assignment to a device structure.
\<close>

definition strdup :: "env \<Rightarrow> string \<Rightarrow> string option act" where
  "strdup w str = bnd (ask w (Strdup str)) (\<lambda>r. ret (if r = 0 then None else Some str))"

definition set_dev :: "devid \<Rightarrow> (cwdevice \<Rightarrow> cwdevice) \<Rightarrow> unit act" where
  "set_dev d f = upd (\<lambda>s. s\<lparr>devs := (devs s)(d := f (devs s d))\<rparr>)"

declare set_dev_def [prog_simps] strdup_def [prog_simps]

section \<open>Operations that only talk to the outside\<close>

text \<open>The frame "extends the history and changes no variable".\<close>

definition extends :: "daemon \<Rightarrow> daemon \<Rightarrow> bool" where
  "extends s t \<longleftrightarrow> (\<exists>u. t = s\<lparr>trace := trace s @ u\<rparr>)"

abbreviation io_only :: "'a act \<Rightarrow> bool" where
  "io_only \<equiv> within extends"

lemma extends_refl [simp]: "extends s s"
  unfolding extends_def by (rule exI [of _ "[]"]) simp

lemma extends_call [simp]: "extends s (s\<lparr>trace := trace s @ u\<rparr>)"
  unfolding extends_def by blast

lemma extends_trans: "extends s t \<Longrightarrow> extends t r \<Longrightarrow> extends s r"
  unfolding extends_def by (auto simp: append_assoc)

interpretation ext: frame extends
  by unfold_locales (auto intro: extends_trans)

lemma io_only_ask [frame_rules]: "io_only (ask w c)"
  by (rule withinI) (simp add: ask_def Let_def)

lemma io_only_emit [frame_rules]: "io_only (emit c)"
  by (rule withinI) (simp add: emit_def upd_def)

text \<open>The frame "changes besides the history at most the devices", never making the current one NULL.\<close>

definition dev_frame :: "daemon \<Rightarrow> daemon \<Rightarrow> bool" where
  "dev_frame s t \<longleftrightarrow> (\<exists>u dv g. t = s\<lparr>trace := trace s @ u, devs := dv, global_cwdevice := g\<rparr> \<and>
     (global_cwdevice s \<noteq> None \<longrightarrow> g \<noteq> None))"

abbreviation dev_only :: "'a act \<Rightarrow> bool" where
  "dev_only \<equiv> within dev_frame"

lemma extends_dev_frame: "extends s t \<Longrightarrow> dev_frame s t"
proof -
  assume "extends s t"
  then obtain u where "t = s\<lparr>trace := trace s @ u\<rparr>" unfolding extends_def ..
  then have "t = s\<lparr>trace := trace s @ u, devs := devs s, global_cwdevice := global_cwdevice s\<rparr>" by simp
  then show "dev_frame s t" unfolding dev_frame_def by blast
qed

interpretation dvf: frame dev_frame
proof
  show "dev_frame s s" for s by (rule extends_dev_frame) simp
next
  fix s t r assume "dev_frame s t" "dev_frame t r"
  then obtain u v dv g where
    "r = s\<lparr>trace := trace s @ u @ v, devs := dv, global_cwdevice := g\<rparr>"
    "global_cwdevice s \<noteq> None \<longrightarrow> g \<noteq> None"
    unfolding dev_frame_def by fastforce
  then show "dev_frame s r" unfolding dev_frame_def by blast
qed

lemma dev_only_io: "io_only m \<Longrightarrow> dev_only m"
  by (erule within_mono) (rule extends_dev_frame)

lemma dev_frame_devs: "dev_frame s (s\<lparr>devs := dv\<rparr>)"
proof -
  have "s\<lparr>devs := dv\<rparr> = s\<lparr>trace := trace s @ [], devs := dv, global_cwdevice := global_cwdevice s\<rparr>" by simp
  then show ?thesis unfolding dev_frame_def by blast
qed

lemma dev_frame_global: "dev_frame s (s\<lparr>global_cwdevice := Some d\<rparr>)"
proof -
  have "s\<lparr>global_cwdevice := Some d\<rparr> = s\<lparr>trace := trace s @ [], devs := devs s, global_cwdevice := Some d\<rparr>" by simp
  then show ?thesis unfolding dev_frame_def by blast
qed

lemma dev_only_set_dev [frame_rules]: "dev_only (set_dev d f)"
  by (rule withinI) (simp add: set_dev_def upd_def dev_frame_devs)

lemma dev_only_set_global [frame_rules]: "dev_only (upd (\<lambda>s. s\<lparr>global_cwdevice := Some d\<rparr>))"
  by (rule withinI) (simp add: upd_def dev_frame_global)

section \<open>What libcw documents\<close>

text \<open>
  \<open>gap_of\<close> is the extra gap that the history leaves in the generator: the argument of the last
  \<^verbatim>\<open>cw_set_gap()\<close>, unknown before one is made for the current generator. \<open>gap_law\<close>: libcw's
  \<^verbatim>\<open>cw_get_gap()\<close> returns it.
\<close>

definition gap_step :: "int option \<Rightarrow> call \<Rightarrow> int option" where
  "gap_step g c = (case c of Cw_set_gap n \<Rightarrow> Some n | Cw_generator_new a \<Rightarrow> None
     | Cw_generator_delete \<Rightarrow> None | _ \<Rightarrow> g)"

definition gap_of :: "call list \<Rightarrow> int option" where
  "gap_of tr = foldl gap_step None tr"

definition gap_law :: "env \<Rightarrow> bool" where
  "gap_law w \<longleftrightarrow> (\<forall>tr n. gap_of tr = Some n \<longrightarrow> ret_of w (tr @ [Cw_get_gap]) = n)"

lemma gap_of_snoc: "gap_of (tr @ [c]) = gap_step (gap_of tr) c"
  by (simp add: gap_of_def)

text \<open>The limits of libcw as the program needs them.\<close>

definition libcw_limits :: "env \<Rightarrow> bool" where
  "libcw_limits w \<longleftrightarrow> 0 < CW_SPEED_MIN w \<and> CW_SPEED_MIN w \<le> CW_SPEED_MAX w \<and> CW_SPEED_MAX w \<le> 1000 \<and>
     CW_FREQUENCY_MIN w = 0 \<and> CW_FREQUENCY_MIN w \<le> CW_FREQUENCY_MAX w \<and> CW_FREQUENCY_MAX w \<le> 100000 \<and>
     0 \<le> CW_VOLUME_MIN w \<and> CW_VOLUME_MIN w \<le> CW_VOLUME_MAX w \<and> CW_VOLUME_MAX w \<le> 100 \<and> CW_FAILURE w \<noteq> CW_SUCCESS w"

section \<open>An environment for examples\<close>

text \<open>
  Every call succeeds, \<open>open\<close> yields descriptor 3, the tone queue is empty, and each datagram that
  arrives is \<open>msg\<close>, from port 5000 of host 1. The limits are those of libcw 8.
\<close>

definition answer :: "char list \<Rightarrow> call list \<Rightarrow> int" where
  "answer msg tr = (case last tr of
     Cw_generator_new _ \<Rightarrow> 1 | Cw_generator_start \<Rightarrow> 1 | Strdup _ \<Rightarrow> 1 | Open _ _ \<Rightarrow> 3
   | Recvfrom _ _ \<Rightarrow> int (length msg)
   | Cw_get_gap \<Rightarrow> (case gap_of (butlast tr) of None \<Rightarrow> 0 | Some n \<Rightarrow> n)
   | _ \<Rightarrow> 0)"

definition example_env :: "char list \<Rightarrow> env" where
  "example_env msg = \<lparr>ret_of = answer msg, errno_of = (\<lambda>_. 0), out_int = (\<lambda>_. 8192),
     out_bytes = (\<lambda>_. msg), out_addr = (\<lambda>_. ((1, 5000), 16)), out_time = (\<lambda>_. (0, 0)), strerror = (\<lambda>_. ''error''),
     CW_FAILURE = 0, CW_SUCCESS = 1,
     CW_SPEED_MIN = 4, CW_SPEED_MAX = 60, CW_FREQUENCY_MIN = 0, CW_FREQUENCY_MAX = 4000,
     CW_VOLUME_MIN = 0, CW_VOLUME_MAX = 100, lp_build = Linux_ppdev, platform = Linux\<rparr>"

lemma example_env_sel:
  "ret_of (example_env msg) = answer msg" "errno_of (example_env msg) tr = 0" "out_bytes (example_env msg) tr = msg"
  "CW_FAILURE (example_env msg) = 0" "CW_SUCCESS (example_env msg) = 1" "CW_FREQUENCY_MIN (example_env msg) = 0"
  "lp_build (example_env msg) = Linux_ppdev" "platform (example_env msg) = Linux"
  by (simp_all add: example_env_def)

lemma example_gap_law: "gap_law (example_env msg)"
  by (simp add: gap_law_def example_env_def answer_def)

lemma example_limits: "libcw_limits (example_env msg)"
  by (simp add: libcw_limits_def example_env_def)

section \<open>Lemmas\<close>

text \<open>An invariant that does not read the trace survives every call across the boundary.\<close>

definition trace_free :: "(daemon \<Rightarrow> bool) \<Rightarrow> bool" where
  "trace_free I \<longleftrightarrow> (\<forall>s t. I (s\<lparr>trace := t\<rparr>) = I s)"

lemma keeps_ask [keeps_rules]: "trace_free I \<Longrightarrow> keeps I (ask w c)"
  by (rule keepsI) (simp add: ask_def Let_def trace_free_def)

lemma keeps_emit [keeps_rules]: "trace_free I \<Longrightarrow> keeps I (emit c)"
  unfolding emit_def by (rule keeps_upd) (simp add: trace_free_def)

lemma keeps_io_only: "trace_free I \<Longrightarrow> io_only m \<Longrightarrow> keeps I m"
  by (erule keeps_within) (auto simp: trace_free_def extends_def)

lemma keeps_with_device [keeps_rules]:
  "(\<And>s. I s \<Longrightarrow> global_cwdevice s \<noteq> None) \<Longrightarrow> (\<And>d. keeps I (f d)) \<Longrightarrow> keeps I (with_device f)"
  unfolding with_device_def by (rule keeps_look) (fastforce split: option.splits)

lemma completes_ask: "trace_free I \<Longrightarrow> completes I (ask w c)"
  by (rule completesI) (simp add: ask_def Let_def trace_free_def)

lemma completes_emit: "trace_free I \<Longrightarrow> completes I (emit c)"
  unfolding emit_def by (rule completes_upd) (simp add: trace_free_def)

lemma completes_device:
  "(\<And>s. I s \<Longrightarrow> global_cwdevice s \<noteq> None) \<Longrightarrow> (\<And>d. completes I (f d)) \<Longrightarrow> completes I (with_device f)"
  unfolding with_device_def by (rule completes_look) (fastforce split: option.splits)

text \<open>The three flags are the bits 0, 1 and 2 of the flag word.\<close>

lemma ptt_flag_bits:
  "f AND PTT_ACTIVE_AUTO \<noteq> 0 \<longleftrightarrow> bit f 0"
  "f AND PTT_ACTIVE_MANUAL \<noteq> 0 \<longleftrightarrow> bit f 1"
  "f AND PTT_ACTIVE_ECHO \<noteq> 0 \<longleftrightarrow> bit f 2"
  for f :: "8 word"
proof -
  have "f AND 2 ^ n \<noteq> 0 \<longleftrightarrow> bit f n" if "n < 8" for n
    using that by (auto simp: and_exp_eq_0_iff_not_bit)
  from this [of 0] this [of 1] this [of 2] show
    "f AND PTT_ACTIVE_AUTO \<noteq> 0 \<longleftrightarrow> bit f 0"
    "f AND PTT_ACTIVE_MANUAL \<noteq> 0 \<longleftrightarrow> bit f 1"
    "f AND PTT_ACTIVE_ECHO \<noteq> 0 \<longleftrightarrow> bit f 2"
    by (simp_all add: PTT_ACTIVE_AUTO_def PTT_ACTIVE_MANUAL_def PTT_ACTIVE_ECHO_def)
qed

lemma ptt_flag_bit_upd:
  "bit (f OR PTT_ACTIVE_AUTO) n \<longleftrightarrow> bit f n \<or> n = 0"
  "bit (f OR PTT_ACTIVE_MANUAL) n \<longleftrightarrow> bit f n \<or> n = 1"
  "bit (f OR PTT_ACTIVE_ECHO) n \<longleftrightarrow> bit f n \<or> n = 2"
  "bit (f AND NOT PTT_ACTIVE_MANUAL) n \<longleftrightarrow> bit f n \<and> n \<noteq> 1"
  "bit (f AND NOT PTT_ACTIVE_ECHO) n \<longleftrightarrow> bit f n \<and> n \<noteq> 2"
  for f :: "8 word"
proof -
  have b: "bit PTT_ACTIVE_AUTO n \<longleftrightarrow> n = 0" "bit PTT_ACTIVE_MANUAL n \<longleftrightarrow> n = 1"
    "bit PTT_ACTIVE_ECHO n \<longleftrightarrow> n = 2" for n
    using bit_exp_iff [where 'a="8 word", of 0 n] bit_exp_iff [where 'a="8 word", of 1 n]
      bit_exp_iff [where 'a="8 word", of 2 n]
    by (auto simp: PTT_ACTIVE_AUTO_def PTT_ACTIVE_MANUAL_def PTT_ACTIVE_ECHO_def)
  show
    "bit (f OR PTT_ACTIVE_AUTO) n \<longleftrightarrow> bit f n \<or> n = 0"
    "bit (f OR PTT_ACTIVE_MANUAL) n \<longleftrightarrow> bit f n \<or> n = 1"
    "bit (f OR PTT_ACTIVE_ECHO) n \<longleftrightarrow> bit f n \<or> n = 2"
    "bit (f AND NOT PTT_ACTIVE_MANUAL) n \<longleftrightarrow> bit f n \<and> n \<noteq> 1"
    "bit (f AND NOT PTT_ACTIVE_ECHO) n \<longleftrightarrow> bit f n \<and> n \<noteq> 2"
    by (auto simp: bit_or_iff bit_and_iff bit_not_iff b dest: bit_imp_le_length)
qed

text \<open>Only the three flags are ever set.\<close>

definition ptt_flags_only :: "8 word \<Rightarrow> bool" where
  "ptt_flags_only f \<longleftrightarrow> (\<forall>n. bit f n \<longrightarrow> n < 3)"

lemma ptt_flags_only_upd [simp]:
  "ptt_flags_only 0"
  "ptt_flags_only f \<Longrightarrow> ptt_flags_only (f OR PTT_ACTIVE_AUTO)"
  "ptt_flags_only f \<Longrightarrow> ptt_flags_only (f OR PTT_ACTIVE_MANUAL)"
  "ptt_flags_only f \<Longrightarrow> ptt_flags_only (f OR PTT_ACTIVE_ECHO)"
  "ptt_flags_only f \<Longrightarrow> ptt_flags_only (f AND NOT PTT_ACTIVE_MANUAL)"
  "ptt_flags_only f \<Longrightarrow> ptt_flags_only (f AND NOT PTT_ACTIVE_ECHO)"
  by (auto simp: ptt_flags_only_def ptt_flag_bit_upd)

lemma ptt_flag_bits_eqI: "(\<And>n. bit f n \<longleftrightarrow> bit g n) \<Longrightarrow> f = g" for f g :: "8 word"
  by (rule bit_eqI) simp

lemma ptt_flag_eq_auto:
  "ptt_flags_only f \<Longrightarrow> f = PTT_ACTIVE_AUTO \<longleftrightarrow> bit f 0 \<and> \<not> bit f 1 \<and> \<not> bit f 2"
proof -
  assume f: "ptt_flags_only f"
  have a: "bit PTT_ACTIVE_AUTO n \<longleftrightarrow> n = 0" for n
    using ptt_flag_bit_upd(1) [of 0 n] by simp
  have "bit f 0 \<Longrightarrow> \<not> bit f 1 \<Longrightarrow> \<not> bit f 2 \<Longrightarrow> bit f n \<longleftrightarrow> n = 0" for n
    using f by (cases "n < 3") (auto simp: ptt_flags_only_def less_Suc_eq numeral_eq_Suc)
  with a show ?thesis
    by (auto intro: ptt_flag_bits_eqI)
qed

lemma ptt_flag_eq_0: "ptt_flags_only f \<Longrightarrow> f = 0 \<longleftrightarrow> \<not> bit f 0 \<and> \<not> bit f 1 \<and> \<not> bit f 2"
proof -
  assume f: "ptt_flags_only f"
  have "\<not> bit f 0 \<Longrightarrow> \<not> bit f 1 \<Longrightarrow> \<not> bit f 2 \<Longrightarrow> \<not> bit f n" for n
    using f by (cases "n < 3") (auto simp: ptt_flags_only_def less_Suc_eq numeral_eq_Suc)
  then show ?thesis
    by (auto intro: ptt_flag_bits_eqI)
qed

lemmas ptt_flag_simps = ptt_flag_bits ptt_flag_bit_upd

end
