(* ===== verification/Ttys.thy ===== *)
theory Ttys
  imports Daemon
begin

text \<open>
  Models \<^verbatim>\<open>src/src/ttys.c\<close>: probing, configuring and driving of a serial port whose modem lines
  DTR and RTS serve for keying and PTT. The methods take the name of the cwdevice object they are
  called on. Methods that always return 0 to callers that never look are of type \<open>unit act\<close>.
\<close>

definition MAXPATHLEN :: nat where "MAXPATHLEN = 4096"
definition S_IFMT :: int where "S_IFMT = 61440"
definition S_IFCHR :: int where "S_IFCHR = 8192"

section \<open>Model\<close>

text \<open>What the two probe functions share: open the path, and close it again unless it is a character
  device on which the probing \<open>ioctl\<close> works.\<close>

definition probe_cwdevice :: "env \<Rightarrow> open_flag list \<Rightarrow> ioctl_req \<Rightarrow> string \<Rightarrow> int act" where
  "probe_cwdevice w flags req fname =
     (let (retv, nm) = build_full_device_path True MAXPATHLEN (Some fname)
      in if retv \<noteq> 0 then ret (- 1)
         else bnd (ask w (Open (the nm) flags)) (\<lambda>fd.
           if fd = - 1 then ret (- 1)
           else let out = sq [emit (Close fd)] in
             bnd (ask w (Fstat fd)) (\<lambda>r.
               if r = - 1 then bnd out (\<lambda>_. ret (- 1))
               else look (\<lambda>s.
                 if out_int w (trace s) AND S_IFMT \<noteq> S_IFCHR then bnd out (\<lambda>_. ret (- 1))
                 else bnd (ask w (Ioctl fd req)) (\<lambda>r.
                   if r = - 1 then bnd out (\<lambda>_. ret (- 1)) else ret fd)))))"

definition tty_probe_cwdevice :: "env \<Rightarrow> string \<Rightarrow> int act" where
  "tty_probe_cwdevice w fname = probe_cwdevice w [O_RDWR, O_NOCTTY, O_NONBLOCK] TIOCMGET fname"

definition ttys_cw :: "env \<Rightarrow> devid \<Rightarrow> int \<Rightarrow> unit act" where
  "ttys_cw w d onoff = look (\<lambda>s.
     let dev = devs s d in
     guard (opt_key dev \<noteq> 0)
       (bnd (ask w (Ioctl (dev_fd dev)
           (if onoff \<noteq> 0 then TIOCMBIS (opt_key dev) else TIOCMBIC (opt_key dev)))) (\<lambda>result.
         guard (result < 0) (halt (Exit 1)))))"

definition ttys_ptt :: "env \<Rightarrow> devid \<Rightarrow> int \<Rightarrow> unit act" where
  "ttys_ptt w d onoff = look (\<lambda>s.
     let dev = devs s d in
     guard (opt_ptt dev \<noteq> 0)
       (bnd (ask w (Ioctl (dev_fd dev)
           (if onoff \<noteq> 0 then TIOCMBIS (opt_ptt dev) else TIOCMBIC (opt_ptt dev)))) (\<lambda>result.
         guard (result < 0) (halt (Exit 1)))))"

definition ttys_reset_pins_state :: "env \<Rightarrow> devid \<Rightarrow> unit act" where
  "ttys_reset_pins_state w d = sq [ttys_cw w d OFF, ttys_ptt w d OFF]"

definition ttys_init :: "env \<Rightarrow> devid \<Rightarrow> int \<Rightarrow> unit act" where
  "ttys_init w d fd =
     sq [set_dev d (\<lambda>v. v\<lparr>dev_fd := fd\<rparr>), ttys_reset_pins_state w d]"

definition ttys_close :: "env \<Rightarrow> devid \<Rightarrow> unit act" where
  "ttys_close w d =
     sq [ttys_reset_pins_state w d,
         look (\<lambda>s. emit (Close (dev_fd (devs s d)))),
         set_dev d (\<lambda>v. v\<lparr>dev_fd := - 1\<rparr>)]"

definition tty_default_desc :: "env \<Rightarrow> string option act" where
  "tty_default_desc w = (case platform w of
     Linux \<Rightarrow> strdup w ''ttyS0'' | FreeBSD \<Rightarrow> strdup w ''ttyd0'' | OpenBSD \<Rightarrow> strdup w ''tty00''
   | Other_platform \<Rightarrow> ret None)"

definition tty_init_cwdevice :: "env \<Rightarrow> devid \<Rightarrow> int act" where
  "tty_init_cwdevice w d =
     bnd (sq [set_dev d (\<lambda>_. zero_device),
              set_dev d (\<lambda>v. v\<lparr>opt_key := TIOCM_DTR, opt_ptt := TIOCM_RTS\<rparr>)]) (\<lambda>_.
     bnd (tty_default_desc w) (\<lambda>desc.
     bnd (set_dev d (\<lambda>v. v\<lparr>dev_desc := desc\<rparr>)) (\<lambda>_. ret 0)))"

text \<open>The values of the options \<open>key\<close> and \<open>ptt\<close>.\<close>

definition tty_pin_value :: "string \<Rightarrow> 32 word option" where
  "tty_pin_value v =
     (if same_nocase v ''dtr'' then Some TIOCM_DTR
      else if same_nocase v ''rts'' then Some TIOCM_RTS
      else if same_nocase v ''none'' then Some 0
      else None)"

definition ttys_optparse :: "env \<Rightarrow> devid \<Rightarrow> string \<Rightarrow> int act" where
  "ttys_optparse w d option =
     (case find_opt_value option ''key'' of
        (opt_success, Some v) \<Rightarrow>
          (case tty_pin_value v of
             Some pin \<Rightarrow> bnd (sq [set_dev d (\<lambda>x. x\<lparr>opt_key := pin\<rparr>), ttys_cw w d 0]) (\<lambda>_. ret 0)
           | None \<Rightarrow> ret (- 1))
      | _ \<Rightarrow>
     (case find_opt_value option ''ptt'' of
        (opt_success, Some v) \<Rightarrow>
          (case tty_pin_value v of
             Some pin \<Rightarrow> bnd (sq [set_dev d (\<lambda>x. x\<lparr>opt_ptt := pin\<rparr>), ttys_ptt w d 0]) (\<lambda>_. ret 0)
           | None \<Rightarrow> ret (- 1))
      | _ \<Rightarrow> ret (- 1)))"

definition ttys_optvalidate :: "devid \<Rightarrow> int act" where
  "ttys_optvalidate d = look (\<lambda>s.
     let dropt = devs s d in
     ret (if opt_key dropt \<noteq> 0 \<and> opt_ptt dropt \<noteq> 0 \<and> opt_key dropt = opt_ptt dropt then - 1 else 0))"

section \<open>Lemmas\<close>

lemma io_only_probe [frame_rules]: "io_only (probe_cwdevice w flags req fname)"
  unfolding probe_cwdevice_def by (auto intro!: frame_rules simp: Let_def split: prod.split simp del: sq.simps)

lemma io_only_tty_probe [frame_rules]: "io_only (tty_probe_cwdevice w fname)"
  unfolding tty_probe_cwdevice_def by (rule io_only_probe)

lemma io_only_ttys [frame_rules]:
  "io_only (ttys_cw w d v)" "io_only (ttys_ptt w d v)" "io_only (ttys_reset_pins_state w d)"
  unfolding ttys_cw_def ttys_ptt_def ttys_reset_pins_state_def Let_def by (intro frame_rules)+

text \<open>
  The level of the modem line \<open>p\<close> of descriptor \<open>fd\<close> as the history of \<open>ioctl\<close> calls leaves it;
  \<open>None\<close> before the first of them.
\<close>

definition line_step :: "int \<Rightarrow> 32 word \<Rightarrow> bool option \<Rightarrow> call \<Rightarrow> bool option" where
  "line_step fd p l c = (case c of
     Ioctl f (TIOCMBIS m) \<Rightarrow> if f = fd \<and> m AND p \<noteq> 0 then Some True else l
   | Ioctl f (TIOCMBIC m) \<Rightarrow> if f = fd \<and> m AND p \<noteq> 0 then Some False else l
   | _ \<Rightarrow> l)"

definition tty_line :: "int \<Rightarrow> 32 word \<Rightarrow> call list \<Rightarrow> bool option" where
  "tty_line fd p tr = foldl (line_step fd p) None tr"

lemma tty_line_snoc: "tty_line fd p (tr @ [c]) = line_step fd p (tty_line fd p tr) c"
  by (simp add: tty_line_def)

lemma pins_distinct [simp]: "TIOCM_DTR AND TIOCM_RTS = 0" "TIOCM_RTS AND TIOCM_DTR = 0"
  "TIOCM_DTR \<noteq> 0" "TIOCM_RTS \<noteq> 0" "TIOCM_DTR \<noteq> TIOCM_RTS"
  by (simp_all add: TIOCM_DTR_def TIOCM_RTS_def)

lemma ttys_ptt_Run:
  assumes "ttys_ptt w d v s = Run x t"
  shows "t = s\<lparr>trace := trace s @ (if opt_ptt (devs s d) = 0 then []
    else [Ioctl (dev_fd (devs s d)) (if v \<noteq> 0 then TIOCMBIS (opt_ptt (devs s d)) else TIOCMBIC (opt_ptt (devs s d)))])\<rparr>"
  using assms by (auto simp: ttys_ptt_def prog_simps Let_def split: if_splits)

lemma ttys_cw_Run:
  assumes "ttys_cw w d v s = Run x t"
  shows "t = s\<lparr>trace := trace s @ (if opt_key (devs s d) = 0 then []
    else [Ioctl (dev_fd (devs s d)) (if v \<noteq> 0 then TIOCMBIS (opt_key (devs s d)) else TIOCMBIC (opt_key (devs s d)))])\<rparr>"
  using assms by (auto simp: ttys_cw_def prog_simps Let_def split: if_splits)

end
