(* ===== verification/Lp.thy ===== *)
theory Lp
  imports Ttys
begin

text \<open>
  Models \<^verbatim>\<open>src/src/lp.c\<close> and \<^verbatim>\<open>src/src/null.c\<close>: the parallel port, in the builds for Linux
  (ppdev) and for FreeBSD (ppbus), and the null device. The build is a field of the environment;
  where the source is empty without a parallel port, so is the model.
\<close>

definition PARPORT_CONTROL_STROBE :: "8 word" where "PARPORT_CONTROL_STROBE = 1"
definition PARPORT_CONTROL_AUTOFD :: "8 word" where "PARPORT_CONTROL_AUTOFD = 2"
definition PARPORT_CONTROL_INIT :: "8 word" where "PARPORT_CONTROL_INIT = 4"
definition PARPORT_CONTROL_SELECT :: "8 word" where "PARPORT_CONTROL_SELECT = 8"

section \<open>Model of the parallel port\<close>

definition lp_probe_cwdevice :: "env \<Rightarrow> string \<Rightarrow> int act" where
  "lp_probe_cwdevice w fname = (case lp_build w of
     Linux_ppdev \<Rightarrow> probe_cwdevice w [O_RDWR, O_NONBLOCK] PPGETMODE fname
   | BSD_ppi \<Rightarrow> probe_cwdevice w [O_RDWR, O_NONBLOCK] PPISSTATUS fname
   | No_parport \<Rightarrow> ret (- 1))"

text \<open>An \<open>ioctl\<close> whose failure ends the process.\<close>

definition ioctl_or_exit :: "env \<Rightarrow> int \<Rightarrow> ioctl_req \<Rightarrow> unit act" where
  "ioctl_or_exit w fd req = bnd (ask w (Ioctl fd req)) (\<lambda>r. guard (r = - 1) (halt (Exit 1)))"

text \<open>
  On Linux one call masks and sets; on FreeBSD the register is read, changed and written back.
\<close>

definition parport_control :: "env \<Rightarrow> int \<Rightarrow> 8 word \<Rightarrow> 8 word \<Rightarrow> unit act" where
  "parport_control w fd controlbits values = (case lp_build w of
     Linux_ppdev \<Rightarrow> ioctl_or_exit w fd (PPFCONTROL controlbits values)
   | BSD_ppi \<Rightarrow> sq [ioctl_or_exit w fd PPIGCTRL,
       look (\<lambda>s. let val = word_of_int (out_int w (trace s)) in
         ioctl_or_exit w fd (PPISCTRL ((val AND NOT controlbits) OR values)))]
   | No_parport \<Rightarrow> ret ())"

definition parport_write_data :: "env \<Rightarrow> int \<Rightarrow> 8 word \<Rightarrow> unit act" where
  "parport_write_data w fd data = (case lp_build w of
     Linux_ppdev \<Rightarrow> ioctl_or_exit w fd (PPWDATA data)
   | BSD_ppi \<Rightarrow> ioctl_or_exit w fd (PPISDATA data)
   | No_parport \<Rightarrow> ret ())"

text \<open>Without a parallel port the caller keeps its initial value \<open>0xff\<close>.\<close>

definition parport_read_data :: "env \<Rightarrow> int \<Rightarrow> 8 word act" where
  "parport_read_data w fd = (case lp_build w of
     Linux_ppdev \<Rightarrow> bnd (ioctl_or_exit w fd PPRSTATUS) (\<lambda>_. look (\<lambda>s. ret (word_of_int (out_int w (trace s)))))
   | BSD_ppi \<Rightarrow> bnd (ioctl_or_exit w fd PPISSTATUS) (\<lambda>_. look (\<lambda>s. ret (word_of_int (out_int w (trace s)))))
   | No_parport \<Rightarrow> ret 0xff)"

definition lp_cw :: "env \<Rightarrow> devid \<Rightarrow> int \<Rightarrow> unit act" where
  "lp_cw w d onoff = look (\<lambda>s. let dev = devs s d in
     if onoff = 1 then parport_control w (dev_fd dev) PARPORT_CONTROL_SELECT 0
     else parport_control w (dev_fd dev) PARPORT_CONTROL_SELECT PARPORT_CONTROL_SELECT)"

definition lp_ptt :: "env \<Rightarrow> devid \<Rightarrow> int \<Rightarrow> unit act" where
  "lp_ptt w d onoff = look (\<lambda>s. let dev = devs s d in
     if onoff = 1 then parport_control w (dev_fd dev) PARPORT_CONTROL_INIT PARPORT_CONTROL_INIT
     else parport_control w (dev_fd dev) PARPORT_CONTROL_INIT 0)"

definition lp_ssbway :: "env \<Rightarrow> devid \<Rightarrow> int \<Rightarrow> unit act" where
  "lp_ssbway w d onoff = look (\<lambda>s. let dev = devs s d in
     if onoff = 1 then parport_control w (dev_fd dev) PARPORT_CONTROL_AUTOFD PARPORT_CONTROL_AUTOFD
     else parport_control w (dev_fd dev) PARPORT_CONTROL_AUTOFD 0)"

definition lp_switchband :: "env \<Rightarrow> devid \<Rightarrow> 8 word \<Rightarrow> unit act" where
  "lp_switchband w d bitpattern = look (\<lambda>s. parport_write_data w (dev_fd (devs s d)) bitpattern)"

definition lp_footswitch :: "env \<Rightarrow> devid \<Rightarrow> int act" where
  "lp_footswitch w d = look (\<lambda>s. bnd (parport_read_data w (dev_fd (devs s d))) (\<lambda>footswitch.
     ret (uint (drop_bit 3 (footswitch AND 0x08)))))"

definition lp_reset_pins_state :: "env \<Rightarrow> devid \<Rightarrow> unit act" where
  "lp_reset_pins_state w d =
     guard (lp_build w \<noteq> No_parport)
       (sq [lp_cw w d 0, lp_ptt w d 0, lp_ssbway w d 0, lp_switchband w d 0])"

text \<open>An \<open>ioctl\<close> of \<open>lp_init\<close> on Linux: when it fails the descriptor is closed before the exit.\<close>

definition claim_or_exit :: "env \<Rightarrow> int \<Rightarrow> ioctl_req \<Rightarrow> unit act" where
  "claim_or_exit w fd req =
     bnd (ask w (Ioctl fd req)) (\<lambda>r. guard (r = - 1) (sq [emit (Close fd), halt (Exit 1)]))"

definition lp_init :: "env \<Rightarrow> devid \<Rightarrow> int \<Rightarrow> unit act" where
  "lp_init w d fd =
     sq [guard (lp_build w = Linux_ppdev)
           (sq [claim_or_exit w fd PPSETMODE, claim_or_exit w fd PPEXCL, claim_or_exit w fd PPCLAIM]),
         parport_control w fd PARPORT_CONTROL_STROBE PARPORT_CONTROL_STROBE,
         set_dev d (\<lambda>v. v\<lparr>dev_fd := fd\<rparr>),
         lp_reset_pins_state w d]"

definition lp_free :: "env \<Rightarrow> devid \<Rightarrow> unit act" where
  "lp_free w d =
     sq [guard (lp_build w = Linux_ppdev) (lp_reset_pins_state w d),
         look (\<lambda>s. parport_control w (dev_fd (devs s d)) PARPORT_CONTROL_STROBE 0),
         guard (lp_build w = Linux_ppdev) (look (\<lambda>s. emit (Ioctl (dev_fd (devs s d)) PPRELEASE))),
         look (\<lambda>s. emit (Close (dev_fd (devs s d))))]"

section \<open>Model of the null device\<close>

definition null_probe_cwdevice :: "string \<Rightarrow> int" where
  "null_probe_cwdevice fname = (if fname \<noteq> ''null'' then - 1 else 0)"

definition null_init :: "devid \<Rightarrow> int \<Rightarrow> unit act" where
  "null_init d fd = set_dev d (\<lambda>v. v\<lparr>dev_fd := fd\<rparr>)"

definition null_free :: "devid \<Rightarrow> unit act" where
  "null_free d = ret ()"

definition null_reset_pins_state :: "devid \<Rightarrow> unit act" where
  "null_reset_pins_state d = ret ()"

definition null_cw :: "devid \<Rightarrow> int \<Rightarrow> unit act" where
  "null_cw d onoff = ret ()"

definition null_ptt :: "devid \<Rightarrow> int \<Rightarrow> unit act" where
  "null_ptt d onoff = ret ()"

section \<open>Lemmas\<close>

lemma io_only_lp_probe [frame_rules]: "io_only (lp_probe_cwdevice w fname)"
  unfolding lp_probe_cwdevice_def by (cases "lp_build w") (simp_all add: frame_rules)

lemma io_only_ioctl_or_exit [frame_rules]: "io_only (ioctl_or_exit w fd req)"
  unfolding ioctl_or_exit_def by (intro frame_rules)

lemma io_only_claim_or_exit [frame_rules]: "io_only (claim_or_exit w fd req)"
  unfolding claim_or_exit_def by (intro frame_rules)

lemma io_only_parport_control [frame_rules]: "io_only (parport_control w fd m v)"
  unfolding parport_control_def Let_def
  by (cases "lp_build w") (simp_all add: frame_rules del: sq.simps)

lemma io_only_parport_write_data [frame_rules]: "io_only (parport_write_data w fd v)"
  unfolding parport_write_data_def by (cases "lp_build w") (simp_all add: frame_rules)

lemma io_only_parport_read_data [frame_rules]: "io_only (parport_read_data w fd)"
  unfolding parport_read_data_def by (cases "lp_build w") (simp_all add: frame_rules)

lemma io_only_lp [frame_rules]:
  "io_only (lp_cw w d v)" "io_only (lp_ptt w d v)" "io_only (lp_ssbway w d v)"
  "io_only (lp_switchband w d p)" "io_only (lp_footswitch w d)"
  unfolding lp_cw_def lp_ptt_def lp_ssbway_def lp_switchband_def lp_footswitch_def Let_def
  by (intro frame_rules)+

lemma io_only_lp_reset [frame_rules]: "io_only (lp_reset_pins_state w d)"
  unfolding lp_reset_pins_state_def by (intro frame_rules)

lemma io_only_lp_free [frame_rules]: "io_only (lp_free w d)"
  unfolding lp_free_def by (intro frame_rules)

lemma io_only_null [frame_rules]:
  "io_only (null_cw d v)" "io_only (null_ptt d v)" "io_only (null_reset_pins_state d)" "io_only (null_free d)"
  unfolding null_cw_def null_ptt_def null_reset_pins_state_def null_free_def by (intro frame_rules)+

end
