(* ===== verification/Cwdevice.thy ===== *)
theory Cwdevice
  imports Lp
begin

text \<open>
  The keying devices as the rest of the daemon sees them: the method tables of the three cwdevice
  objects (top of \<^verbatim>\<open>src/src/cwdaemon.c\<close> and \<open>tty_init_cwdevice\<close>), the functions that set up,
  select and release the current device (end of the same file), and \<open>cwdaemon_option_cwdevice\<close> of
  \<^verbatim>\<open>src/src/options.c\<close>. The contract the clients rely on is the locale \<open>keyer\<close>.
\<close>

section \<open>Method tables\<close>

definition dev_init :: "env \<Rightarrow> devid \<Rightarrow> int \<Rightarrow> unit act" where
  "dev_init w d fd = (case d of
     Dev_Null \<Rightarrow> null_init d fd | Dev_Ttys \<Rightarrow> ttys_init w d fd | Dev_Lp \<Rightarrow> lp_init w d fd)"

definition dev_free :: "env \<Rightarrow> devid \<Rightarrow> unit act" where
  "dev_free w d = (case d of
     Dev_Null \<Rightarrow> null_free d | Dev_Ttys \<Rightarrow> ttys_close w d | Dev_Lp \<Rightarrow> lp_free w d)"

definition dev_reset_pins_state :: "env \<Rightarrow> devid \<Rightarrow> unit act" where
  "dev_reset_pins_state w d = (case d of
     Dev_Null \<Rightarrow> null_reset_pins_state d | Dev_Ttys \<Rightarrow> ttys_reset_pins_state w d
   | Dev_Lp \<Rightarrow> lp_reset_pins_state w d)"

definition dev_cw :: "env \<Rightarrow> devid \<Rightarrow> int \<Rightarrow> unit act" where
  "dev_cw w d v = (case d of
     Dev_Null \<Rightarrow> null_cw d v | Dev_Ttys \<Rightarrow> ttys_cw w d v | Dev_Lp \<Rightarrow> lp_cw w d v)"

definition dev_ptt :: "env \<Rightarrow> devid \<Rightarrow> int \<Rightarrow> unit act" where
  "dev_ptt w d v = (case d of
     Dev_Null \<Rightarrow> null_ptt d v | Dev_Ttys \<Rightarrow> ttys_ptt w d v | Dev_Lp \<Rightarrow> lp_ptt w d v)"

text \<open>Methods that are NULL for some devices.\<close>

definition dev_ssbway :: "env \<Rightarrow> devid \<Rightarrow> (int \<Rightarrow> unit act) option" where
  "dev_ssbway w d = (case d of Dev_Lp \<Rightarrow> Some (lp_ssbway w d) | _ \<Rightarrow> None)"

definition dev_switchband :: "env \<Rightarrow> devid \<Rightarrow> (8 word \<Rightarrow> unit act) option" where
  "dev_switchband w d = (case d of Dev_Lp \<Rightarrow> Some (lp_switchband w d) | _ \<Rightarrow> None)"

definition dev_footswitch :: "env \<Rightarrow> devid \<Rightarrow> int act option" where
  "dev_footswitch w d = (case d of Dev_Lp \<Rightarrow> Some (lp_footswitch w d) | _ \<Rightarrow> None)"

definition dev_optparse :: "env \<Rightarrow> devid \<Rightarrow> (string \<Rightarrow> int act) option" where
  "dev_optparse w d = (case d of Dev_Ttys \<Rightarrow> Some (ttys_optparse w d) | _ \<Rightarrow> None)"

definition dev_optvalidate :: "devid \<Rightarrow> int act option" where
  "dev_optvalidate d = (case d of Dev_Ttys \<Rightarrow> Some (ttys_optvalidate d) | _ \<Rightarrow> None)"

section \<open>Selecting the device\<close>

text \<open>
  Which object a name selects and the descriptor it was opened with; \<open>None\<close> when the program may
  not use the parallel port. A name that no probe accepts selects the null device with descriptor -1.
\<close>

definition probe_all :: "env \<Rightarrow> string \<Rightarrow> (devid \<times> int) option act" where
  "probe_all w desc =
     bnd (tty_probe_cwdevice w desc) (\<lambda>fd.
       if fd \<noteq> - 1 then ret (Some (Dev_Ttys, fd))
       else bnd (lp_probe_cwdevice w desc) (\<lambda>fd.
         if fd \<noteq> - 1
         then bnd (ask w Geteuid) (\<lambda>uid. ret (if uid \<noteq> 0 then None else Some (Dev_Lp, fd)))
         else ret (Some (Dev_Null, null_probe_cwdevice desc))))"

definition release_device :: "env \<Rightarrow> devid option \<Rightarrow> unit act" where
  "release_device w old = (case old of
     None \<Rightarrow> ret ()
   | Some d \<Rightarrow> sq [dev_free w d, set_dev d (\<lambda>v. v\<lparr>dev_desc := None\<rparr>)])"

definition cwdaemon_cwdevice_set :: "env \<Rightarrow> string \<Rightarrow> bool act" where
  "cwdaemon_cwdevice_set w desc = look (\<lambda>s.
     let old_device = global_cwdevice s in
     bnd (probe_all w desc) (\<lambda>found.
       case found of
         None \<Rightarrow> ret False
       | Some (d, fd) \<Rightarrow>
           bnd (sq [upd (\<lambda>s. s\<lparr>global_cwdevice := Some d\<rparr>),
                    release_device w old_device,
                    set_dev d (\<lambda>v. v\<lparr>dev_desc := None\<rparr>)]) (\<lambda>_.
           bnd (strdup w desc) (\<lambda>copy.
           bnd (set_dev d (\<lambda>v. v\<lparr>dev_desc := copy\<rparr>)) (\<lambda>_.
             if copy = None then ret False
             else bnd (dev_init w d fd) (\<lambda>_. ret True))))))"

definition cwdaemon_option_cwdevice :: "env \<Rightarrow> string option \<Rightarrow> int act" where
  "cwdaemon_option_cwdevice w opt_value = (case opt_value of
     None \<Rightarrow> ret (- 1)
   | Some v \<Rightarrow>
       if length v = 0 then ret (- 1)
       else bnd (cwdaemon_cwdevice_set w v) (\<lambda>ok. ret (if ok then 0 else - 1)))"

section \<open>Set-up and clean-up\<close>

definition cwdaemon_cwdevices_init :: "env \<Rightarrow> bool act" where
  "cwdaemon_cwdevices_init w =
     bnd (case lp_build w of Linux_ppdev \<Rightarrow> strdup w ''parport0'' | BSD_ppi \<Rightarrow> strdup w ''ppi0''
          | No_parport \<Rightarrow> ret None) (\<lambda>lp_desc.
     bnd (set_dev Dev_Lp (\<lambda>v. v\<lparr>dev_desc := lp_desc\<rparr>)) (\<lambda>_.
     bnd (tty_init_cwdevice w Dev_Ttys) (\<lambda>r.
       if r \<noteq> 0 then ret False
       else bnd (strdup w ''null'') (\<lambda>null_desc.
         bnd (set_dev Dev_Null (\<lambda>v. v\<lparr>dev_desc := null_desc\<rparr>)) (\<lambda>_. ret True)))))"

definition cwdaemon_cwdevices_free :: "unit act" where
  "cwdaemon_cwdevices_free =
     sq [set_dev Dev_Ttys (\<lambda>v. v\<lparr>dev_desc := None\<rparr>), set_dev Dev_Null (\<lambda>v. v\<lparr>dev_desc := None\<rparr>),
         set_dev Dev_Lp (\<lambda>v. v\<lparr>dev_desc := None\<rparr>)]"

definition cwdaemon_cwdevice_init :: "unit act" where
  "cwdaemon_cwdevice_init = upd (\<lambda>s. s\<lparr>global_cwdevice := Some Dev_Null\<rparr>)"

definition cwdaemon_cwdevice_free :: "env \<Rightarrow> unit act" where
  "cwdaemon_cwdevice_free w = look (\<lambda>s. case global_cwdevice s of None \<Rightarrow> ret () | Some d \<Rightarrow> dev_free w d)"

section \<open>The band switch\<close>

definition cwdaemon_switch_band :: "env \<Rightarrow> devid \<Rightarrow> 32 word \<Rightarrow> unit act" where
  "cwdaemon_switch_band w d band =
     (let bit_pattern = (band AND 0x01) OR push_bit 4 (band AND 0x0e)
      in case dev_switchband w d of None \<Rightarrow> ret () | Some f \<Rightarrow> f (ucast bit_pattern))"

section \<open>The contract of a keying device\<close>

lemma io_only_dev [frame_rules]:
  "io_only (dev_cw w d v)" "io_only (dev_ptt w d v)" "io_only (dev_reset_pins_state w d)"
  unfolding dev_cw_def dev_ptt_def dev_reset_pins_state_def
  by (cases d; simp add: frame_rules)+

text \<open>
  Keying, PTT and reset only talk to the device: they change no variable of the daemon, so every
  invariant that does not read the history survives them.
\<close>

locale keyer =
  fixes cw :: "int \<Rightarrow> unit act" and ptt :: "int \<Rightarrow> unit act" and reset :: "unit act"
  assumes cw_io: "io_only (cw v)"
    and ptt_io: "io_only (ptt v)"
    and reset_io: "io_only reset"
begin

lemma keeps_methods:
  "trace_free I \<Longrightarrow> keeps I (cw v)" "trace_free I \<Longrightarrow> keeps I (ptt v)" "trace_free I \<Longrightarrow> keeps I reset"
  by (simp_all add: keeps_io_only cw_io ptt_io reset_io)

lemma keying_io: "io_only (sq (map cw vs))"
  by (induction vs) (simp_all add: frame_rules cw_io)

end

text \<open>
  A device whose PTT line is connected: \<open>ptt\<close> drives the line, \<open>reset\<close> lowers it, and keying does
  not disturb it. \<open>wired\<close> says when this can be expected, \<open>level\<close> reads the line.
\<close>

locale ptt_keyer = keyer +
  fixes wired :: "daemon \<Rightarrow> bool" and level :: "daemon \<Rightarrow> bool"
  assumes wired_extends: "extends s t \<Longrightarrow> wired t = wired s"
    and ptt_sets: "ptt v s = Run () t \<Longrightarrow> wired s \<Longrightarrow> v = ON \<or> v = OFF \<Longrightarrow> level t \<longleftrightarrow> v = ON"
    and cw_frames: "cw v s = Run () t \<Longrightarrow> wired s \<Longrightarrow> level t = level s"
    and reset_lowers: "reset s = Run () t \<Longrightarrow> wired s \<Longrightarrow> \<not> level t"
begin

text \<open>Any amount of keying leaves the PTT line where \<open>ptt\<close> put it.\<close>

lemma keying_frames:
  "sq (map cw vs) s = Run () t \<Longrightarrow> wired s \<Longrightarrow> level t = level s"
proof (induction vs arbitrary: s)
  case Nil
  then show ?case by (simp add: ret_def)
next
  case (Cons v vs)
  then obtain r where r: "cw v s = Run () r" "sq (map cw vs) r = Run () t"
    by (auto simp: bnd_def split: outcome.splits)
  from r(1) have "wired r = wired s"
    by (rule wired_extends [OF within_Run [OF cw_io]])
  with Cons r show ?case by (simp add: cw_frames)
qed

lemma ptt_then_keying:
  assumes "bnd (ptt v) (\<lambda>_. sq (map cw vs)) s = Run () t" "wired s" "v = ON \<or> v = OFF"
  shows "level t \<longleftrightarrow> v = ON"
proof -
  from assms obtain r where r: "ptt v s = Run () r" "sq (map cw vs) r = Run () t"
    by (auto simp: bnd_def split: outcome.splits)
  moreover from r(1) have "wired r = wired s"
    by (rule wired_extends [OF within_Run [OF ptt_io]])
  ultimately show ?thesis using assms keying_frames [of vs r t] ptt_sets [of v s r] by simp
qed

end

text \<open>The PTT line of a serial port.\<close>

definition tty_wired :: "devid \<Rightarrow> daemon \<Rightarrow> bool" where
  "tty_wired d s \<longleftrightarrow> opt_ptt (devs s d) \<noteq> 0 \<and> opt_key (devs s d) AND opt_ptt (devs s d) = 0"

definition tty_level :: "devid \<Rightarrow> daemon \<Rightarrow> bool" where
  "tty_level d s \<longleftrightarrow> tty_line (dev_fd (devs s d)) (opt_ptt (devs s d)) (trace s) = Some True"

lemma tty_level_ptt:
  "ttys_ptt w d v s = Run () t \<Longrightarrow> tty_wired d s \<Longrightarrow> tty_level d t \<longleftrightarrow> v \<noteq> 0"
  by (drule ttys_ptt_Run)
    (simp add: tty_wired_def tty_level_def tty_line_snoc line_step_def)

lemma tty_level_cw: "ttys_cw w d v s = Run () t \<Longrightarrow> tty_wired d s \<Longrightarrow> tty_level d t = tty_level d s"
  by (drule ttys_cw_Run)
    (simp add: tty_wired_def tty_level_def tty_line_snoc line_step_def)

lemma tty_wired_extends: "extends s t \<Longrightarrow> tty_wired d t = tty_wired d s"
  by (auto simp: extends_def tty_wired_def)

interpretation tty: ptt_keyer "ttys_cw w d" "ttys_ptt w d" "ttys_reset_pins_state w d"
    "tty_wired d" "tty_level d" for w d
proof (unfold_locales, goal_cases)
  case (5 v s t)
  then show ?case using tty_level_ptt [of w d v s t] by (auto simp: ON_def OFF_def)
next
  case (7 s t)
  then have r: "ttys_reset_pins_state w d s = Run () t" and w: "tty_wired d s" .
  from r obtain m where m: "ttys_cw w d OFF s = Run () m" "ttys_ptt w d OFF m = Run () t"
    by (auto simp: ttys_reset_pins_state_def prog_simps split: outcome.splits)
  from tty_wired_extends [OF within_Run [OF io_only_ttys(1) m(1)]] w have "tty_wired d m" by simp
  with tty_level_ptt [OF m(2)] show ?case by (simp add: OFF_def)
qed (rule io_only_ttys tty_wired_extends tty_level_cw; assumption)+

text \<open>
  The control register of the parallel port: bit \<open>n\<close> as the history leaves it. A read of the
  register on FreeBSD returns what was last written to it.
\<close>

definition ctrl_step :: "int \<Rightarrow> nat \<Rightarrow> bool \<Rightarrow> call \<Rightarrow> bool" where
  "ctrl_step fd n l c = (case c of
     Ioctl f (PPFCONTROL m v) \<Rightarrow> if f = fd \<and> bit m n then bit v n else l
   | Ioctl f (PPISCTRL v) \<Rightarrow> if f = fd then bit v n else l
   | _ \<Rightarrow> l)"

definition ctrl_bit :: "int \<Rightarrow> nat \<Rightarrow> call list \<Rightarrow> bool" where
  "ctrl_bit fd n tr = foldl (ctrl_step fd n) False tr"

definition ppi_reads_back :: "env \<Rightarrow> bool" where
  "ppi_reads_back w \<longleftrightarrow> (\<forall>tr fd n. n < 8 \<longrightarrow>
     bit (word_of_int (out_int w (tr @ [Ioctl fd PPIGCTRL])) :: 8 word) n = ctrl_bit fd n tr)"

lemma ctrl_bit_snoc: "ctrl_bit fd n (tr @ [c]) = ctrl_step fd n (ctrl_bit fd n tr) c"
  by (simp add: ctrl_bit_def)

definition lp_wired :: "env \<Rightarrow> daemon \<Rightarrow> bool" where
  "lp_wired w s \<longleftrightarrow> lp_build w = Linux_ppdev \<or> lp_build w = BSD_ppi \<and> ppi_reads_back w"

definition lp_level :: "devid \<Rightarrow> daemon \<Rightarrow> bool" where
  "lp_level d s \<longleftrightarrow> ctrl_bit (dev_fd (devs s d)) 2 (trace s)"

text \<open>Both builds drive exactly the bits selected by the mask.\<close>

lemma parport_control_Run:
  assumes "parport_control w fd m v s = Run () t" and "lp_wired w s" and "v AND NOT m = 0" and "n < 8"
  shows "extends s t" and "ctrl_bit fd n (trace t) \<longleftrightarrow> (if bit m n then bit v n else ctrl_bit fd n (trace s))"
proof -
  show "extends s t" by (rule within_Run [OF io_only_parport_control assms(1)])
  from assms(3) have vm: "bit v n \<Longrightarrow> bit m n"
    using assms(4) by (auto simp: bit_eq_iff bit_simps)
  show "ctrl_bit fd n (trace t) \<longleftrightarrow> (if bit m n then bit v n else ctrl_bit fd n (trace s))"
  proof (cases "lp_build w")
    case Linux_ppdev
    with assms(1) have "trace t = trace s @ [Ioctl fd (PPFCONTROL m v)]"
      by (auto simp: parport_control_def ioctl_or_exit_def prog_simps Let_def split: if_splits)
    then show ?thesis by (simp add: ctrl_bit_snoc ctrl_step_def)
  next
    case BSD_ppi
    let ?t = "trace s @ [Ioctl fd PPIGCTRL]"
    from BSD_ppi assms(1) have t: "trace t = ?t @ [Ioctl fd (PPISCTRL ((word_of_int (out_int w ?t) AND NOT m) OR v))]"
      by (auto simp: parport_control_def ioctl_or_exit_def prog_simps Let_def split: if_splits outcome.splits)
    have "bit (word_of_int (out_int w ?t) :: 8 word) n = ctrl_bit fd n (trace s)"
      using BSD_ppi assms(2,4) by (simp add: lp_wired_def ppi_reads_back_def)
    then show ?thesis unfolding t ctrl_bit_snoc
      using assms(4) vm by (auto simp: ctrl_step_def bit_or_iff bit_and_iff bit_not_iff)
  next
    case No_parport
    with assms(2) show ?thesis by (simp add: lp_wired_def)
  qed
qed

lemma parport_masks:
  "bit PARPORT_CONTROL_INIT 2" "\<not> bit PARPORT_CONTROL_SELECT 2" "\<not> bit PARPORT_CONTROL_AUTOFD 2"
  by (simp_all add: PARPORT_CONTROL_INIT_def PARPORT_CONTROL_SELECT_def PARPORT_CONTROL_AUTOFD_def)

lemma lp_level_ptt:
  assumes "lp_ptt w d v s = Run () t" and "lp_wired w s"
  shows "lp_level d t \<longleftrightarrow> v = 1"
proof -
  let ?v = "if v = 1 then PARPORT_CONTROL_INIT else 0"
  from assms(1) have run: "parport_control w (dev_fd (devs s d)) PARPORT_CONTROL_INIT ?v s = Run () t"
    by (simp add: lp_ptt_def look_def Let_def split: if_splits)
  have "?v AND NOT PARPORT_CONTROL_INIT = 0" by simp
  note parport_control_Run [OF run assms(2) this, of 2]
  then show ?thesis by (auto simp: lp_level_def extends_def parport_masks split: if_splits)
qed

text \<open>The other control lines leave the PTT line alone.\<close>

lemma lp_level_frame:
  assumes "parport_control w (dev_fd (devs s d)) m v s = Run () t" and "lp_wired w s"
    and "v AND NOT m = 0" and "\<not> bit m 2"
  shows "lp_level d t = lp_level d s"
  using parport_control_Run [OF assms(1-3), of 2] assms(4) by (auto simp: lp_level_def extends_def)

lemma lp_level_cw: "lp_cw w d v s = Run () t \<Longrightarrow> lp_wired w s \<Longrightarrow> lp_level d t = lp_level d s"
  by (rule lp_level_frame [where m = PARPORT_CONTROL_SELECT and v = "if v = 1 then 0 else PARPORT_CONTROL_SELECT"])
    (auto simp: lp_cw_def look_def Let_def parport_masks split: if_splits)

lemma lp_level_ssbway: "lp_ssbway w d v s = Run () t \<Longrightarrow> lp_wired w s \<Longrightarrow> lp_level d t = lp_level d s"
  by (rule lp_level_frame [where m = PARPORT_CONTROL_AUTOFD and v = "if v = 1 then PARPORT_CONTROL_AUTOFD else 0"])
    (auto simp: lp_ssbway_def look_def Let_def parport_masks split: if_splits)

lemma lp_level_switchband: "lp_switchband w d p s = Run () t \<Longrightarrow> lp_level d t = lp_level d s"
  by (auto simp: lp_switchband_def parport_write_data_def ioctl_or_exit_def prog_simps Let_def
      lp_level_def ctrl_bit_snoc ctrl_step_def split: lp_build.splits if_splits)

lemma lp_wired_any: "lp_wired w t = lp_wired w s"
  by (simp add: lp_wired_def)

lemma lp_level_reset:
  assumes "lp_reset_pins_state w d s = Run () t" and w: "lp_wired w s"
  shows "\<not> lp_level d t"
proof -
  from w have "lp_build w \<noteq> No_parport" by (auto simp: lp_wired_def)
  with assms(1) obtain a b c where
    "lp_ptt w d 0 a = Run () b" "lp_ssbway w d 0 b = Run () c" "lp_switchband w d 0 c = Run () t"
    by (auto simp: lp_reset_pins_state_def prog_simps split: outcome.splits)
  with w show ?thesis
    using lp_level_ptt [of w d 0 a b] lp_level_ssbway [of w d 0 b c] lp_level_switchband [of w d 0 c t]
    by (simp add: lp_wired_def)
qed

interpretation lpt: ptt_keyer "lp_cw w d" "lp_ptt w d" "lp_reset_pins_state w d"
    "lp_wired w" "lp_level d" for w d
proof (unfold_locales, goal_cases)
  case (4 s t)
  show ?case by (rule lp_wired_any)
next
  case (5 v s t)
  then show ?case using lp_level_ptt [of w d v s t] by (auto simp: ON_def OFF_def)
qed (rule io_only_lp io_only_lp_reset lp_level_cw lp_level_reset; assumption)+

text \<open>The null device has no line; it is a keyer, and a PTT keyer that is never wired.\<close>

interpretation nul: ptt_keyer "null_cw d" "null_ptt d" "null_reset_pins_state d" "\<lambda>_. False" "\<lambda>_. False" for d
  by unfold_locales (simp_all add: frame_rules)

text \<open>The method table as a whole meets the contract: each entry by its own interpretation.\<close>

definition dev_wired :: "env \<Rightarrow> devid \<Rightarrow> daemon \<Rightarrow> bool" where
  "dev_wired w d s = (case d of Dev_Null \<Rightarrow> False | Dev_Ttys \<Rightarrow> tty_wired d s | Dev_Lp \<Rightarrow> lp_wired w s)"

definition dev_level :: "devid \<Rightarrow> daemon \<Rightarrow> bool" where
  "dev_level d s = (case d of Dev_Null \<Rightarrow> False | Dev_Ttys \<Rightarrow> tty_level d s | Dev_Lp \<Rightarrow> lp_level d s)"

lemma dev_wired_cong: "devs t = devs s \<Longrightarrow> dev_wired w d t = dev_wired w d s"
  by (cases d) (simp_all add: dev_wired_def tty_wired_def lp_wired_def)

lemma dev_level_cong: "devs t = devs s \<Longrightarrow> trace t = trace s \<Longrightarrow> dev_level d t = dev_level d s"
  by (cases d) (simp_all add: dev_level_def tty_level_def lp_level_def)

lemmas dev_dispatch = dev_cw_def dev_ptt_def dev_reset_pins_state_def dev_wired_def dev_level_def

interpretation dev: ptt_keyer "dev_cw w d" "dev_ptt w d" "dev_reset_pins_state w d"
    "dev_wired w d" "dev_level d" for w d
proof (unfold_locales, goal_cases)
  case (4 s t)
  then show ?case by (cases d) (simp_all add: dev_dispatch tty.wired_extends lpt.wired_extends)
next
  case (5 v s t)
  then show ?case by (cases d) (simp_all add: dev_dispatch tty.ptt_sets lpt.ptt_sets)
next
  case (6 v s t)
  then show ?case by (cases d) (simp_all add: dev_dispatch tty.cw_frames lpt.cw_frames)
next
  case (7 s t)
  then show ?case by (cases d) (simp_all add: dev_dispatch tty.reset_lowers lpt.reset_lowers)
qed (rule io_only_dev)+

text \<open>
  C16: on a serial or parallel port whose lines are configured, the PTT line is raised by a call of
  the PTT method with ON and lowered by one with OFF, and no keying that follows changes it.
\<close>

theorem ptt_line_under_keying:
  assumes "bnd (dev_ptt w d v) (\<lambda>_. sq (map (dev_cw w d) vs)) s = Run () t"
    and "dev_wired w d s" and "v = ON \<or> v = OFF"
  shows "dev_level d t \<longleftrightarrow> v = ON"
  by (rule dev.ptt_then_keying [OF assms])

text \<open>A serial port on descriptor 3 with the default pins.\<close>

definition tty_state :: daemon where
  "tty_state = daemon_init\<lparr>global_cwdevice := Some Dev_Ttys,
     devs := (\<lambda>_. zero_device)(Dev_Ttys := \<lparr>dev_fd = 3, dev_desc = Some ''ttyS0'',
       opt_key = TIOCM_DTR, opt_ptt = TIOCM_RTS\<rparr>)\<rparr>"

theorem ptt_line_under_keying_witness:
  "\<exists>t. bnd (dev_ptt (example_env []) Dev_Ttys ON)
      (\<lambda>_. sq (map (dev_cw (example_env []) Dev_Ttys) [ON, OFF])) tty_state = Run () t \<and>
    dev_level Dev_Ttys t"
proof -
  let ?m = "bnd (dev_ptt (example_env []) Dev_Ttys ON)
      (\<lambda>_. sq (map (dev_cw (example_env []) Dev_Ttys) [ON, OFF]))"
  obtain t where t: "?m tty_state = Run () t"
    by (simp add: dev_ptt_def dev_cw_def ttys_ptt_def ttys_cw_def prog_simps tty_state_def
        example_env_def answer_def ON_def OFF_def Let_def daemon_init_def)
  moreover have "dev_wired (example_env []) Dev_Ttys tty_state"
    by (simp add: dev_wired_def tty_wired_def tty_state_def)
  ultimately show ?thesis
    using ptt_line_under_keying [OF t] by simp
qed

section \<open>What selecting a device changes\<close>

lemma io_only_optional:
  "dev_ssbway w d = Some f \<Longrightarrow> io_only (f v)"
  "dev_switchband w d = Some g \<Longrightarrow> io_only (g p)"
  "dev_footswitch w d = Some h \<Longrightarrow> io_only h"
  by (auto simp: dev_ssbway_def dev_switchband_def dev_footswitch_def frame_rules split: devid.splits)

lemma io_only_switch_band [frame_rules]: "io_only (cwdaemon_switch_band w d band)"
  unfolding cwdaemon_switch_band_def Let_def
  by (cases "dev_switchband w d") (auto simp: frame_rules io_only_optional)

lemma io_only_probe_all [frame_rules]: "io_only (probe_all w desc)"
  unfolding probe_all_def by (intro frame_rules)

lemma io_only_strdup [frame_rules]: "io_only (strdup w str)"
  unfolding strdup_def by (intro frame_rules)

text \<open>The frame "changes besides the history at most the descriptor of \<open>d\<close>".\<close>

definition fd_frame :: "devid \<Rightarrow> daemon \<Rightarrow> daemon \<Rightarrow> bool" where
  "fd_frame d s t \<longleftrightarrow> (\<exists>u n. t = s\<lparr>trace := trace s @ u, devs := (devs s)(d := (devs s d)\<lparr>dev_fd := n\<rparr>)\<rparr>)"

lemma extends_fd_frame: "extends s t \<Longrightarrow> fd_frame d s t"
proof -
  assume "extends s t"
  then obtain u where "t = s\<lparr>trace := trace s @ u\<rparr>" unfolding extends_def ..
  then have "t = s\<lparr>trace := trace s @ u, devs := (devs s)(d := (devs s d)\<lparr>dev_fd := dev_fd (devs s d)\<rparr>)\<rparr>"
    by simp
  then show "fd_frame d s t" unfolding fd_frame_def by blast
qed

interpretation fdf: frame "fd_frame d" for d
proof
  show "fd_frame d s s" for s by (rule extends_fd_frame) simp
next
  fix s t r assume "fd_frame d s t" "fd_frame d t r"
  then obtain u v n where
    "r = s\<lparr>trace := trace s @ u @ v, devs := (devs s)(d := (devs s d)\<lparr>dev_fd := n\<rparr>)\<rparr>"
    unfolding fd_frame_def by fastforce
  then show "fd_frame d s r" unfolding fd_frame_def by blast
qed

lemma fd_frame_io: "io_only m \<Longrightarrow> within (fd_frame d) m"
  by (erule within_mono) (rule extends_fd_frame)

lemma fd_frame_set_fd [frame_rules]: "within (fd_frame d) (set_dev d (\<lambda>v. v\<lparr>dev_fd := n\<rparr>))"
proof (rule withinI)
  fix s :: daemon
  have "s\<lparr>devs := (devs s)(d := (devs s d)\<lparr>dev_fd := n\<rparr>)\<rparr> =
    s\<lparr>trace := trace s @ [], devs := (devs s)(d := (devs s d)\<lparr>dev_fd := n\<rparr>)\<rparr>" by simp
  then show "case set_dev d (\<lambda>v. v\<lparr>dev_fd := n\<rparr>) s of
      Run x t \<Rightarrow> fd_frame d s t | Halt h t \<Rightarrow> orderly h \<and> fd_frame d s t"
    unfolding fd_frame_def set_dev_def upd_def outcome.case by blast
qed

lemma fd_frame_free [frame_rules]: "within (fd_frame d) (dev_free w d)"
  unfolding dev_free_def ttys_close_def
  by (cases d) (auto simp del: sq.simps intro!: fdf.within_sq_Cons fdf.within_sq_Nil fd_frame_set_fd
      fdf.within_look fd_frame_io [OF io_only_emit] fd_frame_io [OF io_only_ttys(3)]
      fd_frame_io [OF io_only_lp_free] fd_frame_io [OF io_only_null(4)])

lemma fd_frame_init [frame_rules]: "within (fd_frame d) (dev_init w d fd)"
  unfolding dev_init_def ttys_init_def lp_init_def null_init_def
  by (cases d) (auto simp del: sq.simps intro!: fdf.within_sq_Cons fdf.within_sq_Nil fd_frame_set_fd
      fdf.within_guard fd_frame_io [OF io_only_ttys(3)] fd_frame_io [OF io_only_lp_reset]
      fd_frame_io [OF io_only_claim_or_exit] fd_frame_io [OF io_only_parport_control])

text \<open>Initialising a device makes it use the given descriptor.\<close>

lemma set_then_io:
  assumes "bnd (set_dev d f) (\<lambda>_. m) s = Run () t" and "io_only m"
  shows "devs t d = f (devs s d)"
proof -
  from assms(1) have "m (s\<lparr>devs := (devs s)(d := f (devs s d))\<rparr>) = Run () t"
    by (simp add: prog_simps)
  from within_Run [OF assms(2) this] show ?thesis by (auto simp: extends_def)
qed

lemma dev_init_fd: "dev_init w d fd s = Run () t \<Longrightarrow> dev_fd (devs t d) = fd"
proof (cases d)
  case Dev_Null
  assume "dev_init w d fd s = Run () t"
  with Dev_Null show ?thesis by (auto simp: dev_init_def null_init_def prog_simps)
next
  case Dev_Ttys
  assume "dev_init w d fd s = Run () t"
  with Dev_Ttys have "bnd (set_dev d (\<lambda>v. v\<lparr>dev_fd := fd\<rparr>)) (\<lambda>_. sq [ttys_reset_pins_state w d]) s = Run () t"
    by (simp add: dev_init_def ttys_init_def)
  from set_then_io [OF this] show ?thesis by (simp add: frame_rules del: sq.simps)
next
  case Dev_Lp
  assume "dev_init w d fd s = Run () t"
  with Dev_Lp obtain r where
    "bnd (set_dev d (\<lambda>v. v\<lparr>dev_fd := fd\<rparr>)) (\<lambda>_. sq [lp_reset_pins_state w d]) r = Run () t"
    by (auto simp: dev_init_def lp_init_def bnd_def split: outcome.splits)
  from set_then_io [OF this] show ?thesis by (simp add: frame_rules del: sq.simps)
qed

lemma dev_only_fd: "within (fd_frame d) m \<Longrightarrow> dev_only m"
proof (erule within_mono)
  fix s t assume "fd_frame d s t"
  then obtain u n where
    "t = s\<lparr>trace := trace s @ u, devs := (devs s)(d := (devs s d)\<lparr>dev_fd := n\<rparr>), global_cwdevice := global_cwdevice s\<rparr>"
    unfolding fd_frame_def by auto
  then show "dev_frame s t" unfolding dev_frame_def by blast
qed

lemma dev_only_release [frame_rules]: "dev_only (release_device w old)"
  unfolding release_device_def
  by (intro dvf.within_option dvf.within_ret dvf.within_sq_Cons dvf.within_sq_Nil dev_only_set_dev
      dev_only_fd [OF fd_frame_free])

lemma dev_only_cwdevice_set [frame_rules]: "dev_only (cwdaemon_cwdevice_set w desc)"
  unfolding cwdaemon_cwdevice_set_def Let_def
  by (intro dvf.within_look dvf.within_bnd dvf.within_option dvf.within_ret dvf.within_prod dvf.within_if
      dvf.within_sq_Cons dvf.within_sq_Nil dev_only_set_dev dev_only_set_global dev_only_release
      dev_only_fd [OF fd_frame_init] dev_only_io [OF io_only_probe_all] dev_only_io [OF io_only_strdup])

lemma dev_only_option_cwdevice [frame_rules]: "dev_only (cwdaemon_option_cwdevice w v)"
  unfolding cwdaemon_option_cwdevice_def
  by (intro dvf.within_option dvf.within_ret dvf.within_bnd dvf.within_if dev_only_cwdevice_set)

lemma release_device_Run:
  assumes "release_device w old s = Run () t"
  shows "global_cwdevice t = global_cwdevice s" "opt_key (devs t e) = opt_key (devs s e)"
    "opt_ptt (devs t e) = opt_ptt (devs s e)"
proof -
  have "global_cwdevice t = global_cwdevice s \<and> opt_key (devs t e) = opt_key (devs s e) \<and>
    opt_ptt (devs t e) = opt_ptt (devs s e)"
  proof (cases old)
    case None
    with assms show ?thesis by (simp add: release_device_def ret_def)
  next
    case (Some d)
    with assms obtain r where r: "dev_free w d s = Run () r"
      and t: "t = r\<lparr>devs := (devs r)(d := (devs r d)\<lparr>dev_desc := None\<rparr>)\<rparr>"
      by (auto simp: release_device_def prog_simps split: outcome.splits)
    from within_Run [OF fd_frame_free r] t show ?thesis by (auto simp: fd_frame_def)
  qed
  then show "global_cwdevice t = global_cwdevice s" "opt_key (devs t e) = opt_key (devs s e)"
    "opt_ptt (devs t e) = opt_ptt (devs s e)" by simp_all
qed

text \<open>
  C18: when selecting a device by name reports success, the current device is the object some probe
  chose, it carries the given name and the descriptor the probe opened, and the assignment of
  functions to serial lines made on the command line is what it was.
\<close>

theorem cwdevice_set_selects:
  assumes "cwdaemon_cwdevice_set w desc s = Run True t"
  shows "\<exists>d fd r. probe_all w desc s = Run (Some (d, fd)) r \<and> global_cwdevice t = Some d \<and>
    dev_fd (devs t d) = fd \<and> dev_desc (devs t d) = Some desc \<and>
    (\<forall>e. opt_key (devs t e) = opt_key (devs s e) \<and> opt_ptt (devs t e) = opt_ptt (devs s e))"
proof -
  obtain d fd r where r: "probe_all w desc s = Run (Some (d, fd)) r"
    using assms by (auto simp: cwdaemon_cwdevice_set_def look_def bnd_def ret_def Let_def
        split: outcome.splits option.splits)
  then have sr: "extends s r" by (rule within_Run [OF io_only_probe_all])
  let ?a = "sq [upd (\<lambda>s. s\<lparr>global_cwdevice := Some d\<rparr>), release_device w (global_cwdevice s),
    set_dev d (\<lambda>v. v\<lparr>dev_desc := None\<rparr>)]"
  from assms r obtain a b where
    a: "?a r = Run () a" and b: "b = a\<lparr>trace := trace a @ [Strdup desc], devs := (devs a)(d := (devs a d)\<lparr>dev_desc := Some desc\<rparr>)\<rparr>"
    and t: "dev_init w d fd b = Run () t"
    by (auto simp: cwdaemon_cwdevice_set_def look_def bnd_def [of _ _ s] ret_def Let_def prog_simps
        simp del: sq.simps split: outcome.splits if_splits)
  have opts: "global_cwdevice a = Some d \<and> opt_key (devs a e) = opt_key (devs s e) \<and> opt_ptt (devs a e) = opt_ptt (devs s e)" for e
  proof -
    from a obtain a' where a': "release_device w (global_cwdevice s) (r\<lparr>global_cwdevice := Some d\<rparr>) = Run () a'"
      and aa: "a = a'\<lparr>devs := (devs a')(d := (devs a' d)\<lparr>dev_desc := None\<rparr>)\<rparr>"
      by (auto simp: prog_simps split: outcome.splits)
    from release_device_Run(1) [OF a'] release_device_Run(2,3) [OF a', of e] aa sr show ?thesis by (auto simp: extends_def)
  qed
  from within_Run [OF fd_frame_init t] b opts have
    "global_cwdevice t = Some d" "dev_desc (devs t d) = Some desc"
    "opt_key (devs t e) = opt_key (devs s e)" "opt_ptt (devs t e) = opt_ptt (devs s e)" for e
    by (auto simp: fd_frame_def)
  with r dev_init_fd [OF t] show ?thesis by blast
qed

theorem cwdevice_set_selects_witness:
  "\<exists>t. cwdaemon_cwdevice_set (example_env []) ''ttyS1'' tty_state = Run True t \<and>
    (\<exists>d fd r. probe_all (example_env []) ''ttyS1'' tty_state = Run (Some (d, fd)) r \<and>
      global_cwdevice t = Some d \<and> dev_fd (devs t d) = fd \<and> dev_desc (devs t d) = Some ''ttyS1'')"
proof -
  have "tty_probe_cwdevice (example_env []) ''ttyS1'' s = Run 3 (s\<lparr>trace := trace s @
      [Open ''/dev/ttyS1'' [O_RDWR, O_NOCTTY, O_NONBLOCK], Fstat 3, Ioctl 3 TIOCMGET]\<rparr>)" for s
    by (simp add: tty_probe_cwdevice_def probe_cwdevice_def build_full_device_path_spec MAXPATHLEN_def
        dev_path_def INT_MAX_def prog_simps Let_def example_env_def answer_def S_IFMT_def S_IFCHR_def)
  then obtain t where t: "cwdaemon_cwdevice_set (example_env []) ''ttyS1'' tty_state = Run True t"
    by (simp add: cwdaemon_cwdevice_set_def probe_all_def release_device_def dev_free_def ttys_close_def
        ttys_reset_pins_state_def ttys_cw_def ttys_ptt_def dev_init_def ttys_init_def prog_simps Let_def
        tty_state_def daemon_init_def example_env_def answer_def)
  from cwdevice_set_selects [OF t] t show ?thesis by blast
qed

end
