(* ===== verification/Sleep.thy ===== *)
theory Sleep
  imports Daemon
begin

text \<open>
  Models \<^verbatim>\<open>src/src/sleep.c\<close>: the sleep functions that resume after a signal. How often
  \<open>nanosleep\<close> is interrupted is up to the environment, so the loop is a partial function: \<open>None\<close>
  is a sleep that never ends. Arguments are C's \<open>unsigned int\<close>, with its wrap-around.
\<close>

definition CWDAEMON_MICROSECS_PER_MILLISEC :: nat where "CWDAEMON_MICROSECS_PER_MILLISEC = 1000"
definition CWDAEMON_NANOSECS_PER_MICROSEC :: int where "CWDAEMON_NANOSECS_PER_MICROSEC = 1000"

section \<open>Model\<close>

text \<open>
  The \<open>do ... while\<close> loop of both functions: a request (seconds, nanoseconds) and the history of
  calls give the returned value and the new history.
\<close>

partial_function (option) nanosleep_loop ::
  "env \<Rightarrow> int \<times> int \<Rightarrow> call list \<Rightarrow> (int \<times> call list) option" where
  "nanosleep_loop w req t =
     (let t' = t @ [Nanosleep (fst req) (snd req)]
      in if ret_of w t' \<noteq> 0
         then if errno_of w t' = EINTR then nanosleep_loop w (out_time w t') t' else Some (- 1, t')
         else Some (0, t'))"

definition nanosleep_nonintr :: "env \<Rightarrow> int \<times> int \<Rightarrow> int act" where
  "nanosleep_nonintr w req s = (case nanosleep_loop w req (trace s) of
     None \<Rightarrow> Halt Hangs s
   | Some (r, t) \<Rightarrow> Run r (s\<lparr>trace := t\<rparr>))"

definition microsleep_nonintr :: "env \<Rightarrow> 32 word \<Rightarrow> int act" where
  "microsleep_nonintr w usecs =
     (let seconds = uint usecs div CWDAEMON_MICROSECS_PER_SEC;
          micros = uint usecs mod CWDAEMON_MICROSECS_PER_SEC
      in nanosleep_nonintr w (seconds, micros * CWDAEMON_NANOSECS_PER_MICROSEC))"

definition millisleep_nonintr :: "env \<Rightarrow> 32 word \<Rightarrow> int act" where
  "millisleep_nonintr w millisecs =
     microsleep_nonintr w (millisecs * of_nat CWDAEMON_MICROSECS_PER_MILLISEC)"

definition sleep_nonintr :: "env \<Rightarrow> 32 word \<Rightarrow> int act" where
  "sleep_nonintr w secs = nanosleep_nonintr w (uint secs, 0)"

section \<open>Time slept\<close>

definition ns_of :: "int \<times> int \<Rightarrow> int" where
  "ns_of req = fst req * 1000000000 + snd req"

text \<open>
  The time spent in the calls \<open>u\<close> made after the history \<open>t\<close>: the whole request of a call that
  succeeds, the request less what the kernel reports as remaining of one that fails.
\<close>

fun slept :: "env \<Rightarrow> call list \<Rightarrow> call list \<Rightarrow> int" where
  "slept w t [] = 0"
| "slept w t (c # u) =
     (case c of
        Nanosleep sc ns \<Rightarrow>
          ns_of (sc, ns) - (if ret_of w (t @ [c]) \<noteq> 0 then ns_of (out_time w (t @ [c])) else 0)
      | _ \<Rightarrow> 0) + slept w (t @ [c]) u"

definition only_naps :: "call list \<Rightarrow> bool" where
  "only_naps u \<longleftrightarrow> (\<forall>c \<in> set u. \<exists>sc ns. c = Nanosleep sc ns)"

text \<open>Whatever the interruptions, a loop that reports success slept exactly as long as asked.\<close>

lemma nanosleep_loop_slept:
  assumes "nanosleep_loop w req t = Some (r, t')"
  shows "\<exists>u. t' = t @ u \<and> only_naps u \<and> u \<noteq> [] \<and>
    hd u = Nanosleep (fst req) (snd req) \<and> (r = 0 \<or> r = - 1) \<and> (r = 0 \<longrightarrow> slept w t u = ns_of req)"
proof -
  let ?P = "\<lambda>w req t (rt :: int \<times> call list). \<exists>u. snd rt = t @ u \<and> only_naps u \<and> u \<noteq> [] \<and>
    hd u = Nanosleep (fst req) (snd req) \<and> (fst rt = 0 \<or> fst rt = - 1) \<and>
    (fst rt = 0 \<longrightarrow> slept w t u = ns_of req)"
  have "?P w req t (r, t')"
  proof (rule nanosleep_loop.raw_induct [where P = ?P, OF _ assms])
    fix f w req t and rt :: "int \<times> call list"
    assume IH: "\<And>w req t rt. f w req t = Some rt \<Longrightarrow> ?P w req t rt"
      and eq: "(let t' = t @ [Nanosleep (fst req) (snd req)]
        in if ret_of w t' \<noteq> 0
           then if errno_of w t' = EINTR then f w (out_time w t') t' else Some (- 1, t')
           else Some (0, t')) = Some rt"
    let ?c = "Nanosleep (fst req) (snd req)"
    show "?P w req t rt"
    proof (cases "ret_of w (t @ [?c]) \<noteq> 0 \<and> errno_of w (t @ [?c]) = EINTR")
      case True
      with eq have "f w (out_time w (t @ [?c])) (t @ [?c]) = Some rt" by (simp add: Let_def)
      from IH [OF this] obtain u where u: "snd rt = t @ ?c # u" "only_naps u"
        "fst rt = 0 \<or> fst rt = - 1"
        "fst rt = 0 \<longrightarrow> slept w (t @ [?c]) u = ns_of (out_time w (t @ [?c]))" by auto
      with True show ?thesis
        by (intro exI [of _ "?c # u"]) (auto simp: only_naps_def ns_of_def)
    next
      case False
      with eq have "rt = (if ret_of w (t @ [?c]) = 0 then 0 else - 1, t @ [?c])"
        by (auto simp: Let_def split: if_splits)
      then show ?thesis
        by (intro exI [of _ "[?c]"]) (auto simp: only_naps_def ns_of_def)
    qed
  qed
  then show ?thesis by simp
qed

text \<open>A bound on the number of interruptions after a history is a bound on the loop.\<close>

fun interrupted_at_most :: "env \<Rightarrow> nat \<Rightarrow> int \<times> int \<Rightarrow> call list \<Rightarrow> bool" where
  "interrupted_at_most w n req t =
     (let t' = t @ [Nanosleep (fst req) (snd req)]
      in ret_of w t' = 0 \<or> errno_of w t' \<noteq> EINTR \<or>
         (case n of 0 \<Rightarrow> False | Suc m \<Rightarrow> interrupted_at_most w m (out_time w t') t'))"

declare interrupted_at_most.simps [simp del]

lemma nanosleep_loop_ends:
  "interrupted_at_most w n req t \<Longrightarrow> nanosleep_loop w req t \<noteq> None"
proof (induction n arbitrary: req t)
  case 0
  then show ?case
    by (subst nanosleep_loop.simps) (auto simp: interrupted_at_most.simps [of w 0] Let_def)
next
  case (Suc n)
  let ?t = "t @ [Nanosleep (fst req) (snd req)]"
  from Suc.prems have "ret_of w ?t = 0 \<or> errno_of w ?t \<noteq> EINTR \<or> nanosleep_loop w (out_time w ?t) ?t \<noteq> None"
    using Suc.IH [of "out_time w ?t" ?t] by (simp only: interrupted_at_most.simps [of w "Suc n"] Let_def nat.case) blast
  then show ?case
    by (subst nanosleep_loop.simps) (auto simp: Let_def)
qed

section \<open>Properties\<close>

lemma nanosleep_nonintr_frame:
  "case nanosleep_nonintr w req s of
     Run r t \<Rightarrow> \<exists>u. t = s\<lparr>trace := trace s @ u\<rparr> \<and> only_naps u | Halt h t \<Rightarrow> h = Hangs \<and> t = s"
  by (auto simp: nanosleep_nonintr_def dest: nanosleep_loop_slept split: option.splits)

lemma millisleep_nonintr_frame:
  "case millisleep_nonintr w ms s of
     Run r t \<Rightarrow> \<exists>u. t = s\<lparr>trace := trace s @ u\<rparr> \<and> only_naps u | Halt h t \<Rightarrow> h = Hangs \<and> t = s"
  unfolding millisleep_nonintr_def microsleep_nonintr_def Let_def by (rule nanosleep_nonintr_frame)

lemma io_only_millisleep [frame_rules]: "io_only (millisleep_nonintr w ms)"
proof (rule withinI)
  fix s
  show "case millisleep_nonintr w ms s of
      Run r t \<Rightarrow> extends s t | Halt h t \<Rightarrow> orderly h \<and> extends s t"
    using millisleep_nonintr_frame [where w = w and ms = ms and s = s]
    by (auto split: outcome.splits)
qed

text \<open>
  C20: a microsecond sleep asks \<open>nanosleep\<close> only for valid times (fewer than 10^9 nanoseconds), makes
  no other call, changes nothing but the history, and when it returns 0 the process has slept
  exactly \<open>usecs\<close> microseconds however many signals arrived.
\<close>

theorem microsleep_exact:
  assumes "microsleep_nonintr w usecs s = Run 0 t"
  shows "\<exists>u. t = s\<lparr>trace := trace s @ u\<rparr> \<and> only_naps u \<and> slept w (trace s) u = uint usecs * 1000 \<and>
    hd u = Nanosleep (uint usecs div 1000000) (uint usecs mod 1000000 * 1000) \<and>
    uint usecs mod 1000000 * 1000 < 1000000000"
proof -
  let ?req = "(uint usecs div 1000000, uint usecs mod 1000000 * 1000)"
  from assms obtain t' where t': "nanosleep_loop w ?req (trace s) = Some (0, t')" "t = s\<lparr>trace := t'\<rparr>"
    by (auto simp: microsleep_nonintr_def nanosleep_nonintr_def CWDAEMON_MICROSECS_PER_SEC_def
        CWDAEMON_NANOSECS_PER_MICROSEC_def split: option.splits)
  from nanosleep_loop_slept [OF t'(1)] obtain u where
    u: "t' = trace s @ u" "only_naps u" "hd u = Nanosleep (fst ?req) (snd ?req)" "slept w (trace s) u = ns_of ?req" by auto
  have "ns_of ?req = uint usecs * 1000"
  proof -
    have "q * 1000000000 + r * 1000 = (q * 1000000 + r) * 1000" for q r :: int by simp
    then show ?thesis by (simp only: ns_of_def fst_conv snd_conv div_mult_mod_eq)
  qed
  moreover have "uint usecs mod 1000000 * 1000 < 1000000000"
    using pos_mod_bound [of 1000000 "uint usecs"] by linarith
  ultimately show ?thesis
    using t'(2) u by (intro exI [of _ u] conjI) (simp_all only: fst_conv snd_conv)
qed

text \<open>
  A kernel in which the first sleep is interrupted with 1.5 ms left and every later one succeeds.
\<close>

definition one_signal :: env where
  "one_signal = (example_env [])\<lparr>ret_of := (\<lambda>t. if length t = 1 then - 1 else 0),
     errno_of := (\<lambda>_. EINTR), out_time := (\<lambda>_. (0, 1500000))\<rparr>"

lemma one_signal_run:
  "microsleep_nonintr one_signal 20000 daemon_init =
     Run 0 (daemon_init\<lparr>trace := [Nanosleep 0 20000000, Nanosleep 0 1500000]\<rparr>)"
  by (simp add: microsleep_nonintr_def nanosleep_nonintr_def nanosleep_loop.simps one_signal_def
      daemon_init_def CWDAEMON_MICROSECS_PER_SEC_def CWDAEMON_NANOSECS_PER_MICROSEC_def)

theorem microsleep_exact_witness:
  "\<exists>u. daemon_init\<lparr>trace := [Nanosleep 0 20000000, Nanosleep 0 1500000]\<rparr> =
      daemon_init\<lparr>trace := trace daemon_init @ u\<rparr> \<and> only_naps u \<and>
    slept one_signal (trace daemon_init) u = 20000000"
  using microsleep_exact [OF one_signal_run] by auto

text \<open>
  C21: a sleep returns, with 0 or -1, whenever the number of signals that interrupt it is bounded,
  whatever the bound.
\<close>

theorem microsleep_returns:
  assumes "interrupted_at_most w n
    (uint usecs div 1000000, uint usecs mod 1000000 * 1000) (trace s)"
  shows "\<exists>r t. microsleep_nonintr w usecs s = Run r t \<and> (r = 0 \<or> r = - 1)"
proof -
  from nanosleep_loop_ends [OF assms] obtain r t where
    "nanosleep_loop w (uint usecs div 1000000, uint usecs mod 1000000 * 1000) (trace s) = Some (r, t)"
    by auto
  with nanosleep_loop_slept [OF this] show ?thesis
    by (auto simp: microsleep_nonintr_def nanosleep_nonintr_def CWDAEMON_MICROSECS_PER_SEC_def
        CWDAEMON_NANOSECS_PER_MICROSEC_def)
qed

theorem microsleep_returns_witness:
  "\<exists>r t. microsleep_nonintr one_signal 20000 daemon_init = Run r t \<and> (r = 0 \<or> r = - 1)"
  by (rule microsleep_returns [of _ 1])
    (simp add: interrupted_at_most.simps one_signal_def daemon_init_def)

end
