(* ===== verification/Options.thy ===== *)
theory Options
  imports Daemon
begin

text \<open>
  Models the functions that parse one value of a command line option or of an Escape request:
  \<open>cwdaemon_params_*\<close> of \<^verbatim>\<open>src/src/cwdaemon.c\<close> and \<open>cwdaemon_option_*\<close> of
  \<^verbatim>\<open>src/src/options.c\<close>. A parser gets the old value of the variable its pointer argument points
  to and yields its result together with the new value. The locale \<open>ranged_option\<close> is the contract
  of the parsers of bounded numbers.
\<close>

text \<open>Conversion of a \<open>long\<close> to \<open>int\<close>.\<close>

definition c_int :: "int \<Rightarrow> int" where
  "c_int v = sint (word_of_int v :: 32 word)"

lemma c_int_id: "- 2147483648 \<le> v \<Longrightarrow> v \<le> 2147483647 \<Longrightarrow> c_int v = v"
  by (simp add: c_int_def sint_sbintrunc' signed_take_bit_int_eq_self)

section \<open>Model\<close>

definition cwdaemon_params_priority :: "string option \<Rightarrow> int \<Rightarrow> bool \<times> int" where
  "cwdaemon_params_priority optarg priority = (case cwdaemon_get_long optarg of
     None \<Rightarrow> (False, priority)
   | Some lv \<Rightarrow> if lv < - 20 \<or> lv > 20 then (False, priority) else (True, c_int lv))"

definition cwdaemon_params_wpm :: "env \<Rightarrow> string option \<Rightarrow> int \<Rightarrow> bool \<times> int" where
  "cwdaemon_params_wpm w optarg wpm = (case cwdaemon_get_long optarg of
     None \<Rightarrow> (False, wpm)
   | Some lv \<Rightarrow> if lv < CW_SPEED_MIN w \<or> lv > CW_SPEED_MAX w then (False, wpm) else (True, c_int lv))"

definition cwdaemon_params_tune :: "string option \<Rightarrow> 32 word \<Rightarrow> bool \<times> 32 word" where
  "cwdaemon_params_tune optarg seconds = (case cwdaemon_get_long optarg of
     None \<Rightarrow> (False, seconds)
   | Some lv \<Rightarrow> if lv < 0 \<or> lv > CWDAEMON_TUNE_SECONDS_MAX then (False, seconds)
       else (True, word_of_int lv))"

definition cwdaemon_params_pttdelay :: "string option \<Rightarrow> 32 word \<Rightarrow> int \<times> 32 word" where
  "cwdaemon_params_pttdelay optarg delay_ms = (case cwdaemon_get_long optarg of
     None \<Rightarrow> (0, delay_ms)
   | Some lv \<Rightarrow>
       if lv > CWDAEMON_PTT_DELAY_MAX then (2, word_of_int CWDAEMON_PTT_DELAY_MAX)
       else if lv < CWDAEMON_PTT_DELAY_MIN then (0, delay_ms)
       else (1, word_of_int lv))"

definition cwdaemon_params_volume :: "env \<Rightarrow> string option \<Rightarrow> int \<Rightarrow> bool \<times> int" where
  "cwdaemon_params_volume w optarg volume = (case cwdaemon_get_long optarg of
     None \<Rightarrow> (False, volume)
   | Some lv \<Rightarrow> if lv < CW_VOLUME_MIN w \<or> lv > CW_VOLUME_MAX w then (False, volume)
       else (True, c_int lv))"

definition cwdaemon_params_weighting :: "string option \<Rightarrow> int \<Rightarrow> bool \<times> int" where
  "cwdaemon_params_weighting optarg weighting = (case cwdaemon_get_long optarg of
     None \<Rightarrow> (False, weighting)
   | Some lv \<Rightarrow>
       if lv < CWDAEMON_MORSE_WEIGHTING_MIN \<or> lv > CWDAEMON_MORSE_WEIGHTING_MAX then (False, weighting)
       else (True, c_int lv))"

definition cwdaemon_params_tone :: "env \<Rightarrow> string option \<Rightarrow> int \<Rightarrow> bool \<times> int" where
  "cwdaemon_params_tone w optarg tone = (case cwdaemon_get_long optarg of
     None \<Rightarrow> (False, tone)
   | Some lv \<Rightarrow> if lv < CW_FREQUENCY_MIN w \<or> lv > CW_FREQUENCY_MAX w then (False, tone)
       else (True, c_int lv))"

text \<open>\<open>strncmp (optarg, "n", 1) = 0\<close> compares the first character, which an empty string lacks.\<close>

definition cwdaemon_params_system :: "string option \<Rightarrow> audio \<Rightarrow> bool \<times> audio" where
  "cwdaemon_params_system optarg system = (case optarg of
     None \<Rightarrow> (False, system)
   | Some s \<Rightarrow>
       if take 1 s = ''n'' then (True, CW_AUDIO_NULL)
       else if take 1 s = ''c'' then (True, CW_AUDIO_CONSOLE)
       else if take 1 s = ''s'' then (True, CW_AUDIO_SOUNDCARD)
       else if take 1 s = ''a'' then (True, CW_AUDIO_ALSA)
       else if take 1 s = ''p'' then (True, CW_AUDIO_PA)
       else if take 1 s = ''o'' then (True, CW_AUDIO_OSS)
       else (False, system))"

definition cwdaemon_params_debugfile :: "env \<Rightarrow> string option \<Rightarrow> bool act" where
  "cwdaemon_params_debugfile w optarg = (case optarg of
     None \<Rightarrow> ret False
   | Some s \<Rightarrow>
       if s = ''syslog'' then ret False
       else bnd (strdup w s) (\<lambda>copy.
         bnd (upd (\<lambda>t. t\<lparr>cwdaemon_debug_f_path := copy\<rparr>)) (\<lambda>_. ret (copy \<noteq> None))))"

definition cwdaemon_params_nofork :: "unit act" where
  "cwdaemon_params_nofork = look (\<lambda>s. guard (g_forking s) (upd (\<lambda>s. s\<lparr>g_forking := False\<rparr>)))"

definition cwdaemon_option_network_port :: "string option \<Rightarrow> 16 word \<Rightarrow> int \<times> 16 word" where
  "cwdaemon_option_network_port opt_value port =
     (let port_min = CWDAEMON_NETWORK_PORT_MIN; port_max = CWDAEMON_NETWORK_PORT_MAX
      in case cwdaemon_get_long opt_value of
           None \<Rightarrow> (- 1, port)
         | Some lv \<Rightarrow> if lv < port_min \<or> lv > port_max then (- 1, port) else (0, word_of_int lv))"

definition cwdaemon_option_libcwflags :: "string option \<Rightarrow> 32 word \<Rightarrow> int \<times> 32 word" where
  "cwdaemon_option_libcwflags opt_value flags = (case cwdaemon_get_long opt_value of
     None \<Rightarrow> (- 1, flags) | Some lv \<Rightarrow> (0, word_of_int lv))"

definition cwdaemon_option_inc_verbosity :: "int \<Rightarrow> int" where
  "cwdaemon_option_inc_verbosity threshold = (if threshold < LOG_DEBUG then threshold + 1 else threshold)"

definition cwdaemon_option_set_verbosity :: "string option \<Rightarrow> int \<Rightarrow> int \<times> int" where
  "cwdaemon_option_set_verbosity opt_value threshold = (case opt_value of
     None \<Rightarrow> (- 1, threshold)
   | Some s \<Rightarrow>
       if s = [] then (- 1, threshold)
       else let c = to_lower (hd s)
            in if c = CHR ''n'' then (0, LOG_CRIT)
               else if c = CHR ''e'' then (0, LOG_ERR)
               else if c = CHR ''w'' then (0, LOG_WARNING)
               else if c = CHR ''i'' then (0, LOG_INFO)
               else if c = CHR ''d'' then (0, LOG_DEBUG)
               else (- 1, threshold))"

section \<open>The contract of bounded options\<close>

text \<open>\<open>arg\<close> is the decimal notation (sign, leading white space allowed) of \<open>v\<close>, a number from \<open>lo\<close> to \<open>hi\<close>.\<close>

definition number_in :: "string option \<Rightarrow> int \<Rightarrow> int \<Rightarrow> int \<Rightarrow> bool" where
  "number_in arg lo hi v \<longleftrightarrow> (\<exists>s. arg = Some s \<and> decimal_syntax s v \<and> fits_long v) \<and> lo \<le> v \<and> v \<le> hi"

text \<open>
  \<open>lo\<close> and \<open>hi\<close> bound the number, \<open>conv\<close> stores it in the variable. \<open>limits\<close> is what has to be
  known of bounds that come from libcw.
\<close>

locale ranged_option =
  fixes parse :: "string option \<Rightarrow> 'v \<Rightarrow> bool \<times> 'v" and lo hi :: int
    and conv :: "int \<Rightarrow> 'v" and limits :: bool
  assumes parse_none: "cwdaemon_get_long arg = None \<Longrightarrow> parse arg old = (False, old)"
    and parse_out: "cwdaemon_get_long arg = Some v \<Longrightarrow> v < lo \<or> hi < v \<Longrightarrow> parse arg old = (False, old)"
    and parse_in: "limits \<Longrightarrow> cwdaemon_get_long arg = Some v \<Longrightarrow> lo \<le> v \<Longrightarrow> v \<le> hi \<Longrightarrow>
      parse arg old = (True, conv v)"
begin

text \<open>A rejected value leaves the variable alone, an accepted one puts it in range.\<close>

lemma parse_cases:
  assumes limits
  shows "parse arg old = (False, old) \<or> (\<exists>v. lo \<le> v \<and> v \<le> hi \<and> cwdaemon_get_long arg = Some v \<and> parse arg old = (True, conv v))"
proof (cases "cwdaemon_get_long arg")
  case None
  then show ?thesis by (simp add: parse_none)
next
  case (Some v)
  then show ?thesis
    using parse_out [OF Some] parse_in [OF assms Some] by (cases "lo \<le> v \<and> v \<le> hi") auto
qed

lemma accepts_iff:
  assumes limits
  shows "parse arg old = (True, x) \<longleftrightarrow>
    (\<exists>s v. arg = Some s \<and> decimal_syntax s v \<and> fits_long v \<and> lo \<le> v \<and> v \<le> hi \<and> x = conv v)"
proof -
  have "parse arg old = (True, x) \<longleftrightarrow> (\<exists>v. cwdaemon_get_long arg = Some v \<and> lo \<le> v \<and> v \<le> hi \<and> x = conv v)"
    using parse_cases [OF assms, of arg old] parse_in [OF assms] by auto
  then show ?thesis by (auto simp: get_long_char)
qed

text \<open>The verdict on every value, accepted or refused.\<close>

lemma verdict:
  assumes limits
  shows "parse arg old = (b, y) \<longleftrightarrow>
    (if b then \<exists>v. number_in arg lo hi v \<and> y = conv v else y = old \<and> (\<nexists>v. number_in arg lo hi v))"
  unfolding number_in_def get_long_char [symmetric]
  using parse_cases [OF assms, of arg old] parse_in [OF assms] by (cases b) fastforce+

text \<open>In either case the variable is as before or in range.\<close>

lemma parse_kept:
  "limits \<Longrightarrow> parse arg old = (b, y) \<Longrightarrow> y = old \<or> (\<exists>v. lo \<le> v \<and> v \<le> hi \<and> y = conv v)"
  using parse_cases [of arg old] by auto

text \<open>The decimal notation of every number in range is accepted and stores that number.\<close>

lemma accepts_show:
  assumes limits and "lo \<le> v" "v \<le> hi" "fits_long v"
  shows "parse (Some (show_long v)) old = (True, conv v)"
  using accepts_iff [OF assms(1), of "Some (show_long v)" old "conv v"] assms(2-) show_long_syntax
  by blast

end

text \<open>The bounds of libcw are numbers that fit in an \<open>int\<close>.\<close>

lemma libcw_limits_int:
  assumes "libcw_limits w"
  shows "CW_SPEED_MIN w \<le> v \<Longrightarrow> v \<le> CW_SPEED_MAX w \<Longrightarrow> c_int v = v"
    and "CW_FREQUENCY_MIN w \<le> v \<Longrightarrow> v \<le> CW_FREQUENCY_MAX w \<Longrightarrow> c_int v = v"
    and "CW_VOLUME_MIN w \<le> v \<Longrightarrow> v \<le> CW_VOLUME_MAX w \<Longrightarrow> c_int v = v"
  using assms by (auto simp: libcw_limits_def intro!: c_int_id)

interpretation wpm: ranged_option "cwdaemon_params_wpm w" "CW_SPEED_MIN w" "CW_SPEED_MAX w" id "libcw_limits w"
  for w
  by unfold_locales (auto simp: cwdaemon_params_wpm_def libcw_limits_int)

interpretation tone: ranged_option "cwdaemon_params_tone w" "CW_FREQUENCY_MIN w" "CW_FREQUENCY_MAX w" id
    "libcw_limits w" for w
  by unfold_locales (auto simp: cwdaemon_params_tone_def libcw_limits_int)

interpretation volume: ranged_option "cwdaemon_params_volume w" "CW_VOLUME_MIN w" "CW_VOLUME_MAX w" id
    "libcw_limits w" for w
  by unfold_locales (auto simp: cwdaemon_params_volume_def libcw_limits_int)

interpretation weighting: ranged_option cwdaemon_params_weighting CWDAEMON_MORSE_WEIGHTING_MIN
    CWDAEMON_MORSE_WEIGHTING_MAX id True
  by unfold_locales
    (auto simp: cwdaemon_params_weighting_def CWDAEMON_MORSE_WEIGHTING_MIN_def
      CWDAEMON_MORSE_WEIGHTING_MAX_def c_int_id)

interpretation priority: ranged_option cwdaemon_params_priority "- 20" 20 id True
  by unfold_locales (auto simp: cwdaemon_params_priority_def c_int_id)

interpretation tune: ranged_option cwdaemon_params_tune 0 CWDAEMON_TUNE_SECONDS_MAX word_of_int True
  by unfold_locales (auto simp: cwdaemon_params_tune_def)

definition port_option :: "string option \<Rightarrow> 16 word \<Rightarrow> bool \<times> 16 word" where
  "port_option arg old = (case cwdaemon_option_network_port arg old of (r, p) \<Rightarrow> (r = 0, p))"

interpretation port: ranged_option port_option CWDAEMON_NETWORK_PORT_MIN CWDAEMON_NETWORK_PORT_MAX word_of_int True
  by unfold_locales (auto simp: port_option_def cwdaemon_option_network_port_def Let_def)

section \<open>Properties\<close>

text \<open>
  C19: speed, tone, volume and weighting are set by exactly the numbers within the limits of libcw
  (of the program for the weighting), to that number; any other value is refused and leaves the
  variable as it was.
\<close>

theorem numeric_options:
  assumes "libcw_limits w"
  shows "(cwdaemon_params_wpm w arg x = (b, y) \<longleftrightarrow>
      (if b then number_in arg (CW_SPEED_MIN w) (CW_SPEED_MAX w) y
       else y = x \<and> (\<nexists>v. number_in arg (CW_SPEED_MIN w) (CW_SPEED_MAX w) v))) \<and>
    (cwdaemon_params_tone w arg x = (b, y) \<longleftrightarrow>
      (if b then number_in arg (CW_FREQUENCY_MIN w) (CW_FREQUENCY_MAX w) y
       else y = x \<and> (\<nexists>v. number_in arg (CW_FREQUENCY_MIN w) (CW_FREQUENCY_MAX w) v))) \<and>
    (cwdaemon_params_volume w arg x = (b, y) \<longleftrightarrow>
      (if b then number_in arg (CW_VOLUME_MIN w) (CW_VOLUME_MAX w) y
       else y = x \<and> (\<nexists>v. number_in arg (CW_VOLUME_MIN w) (CW_VOLUME_MAX w) v))) \<and>
    (cwdaemon_params_weighting arg x = (b, y) \<longleftrightarrow>
      (if b then number_in arg (- 50) 50 y else y = x \<and> (\<nexists>v. number_in arg (- 50) 50 v)))"
  using wpm.verdict [OF assms, of arg x b y] tone.verdict [OF assms, of arg x b y]
    volume.verdict [OF assms, of arg x b y] weighting.verdict [of arg x b y]
  by (simp add: CWDAEMON_MORSE_WEIGHTING_MIN_def CWDAEMON_MORSE_WEIGHTING_MAX_def)

theorem numeric_options_witness:
  "cwdaemon_params_wpm (example_env []) (Some ''30'') 24 = (True, 30) \<and> number_in (Some ''30'') 4 60 30"
proof -
  have "cwdaemon_params_wpm (example_env []) (Some ''30'') 24 = (True, 30)" by code_simp
  with numeric_options [OF example_limits [of "[]"], of "Some ''30''" 24 True 30] show ?thesis
    by (simp add: example_env_def)
qed

text \<open>
  C36: the PTT delay: a number from 0 to 50 is stored (result 1), a larger one is clipped to 50
  (result 2), a negative one and anything that is not a number is refused and changes nothing
  (result 0). So the stored delay never exceeds 50 ms if it did not before.
\<close>

theorem pttdelay_verdict:
  "cwdaemon_params_pttdelay arg old = (r, d) \<longleftrightarrow>
     (case cwdaemon_get_long arg of
        None \<Rightarrow> r = 0 \<and> d = old
      | Some v \<Rightarrow> if v < 0 then r = 0 \<and> d = old
          else if v \<le> 50 then r = 1 \<and> uint d = v else r = 2 \<and> uint d = 50)"
proof (cases "cwdaemon_get_long arg")
  case (Some v)
  have u: "uint (word_of_int v :: 32 word) = v" if "0 \<le> v" "v \<le> 50" for v
    using that by (simp add: uint_word_of_int_eq take_bit_int_eq_self)
  with Some show ?thesis
    by (auto simp: cwdaemon_params_pttdelay_def CWDAEMON_PTT_DELAY_MAX_def CWDAEMON_PTT_DELAY_MIN_def
        word_uint_eq_iff)
qed (auto simp: cwdaemon_params_pttdelay_def)

text \<open>
  The network port is set by exactly the decimal numbers from 1024 to 65535, to that number (the
  conversion to 16 bits loses nothing); in particular 65536 is refused.
\<close>

lemma network_port_range:
  "cwdaemon_option_network_port arg old = (0, p) \<longleftrightarrow>
     (\<exists>v. number_in arg 1024 65535 v \<and> uint p = v)"
proof -
  have "uint (word_of_int v :: 16 word) = v" if "1024 \<le> v" "v \<le> 65535" for v
    using that by (simp add: uint_word_of_int_eq take_bit_int_eq_self)
  moreover have "port_option arg old = (True, p) \<longleftrightarrow> cwdaemon_option_network_port arg old = (0, p)"
    by (auto simp: port_option_def split: prod.splits)
  ultimately show ?thesis
    using port.verdict [of arg old True p]
    by (auto simp: number_in_def CWDAEMON_NETWORK_PORT_MIN_def CWDAEMON_NETWORK_PORT_MAX_def
        word_uint_eq_iff)
qed

end
