(* ===== verification/Ptt.thy ===== *)
theory Ptt
  imports Output Sleep Options
begin

text \<open>
  Models the functions of \<^verbatim>\<open>src/src/cwdaemon.c\<close> that switch PTT: \<open>cwdaemon_set_ptt_on\<close>,
  \<open>cwdaemon_set_ptt_off\<close>, \<open>cwdaemon_tune\<close>, \<open>cwdaemon_params_ptt_on_off\<close> and
  \<open>cwdaemon_debug_ptt_flags\<close>. The state of PTT is the flag word \<open>ptt_flag\<close>, of which the three
  lowest bits are used.
\<close>

section \<open>Model\<close>

definition cwdaemon_debug_ptt_flags :: "8 word \<Rightarrow> string" where
  "cwdaemon_debug_ptt_flags f =
     [if f AND PTT_ACTIVE_AUTO \<noteq> 0 then CHR ''A'' else CHR ''a'',
      if f AND PTT_ACTIVE_MANUAL \<noteq> 0 then CHR ''M'' else CHR ''m'',
      if f AND PTT_ACTIVE_ECHO \<noteq> 0 then CHR ''E'' else CHR ''e'']"

definition set_flag :: "(8 word \<Rightarrow> 8 word) \<Rightarrow> unit act" where
  "set_flag f = upd (\<lambda>s. s\<lparr>ptt_flag := f (ptt_flag s)\<rparr>)"

definition cwdaemon_set_ptt_on :: "env \<Rightarrow> devid \<Rightarrow> unit act" where
  "cwdaemon_set_ptt_on w dev = look (\<lambda>s.
     guard (g_current_ptt_delay_ms s \<noteq> 0 \<and> \<not> (ptt_flag s AND PTT_ACTIVE_AUTO \<noteq> 0))
       (sq [dev_ptt w dev ON,
            bnd (millisleep_nonintr w (g_current_ptt_delay_ms s)) (\<lambda>_. ret ()),
            set_flag (\<lambda>f. f OR PTT_ACTIVE_AUTO)]))"

definition cwdaemon_set_ptt_off :: "env \<Rightarrow> devid \<Rightarrow> unit act" where
  "cwdaemon_set_ptt_off w dev = sq [dev_ptt w dev OFF, set_flag (\<lambda>_. 0)]"

definition cwdaemon_tune :: "env \<Rightarrow> 32 word \<Rightarrow> unit act" where
  "cwdaemon_tune w seconds =
     guard (seconds > 0)
       (sq [emit Cw_flush_tone_queue,
            with_device (cwdaemon_set_ptt_on w),
            look (\<lambda>s. sq (replicate (unat seconds)
              (emit (Cw_queue_tone CWDAEMON_MICROSECS_PER_SEC (current_morse_tone s))))),
            emit (Cw_send_character CHR ''e'')])"

text \<open>
  In the condition \<^verbatim>\<open>!(ptt_flag & !PTT_ACTIVE_AUTO)\<close> the operand \<^verbatim>\<open>!PTT_ACTIVE_AUTO\<close> is the
  logical negation, hence 0.
\<close>

definition logical_not :: "8 word \<Rightarrow> 8 word" where
  "logical_not x = (if x = 0 then 1 else 0)"

definition cwdaemon_params_ptt_on_off :: "env \<Rightarrow> string option \<Rightarrow> bool act" where
  "cwdaemon_params_ptt_on_off w optarg = (case cwdaemon_get_long optarg of
     None \<Rightarrow> ret False
   | Some lv \<Rightarrow> bnd (look (\<lambda>s.
       if lv \<noteq> 0 then
         sq [guard (g_current_ptt_delay_ms s \<noteq> 0) (with_device (cwdaemon_set_ptt_on w)),
             set_flag (\<lambda>f. f OR PTT_ACTIVE_MANUAL)]
       else guard (ptt_flag s AND PTT_ACTIVE_MANUAL \<noteq> 0)
         (sq [set_flag (\<lambda>f. f AND NOT PTT_ACTIVE_MANUAL),
              look (\<lambda>s. guard (\<not> (ptt_flag s AND logical_not PTT_ACTIVE_AUTO \<noteq> 0))
                (bnd (if request_queue s = [] then ask w Cw_get_tone_queue_length else ret 2)
                  (\<lambda>len. if len \<le> 1 then with_device (cwdaemon_set_ptt_off w)
                    else set_flag (\<lambda>f. f OR PTT_ACTIVE_AUTO))))])))
       (\<lambda>_. ret True))"

section \<open>Frame\<close>

text \<open>The frame "changes at most the flags, and sets only the three known ones".\<close>

definition ptt_frame :: "daemon \<Rightarrow> daemon \<Rightarrow> bool" where
  "ptt_frame s t \<longleftrightarrow> (\<exists>u f. t = s\<lparr>trace := trace s @ u, ptt_flag := f\<rparr> \<and>
     (ptt_flags_only (ptt_flag s) \<longrightarrow> ptt_flags_only f) \<and> (bit f 2 \<longrightarrow> bit (ptt_flag s) 2))"

abbreviation ptt_only :: "'a act \<Rightarrow> bool" where
  "ptt_only \<equiv> within ptt_frame"

lemma extends_ptt_frame: "extends s t \<Longrightarrow> ptt_frame s t"
proof -
  assume "extends s t"
  then obtain u where "t = s\<lparr>trace := trace s @ u\<rparr>" unfolding extends_def ..
  then have "t = s\<lparr>trace := trace s @ u, ptt_flag := ptt_flag s\<rparr>" by simp
  then show "ptt_frame s t" unfolding ptt_frame_def by blast
qed

interpretation ptf: frame ptt_frame
proof
  show "ptt_frame s s" for s by (rule extends_ptt_frame) simp
next
  fix s t r assume "ptt_frame s t" "ptt_frame t r"
  then obtain u v f where
    "r = s\<lparr>trace := trace s @ u @ v, ptt_flag := f\<rparr>"
    "ptt_flags_only (ptt_flag s) \<longrightarrow> ptt_flags_only f" "bit f 2 \<longrightarrow> bit (ptt_flag s) 2"
    unfolding ptt_frame_def by fastforce
  then show "ptt_frame s r" unfolding ptt_frame_def by blast
qed

lemma ptt_only_io: "io_only m \<Longrightarrow> ptt_only m"
  by (erule within_mono) (rule extends_ptt_frame)

lemma ptt_only_set_flag:
  "(\<And>f. (ptt_flags_only f \<longrightarrow> ptt_flags_only (g f)) \<and> (bit (g f) 2 \<longrightarrow> bit f 2)) \<Longrightarrow> ptt_only (set_flag g)"
proof (rule withinI)
  fix s :: daemon
  assume g: "\<And>f. (ptt_flags_only f \<longrightarrow> ptt_flags_only (g f)) \<and> (bit (g f) 2 \<longrightarrow> bit f 2)"
  have "s\<lparr>ptt_flag := g (ptt_flag s)\<rparr> = s\<lparr>trace := trace s @ [], ptt_flag := g (ptt_flag s)\<rparr>" by simp
  with g have "ptt_frame s (s\<lparr>ptt_flag := g (ptt_flag s)\<rparr>)" unfolding ptt_frame_def by blast
  then show "case set_flag g s of Run x t \<Rightarrow> ptt_frame s t | Halt h t \<Rightarrow> orderly h \<and> ptt_frame s t"
    by (simp add: set_flag_def upd_def)
qed

lemma ptt_only_flags [frame_rules]:
  "ptt_only (set_flag (\<lambda>f. f OR PTT_ACTIVE_AUTO))" "ptt_only (set_flag (\<lambda>f. f OR PTT_ACTIVE_MANUAL))"
  "ptt_only (set_flag (\<lambda>f. f AND NOT PTT_ACTIVE_MANUAL))" "ptt_only (set_flag (\<lambda>_. 0))"
  "ptt_only (set_flag (\<lambda>f. f AND NOT PTT_ACTIVE_ECHO))"
  by (rule ptt_only_set_flag; simp add: ptt_flag_bit_upd)+

lemma ptt_only_set_ptt [frame_rules]:
  "ptt_only (cwdaemon_set_ptt_on w d)" "ptt_only (cwdaemon_set_ptt_off w d)"
  unfolding cwdaemon_set_ptt_on_def cwdaemon_set_ptt_off_def
  by (intro ptf.within_look ptf.within_guard ptf.within_sq_Cons ptf.within_sq_Nil ptf.within_bnd
      ptf.within_ret ptt_only_flags ptt_only_io [OF io_only_dev(2)] ptt_only_io [OF io_only_millisleep])+

end
