(* ===== verification/Socket.thy ===== *)
theory Socket
  imports Ptt
begin

text \<open>
  Models \<^verbatim>\<open>src/src/socket.c\<close> and \<open>cwdaemon_prepare_reply\<close> of \<^verbatim>\<open>src/src/cwdaemon.c\<close>. A datagram
  is a list of bytes. \<open>recv_law\<close> states what \<^verbatim>\<open>recvfrom(2)\<close> documents of its result.
\<close>

section \<open>Model\<close>

definition INADDR_ANY :: "32 word" where "INADDR_ANY = 0"
definition SIZEOF_SOCKADDR_IN :: nat where "SIZEOF_SOCKADDR_IN = 16"
definition O_NONBLOCK_FLAG :: "32 word" where "O_NONBLOCK_FLAG = 2048"

definition cwdaemon_initialize_socket :: "env \<Rightarrow> bool act" where
  "cwdaemon_initialize_socket w =
     bnd (upd (\<lambda>s. s\<lparr>request_addr := (INADDR_ANY, network_port s),
                     request_addrlen := SIZEOF_SOCKADDR_IN\<rparr>)) (\<lambda>_.
     bnd (ask w Socket) (\<lambda>fd.
     bnd (upd (\<lambda>s. s\<lparr>socket_descriptor := fd\<rparr>)) (\<lambda>_.
       if fd = - 1 then ret False
       else bnd (look (\<lambda>s. ask w (Bind fd (request_addr s) (request_addrlen s)))) (\<lambda>r.
         if r = - 1 then ret False
         else bnd (ask w (Fcntl_GETFL fd)) (\<lambda>save_flags.
           if save_flags = - 1 then ret False
           else bnd (ask w (Fcntl_SETFL fd (word_of_int save_flags OR O_NONBLOCK_FLAG))) (\<lambda>r.
             if r = - 1 then ret False else ret True))))))"

definition cwdaemon_close_socket :: "env \<Rightarrow> unit act" where
  "cwdaemon_close_socket w = look (\<lambda>s.
     guard (- 1 \<noteq> socket_descriptor s)
       (bnd (ask w (Close (socket_descriptor s))) (\<lambda>r.
          if r = - 1 then halt (Exit EXIT_FAILURE)
          else upd (\<lambda>s. s\<lparr>socket_descriptor := - 1\<rparr>))))"

text \<open>For a reply of less than two bytes the assertion reads in front of the string.\<close>

definition cwdaemon_sendto :: "env \<Rightarrow> string \<Rightarrow> int act" where
  "cwdaemon_sendto w reply =
     (let len = length reply
      in if len < 2 then halt Undefined
         else if \<not> (reply ! (len - 2) = CHR 0x0D \<and> reply ! (len - 1) = CHR 0x0A) then halt Assert_Failed
         else look (\<lambda>s. ask w (Sendto (socket_descriptor s) reply (reply_addr s) (reply_addrlen s))))"

text \<open>
  The loop that removes trailing line feeds and carriage returns: the length of the request after it.
\<close>

definition is_crlf :: "char \<Rightarrow> bool" where
  "is_crlf z \<longleftrightarrow> z = CHR 0x0A \<or> z = CHR 0x0D"

fun trim_crlf :: "char list \<Rightarrow> nat \<Rightarrow> nat" where
  "trim_crlf request 0 = 0"
| "trim_crlf request (Suc n) = (if is_crlf (request ! n) then trim_crlf request n else Suc n)"

text \<open>
  \<open>cwdaemon_recvfrom\<close> yields its result and the bytes in front of the NULs with which the array was
  initialised and the loop overwrote the end of the datagram.
\<close>

definition cwdaemon_recvfrom :: "env \<Rightarrow> nat \<Rightarrow> (int \<times> char list) act" where
  "cwdaemon_recvfrom w n = (\<lambda>s.
     let t = trace s @ [Recvfrom (socket_descriptor s) n];
         r = s\<lparr>trace := t\<rparr>;
         recv_rc = ret_of w t
     in if recv_rc = - 1
        then Run (if errno_of w t = EAGAIN \<or> (EAGAIN \<noteq> EWOULDBLOCK \<and> errno_of w t = EWOULDBLOCK)
                  then 0 else - 1, []) r
        else
          let r = r\<lparr>request_addr := fst (out_addr w t), request_addrlen := snd (out_addr w t)\<rparr>
          in if recv_rc = 0 then Run (- 2, []) r
             else let request = take (nat recv_rc) (out_bytes w t);
                      recv_rc = trim_crlf request (length request)
                  in Run (int recv_rc, take recv_rc request) r)"

text \<open>Writing more than the array \<open>reply_buffer\<close> holds is undefined.\<close>

definition cwdaemon_prepare_reply :: "string \<Rightarrow> unit act" where
  "cwdaemon_prepare_reply request = sq [
     set_flag (\<lambda>f. f OR PTT_ACTIVE_ECHO),
     upd (\<lambda>s. s\<lparr>reply_addr := request_addr s, reply_addrlen := request_addrlen s\<rparr>),
     if length request < CWDAEMON_REPLY_SIZE_MAX + 1
     then upd (\<lambda>s. s\<lparr>reply_buffer := request\<rparr>) else halt Undefined]"

section \<open>What the kernel documents\<close>

definition recv_law :: "env \<Rightarrow> bool" where
  "recv_law w \<longleftrightarrow> (\<forall>tr fd. let t = tr @ [Recvfrom fd CWDAEMON_REQUEST_SIZE_MAX] in
     ret_of w t = - 1 \<or>
     0 \<le> ret_of w t \<and> ret_of w t \<le> int CWDAEMON_REQUEST_SIZE_MAX \<and>
     length (out_bytes w t) = nat (ret_of w t))"

lemma example_recv_law: "length msg \<le> 256 \<Longrightarrow> recv_law (example_env msg)"
  by (simp add: recv_law_def Let_def example_env_def answer_def CWDAEMON_REQUEST_SIZE_MAX_def)

section \<open>Lemmas\<close>

text \<open>The bytes of a datagram without the carriage returns and line feeds at its end.\<close>

definition strip_crlf :: "char list \<Rightarrow> char list" where
  "strip_crlf b = rev (dropWhile is_crlf (rev b))"

lemma strip_crlf_snoc: "strip_crlf (b @ [c]) = (if is_crlf c then strip_crlf b else b @ [c])"
  by (simp add: strip_crlf_def)

lemma trim_crlf_le: "trim_crlf b n \<le> n"
  by (induction n) (simp_all add: le_SucI)

lemma trim_crlf_append: "n \<le> length b \<Longrightarrow> trim_crlf (b @ c) n = trim_crlf b n"
  by (induction n) (simp_all add: nth_append)

lemma take_trim_crlf: "take (trim_crlf b (length b)) b = strip_crlf b"
proof (induction b rule: rev_induct)
  case Nil
  then show ?case by (simp add: strip_crlf_def)
next
  case (snoc c b)
  have "trim_crlf (b @ [c]) (length b) \<le> length b"
    by (rule trim_crlf_le)
  with snoc show ?case by (simp add: strip_crlf_snoc trim_crlf_append)
qed

lemma strip_crlf_prefix: "\<exists>r. b = strip_crlf b @ r \<and> (\<forall>c \<in> set r. is_crlf c)"
proof -
  have "rev b = takeWhile is_crlf (rev b) @ dropWhile is_crlf (rev b)" by simp
  then have "b = strip_crlf b @ rev (takeWhile is_crlf (rev b))"
    unfolding strip_crlf_def by (metis rev_append rev_rev_ident)
  then show ?thesis by (intro exI conjI) (auto dest: set_takeWhileD)
qed

lemma strip_crlf_length: "length (strip_crlf b) \<le> length b"
  using strip_crlf_prefix [of b] by (metis length_append le_add1)

lemma strip_crlf_id: "b \<noteq> [] \<Longrightarrow> \<not> is_crlf (last b) \<Longrightarrow> strip_crlf b = b"
  by (cases b rule: rev_exhaust) (simp_all add: strip_crlf_snoc)

text \<open>What \<open>cwdaemon_recvfrom\<close> yields, given the behaviour that the kernel documents.\<close>

definition received :: "env \<Rightarrow> call list \<Rightarrow> int \<times> char list" where
  "received w t =
     (if ret_of w t = - 1 then (if errno_of w t = EAGAIN then 0 else - 1, [])
      else if ret_of w t = 0 then (- 2, [])
      else (int (length (strip_crlf (out_bytes w t))), strip_crlf (out_bytes w t)))"

lemma recvfrom_received:
  assumes "recv_law w"
  defines "t \<equiv> \<lambda>s. trace s @ [Recvfrom (socket_descriptor s) CWDAEMON_REQUEST_SIZE_MAX]"
  shows "cwdaemon_recvfrom w CWDAEMON_REQUEST_SIZE_MAX s =
    Run (received w (t s)) (if ret_of w (t s) = - 1 then s\<lparr>trace := t s\<rparr>
      else s\<lparr>trace := t s, request_addr := fst (out_addr w (t s)), request_addrlen := snd (out_addr w (t s))\<rparr>)"
proof -
  have "ret_of w (t s) \<noteq> - 1 \<Longrightarrow> length (out_bytes w (t s)) = nat (ret_of w (t s))"
    using assms(1) unfolding recv_law_def t_def Let_def by blast
  moreover have "length (strip_crlf b) = trim_crlf b (length b)" for b
    using trim_crlf_le [of b "length b"] by (simp add: take_trim_crlf [symmetric] min_absorb2)
  ultimately show ?thesis
    by (auto simp: cwdaemon_recvfrom_def received_def t_def Let_def take_trim_crlf EAGAIN_def EWOULDBLOCK_def)
qed

lemma received_length:
  assumes "recv_law w" "received w (tr @ [Recvfrom fd CWDAEMON_REQUEST_SIZE_MAX]) = (rc, request)"
  shows "length request \<le> CWDAEMON_REQUEST_SIZE_MAX" "0 < rc \<Longrightarrow> request \<noteq> []" "rc \<noteq> - 1 \<Longrightarrow> rc \<noteq> - 2 \<Longrightarrow> rc \<noteq> 0 \<Longrightarrow> 0 < rc"
proof -
  let ?t = "tr @ [Recvfrom fd CWDAEMON_REQUEST_SIZE_MAX]"
  have "ret_of w ?t = - 1 \<or> length (out_bytes w ?t) \<le> CWDAEMON_REQUEST_SIZE_MAX"
    using assms(1) unfolding recv_law_def Let_def by (metis nat_int nat_mono)
  with assms(2) strip_crlf_length [of "out_bytes w ?t"]
  show "length request \<le> CWDAEMON_REQUEST_SIZE_MAX" "0 < rc \<Longrightarrow> request \<noteq> []" "rc \<noteq> - 1 \<Longrightarrow> rc \<noteq> - 2 \<Longrightarrow> rc \<noteq> 0 \<Longrightarrow> 0 < rc"
    by (auto simp: received_def split: if_splits)
qed

end
