(* ===== verification/Play.thy ===== *)
theory Play
  imports Socket
begin

text \<open>
  Models \<open>cwdaemon_play_request\<close> of \<^verbatim>\<open>src/src/cwdaemon.c\<close>, which plays the text in the request
  queue. The pointer \<^verbatim>\<open>x\<close> that walks over the queue is the pair of the text in front of it and the
  text from it on; the two together are the contents of the queue.
\<close>

section \<open>Model\<close>

definition speed_mark :: "char \<Rightarrow> bool" where
  "speed_mark c \<longleftrightarrow> c = CHR ''+'' \<or> c = CHR ''-''"

text \<open>The loop over a run of marks: the speed after it.\<close>

fun speed_run :: "string \<Rightarrow> int \<Rightarrow> int" where
  "speed_run [] v = v"
| "speed_run (c # x) v =
     (if speed_mark c then speed_run x (v + (if c = CHR ''+'' then 2 else - 2)) else v)"

definition clamp_speed :: "env \<Rightarrow> int \<Rightarrow> int" where
  "clamp_speed w v =
     (if v < CW_SPEED_MIN w then CW_SPEED_MIN w else if v > CW_SPEED_MAX w then CW_SPEED_MAX w else v)"

definition change_speed :: "env \<Rightarrow> string \<Rightarrow> unit act" where
  "change_speed w x = sq [
     upd (\<lambda>s. s\<lparr>current_morse_speed := clamp_speed w (speed_run x (current_morse_speed s))\<rparr>),
     look (\<lambda>s. emit (Cw_set_send_speed (current_morse_speed s)))]"

text \<open>The \<^verbatim>\<open>default\<close> case up to the increment of \<^verbatim>\<open>x\<close>; \<open>c\<close> is the character after \<^verbatim>\<open>*x = '+'\<close>.\<close>

definition play_character :: "env \<Rightarrow> char \<Rightarrow> unit act" where
  "play_character w c = sq [
     with_device (cwdaemon_set_ptt_on w),
     guard (c \<noteq> CHR 0xFF) (emit (Cw_send_character c))]"

definition put_queue :: "string \<Rightarrow> unit act" where
  "put_queue q = upd (\<lambda>s. s\<lparr>request_queue := q\<rparr>)"

definition star_to_plus :: "char \<Rightarrow> char" where
  "star_to_plus c = (if c = CHR ''*'' then CHR ''+'' else c)"

function play_from :: "env \<Rightarrow> string \<Rightarrow> string \<Rightarrow> unit act" where
  "play_from w pre [] = ret ()"
| "play_from w pre (c # x) =
     (if speed_mark c then
        bnd (change_speed w (c # x)) (\<lambda>_.
          play_from w (pre @ takeWhile speed_mark (c # x)) (dropWhile speed_mark (c # x)))
      else if c = CHR ''~'' then
        bnd (emit (Cw_set_gap 2)) (\<lambda>_. play_from w (pre @ [c]) x)
      else if c = CHR ''^'' then
        sq [put_queue pre, cwdaemon_prepare_reply pre]
      else
        let pre' = pre @ [star_to_plus c]
        in bnd (sq [guard (c = CHR ''*'') (put_queue (pre' @ x)), play_character w (star_to_plus c)]) (\<lambda>_.
           bnd (ask w Cw_get_gap) (\<lambda>gap.
             if gap = 2 then
               (if x \<noteq> [] \<and> hd x = CHR ''^'' then play_from w (pre' @ [hd x]) (tl x)
                else bnd (emit (Cw_set_gap 0)) (\<lambda>_. play_from w pre' x))
             else play_from w pre' x)))"
  by pat_completeness auto
termination
  by (relation "measure (\<lambda>(w, pre, x). length x)") (auto simp: less_Suc_eq_le length_dropWhile_le)

definition cwdaemon_play_request :: "env \<Rightarrow> unit act" where
  "cwdaemon_play_request w = bnd (look (\<lambda>s. play_from w [] (request_queue s))) (\<lambda>_. put_queue [])"

section \<open>Lemmas\<close>

lemma clamp_speed_range:
  "libcw_limits w \<Longrightarrow> CW_SPEED_MIN w \<le> clamp_speed w v \<and> clamp_speed w v \<le> CW_SPEED_MAX w"
  by (simp add: clamp_speed_def libcw_limits_def)

lemma speed_run_count:
  "speed_run x v = v + 2 * int (count_list (takeWhile speed_mark x) CHR ''+'')
     - 2 * int (count_list (takeWhile speed_mark x) CHR ''-'')"
  by (induction x arbitrary: v) (auto simp: speed_mark_def)

end
