(* ===== verification/Receive.thy ===== *)
theory Receive
  imports Play
begin

text \<open>
  Models the handling of requests in \<^verbatim>\<open>src/src/cwdaemon.c\<close>: \<open>cwdaemon_receive\<close> and
  \<open>cwdaemon_handle_escaped_request\<close>, one definition per Escape code. The buffer of a request is the
  list of its bytes; past them the array holds NULs.
\<close>

section \<open>Escape requests\<close>

definition CWDAEMON_ESC_REQUEST_EXIT :: char where "CWDAEMON_ESC_REQUEST_EXIT = CHR ''5''"
definition CWDAEMON_ESC_REQUEST_CWDEVICE :: char where "CWDAEMON_ESC_REQUEST_CWDEVICE = CHR ''8''"
definition CWDAEMON_ESC_REQUEST_REPLY :: char where "CWDAEMON_ESC_REQUEST_REPLY = CHR ''h''"

definition escape_code :: "char list \<Rightarrow> char" where
  "escape_code request = (if length request > 1 then request ! 1 else CHR 0x00)"

definition payload :: "char list \<Rightarrow> string option" where
  "payload request = Some (cstr (drop 2 request))"

definition esc_reset :: "env \<Rightarrow> unit act" where
  "esc_reset w = sq [
     put_queue [],
     with_device (\<lambda>dev. bnd (cwdaemon_reset_almost_all w dev) (\<lambda>_. ret ())),
     upd (\<lambda>s. s\<lparr>wordmode := 0\<rparr>),
     upd (\<lambda>s. s\<lparr>async_abort := 0\<rparr>),
     with_device (dev_reset_pins_state w),
     set_flag (\<lambda>_. 0)]"

definition esc_speed :: "env \<Rightarrow> string option \<Rightarrow> unit act" where
  "esc_speed w arg = look (\<lambda>s.
     case cwdaemon_params_wpm w arg (current_morse_speed s) of (ok, v) \<Rightarrow>
       sq [upd (\<lambda>s. s\<lparr>current_morse_speed := v\<rparr>), guard ok (emit (Cw_set_send_speed v))])"

definition esc_tone :: "env \<Rightarrow> string option \<Rightarrow> unit act" where
  "esc_tone w arg =
     (if CW_FREQUENCY_MIN w \<noteq> 0 then halt Assert_Failed
      else look (\<lambda>s.
        case cwdaemon_params_tone w arg (current_morse_tone s) of (ok, v) \<Rightarrow>
          sq [upd (\<lambda>s. s\<lparr>current_morse_tone := v\<rparr>),
              guard ok (if v > 0
                then sq [emit (Cw_set_frequency v), emit (Cw_set_volume (current_morse_volume s))]
                else emit (Cw_set_volume 0))]))"

definition esc_abort :: "env \<Rightarrow> unit act" where
  "esc_abort w = look (\<lambda>s.
     guard (wordmode s = 0)
       (sq [guard (ptt_flag s AND PTT_ACTIVE_ECHO \<noteq> 0)
              (bnd (cwdaemon_sendto w (''break'' @ [CHR 0x0D, CHR 0x0A])) (\<lambda>_. ret ())),
            put_queue [],
            emit Cw_flush_tone_queue,
            emit Cw_wait_for_tone_queue,
            look (\<lambda>s. guard (ptt_flag s \<noteq> 0) (with_device (cwdaemon_set_ptt_off w))),
            set_flag (\<lambda>f. f AND 0)]))"

definition esc_wordmode :: "unit act" where
  "esc_wordmode = sq [put_queue [], upd (\<lambda>s. s\<lparr>wordmode := 1\<rparr>)]"

definition esc_weighting :: "string option \<Rightarrow> unit act" where
  "esc_weighting arg = look (\<lambda>s.
     case cwdaemon_params_weighting arg (current_weighting s) of (ok, v) \<Rightarrow>
       sq [upd (\<lambda>s. s\<lparr>current_weighting := v\<rparr>), guard ok (emit (Cw_set_weighting (weighting_arg v)))])"

definition register_keying_callback :: "unit act" where
  "register_keying_callback = with_device (\<lambda>dev. emit (Cw_register_keying_callback (Some dev)))"

definition esc_cwdevice :: "env \<Rightarrow> string option \<Rightarrow> unit act" where
  "esc_cwdevice w arg = sq [
     emit (Cw_register_keying_callback None),
     bnd (cwdaemon_option_cwdevice w arg) (\<lambda>r. guard (0 = r) register_keying_callback)]"

definition esc_ssbway :: "env \<Rightarrow> string option \<Rightarrow> unit act" where
  "esc_ssbway w arg = guard (lp_build w \<noteq> No_parport)
     (case cwdaemon_get_long arg of
        None \<Rightarrow> ret ()
      | Some lv \<Rightarrow> with_device (\<lambda>dev. case dev_ssbway w dev of
            None \<Rightarrow> ret () | Some f \<Rightarrow> f (if lv \<noteq> 0 then SOUNDCARD else MICROPHONE)))"

definition esc_tune :: "env \<Rightarrow> string option \<Rightarrow> unit act" where
  "esc_tune w arg = (case cwdaemon_params_tune arg 0 of (ok, seconds) \<Rightarrow> guard ok (cwdaemon_tune w seconds))"

definition esc_pttdelay :: "env \<Rightarrow> string option \<Rightarrow> unit act" where
  "esc_pttdelay w arg = look (\<lambda>s.
     case cwdaemon_params_pttdelay arg (g_current_ptt_delay_ms s) of (rv, v) \<Rightarrow>
       sq [upd (\<lambda>s. s\<lparr>g_current_ptt_delay_ms := v\<rparr>),
           guard (rv \<noteq> 0 \<and> v = 0) (with_device (cwdaemon_set_ptt_off w))])"

definition esc_band :: "env \<Rightarrow> string option \<Rightarrow> unit act" where
  "esc_band w arg = guard (lp_build w \<noteq> No_parport)
     (case cwdaemon_get_long arg of
        None \<Rightarrow> ret ()
      | Some lv \<Rightarrow> guard (lv \<ge> 0 \<and> lv \<le> 15)
          (with_device (\<lambda>dev. cwdaemon_switch_band w dev (word_of_int lv))))"

text \<open>
  Changing the sound system: first the switch, which yields whether there is an output now, then
  the settings that belong to the new generator.
\<close>

definition switch_sound_system :: "env \<Rightarrow> unit act" where
  "switch_sound_system w = look (\<lambda>s. sq [
     cwdaemon_close_libcw_output,
     bnd (cwdaemon_open_libcw_output w (current_audio_system s)) (\<lambda>ok.
       if ok then upd (\<lambda>s. s\<lparr>has_audio_output := True\<rparr>)
       else sq [
         cwdaemon_close_libcw_output,
         bnd (cwdaemon_open_libcw_output w CW_AUDIO_NULL) (\<lambda>ok.
           if ok then upd (\<lambda>s. s\<lparr>current_audio_system := CW_AUDIO_NULL, has_audio_output := True\<rparr>)
           else upd (\<lambda>s. s\<lparr>has_audio_output := False\<rparr>))])])"

definition configure_generator :: "unit act" where
  "configure_generator = look (\<lambda>s. sq [
     emit (Cw_register_tone_queue_low_callback tq_low_watermark),
     emit (Cw_set_frequency (current_morse_tone s)),
     emit (Cw_set_send_speed (current_morse_speed s)),
     emit (Cw_set_volume (current_morse_volume s)),
     emit (Cw_set_gap 0),
     emit (Cw_set_weighting (weighting_arg (current_weighting s))),
     register_keying_callback])"

definition esc_system :: "env \<Rightarrow> string option \<Rightarrow> unit act" where
  "esc_system w arg = look (\<lambda>s.
     case cwdaemon_params_system arg (current_audio_system s) of (ok, v) \<Rightarrow>
       sq [upd (\<lambda>s. s\<lparr>current_audio_system := v\<rparr>),
           guard ok (sq [switch_sound_system w,
                         look (\<lambda>s. guard (has_audio_output s) configure_generator)])])"

definition esc_volume :: "env \<Rightarrow> string option \<Rightarrow> unit act" where
  "esc_volume w arg = look (\<lambda>s.
     case cwdaemon_params_volume w arg (current_morse_volume s) of (ok, v) \<Rightarrow>
       sq [upd (\<lambda>s. s\<lparr>current_morse_volume := v\<rparr>), guard ok (emit (Cw_set_volume v))])"

definition cwdaemon_handle_escaped_request :: "env \<Rightarrow> char list \<Rightarrow> unit act" where
  "cwdaemon_handle_escaped_request w request =
     (let code = escape_code request; arg = payload request
      in if code = CHR ''0'' then esc_reset w
         else if code = CHR ''2'' then esc_speed w arg
         else if code = CHR ''3'' then esc_tone w arg
         else if code = CHR ''4'' then esc_abort w
         else if code = CWDAEMON_ESC_REQUEST_EXIT then halt (Exit EXIT_SUCCESS)
         else if code = CHR ''6'' then esc_wordmode
         else if code = CHR ''7'' then esc_weighting arg
         else if code = CWDAEMON_ESC_REQUEST_CWDEVICE then esc_cwdevice w arg
         else if code = CHR ''9'' then ret ()
         else if code = CHR ''a'' then bnd (cwdaemon_params_ptt_on_off w arg) (\<lambda>_. ret ())
         else if code = CHR ''b'' then esc_ssbway w arg
         else if code = CHR ''c'' then esc_tune w arg
         else if code = CHR ''d'' then esc_pttdelay w arg
         else if code = CHR ''e'' then esc_band w arg
         else if code = CHR ''f'' then esc_system w arg
         else if code = CHR ''g'' then esc_volume w arg
         else if code = CWDAEMON_ESC_REQUEST_REPLY then cwdaemon_prepare_reply (cstr (drop 1 request))
         else ret ())"

section \<open>Requests\<close>

definition act_on_request :: "env \<Rightarrow> int \<Rightarrow> char list \<Rightarrow> int act" where
  "act_on_request w recv_rc request =
     (if recv_rc = - 2 then ret 0
      else if recv_rc = - 1 then halt (Exit EXIT_FAILURE)
      else if recv_rc = 0 then ret 0
      else if hd request \<noteq> ASCII_ESC then
        bnd (look (\<lambda>s.
          if length (cstr request) + length (request_queue s) \<le> CWDAEMON_REQUEST_QUEUE_SIZE_MAX - 1
          then sq [put_queue (request_queue s @ fst (snprintf
                     (CWDAEMON_REQUEST_QUEUE_SIZE_MAX - length (request_queue s)) (cstr request))),
                   cwdaemon_play_request w]
          else ret ())) (\<lambda>_. ret 1)
      else bnd (cwdaemon_handle_escaped_request w request) (\<lambda>_. ret 0))"

definition cwdaemon_receive :: "env \<Rightarrow> int act" where
  "cwdaemon_receive w =
     bnd (cwdaemon_recvfrom w CWDAEMON_REQUEST_SIZE_MAX)
       (\<lambda>(recv_rc, request). act_on_request w recv_rc request)"

end
