(* ===== verification/Transition.thy ===== *)
theory Transition
  imports Prelude
begin

text \<open>
  Machines whose steps are programs: \<open>run e\<close> is what the machine does on the event \<open>e\<close>. The states
  that it passes between two steps, sequences of events, and the locale of the machines that keep an
  invariant.
\<close>

inductive reaches :: "('e \<Rightarrow> ('s, unit) prog) \<Rightarrow> 's \<Rightarrow> 's \<Rightarrow> bool" for run where
  here: "reaches run s s"
| step: "reaches run s t \<Longrightarrow> run e t = Run () u \<Longrightarrow> reaches run s u"

inductive_cases reachesE [elim]: "reaches run s t"

text \<open>The machine on a sequence of events.\<close>

primrec run_events :: "('e \<Rightarrow> ('s, unit) prog) \<Rightarrow> 'e list \<Rightarrow> ('s, unit) prog" where
  "run_events run [] = ret ()"
| "run_events run (e # es) = bnd (run e) (\<lambda>_. run_events run es)"

lemma reaches_trans: "reaches run t u \<Longrightarrow> reaches run s t \<Longrightarrow> reaches run s u"
  by (induction rule: reaches.induct) (auto intro: step)

lemma run_events_reaches: "run_events run es s = Run () t \<Longrightarrow> reaches run s t"
proof (induction es arbitrary: s)
  case Nil
  then show ?case by (simp add: ret_def here)
next
  case (Cons e es)
  then obtain r where r: "run e s = Run () r" "run_events run es r = Run () t"
    by (auto simp: bnd_def split: outcome.splits)
  have "reaches run s r"
    by (rule step [OF here]) (rule r(1))
  with Cons.IH [OF r(2)] show ?case by (rule reaches_trans)
qed

text \<open>\<open>law\<close> is what the steps need of the environment, and \<open>I\<close> holds between steps.\<close>

locale kept_machine =
  fixes run :: "'e \<Rightarrow> ('s, unit) prog" and I :: "'s \<Rightarrow> bool" and law :: bool
  assumes run_keeps: "law \<Longrightarrow> preserves I (run e)"
begin

lemma step_keeps: "law \<Longrightarrow> I s \<Longrightarrow> run e s = Run () t \<Longrightarrow> I t"
  by (rule preservesD [OF run_keeps])

lemma reaches_keeps: "reaches run s t \<Longrightarrow> law \<Longrightarrow> I s \<Longrightarrow> I t"
  by (induction rule: reaches.induct) (auto intro: step_keeps)

lemma events_keep: "run_events run es s = Run () t \<Longrightarrow> law \<Longrightarrow> I s \<Longrightarrow> I t"
  by (rule reaches_keeps [OF run_events_reaches])

end

text \<open>
  A machine that refines an abstract one: seen through \<open>view\<close>, each of its steps is an abstract step.
\<close>

locale refined_machine = kept_machine +
  fixes view :: "'a \<Rightarrow> 'c" and spec :: "'c \<Rightarrow> 'c \<Rightarrow> bool"
  assumes simulates: "law \<Longrightarrow> I s \<Longrightarrow> run e s = Run () t \<Longrightarrow> spec (view s) (view t)"
begin

lemma reaches_simulates: "reaches run s t \<Longrightarrow> law \<Longrightarrow> I s \<Longrightarrow> spec\<^sup>*\<^sup>* (view s) (view t)"
proof (induction rule: reaches.induct)
  case (step s t e u)
  then have "spec\<^sup>*\<^sup>* (view s) (view t)" "spec (view t) (view u)"
    using simulates reaches_keeps by blast+
  then show ?case by simp
qed simp

text \<open>What every abstract step keeps holds along the runs of the machine.\<close>

lemma spec_invariant:
  assumes "\<And>x y. spec x y \<Longrightarrow> J x \<Longrightarrow> J y" "reaches run s t" law "I s" "J (view s)"
  shows "J (view t)"
  using reaches_simulates [OF assms(2-4)] assms(5)
  by (induction rule: rtranclp_induct) (auto intro: assms(1))

end

text \<open>
  A safe machine besides stops by \<open>exit\<close> only; \<open>E\<close> holds in the state that such a step leaves.
\<close>

locale safe_machine =
  fixes run :: "'e \<Rightarrow> ('s, unit) prog" and I E :: "'s \<Rightarrow> bool" and law :: bool
  assumes run_settles: "law \<Longrightarrow> hoare I (run e) (\<lambda>_. I) (\<lambda>h t. orderly h \<and> E t)"
begin

lemma step_orderly: "law \<Longrightarrow> I s \<Longrightarrow> run e s = Halt h t \<Longrightarrow> orderly h \<and> E t"
  by (rule hoare_Halt [OF run_settles])

end

sublocale safe_machine \<subseteq> kept_machine run I law
  by unfold_locales (rule preservesI, rule hoare_Run [OF run_settles])

context safe_machine
begin

lemma never_faults: "reaches run s t \<Longrightarrow> law \<Longrightarrow> I s \<Longrightarrow> run e t = Halt h u \<Longrightarrow> orderly h"
  using step_orderly reaches_keeps by blast

end

end
