(* ===== verification/Machine.thy ===== *)
theory Machine
  imports Receive Transition
begin

text \<open>
  Models the two callbacks that libcw calls and the body of the main loop of \<open>main\<close>
  (\<^verbatim>\<open>src/src/cwdaemon.c\<close>), and the daemon as a machine whose steps are these three.
\<close>

section \<open>Callbacks\<close>

definition cwdaemon_keyingevent :: "env \<Rightarrow> devid \<Rightarrow> int \<Rightarrow> unit act" where
  "cwdaemon_keyingevent w dev keystate = sq [
     dev_cw w dev (if keystate = 1 then ON else OFF),
     upd (\<lambda>s. s\<lparr>inactivity_seconds := 0\<rparr>)]"

text \<open>The second branch of the callback: the reply goes out.\<close>

definition send_reply :: "env \<Rightarrow> unit act" where
  "send_reply w = sq [
     set_flag (\<lambda>f. f AND NOT PTT_ACTIVE_ECHO),
     upd (\<lambda>s. s\<lparr>reply_buffer := reply_buffer s @
       fst (snprintf (CWDAEMON_REPLY_SIZE_MAX + 1 - length (reply_buffer s)) [CHR 0x0D, CHR 0x0A])\<rparr>),
     look (\<lambda>s. bnd (cwdaemon_sendto w (reply_buffer s)) (\<lambda>_. ret ())),
     look (\<lambda>s. guard (ptt_flag s = PTT_ACTIVE_AUTO)
       (sq [emit (Cw_queue_tone 1 0), emit (Cw_queue_tone 1 0)]))]"

definition cwdaemon_tone_queue_low_callback :: "env \<Rightarrow> unit act" where
  "cwdaemon_tone_queue_low_callback w =
     bnd (ask w Cw_get_tone_queue_length) (\<lambda>len.
     bnd (look (\<lambda>s.
       if ptt_flag s = PTT_ACTIVE_AUTO \<and> request_queue s = []
       then bnd (ask w Cw_get_tone_queue_length) (\<lambda>len. ret (len \<le> tq_low_watermark))
       else ret False)) (\<lambda>all_played. sq [
     look (\<lambda>s.
       if all_played then with_device (cwdaemon_set_ptt_off w)
       else guard (ptt_flag s AND PTT_ACTIVE_ECHO \<noteq> 0) (send_reply w)),
     emit Cw_get_tone_queue_length]))"

section \<open>The main loop\<close>

definition set_libcw_debugging :: "int \<Rightarrow> 32 word \<Rightarrow> unit act" where
  "set_libcw_debugging log_threshold flags = sq [
     emit (Cw_debug_set_flags flags),
     emit (Cw_debug_level
       (if log_threshold = LOG_ERR then CW_DEBUG_ERROR
        else if log_threshold = LOG_WARNING \<or> log_threshold = LOG_NOTICE then CW_DEBUG_WARNING
        else if log_threshold = LOG_INFO then CW_DEBUG_INFO
        else if log_threshold = LOG_DEBUG then CW_DEBUG_DEBUG
        else CW_DEBUG_NONE))]"

text \<open>
  What \<open>main\<close> does after the process has become a daemon and before the loop. \<open>dev\<close> is the device
  selected by the command line.
\<close>

definition main_start :: "env \<Rightarrow> devid \<Rightarrow> unit act" where
  "main_start w dev = sq [
       emit (Atexit Close_Socket_Wrapper),
       bnd (cwdaemon_initialize_socket w) (\<lambda>opened. guard (\<not> opened) (halt (Exit EXIT_FAILURE))),
       look (\<lambda>s. guard (process_priority s \<noteq> 0)
         (bnd (ask w Getpid) (\<lambda>pid.
          bnd (ask w (Setpriority pid (process_priority s))) (\<lambda>r.
            guard (r < 0) (halt (Exit EXIT_FAILURE)))))),
       emit (Atexit Close_Libcw_Output),
       bnd (cwdaemon_reset_almost_all w dev) (\<lambda>r. guard (0 \<noteq> r) (halt (Exit EXIT_FAILURE))),
       look (\<lambda>s. guard (0 \<noteq> g_libcw_debug_flags s)
         (set_libcw_debugging (current_log_threshold s) (g_libcw_debug_flags s))),
       put_queue []]"

definition main_iteration :: "env \<Rightarrow> unit act" where
  "main_iteration w =
     bnd (look (\<lambda>s.
       if inactivity_seconds s < 30
       then bnd (upd (\<lambda>s. s\<lparr>inactivity_seconds := inactivity_seconds s + 1\<rparr>)) (\<lambda>_. ret 1)
       else ret 86400)) (\<lambda>tv_sec. sq [
     look (\<lambda>s. bnd (ask w (Select (socket_descriptor s) tv_sec)) (\<lambda>fd_count. look (\<lambda>s.
       if fd_count = - 1 \<and> errno_of w (trace s) \<noteq> EINTR then ret ()
       else bnd (cwdaemon_receive w) (\<lambda>_. ret ())))),
     guard (lp_build w \<noteq> No_parport)
       (with_device (\<lambda>dev. case dev_footswitch w dev of
          None \<Rightarrow> ret ()
        | Some f \<Rightarrow> bnd f (\<lambda>state. dev_ptt w dev (if state = 0 then 1 else 0))))])"

section \<open>The machine\<close>

text \<open>One turn of the main loop, and the callbacks of libcw: low tone queue, key down or up.\<close>

datatype event = Main_Loop | Low_Queue | Key devid int

fun daemon_step :: "env \<Rightarrow> event \<Rightarrow> unit act" where
  "daemon_step w Main_Loop = main_iteration w"
| "daemon_step w Low_Queue = cwdaemon_tone_queue_low_callback w"
| "daemon_step w (Key dev keystate) = cwdaemon_keyingevent w dev keystate"

section \<open>Lemmas\<close>

definition CRLF :: string where "CRLF = [CHR 0x0D, CHR 0x0A]"

text \<open>A reply that leaves room for CR LF is sent with it.\<close>

lemma send_reply_eq:
  assumes "length (reply_buffer s) + 2 \<le> CWDAEMON_REPLY_SIZE_MAX"
  shows "send_reply w s =
    sq [bnd (cwdaemon_sendto w (reply_buffer s @ CRLF)) (\<lambda>_. ret ()),
        look (\<lambda>s. guard (ptt_flag s = PTT_ACTIVE_AUTO)
          (sq [emit (Cw_queue_tone 1 0), emit (Cw_queue_tone 1 0)]))]
      (s\<lparr>ptt_flag := ptt_flag s AND NOT PTT_ACTIVE_ECHO, reply_buffer := reply_buffer s @ CRLF\<rparr>)"
proof -
  have "take (CWDAEMON_REPLY_SIZE_MAX - length (reply_buffer s)) [CHR 0x0D, CHR 0x0A] = [CHR 0x0D, CHR 0x0A]"
    using assms by (intro take_all) simp
  then show ?thesis
    by (simp add: send_reply_def set_flag_def CRLF_def snprintf_def bnd_def upd_def look_def)
qed

end
