(* ===== verification/Safety.thy ===== *)
theory Safety
  imports Machine
begin

text \<open>
  The invariant of the daemon between two steps, and its preservation by every operation: the
  handlers of all Escape requests, the playing of text, both callbacks and the main loop. A failed
  assertion and undefined behaviour are excluded on the way.
\<close>

section \<open>The invariant\<close>

text \<open>
  What holds at every point: a device is selected, only the three flags are used, a reply that is
  owed fits in its array together with CR LF, and every parameter is within its bounds.
\<close>

definition params_ok :: "env \<Rightarrow> daemon \<Rightarrow> bool" where
  "params_ok w s \<longleftrightarrow>
     CW_SPEED_MIN w \<le> current_morse_speed s \<and> current_morse_speed s \<le> CW_SPEED_MAX w \<and>
     CW_FREQUENCY_MIN w \<le> current_morse_tone s \<and> current_morse_tone s \<le> CW_FREQUENCY_MAX w \<and>
     CW_VOLUME_MIN w \<le> current_morse_volume s \<and> current_morse_volume s \<le> CW_VOLUME_MAX w \<and>
     - 50 \<le> current_weighting s \<and> current_weighting s \<le> 50 \<and>
     g_current_ptt_delay_ms s \<le> 50"

definition defaults_ok :: "env \<Rightarrow> daemon \<Rightarrow> bool" where
  "defaults_ok w s \<longleftrightarrow>
     CW_SPEED_MIN w \<le> default_morse_speed s \<and> default_morse_speed s \<le> CW_SPEED_MAX w \<and>
     CW_FREQUENCY_MIN w \<le> default_morse_tone s \<and> default_morse_tone s \<le> CW_FREQUENCY_MAX w \<and>
     CW_VOLUME_MIN w \<le> default_morse_volume s \<and> default_morse_volume s \<le> CW_VOLUME_MAX w \<and>
     - 50 \<le> default_weighting s \<and> default_weighting s \<le> 50 \<and>
     g_default_ptt_delay_ms s \<le> 50"

definition replies_ok :: "daemon \<Rightarrow> bool" where
  "replies_ok s \<longleftrightarrow> global_cwdevice s \<noteq> None \<and> ptt_flags_only (ptt_flag s) \<and>
     length (reply_buffer s) \<le> CWDAEMON_REPLY_SIZE_MAX \<and>
     (bit (ptt_flag s) 2 \<longrightarrow> length (reply_buffer s) + 2 \<le> CWDAEMON_REPLY_SIZE_MAX)"

text \<open>
  \<open>ok w True\<close> is the invariant between two steps, when besides the request queue is empty;
  \<open>ok w False\<close> is what holds also while a request is played.
\<close>

definition ok :: "env \<Rightarrow> bool \<Rightarrow> daemon \<Rightarrow> bool" where
  "ok w idle s \<longleftrightarrow> params_ok w s \<and> defaults_ok w s \<and> replies_ok s \<and> (idle \<longrightarrow> request_queue s = [])"

lemmas ok_defs = ok_def params_ok_def defaults_ok_def replies_ok_def

lemma ok_trace [simp]: "trace_free (ok w b)"
  by (simp add: trace_free_def ok_defs)

lemma ok_device: "ok w b s \<Longrightarrow> global_cwdevice s \<noteq> None"
  by (simp add: ok_defs)

lemma keeps_ptt_only: "ptt_only m \<Longrightarrow> keeps (ok w b) m"
  by (erule keeps_within) (auto simp: ptt_frame_def ok_defs)

lemma keeps_dev_only: "dev_only m \<Longrightarrow> keeps (ok w b) m"
  by (erule keeps_within) (auto simp: dev_frame_def ok_defs)

lemma keeps_io: "io_only m \<Longrightarrow> keeps (ok w b) m"
  by (rule keeps_io_only) simp

lemma keeps_device: "(\<And>d. keeps (ok w b) (f d)) \<Longrightarrow> keeps (ok w b) (with_device f)"
  by (rule keeps_with_device) (simp_all add: ok_device)

lemma keeps_put_queue: "b \<longrightarrow> q = [] \<Longrightarrow> keeps (ok w b) (put_queue q)"
  unfolding put_queue_def by (rule keeps_upd) (simp add: ok_defs)

lemma keeps_put_queue_any: "keeps (ok w False) (put_queue q)" "keeps (ok w b) (put_queue [])"
  by (rule keeps_put_queue; simp)+

lemmas keeps_calls = keeps_io [OF io_only_emit] keeps_io [OF io_only_ask]

lemmas keeps_ok = keeps_device keeps_put_queue_any keeps_calls keeps_ret keeps_exit keeps_bnd keeps_guard keeps_if
  keeps_sq_Nil keeps_sq_Cons keeps_look keeps_option keeps_prod

section \<open>Playing text\<close>

lemma keeps_set_ptt:
  "keeps (ok w b) (cwdaemon_set_ptt_on w d)" "keeps (ok w b) (cwdaemon_set_ptt_off w d)"
  by (rule keeps_ptt_only ptt_only_set_ptt)+

lemma keeps_change_speed:
  "libcw_limits w \<Longrightarrow> keeps (ok w b) (change_speed w x)"
  unfolding change_speed_def
  by (intro keeps_sq_Cons keeps_sq_Nil keeps_look keeps_io io_only_emit keeps_upd)
    (simp add: ok_defs clamp_speed_range)

lemma keeps_play_character: "keeps (ok w b) (play_character w c)"
  unfolding play_character_def
  by (intro keeps_sq_Cons keeps_sq_Nil keeps_guard keeps_io io_only_emit keeps_device keeps_set_ptt)

lemma keeps_prepare_reply:
  assumes "length request + 2 \<le> CWDAEMON_REPLY_SIZE_MAX"
  shows "keeps (ok w b) (cwdaemon_prepare_reply request)"
  using assms
  by (intro keepsI)
    (auto simp: cwdaemon_prepare_reply_def set_flag_def prog_simps ok_defs split: outcome.splits)

lemma keeps_play_from:
  assumes "libcw_limits w" "length pre + length x \<le> CWDAEMON_REQUEST_SIZE_MAX"
  shows "keeps (ok w False) (play_from w pre x)"
  using assms
proof (induction w pre x rule: play_from.induct)
  case (1 w pre)
  show ?case by (simp add: keeps_ret)
next
  case (2 w pre c x)
  let ?m = "takeWhile speed_mark (c # x)" and ?r = "dropWhile speed_mark (c # x)"
  have "length ?m + length ?r = length (c # x)"
    by (metis length_append takeWhile_dropWhile_id)
  then have len: "length (pre @ ?m) + length ?r \<le> CWDAEMON_REQUEST_SIZE_MAX"
    using 2 by simp
  from 2 have limits: "libcw_limits w" and short: "length pre + 2 \<le> CWDAEMON_REPLY_SIZE_MAX"
    by (simp_all add: CWDAEMON_REPLY_SIZE_MAX_def)
  show ?case
    unfolding play_from.simps(2) Let_def
  proof (intro keeps_if keeps_bnd keeps_change_speed limits keeps_sq_Cons keeps_sq_Nil keeps_put_queue_any
      keeps_prepare_reply short keeps_guard keeps_play_character keeps_calls, goal_cases)
    case 1
    with 2 len show ?case by simp
  next
    case 2
    with "2.IH"(2) "2.prems" show ?case by simp
  next
    case (3 u gap)
    with "2.IH"(3) "2.prems" show ?case by (cases x) simp_all
  next
    case (4 u gap u')
    with "2.IH"(4) "2.prems" show ?case by simp
  next
    case (5 u gap)
    with "2.IH"(5) "2.prems" show ?case by simp
  qed
qed

text \<open>The queue is empty after a request has been played.\<close>

lemma play_request_ok:
  assumes "libcw_limits w"
  shows "hoare (\<lambda>s. ok w False s \<and> length (request_queue s) \<le> CWDAEMON_REQUEST_SIZE_MAX)
    (cwdaemon_play_request w) (\<lambda>_. ok w True) (\<lambda>h t. orderly h \<and> ok w False t)"
  unfolding cwdaemon_play_request_def
proof (rule hoare_bnd)
  show "hoare (\<lambda>s. ok w False s \<and> length (request_queue s) \<le> CWDAEMON_REQUEST_SIZE_MAX)
    (look (\<lambda>s. play_from w [] (request_queue s))) (\<lambda>_. ok w False) (\<lambda>h t. orderly h \<and> ok w False t)"
  proof (rule hoareI)
    fix s assume s: "ok w False s \<and> length (request_queue s) \<le> CWDAEMON_REQUEST_SIZE_MAX"
    then have "keeps (ok w False) (play_from w [] (request_queue s))"
      by (intro keeps_play_from) (simp_all add: assms)
    from keepsD [OF this, of s] s
    show "case look (\<lambda>s. play_from w [] (request_queue s)) s of
        Run x t \<Rightarrow> ok w False t | Halt h t \<Rightarrow> orderly h \<and> ok w False t"
      by (simp add: look_def)
  qed
  show "hoare (ok w False) (put_queue []) (\<lambda>_. ok w True) (\<lambda>h t. orderly h \<and> ok w False t)" for u :: unit
    by (rule hoareI) (simp add: put_queue_def upd_def ok_defs)
qed

section \<open>Escape requests\<close>

lemma keeps_weighting_value: "- 50 \<le> v \<Longrightarrow> v \<le> 50 \<Longrightarrow>
    keeps (ok w b) (upd (\<lambda>s. s\<lparr>current_weighting := v\<rparr>))"
  by (rule keeps_upd) (simp add: ok_defs)

lemma keeps_set_flag_0: "keeps (ok w b) (set_flag (\<lambda>_. 0))"
  by (rule keeps_ptt_only [OF ptt_only_flags(4)])

lemma keeps_reset_almost_all: "keeps (ok w b) (cwdaemon_reset_almost_all w d)"
  unfolding cwdaemon_reset_almost_all_def
  by (intro keeps_ok keeps_io [OF io_only_reset_libcw] keeps_upd) (simp_all add: ok_defs reset_current_def)

lemma keeps_esc_reset: "keeps (ok w b) (esc_reset w)"
  unfolding esc_reset_def
  by (intro keeps_ok keeps_reset_almost_all keeps_set_flag_0 keeps_io [OF io_only_dev(3)] keeps_upd)
    (simp_all add: ok_defs)

text \<open>A parser of a bounded number keeps its variable within the bounds.\<close>

lemma params_range:
  "libcw_limits w \<Longrightarrow> cwdaemon_params_wpm w arg x = (k, v) \<Longrightarrow>
    CW_SPEED_MIN w \<le> x \<Longrightarrow> x \<le> CW_SPEED_MAX w \<Longrightarrow> CW_SPEED_MIN w \<le> v \<and> v \<le> CW_SPEED_MAX w"
  "libcw_limits w \<Longrightarrow> cwdaemon_params_tone w arg x = (k, v) \<Longrightarrow>
    CW_FREQUENCY_MIN w \<le> x \<Longrightarrow> x \<le> CW_FREQUENCY_MAX w \<Longrightarrow> CW_FREQUENCY_MIN w \<le> v \<and> v \<le> CW_FREQUENCY_MAX w"
  "libcw_limits w \<Longrightarrow> cwdaemon_params_volume w arg x = (k, v) \<Longrightarrow>
    CW_VOLUME_MIN w \<le> x \<Longrightarrow> x \<le> CW_VOLUME_MAX w \<Longrightarrow> CW_VOLUME_MIN w \<le> v \<and> v \<le> CW_VOLUME_MAX w"
  "cwdaemon_params_weighting arg x = (k, v) \<Longrightarrow> - 50 \<le> x \<Longrightarrow> x \<le> 50 \<Longrightarrow> - 50 \<le> v \<and> v \<le> 50"
  using wpm.parse_cases [of w arg x] tone.parse_cases [of w arg x] volume.parse_cases [of w arg x]
    weighting.parse_cases [of arg x]
  by (auto simp: CWDAEMON_MORSE_WEIGHTING_MIN_def CWDAEMON_MORSE_WEIGHTING_MAX_def)

lemma delay_range:
  "cwdaemon_params_pttdelay arg x = (k, v) \<Longrightarrow> x \<le> 50 \<Longrightarrow> v \<le> 50"
  by (auto simp: cwdaemon_params_pttdelay_def CWDAEMON_PTT_DELAY_MAX_def CWDAEMON_PTT_DELAY_MIN_def
      word_le_def uint_word_of_int_eq take_bit_int_eq_self split: option.splits if_splits)

lemma keeps_esc_speed: "libcw_limits w \<Longrightarrow> keeps (ok w b) (esc_speed w arg)"
  unfolding esc_speed_def
  by (intro keeps_ok keeps_upd; frule (1) params_range(1); simp add: ok_defs)

lemma keeps_esc_tone: "libcw_limits w \<Longrightarrow> keeps (ok w b) (esc_tone w arg)"
  unfolding esc_tone_def
  apply (subst if_not_P)
   apply (simp add: libcw_limits_def)
  by (intro keeps_ok keeps_upd; frule (1) params_range(2); simp add: ok_defs)

lemma keeps_esc_volume: "libcw_limits w \<Longrightarrow> keeps (ok w b) (esc_volume w arg)"
  unfolding esc_volume_def
  by (intro keeps_ok keeps_upd; frule (1) params_range(3); simp add: ok_defs)

lemma keeps_esc_weighting: "keeps (ok w b) (esc_weighting arg)"
  unfolding esc_weighting_def
  by (intro keeps_ok keeps_upd; frule params_range(4); simp add: ok_defs)

lemma keeps_esc_pttdelay: "keeps (ok w b) (esc_pttdelay w arg)"
  unfolding esc_pttdelay_def
  by (intro keeps_ok keeps_upd keeps_set_ptt; frule delay_range; simp add: ok_defs)

lemma keeps_sendto:
  "keeps (ok w b) (cwdaemon_sendto w (r @ [CHR 0x0D, CHR 0x0A]))"
  unfolding cwdaemon_sendto_def Let_def by (simp add: nth_append) (intro keeps_ok)

lemma keeps_esc_abort: "keeps (ok w b) (esc_abort w)"
  unfolding esc_abort_def
  by (intro keeps_ok keeps_sendto keeps_set_ptt keeps_ptt_only ptt_only_set_flag) simp_all

lemma keeps_esc_wordmode: "keeps (ok w b) esc_wordmode"
  unfolding esc_wordmode_def by (intro keeps_ok keeps_upd) (simp add: ok_defs)

lemma keeps_register: "keeps (ok w b) register_keying_callback"
  unfolding register_keying_callback_def by (intro keeps_ok)

lemma keeps_esc_cwdevice: "keeps (ok w b) (esc_cwdevice w arg)"
  unfolding esc_cwdevice_def
  by (intro keeps_ok keeps_register keeps_dev_only [OF dev_only_option_cwdevice])

lemma keeps_esc_ssbway: "keeps (ok w b) (esc_ssbway w arg)"
  unfolding esc_ssbway_def dev_ssbway_def
  by (intro keeps_ok) (auto intro!: keeps_io io_only_lp split: devid.splits)

lemma keeps_esc_band: "keeps (ok w b) (esc_band w arg)"
  unfolding esc_band_def by (intro keeps_ok keeps_io [OF io_only_switch_band])

lemma keeps_replicate: "keeps I m \<Longrightarrow> keeps I (sq (replicate n m))"
  by (induction n) (simp_all add: keeps_ret keeps_bnd)

lemma keeps_esc_tune: "keeps (ok w b) (esc_tune w arg)"
  unfolding esc_tune_def cwdaemon_tune_def
  by (intro keeps_ok keeps_set_ptt keeps_replicate)

lemma keeps_set_flags:
  "keeps (ok w b) (set_flag (\<lambda>f. f OR PTT_ACTIVE_AUTO))" "keeps (ok w b) (set_flag (\<lambda>f. f OR PTT_ACTIVE_MANUAL))"
  "keeps (ok w b) (set_flag (\<lambda>f. f AND NOT PTT_ACTIVE_MANUAL))"
  "keeps (ok w b) (set_flag (\<lambda>f. f AND NOT PTT_ACTIVE_ECHO))"
  by (rule keeps_ptt_only, rule ptt_only_flags)+

lemma keeps_ptt_on_off: "keeps (ok w b) (cwdaemon_params_ptt_on_off w arg)"
  unfolding cwdaemon_params_ptt_on_off_def
  by (intro keeps_ok keeps_set_ptt keeps_set_flags)

lemma keeps_esc_system: "keeps (ok w b) (esc_system w arg)"
  unfolding esc_system_def switch_sound_system_def configure_generator_def
  by (intro keeps_ok keeps_register keeps_io [OF io_only_close] keeps_io [OF io_only_open] keeps_upd)
    (simp_all add: ok_defs)

text \<open>The text of a reply comes from one datagram, without the Escape character.\<close>

lemma cstr_length: "length (cstr x) \<le> length x"
  by (simp add: cstr_def length_takeWhile_le)

lemma keeps_handle_escaped_request:
  assumes "libcw_limits w" "request \<noteq> []" "length request \<le> CWDAEMON_REQUEST_SIZE_MAX"
  shows "keeps (ok w b) (cwdaemon_handle_escaped_request w request)"
proof -
  have "length (cstr (drop 1 request)) + 2 \<le> CWDAEMON_REPLY_SIZE_MAX"
    using assms cstr_length [of "drop 1 request"] by (cases request) (simp_all add: CWDAEMON_REPLY_SIZE_MAX_def)
  then show ?thesis
    unfolding cwdaemon_handle_escaped_request_def Let_def
    by (intro keeps_if keeps_ret keeps_exit keeps_bnd keeps_esc_reset keeps_esc_speed keeps_esc_tone
        keeps_esc_abort keeps_esc_wordmode keeps_esc_weighting keeps_esc_cwdevice keeps_ptt_on_off
        keeps_esc_ssbway keeps_esc_tune keeps_esc_pttdelay keeps_esc_band keeps_esc_system
        keeps_esc_volume keeps_prepare_reply assms(1))
qed

section \<open>The steps\<close>

text \<open>
  \<open>settles w m\<close>: from a state between two steps, \<open>m\<close> ends in one, unless it stops the process, which
  it does by \<open>exit\<close> only.
\<close>

definition settles :: "env \<Rightarrow> 'a act \<Rightarrow> bool" where
  "settles w m \<longleftrightarrow> hoare (ok w True) m (\<lambda>_. ok w True) (\<lambda>h t. orderly h \<and> ok w False t)"

lemma ok_weaken: "ok w True s \<Longrightarrow> ok w b s"
  by (cases b) (simp_all add: ok_def)

lemma settles_keeps: "keeps (ok w True) m \<Longrightarrow> settles w m"
  unfolding settles_def keeps_def by (erule hoare_conseq) (auto intro: ok_weaken)

lemma settles_bnd: "settles w m \<Longrightarrow> (\<And>x. settles w (k x)) \<Longrightarrow> settles w (bnd m k)"
  unfolding settles_def by (rule hoare_bnd)

lemma settles_look: "(\<And>s. ok w True s \<Longrightarrow> settles w (f s)) \<Longrightarrow> settles w (look f)"
  unfolding settles_def hoare_def look_def by blast

lemma settles_if: "(b \<Longrightarrow> settles w m) \<Longrightarrow> (\<not> b \<Longrightarrow> settles w n) \<Longrightarrow> settles w (if b then m else n)"
  by simp

lemma settles_ret: "settles w (ret x)"
  by (intro settles_keeps keeps_ret)

lemma settles_sq: "settles w (sq [])" "settles w m \<Longrightarrow> settles w (sq ms) \<Longrightarrow> settles w (sq (m # ms))"
  by (simp_all add: settles_ret settles_bnd)

text \<open>A text request that finds the queue empty.\<close>

lemma settles_text:
  assumes "libcw_limits w" "length q \<le> CWDAEMON_REQUEST_SIZE_MAX"
  shows "settles w (sq [put_queue q, cwdaemon_play_request w])"
proof -
  have 1: "hoare (ok w True) (put_queue q)
      (\<lambda>_ s. ok w False s \<and> length (request_queue s) \<le> CWDAEMON_REQUEST_SIZE_MAX) (\<lambda>h t. orderly h \<and> ok w False t)"
    using assms(2) by (intro hoareI) (simp add: put_queue_def upd_def ok_defs)
  have 2: "hoare (\<lambda>s. ok w False s \<and> length (request_queue s) \<le> CWDAEMON_REQUEST_SIZE_MAX)
      (sq [cwdaemon_play_request w]) (\<lambda>_. ok w True) (\<lambda>h t. orderly h \<and> ok w False t)"
    unfolding sq.simps
    by (rule hoare_bnd [OF play_request_ok [OF assms(1)]]) (simp add: hoare_def ret_def)
  show ?thesis
    unfolding settles_def sq.simps(2) [of _ "[cwdaemon_play_request w]"] by (rule hoare_bnd [OF 1 2])
qed

lemma settles_act_on_request:
  assumes "libcw_limits w" and len: "length request \<le> CWDAEMON_REQUEST_SIZE_MAX"
    and ne: "rc \<noteq> - 1 \<Longrightarrow> rc \<noteq> - 2 \<Longrightarrow> rc \<noteq> 0 \<Longrightarrow> request \<noteq> []"
  shows "settles w (act_on_request w rc request)"
  unfolding act_on_request_def
proof (intro settles_if settles_ret settles_bnd settles_look settles_text assms(1))
  show "settles w (halt (Exit EXIT_FAILURE))" by (intro settles_keeps keeps_exit)
next
  fix s :: daemon assume "ok w True s"
  then show "length (request_queue s @ fst (snprintf
      (CWDAEMON_REQUEST_QUEUE_SIZE_MAX - length (request_queue s)) (cstr request))) \<le> CWDAEMON_REQUEST_SIZE_MAX"
    using len cstr_length [of request] by (simp add: ok_def snprintf_def)
next
  assume "rc \<noteq> - 2" "rc \<noteq> - 1" "rc \<noteq> 0"
  with ne len show "settles w (cwdaemon_handle_escaped_request w request)"
    by (intro settles_keeps keeps_handle_escaped_request assms(1)) auto
qed

lemma settles_receive:
  assumes "libcw_limits w" "recv_law w"
  shows "settles w (cwdaemon_receive w)"
  unfolding settles_def
proof (rule hoareI)
  fix s assume s: "ok w True s"
  let ?t = "trace s @ [Recvfrom (socket_descriptor s) CWDAEMON_REQUEST_SIZE_MAX]"
  obtain rc request where *: "received w ?t = (rc, request)"
    by (rule prod.exhaust)
  define t where "t = (if ret_of w ?t = - 1 then s\<lparr>trace := ?t\<rparr>
    else s\<lparr>trace := ?t, request_addr := fst (out_addr w ?t), request_addrlen := snd (out_addr w ?t)\<rparr>)"
  have r: "cwdaemon_recvfrom w CWDAEMON_REQUEST_SIZE_MAX s = Run (rc, request) t"
    unfolding t_def * [symmetric] by (rule recvfrom_received [OF assms(2)])
  have "ok w True t"
    using s by (simp add: t_def ok_defs)
  moreover have "settles w (act_on_request w rc request)"
    by (intro settles_act_on_request assms(1) received_length [OF assms(2) *]) assumption+
  ultimately show "case cwdaemon_receive w s of Run x t \<Rightarrow> ok w True t | Halt h t \<Rightarrow> orderly h \<and> ok w False t"
    by (simp add: cwdaemon_receive_def bnd_Run [where m = "cwdaemon_recvfrom w CWDAEMON_REQUEST_SIZE_MAX", OF r] settles_def hoare_def)
qed

lemma keeps_keyingevent: "keeps (ok w True) (cwdaemon_keyingevent w d k)"
  unfolding cwdaemon_keyingevent_def
  by (intro keeps_ok keeps_io [OF io_only_dev(1)] keeps_upd) (simp add: ok_defs)

lemma keeps_send_reply:
  "keeps (\<lambda>s. ok w True s) (look (\<lambda>s. guard (ptt_flag s AND PTT_ACTIVE_ECHO \<noteq> 0) (send_reply w)))"
proof (rule keepsI)
  fix s assume s: "ok w True s"
  show "case look (\<lambda>s. guard (ptt_flag s AND PTT_ACTIVE_ECHO \<noteq> 0) (send_reply w)) s of
    Run x t \<Rightarrow> ok w True t | Halt h t \<Rightarrow> orderly h \<and> ok w True t"
  proof (cases "bit (ptt_flag s) 2")
    case False
    with s show ?thesis by (simp add: look_def guard_def ptt_flag_bits ret_def)
  next
    case True
    with s have len: "length (reply_buffer s) + 2 \<le> CWDAEMON_REPLY_SIZE_MAX" by (simp add: ok_defs)
    let ?t = "s\<lparr>ptt_flag := ptt_flag s AND NOT PTT_ACTIVE_ECHO, reply_buffer := reply_buffer s @ CRLF\<rparr>"
    have "ok w True ?t"
      using s len by (simp add: ok_defs ptt_flag_bit_upd CRLF_def)
    moreover have "keeps (ok w True) (sq [bnd (cwdaemon_sendto w (reply_buffer s @ CRLF)) (\<lambda>_. ret ()),
        look (\<lambda>s. guard (ptt_flag s = PTT_ACTIVE_AUTO)
          (sq [emit (Cw_queue_tone 1 0), emit (Cw_queue_tone 1 0)]))])"
      unfolding CRLF_def by (intro keeps_ok keeps_sendto)
    ultimately show ?thesis
      using True keepsD by (fastforce simp add: look_def guard_def ptt_flag_bits send_reply_eq [OF len] simp del: sq.simps)
  qed
qed

lemma keeps_low_callback: "keeps (ok w True) (cwdaemon_tone_queue_low_callback w)"
proof -
  have "keeps (ok w True) (look (\<lambda>s. if p then with_device (cwdaemon_set_ptt_off w)
      else guard (ptt_flag s AND PTT_ACTIVE_ECHO \<noteq> 0) (send_reply w)))" for p
    using keeps_send_reply [of w] keeps_device [of w True "cwdaemon_set_ptt_off w"] keeps_set_ptt(2)
    by (cases p) (simp_all add: look_def [abs_def])
  then show ?thesis
    unfolding cwdaemon_tone_queue_low_callback_def
    by (intro keeps_bnd keeps_sq_Cons keeps_sq_Nil keeps_calls) (intro keeps_look keeps_if keeps_bnd keeps_ret keeps_calls)
qed

lemma io_only_footswitch: "dev_footswitch w d = Some f \<Longrightarrow> io_only f"
  by (auto simp: dev_footswitch_def frame_rules split: devid.splits)

lemma settles_main_iteration:
  assumes "libcw_limits w" "recv_law w"
  shows "settles w (main_iteration w)"
  unfolding main_iteration_def
  by (intro settles_bnd settles_sq settles_look settles_if settles_ret settles_receive assms
      settles_keeps [OF keeps_calls(2)])
    (auto intro!: settles_keeps keeps_ok keeps_upd keeps_io [OF io_only_dev(2)] keeps_io [OF io_only_footswitch]
      simp: ok_defs)

interpretation machine: safe_machine "daemon_step w" "ok w True" "ok w False" "libcw_limits w \<and> recv_law w"
  for w
proof
  fix e assume "libcw_limits w \<and> recv_law w"
  then have "settles w (daemon_step w e)"
    by (cases e) (simp_all add: settles_main_iteration settles_keeps keeps_low_callback keeps_keyingevent)
  then show "hoare (ok w True) (daemon_step w e) (\<lambda>_. ok w True) (\<lambda>h t. orderly h \<and> ok w False t)"
    by (simp add: settles_def)
qed

text \<open>
  \<open>configured w d s\<close>: the state in which the command line leaves the variables, with the device \<open>d\<close>
  selected.
\<close>

definition configured :: "env \<Rightarrow> devid \<Rightarrow> daemon \<Rightarrow> bool" where
  "configured w d s \<longleftrightarrow> defaults_ok w s \<and> global_cwdevice s = Some d \<and> ptt_flag s = 0 \<and> reply_buffer s = []"

lemma configured_trace: "trace_free (configured w d)"
  by (simp add: trace_free_def configured_def defaults_ok_def)

lemma keeps_initialize_socket: "keeps (configured w d) (cwdaemon_initialize_socket w)"
  unfolding cwdaemon_initialize_socket_def
  by (intro keeps_bnd keeps_upd keeps_ret keeps_if keeps_look keeps_ask configured_trace)
    (simp_all add: configured_def defaults_ok_def)

lemma keeps_hoare: "keeps I m \<Longrightarrow> hoare I m (\<lambda>_. I) (\<lambda>h t. orderly h)"
  unfolding keeps_def by (erule hoare_conseq) auto

lemma hoare_sq_Cons:
  "hoare P m (\<lambda>_. R) E \<Longrightarrow> hoare R (sq ms) Q E \<Longrightarrow> hoare P (sq (m # ms)) Q E"
  by (simp add: hoare_bnd)

lemma start_reset_ok:
  "hoare (configured w d) (cwdaemon_reset_almost_all w d) (\<lambda>_. ok w False) (\<lambda>h t. orderly h)"
  unfolding cwdaemon_reset_almost_all_def
proof (rule hoare_bnd)
  show "hoare (configured w d) (upd reset_current) (\<lambda>_. ok w False) (\<lambda>h t. orderly h)"
    by (rule hoareI) (simp add: upd_def reset_current_def configured_def ok_defs)
qed (intro keeps_hoare keeps_ok keeps_io [OF io_only_reset_libcw] keeps_upd, simp_all add: ok_defs)

lemma start_ok: "hoare (configured w d) (main_start w d) (\<lambda>_. ok w True) (\<lambda>h t. orderly h)"
proof -
  have calls: "keeps (configured w d) (emit c)" for c
    by (rule keeps_emit [OF configured_trace])
  have socket: "keeps (configured w d)
      (bnd (cwdaemon_initialize_socket w) (\<lambda>opened. guard (\<not> opened) (halt (Exit EXIT_FAILURE))))"
    by (intro keeps_bnd keeps_initialize_socket keeps_guard keeps_exit)
  have priority: "keeps (configured w d) (look (\<lambda>s. guard (process_priority s \<noteq> 0)
      (bnd (ask w Getpid) (\<lambda>pid.
       bnd (ask w (Setpriority pid (process_priority s))) (\<lambda>r.
         guard (r < 0) (halt (Exit EXIT_FAILURE)))))))"
    by (intro keeps_look keeps_guard keeps_bnd keeps_ask keeps_exit configured_trace)
  have reset: "hoare (configured w d)
      (bnd (cwdaemon_reset_almost_all w d) (\<lambda>r. guard (0 \<noteq> r) (halt (Exit EXIT_FAILURE))))
      (\<lambda>_. ok w False) (\<lambda>h t. orderly h)"
    by (rule hoare_bnd [OF start_reset_ok]) (intro keeps_hoare keeps_guard keeps_exit)
  have debug: "keeps (ok w False) (look (\<lambda>s. guard (0 \<noteq> g_libcw_debug_flags s)
      (set_libcw_debugging (current_log_threshold s) (g_libcw_debug_flags s))))"
    unfolding set_libcw_debugging_def by (intro keeps_ok)
  have queue: "hoare (ok w False) (put_queue []) (\<lambda>_. ok w True) (\<lambda>h t. orderly h)"
    by (rule hoareI) (simp add: put_queue_def upd_def ok_defs)
  show ?thesis
    unfolding main_start_def
    by (rule hoare_sq_Cons [OF keeps_hoare [OF calls]] hoare_sq_Cons [OF keeps_hoare [OF socket]]
          hoare_sq_Cons [OF keeps_hoare [OF priority]] hoare_sq_Cons [OF reset]
          hoare_sq_Cons [OF keeps_hoare [OF debug]] hoare_sq_Cons [OF queue] keeps_hoare [OF keeps_sq_Nil])+
qed

section \<open>Properties\<close>


text \<open>A configuration for the witnesses, and the daemon that starts with it.\<close>

definition example_config :: daemon where
  "example_config = daemon_init\<lparr>global_cwdevice := Some Dev_Null\<rparr>"

lemma example_configured: "configured (example_env msg) Dev_Null example_config"
  by (simp add: configured_def defaults_ok_def example_config_def daemon_init_def example_env_def
      CWDAEMON_MORSE_SPEED_DEFAULT_def CWDAEMON_MORSE_TONE_DEFAULT_def CWDAEMON_MORSE_VOLUME_DEFAULT_def
      CWDAEMON_MORSE_WEIGHTING_DEFAULT_def CWDAEMON_PTT_DELAY_DEFAULT_def)

lemma example_start: "is_run (main_start (example_env msg) Dev_Null example_config)"
  by (simp add: main_start_def cwdaemon_initialize_socket_def cwdaemon_reset_almost_all_def
      cwdaemon_reset_libcw_output_def cwdaemon_close_libcw_output_def cwdaemon_open_libcw_output_def
      prog_simps Let_def example_config_def daemon_init_def example_env_def answer_def reset_current_def
      put_queue_def)


end
