(* ===== verification/Observe.thy ===== *)
theory Observe
  imports Ptt
begin

text \<open>
  Reading the history of calls. The frame \<open>adds P\<close> says which calls an operation may make; the locale
  \<open>observer\<close> is the contract of a quantity that is replayed from the history and which some calls
  leave alone. The operations of the keying devices, and sleeping, make only device calls, which no
  observer of libcw or of the network notices.
\<close>

section \<open>Which calls an operation makes\<close>

definition adds :: "(call \<Rightarrow> bool) \<Rightarrow> daemon \<Rightarrow> daemon \<Rightarrow> bool" where
  "adds P s t \<longleftrightarrow> (\<exists>u. trace t = trace s @ u \<and> (\<forall>c \<in> set u. P c))"

lemma adds_same: "trace t = trace s \<Longrightarrow> adds P s t"
  unfolding adds_def by (rule exI [of _ "[]"]) simp

interpretation add: frame "adds P" for P
proof
  show "adds P s s" for s by (rule adds_same) simp
next
  show "adds P s t \<Longrightarrow> adds P t r \<Longrightarrow> adds P s r" for s t r
    unfolding adds_def by (metis UnE append_assoc set_append)
qed

lemma adds_ask: "P c \<Longrightarrow> within (adds P) (ask w c)"
  by (rule withinI) (auto simp: ask_def Let_def adds_def)

lemma adds_emit: "P c \<Longrightarrow> within (adds P) (emit c)"
  by (rule withinI) (auto simp: emit_def upd_def adds_def)

lemma adds_set_dev: "within (adds P) (set_dev d f)"
  by (rule withinI) (simp add: set_dev_def upd_def adds_same)

lemma adds_upd: "(\<And>s. trace (f s) = trace s) \<Longrightarrow> within (adds P) (upd f)"
  by (rule withinI) (simp add: upd_def adds_same)

lemmas adds_rules = add.within_ret add.within_exit add.within_bnd add.within_look add.within_guard add.within_if
  add.within_sq_Nil add.within_sq_Cons add.within_option add.within_prod adds_ask adds_emit adds_set_dev

text \<open>Calls about keying devices, time and memory.\<close>

fun device_call :: "call \<Rightarrow> bool" where
  "device_call (Open _ _) = True"
| "device_call (Close _) = True"
| "device_call (Fstat _) = True"
| "device_call (Ioctl _ _) = True"
| "device_call Geteuid = True"
| "device_call (Nanosleep _ _) = True"
| "device_call (Strdup _) = True"
| "device_call _ = False"

abbreviation device_calls :: "'a act \<Rightarrow> bool" where
  "device_calls \<equiv> within (adds device_call)"

lemma device_calls_ttys:
  "device_calls (ttys_cw w d v)" "device_calls (ttys_ptt w d v)" "device_calls (ttys_reset_pins_state w d)"
  unfolding ttys_cw_def ttys_ptt_def ttys_reset_pins_state_def Let_def
  by (intro adds_rules; simp)+

lemma device_calls_ioctl: "device_calls (ioctl_or_exit w fd req)" "device_calls (claim_or_exit w fd req)"
  unfolding ioctl_or_exit_def claim_or_exit_def by (intro adds_rules; simp)+

lemma device_calls_parport:
  "device_calls (parport_control w fd m v)" "device_calls (parport_write_data w fd p)"
  "device_calls (parport_read_data w fd)"
  unfolding parport_control_def parport_write_data_def parport_read_data_def Let_def
  by (cases "lp_build w"; simp only: lp_build.case; intro adds_rules device_calls_ioctl)+

lemma device_calls_lp:
  "device_calls (lp_cw w d v)" "device_calls (lp_ptt w d v)" "device_calls (lp_ssbway w d v)"
  "device_calls (lp_switchband w d p)" "device_calls (lp_footswitch w d)" "device_calls (lp_reset_pins_state w d)"
  unfolding lp_cw_def lp_ptt_def lp_ssbway_def lp_switchband_def lp_footswitch_def lp_reset_pins_state_def Let_def
  by (intro adds_rules device_calls_parport)+

lemma device_calls_lp_open: "device_calls (lp_init w d fd)" "device_calls (lp_free w d)"
  unfolding lp_init_def lp_free_def
  by (intro adds_rules device_calls_parport device_calls_lp device_calls_ioctl; simp)+

lemma device_calls_methods:
  "device_calls (dev_cw w d v)" "device_calls (dev_ptt w d v)" "device_calls (dev_reset_pins_state w d)"
  "device_calls (dev_init w d fd)" "device_calls (dev_free w d)"
proof -
  have ttys: "device_calls (ttys_init w d fd)" "device_calls (ttys_close w d)"
    unfolding ttys_init_def ttys_close_def by (intro adds_rules device_calls_ttys; simp)+
  have null: "device_calls (null_init d fd)" "device_calls (null_free d)" "device_calls (null_cw d v)"
    "device_calls (null_ptt d v)" "device_calls (null_reset_pins_state d)"
    unfolding null_init_def null_free_def null_cw_def null_ptt_def null_reset_pins_state_def
    by (intro adds_rules)+
  show
    "device_calls (dev_cw w d v)" "device_calls (dev_ptt w d v)" "device_calls (dev_reset_pins_state w d)"
    "device_calls (dev_init w d fd)" "device_calls (dev_free w d)"
    unfolding dev_cw_def dev_ptt_def dev_reset_pins_state_def dev_init_def dev_free_def
    using device_calls_ttys device_calls_lp device_calls_lp_open ttys null by (cases d; simp)+
qed

text \<open>A sleep makes no other calls than those that sleep.\<close>

lemma adds_sleep:
  assumes "\<And>sc ns. P (Nanosleep sc ns)"
  shows "within (adds P) (millisleep_nonintr w ms)"
proof (rule withinI)
  fix s
  have naps: "adds P s t" if "trace t = trace s @ u" "only_naps u" for t u
    using that assms unfolding adds_def only_naps_def by fastforce
  show "case millisleep_nonintr w ms s of Run x t \<Rightarrow> adds P s t | Halt h t \<Rightarrow> orderly h \<and> adds P s t"
    using millisleep_nonintr_frame [where w = w and ms = ms and s = s]
    by (auto simp: adds_same intro: naps split: outcome.splits)
qed

lemma device_calls_sleep: "device_calls (millisleep_nonintr w ms)"
  by (rule adds_sleep) simp

lemma device_calls_probe: "device_calls (probe_all w desc)"
proof -
  have probe: "device_calls (probe_cwdevice w flags req fname)" for flags req fname
    unfolding probe_cwdevice_def Let_def by (intro adds_rules; simp)
  then have "device_calls (lp_probe_cwdevice w desc)"
    unfolding lp_probe_cwdevice_def by (cases "lp_build w") (simp_all add: add.within_ret)
  with probe show ?thesis
    unfolding probe_all_def tty_probe_cwdevice_def by (intro adds_rules; simp)
qed

lemma device_calls_option_cwdevice: "device_calls (cwdaemon_option_cwdevice w v)"
  unfolding cwdaemon_option_cwdevice_def cwdaemon_cwdevice_set_def release_device_def strdup_def Let_def
  by (intro adds_rules device_calls_probe device_calls_methods adds_upd; simp)

section \<open>Replaying the history\<close>

text \<open>\<open>obs\<close> tells how one call changes the quantity; quiet calls leave it alone.\<close>

locale observer =
  fixes obs :: "'o \<Rightarrow> call \<Rightarrow> 'o" and quiet :: "call \<Rightarrow> bool"
  assumes obs_quiet: "quiet c \<Longrightarrow> obs x c = x"
begin

lemma replay_quiet: "\<forall>c \<in> set u. quiet c \<Longrightarrow> foldl obs x u = x"
  by (induction u arbitrary: x) (simp_all add: obs_quiet)

lemma replay_adds: "adds quiet s t \<Longrightarrow> foldl obs x (trace t) = foldl obs x (trace s)"
  by (auto simp: adds_def replay_quiet)

end

text \<open>The characters passed to libcw, and what was sent to clients.\<close>

definition sent_step :: "string \<Rightarrow> call \<Rightarrow> string" where
  "sent_step x c = (case c of Cw_send_character a \<Rightarrow> x @ [a] | _ \<Rightarrow> x)"

definition sent :: "call list \<Rightarrow> string" where
  "sent tr = foldl sent_step [] tr"

definition replied_step :: "(string \<times> sockaddr) list \<Rightarrow> call \<Rightarrow> (string \<times> sockaddr) list" where
  "replied_step x c = (case c of Sendto _ r a _ \<Rightarrow> x @ [(r, a)] | _ \<Rightarrow> x)"

definition replied :: "call list \<Rightarrow> (string \<times> sockaddr) list" where
  "replied tr = foldl replied_step [] tr"

lemma sent_snoc: "sent (tr @ [c]) = sent_step (sent tr) c"
  by (simp add: sent_def)

lemma replied_snoc: "replied (tr @ [c]) = replied_step (replied tr) c"
  by (simp add: replied_def)

interpretation gap_obs: observer gap_step device_call
  by unfold_locales (auto simp: gap_step_def elim: device_call.elims)

interpretation view_obs: observer view_step device_call
  by unfold_locales (auto simp: view_step_def elim: device_call.elims)

interpretation sent_obs: observer sent_step device_call
  by unfold_locales (auto simp: sent_step_def elim: device_call.elims)

interpretation replied_obs: observer replied_step device_call
  by unfold_locales (auto simp: replied_step_def elim: device_call.elims)

lemma device_calls_unseen:
  assumes "adds device_call s t"
  shows "gap_of (trace t) = gap_of (trace s)" "view_of (trace t) = view_of (trace s)"
    "sent (trace t) = sent (trace s)" "replied (trace t) = replied (trace s)"
  unfolding gap_of_def view_of_def sent_def replied_def
  by (rule gap_obs.replay_adds view_obs.replay_adds sent_obs.replay_adds replied_obs.replay_adds; rule assms)+

end
