(* ===== verification/Morse.thy ===== *)
theory Morse
  imports Play Observe
begin

text \<open>
  What a text request does, as seen by the operator: the characters that go to libcw, the reply that is
  prepared, the speed that is set. \<open>gap_law\<close> (libcw answers \<^verbatim>\<open>cw_get_gap()\<close> with the gap last set) is
  needed because the program stores the state of \<open>~\<close> in libcw.
\<close>

section \<open>Switching PTT on while playing\<close>

lemma set_ptt_on_Run:
  assumes "cwdaemon_set_ptt_on w d s = Run () t"
  shows "\<exists>u f. t = s\<lparr>trace := trace s @ u, ptt_flag := f\<rparr> \<and> (\<forall>c \<in> set u. device_call c) \<and>
    (f = ptt_flag s \<or> f = ptt_flag s OR PTT_ACTIVE_AUTO)"
proof (cases "g_current_ptt_delay_ms s \<noteq> 0 \<and> \<not> ptt_flag s AND PTT_ACTIVE_AUTO \<noteq> 0")
  case False
  with assms have "t = s" by (simp add: cwdaemon_set_ptt_on_def prog_simps split: if_splits)
  then have "t = s\<lparr>trace := trace s @ [], ptt_flag := ptt_flag s\<rparr>" by simp
  then show ?thesis by (metis empty_iff empty_set)
next
  case True
  let ?io = "bnd (dev_ptt w d ON) (\<lambda>_. millisleep_nonintr w (g_current_ptt_delay_ms s))"
  from True assms obtain x r where r: "?io s = Run x r"
    and t: "t = r\<lparr>ptt_flag := ptt_flag r OR PTT_ACTIVE_AUTO\<rparr>"
    by (auto simp: cwdaemon_set_ptt_on_def set_flag_def prog_simps split: outcome.splits)
  have "io_only ?io" by (intro ext.within_bnd io_only_dev io_only_millisleep)
  from within_Run [OF this r] obtain u where u: "r = s\<lparr>trace := trace s @ u\<rparr>"
    by (auto simp: extends_def)
  have "device_calls ?io" by (intro add.within_bnd device_calls_methods device_calls_sleep)
  from within_Run [OF this r] u have "\<forall>c \<in> set u. device_call c" by (simp add: adds_def)
  with t u show ?thesis by auto
qed

text \<open>How a state differs from an earlier one after a stretch of text without a reply request.\<close>

definition sounded :: "string \<Rightarrow> daemon \<Rightarrow> daemon \<Rightarrow> bool" where
  "sounded m s t \<longleftrightarrow>
     sent (trace t) = sent (trace s) @ m \<and> replied (trace t) = replied (trace s) \<and>
     gap_of (trace t) = gap_of (trace s) \<and>
     reply_buffer t = reply_buffer s \<and> reply_addr t = reply_addr s \<and> reply_addrlen t = reply_addrlen s \<and>
     request_addr t = request_addr s \<and> request_addrlen t = request_addrlen s \<and>
     (bit (ptt_flag t) 1 \<longleftrightarrow> bit (ptt_flag s) 1) \<and> (bit (ptt_flag t) 2 \<longleftrightarrow> bit (ptt_flag s) 2)"

lemma sounded_refl: "sounded [] s s"
  by (simp add: sounded_def)

lemma sounded_trans: "sounded m s t \<Longrightarrow> sounded n t r \<Longrightarrow> sounded (m @ n) s r"
  by (simp add: sounded_def)

lemma sounded_queue: "put_queue q s = Run () t \<Longrightarrow> sounded [] s t"
  by (auto simp: put_queue_def upd_def sounded_def)

lemma sounded_speed: "change_speed w x s = Run () t \<Longrightarrow> sounded [] s t"
  by (auto simp: change_speed_def prog_simps sounded_def sent_snoc sent_step_def replied_snoc
      replied_step_def gap_of_snoc gap_step_def)

lemma sounded_set_ptt_on: "cwdaemon_set_ptt_on w d s = Run () t \<Longrightarrow> sounded [] s t"
proof -
  assume "cwdaemon_set_ptt_on w d s = Run () t"
  from set_ptt_on_Run [OF this] obtain u f where t: "t = s\<lparr>trace := trace s @ u, ptt_flag := f\<rparr>"
    and "\<forall>c \<in> set u. device_call c" and f: "f = ptt_flag s \<or> f = ptt_flag s OR PTT_ACTIVE_AUTO" by blast
  then have "adds device_call s t" unfolding adds_def by auto
  from device_calls_unseen [OF this] t f show ?thesis
    by (auto simp: sounded_def ptt_flag_bit_upd)
qed

lemma sounded_character:
  assumes "play_character w c s = Run () t"
  shows "sounded (if c = CHR 0xFF then [] else [c]) s t"
proof -
  from assms obtain d r where r: "cwdaemon_set_ptt_on w d s = Run () r"
    and t: "t = (if c = CHR 0xFF then r else r\<lparr>trace := trace r @ [Cw_send_character c]\<rparr>)"
    by (auto simp: play_character_def with_device_def prog_simps split: outcome.splits option.splits if_splits)
  from t have "sounded (if c = CHR 0xFF then [] else [c]) r t"
    by (auto simp: sounded_def sent_snoc sent_step_def replied_snoc replied_step_def gap_of_snoc gap_step_def)
  with sounded_trans [OF sounded_set_ptt_on [OF r]] show ?thesis by fastforce
qed

section \<open>Text without extra gaps\<close>

text \<open>
  The part of the text in front of a caret; of it, the characters that are sent: not the speed marks
  and not the byte 0xFF, and \<open>*\<close> as \<open>+\<close>.
\<close>

definition before_caret :: "string \<Rightarrow> string" where
  "before_caret x = takeWhile (\<lambda>c. c \<noteq> CHR ''^'') x"

definition keyed :: "string \<Rightarrow> string" where
  "keyed x = map star_to_plus (filter (\<lambda>c. \<not> speed_mark c \<and> c \<noteq> CHR 0xFF) (before_caret x))"

text \<open>The reply that a caret asks for, when the buffer holds \<open>r\<close> in front of the text.\<close>

definition reply_owed :: "string \<Rightarrow> daemon \<Rightarrow> daemon \<Rightarrow> bool" where
  "reply_owed r s t \<longleftrightarrow> reply_buffer t = r \<and> bit (ptt_flag t) 2 \<and>
     reply_addr t = request_addr s \<and> reply_addrlen t = request_addrlen s"

definition text_done :: "string \<Rightarrow> string \<Rightarrow> daemon \<Rightarrow> daemon \<Rightarrow> bool" where
  "text_done pre x s t \<longleftrightarrow> gap_of (trace t) = Some 0 \<and>
     sent (trace t) = sent (trace s) @ keyed x \<and> replied (trace t) = replied (trace s) \<and>
     (if CHR ''^'' \<in> set x then reply_owed (pre @ map star_to_plus (before_caret x)) s t
      else sounded (keyed x) s t)"

lemma before_caret_append: "CHR ''^'' \<notin> set y \<Longrightarrow> before_caret (y @ x) = y @ before_caret x"
  by (induction y) (auto simp: before_caret_def)

lemma keyed_append: "CHR ''^'' \<notin> set y \<Longrightarrow> keyed (y @ x) = keyed y @ keyed x"
  using before_caret_append [of y "[]"] by (simp add: keyed_def before_caret_append) (simp add: before_caret_def)

lemma text_done_append:
  assumes "sounded (keyed y) s r" "CHR ''^'' \<notin> set y" "text_done (pre @ map star_to_plus y) x r t"
  shows "text_done pre (y @ x) s t"
  using assms sounded_trans [of "keyed y" s r "keyed x" t]
  by (auto simp: text_done_def keyed_append before_caret_append sounded_def reply_owed_def)

lemma keyed_marks: "list_all speed_mark y \<Longrightarrow> keyed y = [] \<and> map star_to_plus y = y \<and> CHR ''^'' \<notin> set y"
  by (induction y) (auto simp: keyed_def before_caret_def speed_mark_def star_to_plus_def)

lemma keyed_single: "c \<noteq> CHR ''^'' \<Longrightarrow> \<not> speed_mark c \<Longrightarrow>
    keyed [c] = (if star_to_plus c = CHR 0xFF then [] else [star_to_plus c])"
  by (auto simp: keyed_def before_caret_def star_to_plus_def)

text \<open>The \<open>default\<close> case, up to the look at the gap.\<close>

lemma character_Run:
  assumes "gap_law w" "gap_of (trace s) = Some n" "c \<noteq> CHR ''^''" "\<not> speed_mark c"
    and "bnd (sq [guard g (put_queue q), play_character w (star_to_plus c)]) (\<lambda>_. bnd (ask w Cw_get_gap) k) s = Run () t"
  shows "\<exists>r. sounded (keyed [c]) s r \<and> k n r = Run () t"
proof -
  from assms(5) obtain r1 r2 where r1: "guard g (put_queue q) s = Run () r1"
    and r2: "play_character w (star_to_plus c) r1 = Run () r2"
    and k: "k (ret_of w (trace r2 @ [Cw_get_gap])) (r2\<lparr>trace := trace r2 @ [Cw_get_gap]\<rparr>) = Run () t"
    by (auto simp: bnd_def ask_def ret_def Let_def split: outcome.splits)
  from r1 have "sounded [] s r1"
    by (cases g) (auto simp: sounded_refl ret_def intro: sounded_queue)
  from sounded_trans [OF this sounded_character [OF r2]]
  have s2: "sounded (keyed [c]) s r2"
    unfolding keyed_single [OF assms(3,4)] by simp
  then have "gap_of (trace r2) = Some n" using assms(2) by (simp add: sounded_def)
  then have "ret_of w (trace r2 @ [Cw_get_gap]) = n" using assms(1) by (simp add: gap_law_def)
  moreover have "sounded [] r2 (r2\<lparr>trace := trace r2 @ [Cw_get_gap]\<rparr>)"
    by (simp add: sounded_def sent_snoc sent_step_def replied_snoc replied_step_def gap_of_snoc gap_step_def)
  then have "sounded (keyed [c]) s (r2\<lparr>trace := trace r2 @ [Cw_get_gap]\<rparr>)"
    using sounded_trans [OF s2] by fastforce
  ultimately show ?thesis using k by auto
qed

lemma play_from_Run:
  assumes "gap_law w" "gap_of (trace s) = Some 0" "CHR ''~'' \<notin> set x" "play_from w pre x s = Run () t"
  shows "text_done pre x s t"
  using assms
proof (induction w pre x arbitrary: s rule: play_from.induct)
  case (1 w pre)
  then show ?case by (simp add: ret_def keyed_def before_caret_def sounded_refl text_done_def)
next
  case (2 w pre c x)
  show ?case
  proof (cases "speed_mark c")
    case True
    let ?y = "takeWhile speed_mark (c # x)" and ?z = "dropWhile speed_mark (c # x)"
    from True "2.prems"(4) obtain r where r: "change_speed w (c # x) s = Run () r"
      and t: "play_from w (pre @ ?y) ?z r = Run () t"
      by (auto simp del: takeWhile.simps dropWhile.simps simp: bnd_def [of "change_speed _ _"] split: outcome.splits)
    have "list_all speed_mark ?y" unfolding list_all_iff by (blast dest: set_takeWhileD)
    from keyed_marks [OF this] have y: "keyed ?y = []" "map star_to_plus ?y = ?y" "CHR ''^'' \<notin> set ?y"
      by blast+
    from sounded_speed [OF r] have s: "sounded (keyed ?y) s r" unfolding y .
    have "CHR ''~'' \<notin> set ?z" using "2.prems"(3) by (meson set_dropWhileD)
    then have "text_done (pre @ map star_to_plus ?y) ?z r t"
      unfolding y using "2.IH"(1) [OF True "2.prems"(1) _ _ t] s "2.prems"(2) by (simp add: sounded_def)
    from text_done_append [OF s y(3) this] show ?thesis by (simp only: takeWhile_dropWhile_id)
  next
    case mark: False
    from "2.prems"(3) have tilde: "c \<noteq> CHR ''~''" by auto
    show ?thesis
    proof (cases "c = CHR ''^''")
      case True
      with mark tilde "2.prems"(2,4) show ?thesis
        by (auto simp: put_queue_def cwdaemon_prepare_reply_def set_flag_def prog_simps text_done_def
            reply_owed_def keyed_def before_caret_def ptt_flag_bit_upd split: if_splits)
    next
      case False
      with mark tilde "2.prems"(4) have
        "bnd (sq [guard (c = CHR ''*'') (put_queue ((pre @ [star_to_plus c]) @ x)), play_character w (star_to_plus c)])
          (\<lambda>_. bnd (ask w Cw_get_gap) (\<lambda>gap.
             if gap = 2 then
               (if x \<noteq> [] \<and> hd x = CHR ''^'' then play_from w ((pre @ [star_to_plus c]) @ [hd x]) (tl x)
                else bnd (emit (Cw_set_gap 0)) (\<lambda>_. play_from w (pre @ [star_to_plus c]) x))
             else play_from w (pre @ [star_to_plus c]) x)) s = Run () t"
        by (simp only: play_from.simps Let_def if_False)
      from character_Run [OF "2.prems"(1,2) False mark this] obtain r where
        r: "sounded (keyed [c]) s r" and t: "play_from w (pre @ [star_to_plus c]) x r = Run () t"
        by auto
      have "text_done (pre @ map star_to_plus [c]) x r t"
        using "2.IH"(5) [OF mark tilde False refl zero_neq_numeral "2.prems"(1) _ _ t] r "2.prems"(2,3)
        by (simp add: sounded_def)
      from text_done_append [OF r _ this] False show ?thesis by simp
    qed
  qed
qed

section \<open>Playing comes to an end\<close>

text \<open>A device is selected and PTT is not used: with a delay of 0 it is never switched on.\<close>

definition no_ptt :: "daemon \<Rightarrow> bool" where
  "no_ptt s \<longleftrightarrow> global_cwdevice s \<noteq> None \<and> g_current_ptt_delay_ms s = 0"

lemma no_ptt_trace: "trace_free no_ptt"
  by (simp add: trace_free_def no_ptt_def)

lemma completes_set_ptt_on: "completes no_ptt (cwdaemon_set_ptt_on w d)"
  unfolding cwdaemon_set_ptt_on_def by (intro completes_look completes_guard) (simp add: no_ptt_def)

lemma completes_play_character: "completes no_ptt (play_character w c)"
  unfolding play_character_def
  by (intro completes_rules completes_device completes_set_ptt_on completes_emit no_ptt_trace) (simp add: no_ptt_def)

lemma completes_change_speed: "completes no_ptt (change_speed w x)"
  unfolding change_speed_def
  by (intro completes_rules completes_upd completes_emit no_ptt_trace) (simp add: no_ptt_def)

lemma completes_put_queue: "completes no_ptt (put_queue q)"
  unfolding put_queue_def by (rule completes_upd) (simp add: no_ptt_def)

lemma completes_prepare_reply:
  "length r < CWDAEMON_REPLY_SIZE_MAX + 1 \<Longrightarrow> completes no_ptt (cwdaemon_prepare_reply r)"
  unfolding cwdaemon_prepare_reply_def set_flag_def
  by (simp only: if_True) (intro completes_rules completes_upd; simp add: no_ptt_def)

lemma completes_play_from:
  "length pre + length x \<le> CWDAEMON_REPLY_SIZE_MAX \<Longrightarrow> completes no_ptt (play_from w pre x)"
proof (induction w pre x rule: play_from.induct)
  case (1 w pre)
  show ?case by (simp add: completes_ret)
next
  case (2 w pre c x)
  let ?m = "takeWhile speed_mark (c # x)" and ?r = "dropWhile speed_mark (c # x)"
  have "length ?m + length ?r = length (c # x)"
    by (metis length_append takeWhile_dropWhile_id)
  then have len: "length (pre @ ?m) + length ?r \<le> CWDAEMON_REPLY_SIZE_MAX"
    using 2 by simp
  show ?case
    unfolding play_from.simps(2) Let_def
  proof (intro completes_if completes_bnd completes_change_speed completes_sq completes_put_queue
      completes_prepare_reply completes_guard completes_play_character completes_emit completes_ask
      no_ptt_trace, goal_cases)
    case 1
    with 2 len show ?case by simp
  next
    case 2
    with "2.IH"(2) "2.prems" show ?case by simp
  next
    case 3
    with "2.prems" show ?case by simp
  next
    case (4 u gap)
    with "2.IH"(3) "2.prems" show ?case by (cases x) simp_all
  next
    case (5 u gap u')
    with "2.IH"(4) "2.prems" show ?case by simp
  next
    case (6 u gap)
    with "2.IH"(5) "2.prems" show ?case by simp
  qed
qed

lemma completes_play_request:
  "no_ptt s \<Longrightarrow> length (request_queue s) \<le> CWDAEMON_REPLY_SIZE_MAX \<Longrightarrow> \<exists>t. cwdaemon_play_request w s = Run () t \<and> no_ptt t"
  using completesD [OF completes_play_from [of "[]" "request_queue s" w], of s]
  by (auto simp: cwdaemon_play_request_def put_queue_def prog_simps no_ptt_def)

section \<open>Properties\<close>


text \<open>A daemon with a text in its queue.\<close>

definition text_state :: "string \<Rightarrow> daemon" where
  "text_state q = daemon_init\<lparr>global_cwdevice := Some Dev_Null, request_queue := q, trace := [Cw_set_gap 0]\<rparr>"

lemma text_state_plays: "length q \<le> 256 \<Longrightarrow> \<exists>t. cwdaemon_play_request w (text_state q) = Run () t"
  using completes_play_request [of "text_state q" w]
  by (auto simp: no_ptt_def text_state_def daemon_init_def CWDAEMON_PTT_DELAY_DEFAULT_def
      CWDAEMON_REPLY_SIZE_MAX_def CWDAEMON_REQUEST_SIZE_MAX_def)


text \<open>
  C17: playing a request comes to an end, whatever its text (a run of any length of any bytes) and
  whatever libcw answers, as long as PTT is not used; the queue is empty afterwards. (With a PTT delay
  it can only be held up by the device or by the sleep of the theory \<open>Sleep\<close>.)
\<close>

theorem play_returns:
  assumes "global_cwdevice s \<noteq> None" "g_current_ptt_delay_ms s = 0"
    and "length (request_queue s) \<le> CWDAEMON_REQUEST_SIZE_MAX"
  shows "\<exists>t. cwdaemon_play_request w s = Run () t \<and> request_queue t = []"
proof -
  from assms obtain t where "cwdaemon_play_request w s = Run () t"
    using completes_play_request [of s w] by (auto simp: no_ptt_def CWDAEMON_REPLY_SIZE_MAX_def)
  moreover from this have "request_queue t = []"
    by (auto simp: cwdaemon_play_request_def put_queue_def prog_simps split: outcome.splits)
  ultimately show ?thesis by blast
qed

theorem play_returns_witness:
  "\<exists>t. cwdaemon_play_request (example_env []) (text_state ''a~b^'') = Run () t \<and> request_queue t = []"
  by (rule play_returns) (simp_all add: text_state_def daemon_init_def CWDAEMON_PTT_DELAY_DEFAULT_def
    CWDAEMON_REQUEST_SIZE_MAX_def)

text \<open>
  C35: the caret that follows a character with an extra gap is lost: \<open>~c^\<close> sends the character, but
  no reply is prepared (the flag, the buffer and the address are what they were), and the extra gap is
  left in libcw for the next request.
\<close>

theorem tilde_loses_caret:
  assumes "gap_law w" "c \<noteq> CHR ''^''" "c \<noteq> CHR ''~''" "\<not> speed_mark c"
    and "request_queue s = [CHR ''~'', c, CHR ''^'']" "cwdaemon_play_request w s = Run () t"
  shows "sent (trace t) = sent (trace s) @ keyed [c] \<and> (bit (ptt_flag t) 2 \<longleftrightarrow> bit (ptt_flag s) 2) \<and>
    reply_buffer t = reply_buffer s \<and> reply_addr t = reply_addr s \<and> gap_of (trace t) = Some 2"
proof -
  let ?s = "s\<lparr>trace := trace s @ [Cw_set_gap 2]\<rparr>"
  from assms(5,6) obtain r where r: "play_from w [] [CHR ''~'', c, CHR ''^''] s = Run () r"
    and t: "t = r\<lparr>request_queue := []\<rparr>"
    by (auto simp: cwdaemon_play_request_def put_queue_def prog_simps simp del: play_from.simps split: outcome.splits)
  have "play_from w [CHR ''~''] [c, CHR ''^''] ?s = Run () r"
    using r by (simp add: speed_mark_def emit_def bnd_def [of "upd _"] upd_def)
  from this [unfolded play_from.simps(2) Let_def if_not_P [OF assms(2)] if_not_P [OF assms(3)] if_not_P [OF assms(4)]]
  obtain q where "sounded (keyed [c]) ?s q" "q = r"
    using character_Run [OF assms(1) _ assms(2,4), of ?s 2]
    by (fastforce simp: gap_of_snoc gap_step_def ret_def)
  with t show ?thesis
    by (auto simp: sounded_def sent_snoc sent_step_def gap_of_snoc gap_step_def)
qed

theorem tilde_loses_caret_witness:
  "\<exists>t. cwdaemon_play_request (example_env []) (text_state ''~e^'') = Run () t \<and>
    sent (trace t) = ''e'' \<and> \<not> bit (ptt_flag t) 2 \<and> gap_of (trace t) = Some 2"
proof -
  let ?s = "text_state ''~e^''"
  obtain t where t: "cwdaemon_play_request (example_env []) ?s = Run () t"
    using text_state_plays [of "''~e^''"] by auto
  have q: "request_queue ?s = ''~e^''" "trace ?s = [Cw_set_gap 0]" "ptt_flag ?s = 0"
    by (simp_all add: text_state_def daemon_init_def)
  have "sent [Cw_set_gap 0] = []"
    by (simp add: sent_def sent_step_def)
  with tilde_loses_caret [OF example_gap_law _ _ _ q(1) t, unfolded q] t show ?thesis
    by (auto simp: keyed_def before_caret_def star_to_plus_def speed_mark_def)
qed

end
