(* ===== verification/Sync.thy ===== *)
theory Sync
  imports Safety Morse
begin

text \<open>
  The parameters of the daemon and the settings of libcw's generator are kept in step: \<open>told\<close> relates
  the variables to what the history of calls told the current generator, and is an invariant of the
  machine. The callback that keys the transmitter is only ever registered for the current device.
\<close>

section \<open>The invariant\<close>

definition told :: "daemon \<Rightarrow> bool" where
  "told s \<longleftrightarrow>
     (\<forall>d. v_keying (view_of (trace s)) = Some d \<longrightarrow> global_cwdevice s = Some d) \<and>
     (has_audio_output s \<longrightarrow>
       v_speed (view_of (trace s)) = Some (current_morse_speed s) \<and>
       v_weighting (view_of (trace s)) = Some (weighting_arg (current_weighting s)) \<and>
       v_low (view_of (trace s)) = Some tq_low_watermark \<and>
       (current_morse_tone s > 0 \<longrightarrow> v_frequency (view_of (trace s)) = Some (current_morse_tone s)) \<and>
       (v_volume (view_of (trace s)) = Some (current_morse_volume s) \<or>
        current_morse_tone s \<le> 0 \<and> v_volume (view_of (trace s)) = Some 0))"

section \<open>Operations that leave the settings alone\<close>

fun config_call :: "call \<Rightarrow> bool" where
  "config_call (Cw_generator_new _) = True"
| "config_call Cw_generator_delete = True"
| "config_call (Cw_set_frequency _) = True"
| "config_call (Cw_set_send_speed _) = True"
| "config_call (Cw_set_volume _) = True"
| "config_call (Cw_set_weighting _) = True"
| "config_call (Cw_register_keying_callback _) = True"
| "config_call (Cw_register_tone_queue_low_callback _) = True"
| "config_call _ = False"

abbreviation other_call :: "call \<Rightarrow> bool" where
  "other_call c \<equiv> \<not> config_call c"

interpretation config_obs: observer view_step other_call
  by unfold_locales (auto simp: view_step_def split: call.splits)

lemma device_other: "device_call c \<Longrightarrow> other_call c"
  by (cases c) simp_all

text \<open>The frame "makes other calls only, and leaves the parameters and the device alone".\<close>

definition calm :: "daemon \<Rightarrow> daemon \<Rightarrow> bool" where
  "calm s t \<longleftrightarrow> adds other_call s t \<and> has_audio_output t = has_audio_output s \<and>
     current_morse_speed t = current_morse_speed s \<and> current_weighting t = current_weighting s \<and>
     current_morse_tone t = current_morse_tone s \<and> current_morse_volume t = current_morse_volume s \<and>
     global_cwdevice t = global_cwdevice s"

interpretation clm: frame calm
  by unfold_locales (auto simp: calm_def intro: add.R_refl add.R_trans)

lemma calm_told: "calm s t \<Longrightarrow> told t = told s"
proof -
  assume c: "calm s t"
  then have "view_of (trace t) = view_of (trace s)"
    unfolding calm_def view_of_def by (blast intro: config_obs.replay_adds)
  with c show ?thesis by (simp add: calm_def told_def)
qed

lemma preserves_calm: "within calm m \<Longrightarrow> preserves told m"
  by (erule preserves_within) (simp add: calm_told)

lemma adds_mono: "adds P s t \<Longrightarrow> (\<And>c. P c \<Longrightarrow> Q c) \<Longrightarrow> adds Q s t"
  unfolding adds_def by blast

lemma calm_device:
  assumes "io_only m" "device_calls m"
  shows "within calm m"
proof (rule withinI)
  fix s
  show "case m s of Run x t \<Rightarrow> calm s t | Halt h t \<Rightarrow> orderly h \<and> calm s t"
    using withinD [OF assms(1), of s] withinD [OF assms(2), of s] adds_mono [OF _ device_other]
    by (auto simp: calm_def extends_def split: outcome.splits)
qed

lemma calm_ask: "other_call c \<Longrightarrow> within calm (ask w c)"
  by (rule withinI) (auto simp: ask_def Let_def calm_def adds_def)

lemma calm_emit: "other_call c \<Longrightarrow> within calm (emit c)"
  by (rule withinI) (auto simp: emit_def upd_def calm_def adds_def)

lemma calm_upd: "(\<And>s. calm s (f s)) \<Longrightarrow> within calm (upd f)"
  by (rule withinI) (simp add: upd_def)

lemma calm_flag: "within calm (set_flag f)"
  unfolding set_flag_def by (rule calm_upd) (simp add: calm_def adds_same)

lemma calm_queue: "within calm (put_queue q)"
  unfolding put_queue_def by (rule calm_upd) (simp add: calm_def adds_same)

lemma preserves_with_device: "(\<And>d. preserves I (f d)) \<Longrightarrow> preserves I (with_device f)"
  unfolding with_device_def by (intro preserves_look preserves_option preserves_halt)

lemmas calm_methods =
  calm_device [OF io_only_dev(1) device_calls_methods(1)]
  calm_device [OF io_only_dev(2) device_calls_methods(2)]
  calm_device [OF io_only_dev(3) device_calls_methods(3)]
  calm_device [OF io_only_millisleep device_calls_sleep]

lemma calm_set_ptt: "within calm (cwdaemon_set_ptt_on w d)" "within calm (cwdaemon_set_ptt_off w d)"
  unfolding cwdaemon_set_ptt_on_def cwdaemon_set_ptt_off_def
  by (intro clm.within_look clm.within_guard clm.within_sq_Cons clm.within_sq_Nil clm.within_bnd clm.within_ret
      calm_flag calm_methods)+

lemmas told_rules = preserves_rules preserves_with_device preserves_calm [OF calm_flag] preserves_calm [OF calm_queue]
  preserves_calm [OF calm_set_ptt(1)] preserves_calm [OF calm_set_ptt(2)] preserves_calm [OF calm_ask]
  preserves_calm [OF calm_emit]

section \<open>Playing text\<close>

lemma told_change_speed: "preserves told (change_speed w x)"
  by (rule preservesI)
    (auto simp: change_speed_def prog_simps told_def view_of_snoc view_step_def)

lemma told_prepare_reply: "preserves told (cwdaemon_prepare_reply r)"
  unfolding cwdaemon_prepare_reply_def
  by (intro told_rules preserves_calm [OF calm_upd]) (simp_all add: calm_def adds_same)

lemma told_play_from: "preserves told (play_from w pre x)"
proof (induction w pre x rule: play_from.induct)
  case (1 w pre)
  show ?case by (simp add: preserves_ret)
next
  case (2 w pre c x)
  show ?case
    unfolding play_from.simps(2) Let_def play_character_def
    by (intro preserves_if preserves_bnd preserves_sq preserves_guard told_change_speed told_prepare_reply
        preserves_with_device preserves_calm [OF calm_queue] preserves_calm [OF calm_set_ptt(1)]
        preserves_calm [OF calm_ask] preserves_calm [OF calm_emit] "2.IH"; simp)
qed

lemma told_play_request: "preserves told (cwdaemon_play_request w)"
  unfolding cwdaemon_play_request_def by (intro told_rules told_play_from)

section \<open>Opening the generator\<close>

definition stays_fresh :: "call \<Rightarrow> bool" where
  "stays_fresh c \<longleftrightarrow> view_step fresh_view c = fresh_view"

lemma fresh_adds: "adds stays_fresh s t \<Longrightarrow> view_of (trace s) = fresh_view \<Longrightarrow> view_of (trace t) = fresh_view"
proof -
  have "\<forall>c \<in> set u. stays_fresh c \<Longrightarrow> foldl view_step fresh_view u = fresh_view" for u
    by (induction u) (simp_all add: stays_fresh_def)
  then show "adds stays_fresh s t \<Longrightarrow> view_of (trace s) = fresh_view \<Longrightarrow> view_of (trace t) = fresh_view"
    by (auto simp: adds_def view_of_append)
qed

lemma adds_retry_oss: "within (adds stays_fresh) (retry_oss w a n rv)"
  by (induction n arbitrary: rv) (auto intro!: adds_rules simp: stays_fresh_def view_step_def)

lemma adds_open: "within (adds stays_fresh) (cwdaemon_open_libcw_output w a)"
  unfolding cwdaemon_open_libcw_output_def
  by (intro adds_rules adds_retry_oss; simp add: stays_fresh_def view_step_def)

text \<open>After closing, and opening again, the generator has no settings; no variable has changed.\<close>

lemma close_Run:
  "cwdaemon_close_libcw_output s = Run () (s\<lparr>trace := trace s @ [Cw_generator_stop, Cw_generator_delete]\<rparr>)"
  by (simp add: cwdaemon_close_libcw_output_def prog_simps)

lemma close_fresh: "view_of (tr @ [Cw_generator_stop, Cw_generator_delete]) = fresh_view"
  by (simp add: view_of_append view_step_def)

lemma open_Run:
  assumes "cwdaemon_open_libcw_output w a s = Run b t" "view_of (trace s) = fresh_view"
  shows "view_of (trace t) = fresh_view" "\<exists>u. t = s\<lparr>trace := trace s @ u\<rparr>"
  using fresh_adds [OF within_Run [OF adds_open assms(1)] assms(2)] within_Run [OF io_only_open assms(1)]
  by (simp_all add: extends_def)

lemma reset_libcw_Run:
  assumes "cwdaemon_reset_libcw_output w s = Run r t"
  shows "\<exists>u. t = s\<lparr>trace := trace s @ u\<rparr> \<and> (r = 0 \<or> r = - 1) \<and>
    (r = - 1 \<longrightarrow> view_of (trace t) = fresh_view) \<and>
    (r = 0 \<longrightarrow> gap_of (trace t) = Some 0 \<and> view_of (trace t) = \<lparr>v_frequency = Some (default_morse_tone s),
       v_speed = Some (default_morse_speed s), v_volume = Some (default_morse_volume s),
       v_weighting = Some (weighting_arg (default_weighting s)), v_keying = None, v_low = Some tq_low_watermark\<rparr>)"
proof -
  let ?s = "s\<lparr>trace := trace s @ [Cw_generator_stop, Cw_generator_delete]\<rparr>"
  from assms obtain b q where b: "cwdaemon_open_libcw_output w (default_audio_system ?s) ?s = Run b q"
    and t: "if b then r = 0 \<and> t = q\<lparr>trace := trace q @ [Cw_register_tone_queue_low_callback tq_low_watermark,
        Cw_set_frequency (default_morse_tone s), Cw_set_send_speed (default_morse_speed s),
        Cw_set_volume (default_morse_volume s), Cw_set_gap 0, Cw_set_weighting (weighting_arg (default_weighting s))]\<rparr>
      else r = - 1 \<and> t = q"
    by (auto simp: cwdaemon_reset_libcw_output_def close_Run prog_simps split: outcome.splits if_splits)
  have f: "view_of (trace ?s) = fresh_view" by (simp add: close_fresh)
  from open_Run [OF b f] t show ?thesis
    by (cases b) (auto simp: view_of_append view_step_def fresh_view_def gap_of_def gap_step_def)
qed

text \<open>The reset of all parameters ends with a fresh generator that has the default settings, or with none.\<close>

lemma reset_current_kept:
  "trace (reset_current s) = trace s" "default_morse_tone (reset_current s) = default_morse_tone s"
  "default_morse_speed (reset_current s) = default_morse_speed s"
  "default_morse_volume (reset_current s) = default_morse_volume s"
  "default_weighting (reset_current s) = default_weighting s"
  by (simp_all add: reset_current_def)

lemma reset_almost_all_Run:
  assumes "cwdaemon_reset_almost_all w d s = Run r t"
  shows "\<exists>u b. t = (reset_current s)\<lparr>trace := trace s @ u, has_audio_output := b\<rparr> \<and> (r = (if b then 0 else - 1)) \<and>
    (if b then gap_of (trace t) = Some 0 \<and> view_of (trace t) = \<lparr>v_frequency = Some (default_morse_tone s),
       v_speed = Some (default_morse_speed s), v_volume = Some (default_morse_volume s),
       v_weighting = Some (weighting_arg (default_weighting s)), v_keying = Some d, v_low = Some tq_low_watermark\<rparr>
     else view_of (trace t) = fresh_view)"
proof -
  from assms obtain x q where q: "cwdaemon_reset_libcw_output w (reset_current s) = Run x q"
    and t: "if x \<noteq> 0 then r = - 1 \<and> t = q\<lparr>has_audio_output := False\<rparr>
      else r = 0 \<and> t = q\<lparr>has_audio_output := True, trace := trace q @ [Cw_register_keying_callback (Some d)]\<rparr>"
    by (auto simp: cwdaemon_reset_almost_all_def prog_simps split: outcome.splits if_splits)
  from reset_libcw_Run [OF q] obtain u where
    "q = (reset_current s)\<lparr>trace := trace (reset_current s) @ u\<rparr> \<and> (x = 0 \<or> x = - 1) \<and>
      (x = - 1 \<longrightarrow> view_of (trace q) = fresh_view) \<and>
      (x = 0 \<longrightarrow> gap_of (trace q) = Some 0 \<and> view_of (trace q) = \<lparr>v_frequency = Some (default_morse_tone (reset_current s)),
       v_speed = Some (default_morse_speed (reset_current s)), v_volume = Some (default_morse_volume (reset_current s)),
       v_weighting = Some (weighting_arg (default_weighting (reset_current s))), v_keying = None, v_low = Some tq_low_watermark\<rparr>)"
    by (rule exE)
  then have u: "q = (reset_current s)\<lparr>trace := trace s @ u\<rparr>"
    and v: "x = 0 \<Longrightarrow> gap_of (trace q) = Some 0 \<and> view_of (trace q) = \<lparr>v_frequency = Some (default_morse_tone s),
       v_speed = Some (default_morse_speed s), v_volume = Some (default_morse_volume s),
       v_weighting = Some (weighting_arg (default_weighting s)), v_keying = None, v_low = Some tq_low_watermark\<rparr>"
      "x \<noteq> 0 \<Longrightarrow> view_of (trace q) = fresh_view"
    unfolding reset_current_kept by blast+
  show ?thesis
  proof (cases "x = 0")
    case True
    with t have r: "r = 0" and tr: "trace t = trace q @ [Cw_register_keying_callback (Some d)]" by simp_all
    from True t u have shape:
      "t = (reset_current s)\<lparr>trace := trace s @ u @ [Cw_register_keying_callback (Some d)], has_audio_output := True\<rparr>"
      by (simp add: reset_current_def)
    from v(1) [OF True] have g: "gap_of (trace t) = Some 0"
      and vw: "view_of (trace t) = \<lparr>v_frequency = Some (default_morse_tone s),
       v_speed = Some (default_morse_speed s), v_volume = Some (default_morse_volume s),
       v_weighting = Some (weighting_arg (default_weighting s)), v_keying = Some d, v_low = Some tq_low_watermark\<rparr>"
      unfolding tr by (simp_all add: view_of_snoc view_step_def gap_of_snoc gap_step_def)
    show ?thesis
      by (rule exI [of _ "u @ [Cw_register_keying_callback (Some d)]"], rule exI [of _ True], unfold if_True)
        (intro conjI shape r g vw)
  next
    case False
    with t u have "t = (reset_current s)\<lparr>trace := trace s @ u, has_audio_output := False\<rparr>" by simp
    with False t v(2) show ?thesis
      by (intro exI [of _ u] exI [of _ False]) simp
  qed
qed

lemma reset_almost_all_device:
  "cwdaemon_reset_almost_all w d s = Run r t \<Longrightarrow> global_cwdevice t = global_cwdevice s"
  by (drule reset_almost_all_Run) (auto simp: reset_current_def)

lemma told_reset:
  assumes "cwdaemon_reset_almost_all w d s = Run r t" "global_cwdevice s = Some d"
  shows "told t"
proof -
  from reset_almost_all_Run [OF assms(1)] obtain u b where
    t: "t = (reset_current s)\<lparr>trace := trace s @ u, has_audio_output := b\<rparr>"
    and v: "view_of (trace t) = (if b then \<lparr>v_frequency = Some (default_morse_tone s),
       v_speed = Some (default_morse_speed s), v_volume = Some (default_morse_volume s),
       v_weighting = Some (weighting_arg (default_weighting s)), v_keying = Some d, v_low = Some tq_low_watermark\<rparr>
     else fresh_view)" by (auto split: if_splits)
  show ?thesis
    unfolding told_def v using assms(2) by (cases b) (simp_all add: t reset_current_def fresh_view_def)
qed

section \<open>Escape requests\<close>

lemma told_esc_reset: "preserves told (esc_reset w)"
proof -
  have "preserves told (with_device (\<lambda>dev. bnd (cwdaemon_reset_almost_all w dev) (\<lambda>_. ret ())))"
    by (rule preservesI)
      (auto simp: with_device_def look_def halt_def bnd_def ret_def split: option.splits outcome.splits intro: told_reset)
  moreover have "preserves told (with_device (dev_reset_pins_state w))"
    by (intro preserves_with_device preserves_calm [OF calm_methods(3)])
  ultimately show ?thesis
    unfolding esc_reset_def
    by (intro preserves_sq preserves_calm [OF calm_flag] preserves_calm [OF calm_queue] preserves_calm [OF calm_upd])
      (assumption | simp add: calm_def adds_same)+
qed

lemma told_esc_speed: "preserves told (esc_speed w arg)"
proof (rule preservesI)
  fix s x t assume s: "told s" and run: "esc_speed w arg s = Run x t"
  obtain k v where p: "cwdaemon_params_wpm w arg (current_morse_speed s) = (k, v)" by (rule prod.exhaust)
  have "\<not> k \<Longrightarrow> v = current_morse_speed s" using p by (auto simp: cwdaemon_params_wpm_def split: option.splits if_splits)
  with s run p show "told t"
    by (cases k) (auto simp: esc_speed_def prog_simps told_def view_of_snoc view_step_def)
qed

lemma told_esc_volume: "preserves told (esc_volume w arg)"
proof (rule preservesI)
  fix s x t assume s: "told s" and run: "esc_volume w arg s = Run x t"
  obtain k v where p: "cwdaemon_params_volume w arg (current_morse_volume s) = (k, v)" by (rule prod.exhaust)
  have "\<not> k \<Longrightarrow> v = current_morse_volume s" using p by (auto simp: cwdaemon_params_volume_def split: option.splits if_splits)
  with s run p show "told t"
    by (cases k) (auto simp: esc_volume_def prog_simps told_def view_of_snoc view_step_def)
qed

lemma told_esc_weighting: "preserves told (esc_weighting arg)"
proof (rule preservesI)
  fix s x t assume s: "told s" and run: "esc_weighting arg s = Run x t"
  obtain k v where p: "cwdaemon_params_weighting arg (current_weighting s) = (k, v)" by (rule prod.exhaust)
  have "\<not> k \<Longrightarrow> v = current_weighting s" using p by (auto simp: cwdaemon_params_weighting_def split: option.splits if_splits)
  with s run p show "told t"
    by (cases k) (auto simp: esc_weighting_def prog_simps told_def view_of_snoc view_step_def)
qed

lemma told_esc_tone: "preserves told (esc_tone w arg)"
proof (rule preservesI)
  fix s x t assume s: "told s" and run: "esc_tone w arg s = Run x t"
  obtain k v where p: "cwdaemon_params_tone w arg (current_morse_tone s) = (k, v)" by (rule prod.exhaust)
  have "\<not> k \<Longrightarrow> v = current_morse_tone s" using p by (auto simp: cwdaemon_params_tone_def split: option.splits if_splits)
  with s run p show "told t"
    by (cases k) (auto simp: esc_tone_def prog_simps told_def view_of_append view_step_def split: if_splits)
qed

lemma told_esc_cwdevice: "preserves told (esc_cwdevice w arg)"
proof (rule preservesI)
  fix s x t assume s: "told s" and run: "esc_cwdevice w arg s = Run x t"
  let ?s = "s\<lparr>trace := trace s @ [Cw_register_keying_callback None]\<rparr>"
  from run obtain r q where q: "cwdaemon_option_cwdevice w arg ?s = Run r q"
    and t: "if r = 0 then \<exists>d. global_cwdevice q = Some d \<and> t = q\<lparr>trace := trace q @ [Cw_register_keying_callback (Some d)]\<rparr>
      else t = q"
    by (auto simp: esc_cwdevice_def register_keying_callback_def with_device_def prog_simps
        split: outcome.splits option.splits if_splits)
  have v: "view_of (trace q) = (view_of (trace s))\<lparr>v_keying := None\<rparr>"
    using device_calls_unseen(2) [OF within_Run [OF device_calls_option_cwdevice q]]
    by (simp add: view_of_snoc view_step_def)
  have "dev_frame ?s q" by (rule within_Run [OF dev_only_option_cwdevice q])
  then have "has_audio_output q = has_audio_output s" "current_morse_speed q = current_morse_speed s"
    "current_weighting q = current_weighting s" "current_morse_tone q = current_morse_tone s"
    "current_morse_volume q = current_morse_volume s"
    by (auto simp: dev_frame_def)
  with s t v show "told t"
    by (auto simp: told_def view_of_snoc view_step_def split: if_splits)
qed

text \<open>
  Changing the sound system: either there is an output with a fresh generator, which is then configured
  from the current parameters, or there is none.
\<close>

lemma switch_sound_system_Run:
  assumes "switch_sound_system w s = Run () t"
  shows "view_of (trace t) = fresh_view \<and> global_cwdevice t = global_cwdevice s"
proof -
  let ?s = "s\<lparr>trace := trace s @ [Cw_generator_stop, Cw_generator_delete]\<rparr>"
  have f: "view_of (trace ?s) = fresh_view" by (simp add: close_fresh)
  from assms obtain b q where q: "cwdaemon_open_libcw_output w (current_audio_system s) ?s = Run b q"
    and t: "if b then t = q\<lparr>has_audio_output := True\<rparr>
      else \<exists>b' r. cwdaemon_open_libcw_output w CW_AUDIO_NULL
            (q\<lparr>trace := trace q @ [Cw_generator_stop, Cw_generator_delete]\<rparr>) = Run b' r \<and>
          (t = r\<lparr>current_audio_system := CW_AUDIO_NULL, has_audio_output := True\<rparr> \<or> t = r\<lparr>has_audio_output := False\<rparr>)"
    by (auto simp: switch_sound_system_def close_Run prog_simps split: outcome.splits if_splits)
  from open_Run [OF q f] have q': "view_of (trace q) = fresh_view" "global_cwdevice q = global_cwdevice s" by auto
  show ?thesis
  proof (cases b)
    case True
    with q' t show ?thesis by simp
  next
    case False
    let ?q = "q\<lparr>trace := trace q @ [Cw_generator_stop, Cw_generator_delete]\<rparr>"
    from False t obtain b' r where r: "cwdaemon_open_libcw_output w CW_AUDIO_NULL ?q = Run b' r"
      and t': "trace t = trace r" "global_cwdevice t = global_cwdevice r" by fastforce
    have "view_of (trace ?q) = fresh_view" by (simp add: close_fresh)
    from open_Run [OF r this] q'(2) t' show ?thesis by auto
  qed
qed

lemma configure_generator_told:
  assumes "configure_generator s = Run () t" "view_of (trace s) = fresh_view"
  shows "told t"
proof -
  from assms(1) obtain d where d: "global_cwdevice s = Some d" and
    t: "t = s\<lparr>trace := trace s @ [Cw_register_tone_queue_low_callback tq_low_watermark,
      Cw_set_frequency (current_morse_tone s), Cw_set_send_speed (current_morse_speed s),
      Cw_set_volume (current_morse_volume s), Cw_set_gap 0, Cw_set_weighting (weighting_arg (current_weighting s)),
      Cw_register_keying_callback (Some d)]\<rparr>"
    by (auto simp: configure_generator_def register_keying_callback_def with_device_def prog_simps split: option.splits)
  show ?thesis
    unfolding told_def using d assms(2) by (simp add: t view_of_append view_step_def)
qed

lemma told_esc_system: "preserves told (esc_system w arg)"
proof (rule preservesI)
  fix s x t assume s: "told s" and run: "esc_system w arg s = Run x t"
  obtain k v where p: "cwdaemon_params_system arg (current_audio_system s) = (k, v)" by (rule prod.exhaust)
  let ?s = "s\<lparr>current_audio_system := v\<rparr>"
  show "told t"
  proof (cases k)
    case False
    with run p have "t = ?s" by (simp add: esc_system_def prog_simps)
    with s show ?thesis by (simp add: told_def)
  next
    case True
    with run p obtain q where q: "switch_sound_system w ?s = Run () q"
      and t: "if has_audio_output q then configure_generator q = Run () t else t = q"
      by (auto simp: esc_system_def prog_simps split: outcome.splits if_splits)
    from switch_sound_system_Run [OF q] have f: "view_of (trace q) = fresh_view" by simp
    show ?thesis
    proof (cases "has_audio_output q")
      case True
      with t configure_generator_told [OF _ f] show ?thesis by simp
    next
      case False
      with t f show ?thesis by (simp add: told_def fresh_view_def)
    qed
  qed
qed

lemma calm_sendto: "preserves told (cwdaemon_sendto w r)"
  unfolding cwdaemon_sendto_def Let_def by (intro told_rules; simp)

lemma told_esc_abort: "preserves told (esc_abort w)"
  unfolding esc_abort_def by (intro told_rules calm_sendto; simp)

lemma told_esc_wordmode: "preserves told esc_wordmode"
  unfolding esc_wordmode_def by (intro told_rules preserves_calm [OF calm_upd]; simp add: calm_def adds_same)

lemma told_replicate: "preserves I m \<Longrightarrow> preserves I (sq (replicate n m))"
  by (induction n) (simp_all add: preserves_ret preserves_bnd)

lemma told_esc_tune: "preserves told (esc_tune w arg)"
  unfolding esc_tune_def cwdaemon_tune_def by (intro told_rules told_replicate; simp)

lemma told_esc_pttdelay: "preserves told (esc_pttdelay w arg)"
  unfolding esc_pttdelay_def by (intro told_rules preserves_calm [OF calm_upd]; simp add: calm_def adds_same)

lemma told_ptt_on_off: "preserves told (cwdaemon_params_ptt_on_off w arg)"
  unfolding cwdaemon_params_ptt_on_off_def by (intro told_rules; simp)

lemma told_esc_lp: "preserves told (esc_ssbway w arg)" "preserves told (esc_band w arg)"
proof -
  have "preserves told f" if "dev_ssbway w d = Some g" "f = g v" for f g v d
    using that by (cases d) (auto simp: dev_ssbway_def intro!: preserves_calm calm_device io_only_lp device_calls_lp)
  then show "preserves told (esc_ssbway w arg)"
    unfolding esc_ssbway_def by (intro preserves_guard preserves_option preserves_ret preserves_with_device) blast
  have "preserves told (cwdaemon_switch_band w d b)" for d b
    unfolding cwdaemon_switch_band_def Let_def dev_switchband_def
    by (cases d) (auto intro!: preserves_ret preserves_calm calm_device io_only_lp device_calls_lp)
  then show "preserves told (esc_band w arg)"
    unfolding esc_band_def by (intro preserves_guard preserves_option preserves_ret preserves_with_device)
qed

lemma told_escaped: "preserves told (cwdaemon_handle_escaped_request w request)"
  unfolding cwdaemon_handle_escaped_request_def Let_def
  by (intro preserves_if preserves_ret preserves_halt preserves_bnd told_esc_reset told_esc_speed told_esc_tone
      told_esc_abort told_esc_wordmode told_esc_weighting told_esc_cwdevice told_ptt_on_off told_esc_lp
      told_esc_tune told_esc_pttdelay told_esc_system told_esc_volume told_prepare_reply)

section \<open>The machine\<close>

lemma told_receive: "preserves told (cwdaemon_receive w)"
proof -
  have "preserves told (cwdaemon_recvfrom w n)" for n
    by (intro preserves_calm withinI) (simp add: cwdaemon_recvfrom_def Let_def calm_def adds_def)
  then show ?thesis
    unfolding cwdaemon_receive_def act_on_request_def
    by (intro preserves_bnd preserves_prod preserves_if preserves_ret preserves_halt preserves_look preserves_sq
        preserves_calm [OF calm_queue] told_play_request told_escaped)
qed

lemma told_low_callback: "preserves told (cwdaemon_tone_queue_low_callback w)"
  unfolding cwdaemon_tone_queue_low_callback_def send_reply_def
  by (intro told_rules calm_sendto preserves_calm [OF calm_upd]; simp add: calm_def adds_same)

lemma told_main_iteration: "preserves told (main_iteration w)"
proof -
  have "preserves told f" if "dev_footswitch w d = Some f" for f d
    using that by (cases d) (auto simp: dev_footswitch_def intro!: preserves_calm calm_device io_only_lp device_calls_lp)
  then show ?thesis
    unfolding main_iteration_def
    by (intro told_rules told_receive preserves_calm [OF calm_upd] preserves_calm [OF calm_methods(2)];
        (assumption | simp add: calm_def adds_same)?)
qed

lemma told_keyingevent: "preserves told (cwdaemon_keyingevent w d k)"
  unfolding cwdaemon_keyingevent_def
  by (intro told_rules preserves_calm [OF calm_methods(1)] preserves_calm [OF calm_upd]) (simp add: calm_def adds_same)

interpretation in_step: kept_machine "daemon_step w" told True for w
proof
  show "preserves told (daemon_step w e)" for e
    by (cases e) (simp_all add: told_main_iteration told_low_callback told_keyingevent)
qed

lemma told_start: "hoare (\<lambda>s. global_cwdevice s = Some d) (main_start w d) (\<lambda>_. told) (\<lambda>_ _. True)"
proof -
  let ?D = "\<lambda>s. global_cwdevice s = Some d"
  have d: "trace_free ?D" by (simp add: trace_free_def)
  have socket: "hoare ?D (bnd (cwdaemon_initialize_socket w) (\<lambda>opened. guard (\<not> opened) (halt (Exit EXIT_FAILURE))))
      (\<lambda>_. ?D) (\<lambda>_ _. True)"
  proof -
    have "keeps ?D (bnd (cwdaemon_initialize_socket w) (\<lambda>opened. guard (\<not> opened) (halt (Exit EXIT_FAILURE))))"
      unfolding cwdaemon_initialize_socket_def
      by (intro keeps_bnd keeps_upd keeps_ret keeps_if keeps_look keeps_ask keeps_guard keeps_exit d) simp_all
    then show ?thesis unfolding keeps_def by (rule hoare_conseq) auto
  qed
  have calls: "hoare ?D (emit c) (\<lambda>_. ?D) (\<lambda>_ _. True)" for c
    by (rule hoareI) (simp add: emit_def upd_def)
  have exit: "preserves I (guard b (halt (Exit n)))" for I :: "daemon \<Rightarrow> bool" and b n
    by (intro preserves_guard preserves_halt)
  have priority: "preserves ?D (look (\<lambda>s. guard (process_priority s \<noteq> 0)
      (bnd (ask w Getpid) (\<lambda>pid.
       bnd (ask w (Setpriority pid (process_priority s))) (\<lambda>r.
         guard (r < 0) (halt (Exit EXIT_FAILURE)))))))"
    by (intro preserves_rules preserves_calm [OF calm_ask] preserves_within [OF calm_ask] exit)
      (simp_all add: calm_def)
  have reset: "hoare ?D (bnd (cwdaemon_reset_almost_all w d) (\<lambda>r. guard (0 \<noteq> r) (halt (Exit EXIT_FAILURE))))
      (\<lambda>_. told) (\<lambda>_ _. True)"
  proof (rule hoare_bnd)
    show "hoare ?D (cwdaemon_reset_almost_all w d) (\<lambda>_. told) (\<lambda>_ _. True)"
      by (rule hoareI) (simp split: outcome.split add: told_reset)
  qed (rule exit [unfolded preserves_def])
  have debug: "preserves told (look (\<lambda>s. guard (0 \<noteq> g_libcw_debug_flags s)
      (set_libcw_debugging (current_log_threshold s) (g_libcw_debug_flags s))))"
    unfolding set_libcw_debugging_def by (intro told_rules) simp_all
  show ?thesis
    unfolding main_start_def
    by (rule hoare_sq_Cons [OF calls], rule hoare_sq_Cons [OF socket],
        rule hoare_sq_Cons [OF priority [unfolded preserves_def]], rule hoare_sq_Cons [OF calls],
        rule hoare_sq_Cons [OF reset],
        rule hoare_sq_Cons [OF debug [unfolded preserves_def]],
        rule hoare_sq_Cons [OF preserves_calm [OF calm_queue, unfolded preserves_def]],
        rule preserves_sq(1) [unfolded preserves_def])
qed

section \<open>Properties\<close>



text \<open>
  C10: the reset request restores everything at once: each parameter has its default, word mode is off,
  the queue and the PTT flags are cleared; and if the sound system could be opened again, libcw's new
  generator has exactly the default settings, no gap, and the keying callback of the current device.
\<close>

theorem reset_restores:
  assumes "esc_reset w s = Run () t"
  shows "current_morse_speed t = default_morse_speed s \<and> current_morse_tone t = default_morse_tone s \<and>
    current_morse_volume t = default_morse_volume s \<and> current_weighting t = default_weighting s \<and>
    g_current_ptt_delay_ms t = g_default_ptt_delay_ms s \<and> current_audio_system t = default_audio_system s \<and>
    current_log_threshold t = default_log_threshold s \<and>
    wordmode t = 0 \<and> request_queue t = [] \<and> ptt_flag t = 0 \<and> global_cwdevice t = global_cwdevice s \<and>
    (has_audio_output t \<longrightarrow> gap_of (trace t) = Some 0 \<and>
      view_of (trace t) = \<lparr>v_frequency = Some (default_morse_tone s), v_speed = Some (default_morse_speed s),
        v_volume = Some (default_morse_volume s), v_weighting = Some (weighting_arg (default_weighting s)),
        v_keying = global_cwdevice s, v_low = Some 1\<rparr>)"
proof -
  let ?s = "s\<lparr>request_queue := []\<rparr>"
  from assms obtain d r q d' where d: "global_cwdevice s = Some d"
    and r: "cwdaemon_reset_almost_all w d ?s = Run r q" and d': "global_cwdevice q = Some d'"
    and t': "bnd (dev_reset_pins_state w d') (\<lambda>_. set_flag (\<lambda>_. 0)) (q\<lparr>wordmode := 0, async_abort := 0\<rparr>) = Run () t"
    by (auto simp: esc_reset_def put_queue_def with_device_def prog_simps split: outcome.splits option.splits)
  from reset_almost_all_device [OF r] d d' t' have
    t: "bnd (dev_reset_pins_state w d) (\<lambda>_. set_flag (\<lambda>_. 0)) (q\<lparr>wordmode := 0, async_abort := 0\<rparr>) = Run () t"
    by simp
  from t obtain p where p: "dev_reset_pins_state w d (q\<lparr>wordmode := 0, async_abort := 0\<rparr>) = Run () p"
    and t: "t = p\<lparr>ptt_flag := 0\<rparr>"
    by (auto simp: set_flag_def prog_simps split: outcome.splits)
  from within_Run [OF io_only_dev(3) p] obtain u where
    pq: "p = q\<lparr>wordmode := 0, async_abort := 0, trace := trace q @ u\<rparr>" by (auto simp: extends_def)
  note unseen = device_calls_unseen(1,2) [OF within_Run [OF device_calls_methods(3) p]]
  from reset_almost_all_Run [OF r] obtain v b where
    q: "q = (reset_current ?s)\<lparr>trace := trace ?s @ v, has_audio_output := b\<rparr>"
    and view: "b \<Longrightarrow> gap_of (trace q) = Some 0 \<and> view_of (trace q) = \<lparr>v_frequency = Some (default_morse_tone s),
       v_speed = Some (default_morse_speed s), v_volume = Some (default_morse_volume s),
       v_weighting = Some (weighting_arg (default_weighting s)), v_keying = Some d, v_low = Some tq_low_watermark\<rparr>"
    by (auto split: if_splits)
  have "has_audio_output t = b" by (simp add: t pq q)
  with view unseen d t pq have "has_audio_output t \<longrightarrow> gap_of (trace t) = Some 0 \<and>
      view_of (trace t) = \<lparr>v_frequency = Some (default_morse_tone s), v_speed = Some (default_morse_speed s),
        v_volume = Some (default_morse_volume s), v_weighting = Some (weighting_arg (default_weighting s)),
        v_keying = global_cwdevice s, v_low = Some 1\<rparr>"
    by (simp add: tq_low_watermark_def)
  then show ?thesis
    by (simp add: t pq q reset_current_def)
qed

theorem reset_restores_witness:
  "\<exists>t. esc_reset (example_env []) (example_config\<lparr>current_morse_speed := 40, ptt_flag := 4\<rparr>) = Run () t \<and>
    current_morse_speed t = 24 \<and> ptt_flag t = 0"
proof -
  let ?s = "example_config\<lparr>current_morse_speed := 40, ptt_flag := 4\<rparr>"
  have "\<exists>t. esc_reset (example_env []) ?s = Run () t"
    by (simp add: esc_reset_def cwdaemon_reset_almost_all_def with_device_def set_flag_def dev_reset_pins_state_def
        cwdaemon_reset_libcw_output_def cwdaemon_close_libcw_output_def cwdaemon_open_libcw_output_def
        null_reset_pins_state_def prog_simps Let_def example_config_def daemon_init_def example_env_def
        answer_def reset_current_def put_queue_def)
  then obtain t where t: "esc_reset (example_env []) ?s = Run () t" ..
  have "default_morse_speed ?s = 24"
    by (simp add: example_config_def daemon_init_def CWDAEMON_MORSE_SPEED_DEFAULT_def)
  with reset_restores [OF t] have "current_morse_speed t = 24" "ptt_flag t = 0" by simp_all
  with t show ?thesis by blast
qed


end
