(* ===== verification/Reply.thy ===== *)
theory Reply
  imports Sync
begin

text \<open>
  Replies to clients. The abstract view of the daemon is a mailbox: at most one reply that is owed, with
  the client it is owed to, and the list of what was sent. \<open>mailbox_step\<close> says what may happen to it;
  every step of the machine is one such step.
\<close>

section \<open>The mailbox\<close>

type_synonym letter = "string \<times> sockaddr"

record mailbox =
  owed :: "letter option"
  sent_letters :: "letter list"

definition break_text :: string where
  "break_text = ''break'' @ CRLF"

inductive mailbox_step :: "mailbox \<Rightarrow> mailbox \<Rightarrow> bool" where
  quiet: "mailbox_step m m"
| ask: "mailbox_step m (m\<lparr>owed := Some (r, a)\<rparr>)"
| deliver: "owed m = Some (r, a) \<Longrightarrow>
    mailbox_step m (m\<lparr>owed := None, sent_letters := sent_letters m @ [(r @ CRLF, a)]\<rparr>)"
| abort: "owed m = Some (r, a) \<Longrightarrow>
    mailbox_step m (m\<lparr>owed := None, sent_letters := sent_letters m @ [(break_text, a)]\<rparr>)"
| forget: "mailbox_step m (m\<lparr>owed := None\<rparr>)"

inductive_cases mailbox_stepE: "mailbox_step m n"

definition mailbox :: "daemon \<Rightarrow> mailbox" where
  "mailbox s = \<lparr>owed = (if bit (ptt_flag s) 2 then Some (reply_buffer s, reply_addr s) else None),
     sent_letters = replied (trace s)\<rparr>"

lemma mailbox_sent: "sent_letters (mailbox s) = replied (trace s)"
  by (simp add: mailbox_def)

text \<open>Each letter sent answers one that was owed at that moment.\<close>

lemma mailbox_step_sends:
  assumes "mailbox_step m n"
  shows "sent_letters n = sent_letters m \<or>
    (\<exists>r a. owed m = Some (r, a) \<and> owed n = None \<and>
      (sent_letters n = sent_letters m @ [(r @ CRLF, a)] \<or> sent_letters n = sent_letters m @ [(break_text, a)]))"
  using assms by (rule mailbox_stepE) auto

section \<open>Operations that leave the mailbox alone\<close>

abbreviation still :: "mailbox \<Rightarrow> daemon \<Rightarrow> bool" where
  "still m s \<equiv> mailbox s = m"

fun mute_call :: "call \<Rightarrow> bool" where
  "mute_call (Sendto _ _ _ _) = False"
| "mute_call _ = True"

interpretation mute_obs: observer replied_step mute_call
  by unfold_locales (auto simp: replied_step_def split: call.splits)

lemma mute_device: "device_call c \<Longrightarrow> mute_call c"
  by (cases c) simp_all

lemma replied_mute: "mute_call c \<Longrightarrow> replied (tr @ [c]) = replied tr"
  by (simp add: replied_snoc mute_obs.obs_quiet)

lemma still_ask: "mute_call c \<Longrightarrow> preserves (still m) (ask w c)"
  by (rule preservesI) (auto simp: ask_def Let_def mailbox_def replied_mute)

lemma still_emit: "mute_call c \<Longrightarrow> preserves (still m) (emit c)"
  by (rule preservesI) (auto simp: emit_def upd_def mailbox_def replied_mute)

lemma still_upd: "(\<And>s. mailbox (f s) = mailbox s) \<Longrightarrow> preserves (still m) (upd f)"
  by (rule preserves_upd) simp

lemma still_flag: "(\<And>f. bit (g f) 2 = bit f 2) \<Longrightarrow> preserves (still m) (set_flag g)"
  unfolding set_flag_def by (rule still_upd) (simp add: mailbox_def)

lemma still_flags:
  "preserves (still m) (set_flag (\<lambda>f. f OR PTT_ACTIVE_AUTO))"
  "preserves (still m) (set_flag (\<lambda>f. f OR PTT_ACTIVE_MANUAL))"
  "preserves (still m) (set_flag (\<lambda>f. f AND NOT PTT_ACTIVE_MANUAL))"
  by (rule still_flag; simp add: ptt_flag_bit_upd)+

lemma still_queue: "preserves (still m) (put_queue q)"
  unfolding put_queue_def by (rule still_upd) (simp add: mailbox_def)

text \<open>Operations that do not touch flags, buffer and address, and send nothing.\<close>

definition mute :: "daemon \<Rightarrow> daemon \<Rightarrow> bool" where
  "mute s t \<longleftrightarrow> adds mute_call s t \<and> ptt_flag t = ptt_flag s \<and> reply_buffer t = reply_buffer s \<and>
     reply_addr t = reply_addr s"

lemma still_mute: "within mute f \<Longrightarrow> preserves (still m) f"
proof (erule preserves_within)
  fix s t assume s: "still m s" and t: "mute s t"
  then have "replied (trace t) = replied (trace s)"
    unfolding mute_def replied_def by (blast intro: mute_obs.replay_adds)
  with t have "mailbox t = mailbox s" by (simp add: mute_def mailbox_def)
  with s show "still m t" by simp
qed

lemma within_conj:
  "within R m \<Longrightarrow> within Q m \<Longrightarrow> (\<And>s t. R s t \<Longrightarrow> Q s t \<Longrightarrow> P s t) \<Longrightarrow> within P m"
  unfolding within_def by (fastforce split: outcome.splits)

lemma still_device:
  assumes "dev_only f" "device_calls f"
  shows "preserves (still m) f"
proof (intro still_mute within_conj [OF assms])
  show "dev_frame s t \<Longrightarrow> adds device_call s t \<Longrightarrow> mute s t" for s t
    unfolding mute_def using adds_mono [OF _ mute_device] by (auto simp: dev_frame_def)
qed

lemma still_io:
  assumes "io_only f" "within (adds mute_call) f"
  shows "preserves (still m) f"
  by (intro still_mute within_conj [OF assms]) (auto simp: mute_def extends_def)

lemmas still_methods =
  still_device [OF dev_only_io [OF io_only_dev(1)] device_calls_methods(1)]
  still_device [OF dev_only_io [OF io_only_dev(2)] device_calls_methods(2)]
  still_device [OF dev_only_io [OF io_only_dev(3)] device_calls_methods(3)]
  still_device [OF dev_only_io [OF io_only_millisleep] device_calls_sleep]

lemmas still_rules = preserves_rules preserves_with_device still_ask still_emit still_flags still_queue still_methods

lemma still_set_ptt_on: "preserves (still m) (cwdaemon_set_ptt_on w d)"
  unfolding cwdaemon_set_ptt_on_def by (intro still_rules)

section \<open>Operations that may forget a reply\<close>

abbreviation forgot :: "mailbox \<Rightarrow> daemon \<Rightarrow> bool" where
  "forgot m s \<equiv> mailbox s = m \<or> mailbox s = m\<lparr>owed := None\<rparr>"

lemma still_any: "preserves (\<lambda>s. P (mailbox s)) f" if f: "\<And>n. preserves (still n) f"
proof (rule preservesI)
  fix s x t assume "P (mailbox s)" "f s = Run x t"
  with preservesD [OF f [of "mailbox s"] refl] show "P (mailbox t)" by simp
qed

lemma forgot_still: "(\<And>n. preserves (still n) f) \<Longrightarrow> preserves (forgot m) f"
  by (rule still_any [where P = "\<lambda>n. n = m \<or> n = m\<lparr>owed := None\<rparr>"])

lemma mailbox_no_flag: "mailbox (s\<lparr>ptt_flag := 0\<rparr>) = (mailbox s)\<lparr>owed := None\<rparr>"
  by (simp add: mailbox_def)

lemma forgot_flag_0: "preserves (forgot m) (set_flag (\<lambda>_. 0))"
  by (rule preservesI) (auto simp: set_flag_def upd_def mailbox_no_flag)

lemma forgot_set_ptt_off: "preserves (forgot m) (cwdaemon_set_ptt_off w d)"
  unfolding cwdaemon_set_ptt_off_def
  by (intro preserves_sq forgot_flag_0 forgot_still [OF still_methods(2)])

section \<open>The requests\<close>

lemma still_tune: "preserves (still m) (esc_tune w arg)"
  unfolding esc_tune_def cwdaemon_tune_def
  by (intro still_rules told_replicate still_set_ptt_on; simp)

lemma still_generator:
  "preserves (still m) cwdaemon_close_libcw_output" "preserves (still m) (cwdaemon_open_libcw_output w a)"
  "preserves (still m) (cwdaemon_reset_libcw_output w)"
proof -
  have "within (adds mute_call) (retry_oss w a n rv)" for a n rv
    by (induction n arbitrary: rv) (auto intro!: adds_rules)
  then have o: "within (adds mute_call) (cwdaemon_open_libcw_output w a)" for a
    unfolding cwdaemon_open_libcw_output_def by (intro adds_rules; simp)
  have c: "within (adds mute_call) cwdaemon_close_libcw_output"
    unfolding cwdaemon_close_libcw_output_def by (intro adds_rules; simp)
  have "within (adds mute_call) (cwdaemon_reset_libcw_output w)"
    unfolding cwdaemon_reset_libcw_output_def by (intro adds_rules o c; simp)
  then show "preserves (still m) (cwdaemon_reset_libcw_output w)"
    by (rule still_io [OF io_only_reset_libcw])
  show "preserves (still m) cwdaemon_close_libcw_output"
    by (rule still_io [OF io_only_close c])
  show "preserves (still m) (cwdaemon_open_libcw_output w a)"
    by (rule still_io [OF io_only_open o])
qed

lemma still_settings:
  "preserves (still m) (esc_speed w arg)" "preserves (still m) (esc_tone w arg)"
  "preserves (still m) (esc_volume w arg)" "preserves (still m) (esc_weighting arg)"
  "preserves (still m) esc_wordmode"
  unfolding esc_speed_def esc_tone_def esc_volume_def esc_weighting_def esc_wordmode_def
  by (intro still_rules still_upd; simp add: mailbox_def)+

lemma still_system: "preserves (still m) (esc_system w arg)"
  unfolding esc_system_def switch_sound_system_def configure_generator_def register_keying_callback_def
  by (intro still_rules still_upd still_generator; simp add: mailbox_def)

lemma still_cwdevice: "preserves (still m) (esc_cwdevice w arg)"
  unfolding esc_cwdevice_def register_keying_callback_def
  by (intro still_rules still_device [OF dev_only_option_cwdevice device_calls_option_cwdevice]; simp)

lemma still_lp: "preserves (still m) (esc_ssbway w arg)" "preserves (still m) (esc_band w arg)"
proof -
  have "preserves (still m) (g v)" if "dev_ssbway w d = Some g" for g v d
    using that by (cases d) (auto simp: dev_ssbway_def intro!: still_device dev_only_io io_only_lp device_calls_lp)
  then show "preserves (still m) (esc_ssbway w arg)"
    unfolding esc_ssbway_def by (intro preserves_guard preserves_option preserves_ret preserves_with_device)
  have "preserves (still m) (cwdaemon_switch_band w d b)" for d b
    unfolding cwdaemon_switch_band_def Let_def dev_switchband_def
    by (cases d) (auto intro!: preserves_ret still_device dev_only_io io_only_lp device_calls_lp)
  then show "preserves (still m) (esc_band w arg)"
    unfolding esc_band_def by (intro preserves_guard preserves_option preserves_ret preserves_with_device)
qed

lemma forgot_reset: "preserves (forgot m) (esc_reset w)"
proof -
  have "preserves (still n) (cwdaemon_reset_almost_all w d)" for n d
    unfolding cwdaemon_reset_almost_all_def
    by (intro still_rules still_generator still_upd; simp add: mailbox_def reset_current_def)
  then have "preserves (still n) (with_device (\<lambda>dev. bnd (cwdaemon_reset_almost_all w dev) (\<lambda>_. ret ())))" for n
    by (intro preserves_with_device preserves_bnd preserves_ret)
  then show ?thesis
    unfolding esc_reset_def
    by (intro preserves_sq forgot_flag_0 forgot_still [OF still_queue] forgot_still
        [OF preserves_with_device [where f = "dev_reset_pins_state w", OF still_methods(3)]] forgot_still [OF still_upd])
      (rule forgot_still, assumption | simp add: mailbox_def)+
qed

lemma forgot_pttdelay: "preserves (forgot m) (esc_pttdelay w arg)"
  unfolding esc_pttdelay_def
  by (intro preserves_look preserves_prod preserves_sq preserves_guard preserves_with_device forgot_set_ptt_off
      forgot_still [OF still_upd]) (simp add: mailbox_def)

lemma forgot_ptt_on_off: "preserves (forgot m) (cwdaemon_params_ptt_on_off w arg)"
  unfolding cwdaemon_params_ptt_on_off_def
  by (intro preserves_rules preserves_with_device forgot_set_ptt_off forgot_still [OF still_set_ptt_on]
      forgot_still [OF still_flags(1)] forgot_still [OF still_flags(2)] forgot_still [OF still_flags(3)]
      forgot_still [OF still_ask]) simp

section \<open>Asking for a reply\<close>

text \<open>While the sender is \<open>a\<close>, nothing but a reply to \<open>a\<close> is put into the mailbox.\<close>

definition asked :: "mailbox \<Rightarrow> sockaddr \<Rightarrow> daemon \<Rightarrow> bool" where
  "asked m a s \<longleftrightarrow> request_addr s = a \<and> (mailbox s = m \<or> (\<exists>r. mailbox s = m\<lparr>owed := Some (r, a)\<rparr>))"

lemma asked_still:
  assumes "\<And>n. preserves (still n) f" "preserves (\<lambda>s. request_addr s = a) f"
  shows "preserves (asked m a) f"
proof (rule preservesI)
  fix s x t assume s: "asked m a s" and run: "f s = Run x t"
  have "mailbox t = mailbox s" by (rule preservesD [OF assms(1) refl run])
  moreover have "request_addr t = a"
    using s by (intro preservesD [OF assms(2) _ run]) (simp add: asked_def)
  ultimately show "asked m a t" using s by (simp add: asked_def)
qed

lemma asked_prepare_reply: "preserves (asked m a) (cwdaemon_prepare_reply r)"
proof (rule preservesI)
  fix s x t assume s: "asked m a s" and "cwdaemon_prepare_reply r s = Run x t"
  then have "t = s\<lparr>ptt_flag := ptt_flag s OR PTT_ACTIVE_ECHO, reply_addr := request_addr s,
      reply_addrlen := request_addrlen s, reply_buffer := r\<rparr>"
    by (auto simp: cwdaemon_prepare_reply_def set_flag_def prog_simps split: if_splits)
  then have "mailbox t = (mailbox s)\<lparr>owed := Some (r, request_addr s)\<rparr>" "request_addr t = request_addr s"
    by (simp_all add: mailbox_def ptt_flag_bit_upd)
  with s show "asked m a t" by (auto simp: asked_def)
qed

lemma address_ptt_only: "ptt_only f \<Longrightarrow> preserves (\<lambda>s. request_addr s = a) f"
  by (erule preserves_within) (auto simp: ptt_frame_def)

lemma asked_calls:
  "mute_call c \<Longrightarrow> preserves (asked m a) (ask w c)" "mute_call c \<Longrightarrow> preserves (asked m a) (emit c)"
  "preserves (asked m a) (put_queue q)" "preserves (asked m a) (cwdaemon_set_ptt_on w d)"
proof -
  show "mute_call c \<Longrightarrow> preserves (asked m a) (ask w c)"
    by (intro asked_still still_ask address_ptt_only ptt_only_io io_only_ask)
  show "mute_call c \<Longrightarrow> preserves (asked m a) (emit c)"
    by (intro asked_still still_emit address_ptt_only ptt_only_io io_only_emit)
  show "preserves (asked m a) (put_queue q)"
    by (intro asked_still still_queue) (auto simp: put_queue_def intro: preserves_upd)
  show "preserves (asked m a) (cwdaemon_set_ptt_on w d)"
    by (intro asked_still still_set_ptt_on address_ptt_only ptt_only_set_ptt)
qed

lemma asked_change_speed: "preserves (asked m a) (change_speed w x)"
  unfolding change_speed_def
  by (intro preserves_sq preserves_look asked_calls asked_still still_upd preserves_upd; simp add: mailbox_def)

lemma asked_play_from: "preserves (asked m a) (play_from w pre x)"
proof (induction w pre x rule: play_from.induct)
  case (1 w pre)
  show ?case by (simp add: preserves_ret)
next
  case (2 w pre c x)
  show ?case
    unfolding play_from.simps(2) Let_def play_character_def
    by (intro preserves_if preserves_bnd preserves_sq preserves_guard asked_change_speed asked_prepare_reply
        preserves_with_device asked_calls "2.IH"; simp)
qed

lemma asked_play_request: "preserves (asked m a) (cwdaemon_play_request w)"
  unfolding cwdaemon_play_request_def
  by (intro preserves_bnd preserves_look asked_play_from asked_calls)

section \<open>Refinement\<close>

definition mails :: "mailbox \<Rightarrow> 'a act \<Rightarrow> bool" where
  "mails m f \<longleftrightarrow> hoare (still m) f (\<lambda>_ s. mailbox_step m (mailbox s)) (\<lambda>_ _. True)"

lemma mails_forgot: "preserves (forgot m) f \<Longrightarrow> mails m f"
  unfolding mails_def preserves_def
  by (erule hoare_conseq) (auto intro: mailbox_step.intros)

lemma mails_still: "(\<And>n. preserves (still n) f) \<Longrightarrow> mails m f"
  by (intro mails_forgot forgot_still)

lemma mails_asked: "(\<And>a. preserves (asked m a) f) \<Longrightarrow> mails m f"
  unfolding mails_def
proof (rule hoareI)
  fix s assume f: "\<And>a. preserves (asked m a) f" and s: "still m s"
  then have "asked m (request_addr s) s" by (simp add: asked_def)
  with preservesD [OF f, of "request_addr s" s] have "mailbox_step m (mailbox t)" if "f s = Run x t" for x t
    using that unfolding asked_def by (metis quiet ask)
  then show "case f s of Run x t \<Rightarrow> mailbox_step m (mailbox t) | Halt h t \<Rightarrow> True"
    by (simp split: outcome.split)
qed

lemma mails_halt: "mails m (halt h)"
  by (simp add: mails_def hoare_def halt_def)

lemma mails_if: "mails m f \<Longrightarrow> mails m g \<Longrightarrow> mails m (if b then f else g)"
  by simp

lemma mails_bnd: "mails m f \<Longrightarrow> (\<And>x n. preserves (still n) (k x)) \<Longrightarrow> mails m (bnd f k)"
proof -
  assume f: "mails m f" and k: "\<And>x n. preserves (still n) (k x)"
  have "hoare (\<lambda>s. mailbox_step m (mailbox s)) (k x) (\<lambda>_ s. mailbox_step m (mailbox s)) (\<lambda>_ _. True)" for x
    using still_any [where P = "mailbox_step m" and f = "k x"] k by (simp add: preserves_def)
  with f show "mails m (bnd f k)" unfolding mails_def by (rule hoare_bnd)
qed

lemma bnd_mails: "(\<And>n. preserves (still n) f) \<Longrightarrow> (\<And>x. mails m (k x)) \<Longrightarrow> mails m (bnd f k)"
  unfolding mails_def preserves_def by (rule hoare_bnd)

lemma mails_look: "(\<And>s. mails m (f s)) \<Longrightarrow> mails m (look f)"
  by (simp add: mails_def hoare_def look_def)

text \<open>The abort request sends the word \<^verbatim>\<open>break\<close> instead of the reply that is owed.\<close>

lemma abort_mailbox:
  assumes "esc_abort w s = Run () t"
  shows "mailbox t = (if wordmode s = 0 then \<lparr>owed = None, sent_letters = replied (trace s) @
     (if bit (ptt_flag s) 2 then [(break_text, reply_addr s)] else [])\<rparr> else mailbox s)"
proof (cases "wordmode s = 0")
  case False
  with assms show ?thesis by (simp add: esc_abort_def prog_simps)
next
  case True
  let ?b = "if bit (ptt_flag s) 2 then s\<lparr>trace := trace s @ [Sendto (socket_descriptor s) break_text (reply_addr s) (reply_addrlen s)]\<rparr> else s"
  let ?m = "\<lparr>owed = owed (mailbox s), sent_letters = replied (trace s) @ (if bit (ptt_flag s) 2 then [(break_text, reply_addr s)] else [])\<rparr>"
  let ?rest = "sq [put_queue [], emit Cw_flush_tone_queue, emit Cw_wait_for_tone_queue,
            look (\<lambda>s. guard (ptt_flag s \<noteq> 0) (with_device (cwdaemon_set_ptt_off w)))]"
  have b: "mailbox ?b = ?m"
    by (simp add: mailbox_def replied_snoc replied_step_def)
  have "guard (ptt_flag s AND PTT_ACTIVE_ECHO \<noteq> 0)
      (bnd (cwdaemon_sendto w (''break'' @ [CHR 0x0D, CHR 0x0A])) (\<lambda>_. ret ())) s = Run () ?b"
    by (simp add: guard_def ptt_flag_bits cwdaemon_sendto_def break_text_def CRLF_def prog_simps Let_def)
  then have "esc_abort w s = bnd ?rest (\<lambda>_. set_flag (\<lambda>f. f AND 0)) ?b"
    using True by (simp add: esc_abort_def look_def bnd_assoc bnd_ret_right) (simp add: bnd_def)
  with assms obtain r where r: "?rest ?b = Run () r" and t: "t = r\<lparr>ptt_flag := 0\<rparr>"
    by (auto simp: bnd_def [of ?rest] set_flag_def upd_def simp del: sq.simps split: outcome.splits)
  have "preserves (forgot ?m) ?rest"
    by (intro preserves_rules preserves_with_device forgot_set_ptt_off forgot_still [OF still_emit]
        forgot_still [OF still_queue]) simp_all
  from preservesD [OF this _ r] b have "mailbox r = ?m \<or> mailbox r = ?m\<lparr>owed := None\<rparr>" by blast
  then have "(mailbox r)\<lparr>owed := None\<rparr> = ?m\<lparr>owed := None\<rparr>" by (elim disjE) simp_all
  with True t show ?thesis by (simp add: mailbox_no_flag)
qed

section \<open>The steps\<close>

lemma mails_abort: "mails m (esc_abort w)"
  unfolding mails_def
proof (rule hoareI)
  fix s assume s: "still m s"
  have "mailbox_step m (mailbox t)" if run: "esc_abort w s = Run () t" for t
  proof (cases "wordmode s = 0")
    case False
    with abort_mailbox [OF run] s show ?thesis by (simp add: quiet)
  next
    case w: True
    show ?thesis
    proof (cases "bit (ptt_flag s) 2")
      case True
      with s have m: "m = \<lparr>owed = Some (reply_buffer s, reply_addr s), sent_letters = replied (trace s)\<rparr>"
        by (simp add: mailbox_def)
      with abort_mailbox [OF run] w True
      have "mailbox t = m\<lparr>owed := None, sent_letters := sent_letters m @ [(break_text, reply_addr s)]\<rparr>" by simp
      then show ?thesis using abort [of m "reply_buffer s" "reply_addr s"] m by simp
    next
      case False
      with abort_mailbox [OF run] w s have "mailbox t = mailbox s" by (simp add: mailbox_def)
      with s show ?thesis by (simp add: quiet)
    qed
  qed
  then show "case esc_abort w s of Run x t \<Rightarrow> mailbox_step m (mailbox t) | Halt h t \<Rightarrow> True"
    by (simp split: outcome.split)
qed

lemma mails_escaped: "mails m (cwdaemon_handle_escaped_request w request)"
  unfolding cwdaemon_handle_escaped_request_def Let_def
  by (intro mails_if mails_abort mails_halt mails_forgot [OF forgot_reset] mails_forgot [OF forgot_pttdelay]
      mails_bnd [OF mails_forgot [OF forgot_ptt_on_off] preserves_ret] mails_still [OF still_settings(1)]
      mails_still [OF still_settings(2)] mails_still [OF still_settings(3)] mails_still [OF still_settings(4)]
      mails_still [OF still_settings(5)] mails_still [OF still_tune] mails_still [OF still_cwdevice]
      mails_still [OF still_lp(1)] mails_still [OF still_lp(2)] mails_still [OF still_system]
      mails_still [OF preserves_ret] mails_asked [OF asked_prepare_reply])

lemma mails_receive: "mails m (cwdaemon_receive w)"
proof -
  have recv: "preserves (still n) (cwdaemon_recvfrom w k)" for n k
    by (intro still_mute withinI) (simp add: cwdaemon_recvfrom_def Let_def mute_def adds_def)
  have played: "mails m (sq [put_queue q, cwdaemon_play_request w])" for q
    by (intro mails_asked preserves_sq asked_calls asked_play_request)
  have "mails m (act_on_request w rc request)" for rc request
    unfolding act_on_request_def
    by (intro mails_if mails_halt mails_still [OF preserves_ret] mails_bnd [OF mails_escaped preserves_ret]
        mails_bnd [OF mails_look [OF mails_if [OF played mails_still [OF preserves_ret]]] preserves_ret])
  then show ?thesis
    unfolding cwdaemon_receive_def by (intro bnd_mails recv) (simp split: prod.split)
qed

lemma mails_main_iteration: "mails m (main_iteration w)"
proof -
  have foot: "preserves (still n) f" if "dev_footswitch w d = Some f" for f d n
    using that by (cases d) (auto simp: dev_footswitch_def intro!: still_device dev_only_io io_only_lp device_calls_lp)
  have receive: "mails m (look (\<lambda>s. bnd (ask w (Select (socket_descriptor s) tv)) (\<lambda>fd_count. look (\<lambda>s.
       if fd_count = - 1 \<and> errno_of w (trace s) \<noteq> EINTR then ret ()
       else bnd (cwdaemon_receive w) (\<lambda>_. ret ())))))" for tv
    by (intro mails_look bnd_mails still_ask mails_if mails_still [OF preserves_ret] mails_bnd [OF mails_receive]
        preserves_ret) simp
  have "preserves (still n) (sq [guard (lp_build w \<noteq> No_parport)
       (with_device (\<lambda>dev. case dev_footswitch w dev of
          None \<Rightarrow> ret ()
        | Some f \<Rightarrow> bnd f (\<lambda>state. dev_ptt w dev (if state = 0 then 1 else 0))))])" for n
    by (intro preserves_sq preserves_guard preserves_with_device preserves_option preserves_ret preserves_bnd
        still_methods(2) foot)
  then have turn: "mails m (sq [look (\<lambda>s. bnd (ask w (Select (socket_descriptor s) tv)) (\<lambda>fd_count. look (\<lambda>s.
       if fd_count = - 1 \<and> errno_of w (trace s) \<noteq> EINTR then ret ()
       else bnd (cwdaemon_receive w) (\<lambda>_. ret ())))),
     guard (lp_build w \<noteq> No_parport)
       (with_device (\<lambda>dev. case dev_footswitch w dev of
          None \<Rightarrow> ret ()
        | Some f \<Rightarrow> bnd f (\<lambda>state. dev_ptt w dev (if state = 0 then 1 else 0))))])" for tv
    unfolding sq.simps(2) [of "look _"] by (rule mails_bnd [OF receive])
  have "mailbox (s\<lparr>inactivity_seconds := k\<rparr>) = mailbox s" for s k
    by (simp add: mailbox_def)
  then show ?thesis
    unfolding main_iteration_def
    by (intro bnd_mails turn preserves_look preserves_if preserves_bnd preserves_ret still_upd)
qed

text \<open>The callback for a low tone queue delivers the reply that is owed, and nothing otherwise.\<close>

lemma low_callback_idle:
  assumes "owed m = None"
  shows "preserves (forgot m) (cwdaemon_tone_queue_low_callback w)"
proof -
  have idle: "preserves (forgot m) (look (\<lambda>s. guard (ptt_flag s AND PTT_ACTIVE_ECHO \<noteq> 0) (send_reply w)))"
  proof (intro preserves_look preserves_guard)
    fix s assume "forgot m s" "ptt_flag s AND PTT_ACTIVE_ECHO \<noteq> 0"
    then have "owed (mailbox s) = None" "bit (ptt_flag s) 2"
      using assms by (auto simp: ptt_flag_bits)
    then show "preserves (forgot m) (send_reply w)" by (simp add: mailbox_def)
  qed
  have both: "preserves (forgot m) (look (\<lambda>s. if b then with_device (cwdaemon_set_ptt_off w)
      else guard (ptt_flag s AND PTT_ACTIVE_ECHO \<noteq> 0) (send_reply w)))" for b
    using idle by (cases b) (simp_all add: look_def [abs_def] preserves_with_device forgot_set_ptt_off)
  then show ?thesis
    unfolding cwdaemon_tone_queue_low_callback_def
    by (intro preserves_bnd preserves_sq both forgot_still [OF still_ask] forgot_still [OF still_emit])
      ((intro preserves_look preserves_if preserves_bnd preserves_ret forgot_still [OF still_ask])?, simp)+
qed

lemma low_callback_owed:
  assumes "cwdaemon_tone_queue_low_callback w s = Run () t" "ptt_flags_only (ptt_flag s)"
    and "bit (ptt_flag s) 2" "length (reply_buffer s) + 2 \<le> CWDAEMON_REPLY_SIZE_MAX"
  shows "ptt_flag t = ptt_flag s AND NOT PTT_ACTIVE_ECHO" "reply_addr t = reply_addr s"
    "replied (trace t) = replied (trace s) @ [(reply_buffer s @ CRLF, reply_addr s)]"
proof -
  let ?s = "s\<lparr>trace := trace s @ [Cw_get_tone_queue_length]\<rparr>"
  from assms(2,3) have "ptt_flag s \<noteq> PTT_ACTIVE_AUTO" by (simp add: ptt_flag_eq_auto)
  with assms(1,3) obtain r where r: "send_reply w ?s = Run () r"
    and t: "t = r\<lparr>trace := trace r @ [Cw_get_tone_queue_length]\<rparr>"
    by (auto simp: cwdaemon_tone_queue_low_callback_def ptt_flag_bits prog_simps Let_def split: outcome.splits)
  have len: "length (reply_buffer ?s) + 2 \<le> CWDAEMON_REPLY_SIZE_MAX" using assms(4) by simp
  from r [unfolded send_reply_eq [OF len]] t show "ptt_flag t = ptt_flag s AND NOT PTT_ACTIVE_ECHO" "reply_addr t = reply_addr s"
    "replied (trace t) = replied (trace s) @ [(reply_buffer s @ CRLF, reply_addr s)]"
    by (auto simp: cwdaemon_sendto_def CRLF_def nth_append prog_simps Let_def replied_snoc replied_step_def
        replied_def split: if_splits)
qed

lemma low_callback_mailbox:
  assumes "cwdaemon_tone_queue_low_callback w s = Run () t" "ptt_flags_only (ptt_flag s)"
    and "bit (ptt_flag s) 2 \<Longrightarrow> length (reply_buffer s) + 2 \<le> CWDAEMON_REPLY_SIZE_MAX"
  shows "mailbox t = \<lparr>owed = None, sent_letters = replied (trace s) @
     (if bit (ptt_flag s) 2 then [(reply_buffer s @ CRLF, reply_addr s)] else [])\<rparr>"
proof (cases "bit (ptt_flag s) 2")
  case True
  from low_callback_owed [OF assms(1,2) True assms(3) [OF True]] True show ?thesis
    by (simp add: mailbox_def ptt_flag_bit_upd)
next
  case False
  then have m: "mailbox s = \<lparr>owed = None, sent_letters = replied (trace s)\<rparr>" by (simp add: mailbox_def)
  from preservesD [OF low_callback_idle [of "mailbox s"] _ assms(1)] m False show ?thesis by auto
qed

lemma still_keyingevent: "preserves (still m) (cwdaemon_keyingevent w d k)"
  unfolding cwdaemon_keyingevent_def
  by (intro preserves_sq still_methods(1) still_upd) (simp add: mailbox_def)

interpretation mail: refined_machine "daemon_step w" "ok w True" "libcw_limits w \<and> recv_law w" mailbox mailbox_step
  for w
proof
  fix s e t assume "libcw_limits w \<and> recv_law w" and s: "ok w True s" and run: "daemon_step w e s = Run () t"
  show "mailbox_step (mailbox s) (mailbox t)"
  proof (cases e)
    case Main_Loop
    with run have "main_iteration w s = Run () t" by simp
    with mails_main_iteration [of "mailbox s" w] show ?thesis
      unfolding mails_def by (blast dest: hoare_Run)
  next
    case Low_Queue
    with run have run: "cwdaemon_tone_queue_low_callback w s = Run () t" by simp
    have "ptt_flags_only (ptt_flag s)" "bit (ptt_flag s) 2 \<Longrightarrow> length (reply_buffer s) + 2 \<le> CWDAEMON_REPLY_SIZE_MAX"
      using s by (simp_all add: ok_defs)
    from low_callback_mailbox [OF run this] deliver [of "mailbox s" "reply_buffer s" "reply_addr s"]
      quiet [of "mailbox s"] show ?thesis
      by (cases "bit (ptt_flag s) 2") (simp_all add: mailbox_def)
  next
    case (Key d k)
    with run preservesD [OF still_keyingevent [of "mailbox s" w d k] refl, of "()" t] show ?thesis
      by (simp add: quiet)
  qed
qed

section \<open>From request to reply\<close>

text \<open>A text datagram that arrives while the queue is empty is played as it is, up to a NUL.\<close>

lemma act_on_text:
  assumes "act_on_request w (int (length x)) x s = Run r t" "x \<noteq> []" "hd x \<noteq> ASCII_ESC"
    and "length x \<le> CWDAEMON_REQUEST_SIZE_MAX" "request_queue s = []"
  shows "cwdaemon_play_request w (s\<lparr>request_queue := cstr x\<rparr>) = Run () t"
proof -
  have "length (cstr x) \<le> 256" using assms(4) cstr_length [of x] by (simp add: CWDAEMON_REQUEST_SIZE_MAX_def)
  then have "fst (snprintf CWDAEMON_REQUEST_QUEUE_SIZE_MAX (cstr x)) = cstr x"
    "length (cstr x) \<le> CWDAEMON_REQUEST_QUEUE_SIZE_MAX - 1"
    by (simp_all add: snprintf_def CWDAEMON_REQUEST_QUEUE_SIZE_MAX_def)
  with assms show ?thesis
    by (auto simp: act_on_request_def put_queue_def prog_simps split: outcome.splits)
qed

lemma cstr_no_nul: "CHR 0x00 \<notin> set x \<Longrightarrow> cstr x = x"
  by (simp add: cstr_def takeWhile_eq_all_conv) (metis)

text \<open>What playing a text leaves of the mailbox and of the flags.\<close>

lemma play_request_done:
  assumes "gap_law w" "gap_of (trace s) = Some 0" "CHR ''~'' \<notin> set q"
    and "cwdaemon_play_request w (s\<lparr>request_queue := q\<rparr>) = Run () t"
  shows "text_done [] q (s\<lparr>request_queue := q\<rparr>) (t\<lparr>request_queue := q'\<rparr>)"
proof -
  let ?s = "s\<lparr>request_queue := q\<rparr>"
  from assms(4) obtain r where r: "play_from w [] q ?s = Run () r" and t: "t = r\<lparr>request_queue := []\<rparr>"
    by (auto simp: cwdaemon_play_request_def put_queue_def prog_simps split: outcome.splits)
  have "gap_of (trace ?s) = Some 0" using assms(2) by simp
  from play_from_Run [OF assms(1) this assms(3) r] t show ?thesis
    by (auto simp: text_done_def sounded_def reply_owed_def split: if_splits)
qed

lemma flags_only_play_from: "preserves (\<lambda>s. ptt_flags_only (ptt_flag s)) (play_from w pre x)"
proof -
  let ?I = "\<lambda>s. ptt_flags_only (ptt_flag s)"
  have calls: "preserves ?I (ask w c)" "preserves ?I (emit c)" "preserves ?I (put_queue q)"
    "preserves ?I (cwdaemon_set_ptt_on w d)" "preserves ?I (change_speed w y)"
    "preserves ?I (cwdaemon_prepare_reply r)" for w c q d y r
    by (auto intro!: preserves_within [OF ptt_only_io [OF io_only_ask]] preserves_within [OF ptt_only_io [OF io_only_emit]]
        preserves_within [OF ptt_only_set_ptt(1)] preserves_upd preserves_sq preserves_look preserves_if preserves_halt
        simp: ptt_frame_def put_queue_def change_speed_def cwdaemon_prepare_reply_def set_flag_def simp del: sq.simps)
  show ?thesis
  proof (induction w pre x rule: play_from.induct)
    case (1 w pre)
    show ?case by (simp add: preserves_ret)
  next
    case (2 w pre c x)
    show ?case
      unfolding play_from.simps(2) Let_def play_character_def
      by (intro preserves_if preserves_bnd preserves_sq preserves_guard preserves_with_device calls "2.IH"; simp)
  qed
qed

lemma flags_only_play_request: "preserves (\<lambda>s. ptt_flags_only (ptt_flag s)) (cwdaemon_play_request w)"
  unfolding cwdaemon_play_request_def put_queue_def
  by (intro preserves_bnd preserves_look flags_only_play_from preserves_upd) simp

lemma esc_reply_Run:
  assumes "cwdaemon_handle_escaped_request w (ASCII_ESC # CHR ''h'' # x) s = Run () t" "CHR 0x00 \<notin> set x"
  shows "t = s\<lparr>ptt_flag := ptt_flag s OR PTT_ACTIVE_ECHO, reply_addr := request_addr s,
      reply_addrlen := request_addrlen s, reply_buffer := CHR ''h'' # x\<rparr>"
    and "Suc (length x) < CWDAEMON_REPLY_SIZE_MAX + 1"
  using assms(1) cstr_no_nul [of "CHR ''h'' # x"] assms(2)
  by (auto simp: cwdaemon_handle_escaped_request_def escape_code_def cwdaemon_prepare_reply_def
      CWDAEMON_ESC_REQUEST_EXIT_def CWDAEMON_ESC_REQUEST_CWDEVICE_def CWDAEMON_ESC_REQUEST_REPLY_def
      set_flag_def prog_simps split: if_splits)

text \<open>For the examples: these operations return.\<close>

lemma low_callback_returns:
  assumes "ptt_flags_only (ptt_flag s)" "bit (ptt_flag s) 2" "length (reply_buffer s) + 2 \<le> CWDAEMON_REPLY_SIZE_MAX"
  shows "\<exists>t. cwdaemon_tone_queue_low_callback w s = Run () t"
proof -
  let ?s = "s\<lparr>trace := trace s @ [Cw_get_tone_queue_length]\<rparr>"
  from assms(1,2) have "ptt_flag s \<noteq> PTT_ACTIVE_AUTO" by (simp add: ptt_flag_eq_auto)
  have len: "length (reply_buffer ?s) + 2 \<le> CWDAEMON_REPLY_SIZE_MAX" using assms(3) by simp
  have "is_run (send_reply w ?s)"
    unfolding send_reply_eq [OF len] by (simp add: cwdaemon_sendto_def CRLF_def nth_append prog_simps Let_def)
  then obtain r where "send_reply w ?s = Run () r" by (cases "send_reply w ?s") simp_all
  with assms(2) \<open>ptt_flag s \<noteq> PTT_ACTIVE_AUTO\<close> show ?thesis
    by (simp add: cwdaemon_tone_queue_low_callback_def ptt_flag_bits prog_simps Let_def)
qed

lemma act_on_text_returns:
  assumes "no_ptt s" "x \<noteq> []" "hd x \<noteq> ASCII_ESC" "length x \<le> CWDAEMON_REQUEST_SIZE_MAX" "request_queue s = []"
  shows "\<exists>t. act_on_request w (int (length x)) x s = Run 1 t"
proof -
  have len: "length (cstr x) \<le> 256" using assms(4) cstr_length [of x] by (simp add: CWDAEMON_REQUEST_SIZE_MAX_def)
  have "\<exists>t. cwdaemon_play_request w (s\<lparr>request_queue := cstr x\<rparr>) = Run () t"
    using completes_play_request [of "s\<lparr>request_queue := cstr x\<rparr>" w] assms(1) len
    by (auto simp: no_ptt_def CWDAEMON_REPLY_SIZE_MAX_def CWDAEMON_REQUEST_SIZE_MAX_def)
  moreover have "fst (snprintf CWDAEMON_REQUEST_QUEUE_SIZE_MAX (cstr x)) = cstr x"
    "length (cstr x) \<le> CWDAEMON_REQUEST_QUEUE_SIZE_MAX - 1"
    using len by (simp_all add: snprintf_def CWDAEMON_REQUEST_QUEUE_SIZE_MAX_def)
  ultimately show ?thesis
    using assms(2,3,5) by (auto simp: act_on_request_def put_queue_def prog_simps)
qed

section \<open>Properties\<close>



text \<open>
  C12: the REPLY request from end to end: after <ESC>h followed by a text x, and the datagram q of any
  client, played as text, the next callback for a low tone queue sends exactly one datagram: h, x, CR LF,
  to the client that sent the REPLY request; then nothing is owed any more. The characters of q, and not
  those of x, went to libcw.
\<close>

theorem reply_request_delivered:
  assumes "gap_law w" "gap_of (trace s) = Some 0" "ptt_flags_only (ptt_flag s)" "request_queue s = []"
    and "CHR 0x00 \<notin> set x" "length x \<le> 254"
    and "cwdaemon_handle_escaped_request w (ASCII_ESC # CHR ''h'' # x) s = Run () s1"
    and "q \<noteq> []" "hd q \<noteq> ASCII_ESC" "length q \<le> 256" "set q \<inter> {CHR 0x00, CHR ''~'', CHR ''^''} = {}"
    and "act_on_request w (int (length q)) q (s1\<lparr>request_addr := a\<rparr>) = Run r s2"
    and "cwdaemon_tone_queue_low_callback w s2 = Run () s3"
  shows "replied (trace s3) = replied (trace s) @ [(CHR ''h'' # x @ CRLF, request_addr s)] \<and>
    \<not> bit (ptt_flag s3) 2 \<and> sent (trace s2) = sent (trace s) @ keyed q"
proof -
  note s1 = esc_reply_Run(1) [OF assms(7) assms(5)]
  let ?s1 = "s1\<lparr>request_addr := a, request_queue := q\<rparr>"
  have q: "cstr q = q" using assms(11) by (intro cstr_no_nul) auto
  have play: "cwdaemon_play_request w (s1\<lparr>request_addr := a, request_queue := q\<rparr>) = Run () s2"
    using act_on_text [OF assms(12,8,9)] assms(4,10) s1 by (simp add: q CWDAEMON_REQUEST_SIZE_MAX_def)
  have "text_done [] q ?s1 (s2\<lparr>request_queue := []\<rparr>)"
    using assms(2,11) s1 by (intro play_request_done [OF assms(1) _ _ play]) auto
  then have "sounded (keyed q) ?s1 (s2\<lparr>request_queue := []\<rparr>)"
    using assms(11) by (auto simp: text_done_def split: if_splits)
  then have s2: "reply_buffer s2 = CHR ''h'' # x" "reply_addr s2 = request_addr s" "bit (ptt_flag s2) 2"
    "replied (trace s2) = replied (trace s)" "sent (trace s2) = sent (trace s) @ keyed q"
    using s1 by (auto simp: sounded_def ptt_flag_bit_upd)
  have "ptt_flags_only (ptt_flag s1)" using s1 assms(3) by simp
  then have "ptt_flags_only (ptt_flag s2)"
    using preservesD [OF flags_only_play_request _ play] by simp
  from low_callback_owed [OF assms(13) this s2(3)] s2 assms(6) show ?thesis
    by (simp add: ptt_flag_bit_upd CWDAEMON_REPLY_SIZE_MAX_def CWDAEMON_REQUEST_SIZE_MAX_def)
qed

text \<open>An idle daemon without PTT.\<close>

definition idle_state :: daemon where
  "idle_state = daemon_init\<lparr>global_cwdevice := Some Dev_Null, request_addr := (1, 5000), trace := [Cw_set_gap 0]\<rparr>"

lemma idle_state_simps:
  "gap_of (trace idle_state) = Some 0" "ptt_flags_only (ptt_flag idle_state)" "request_queue idle_state = []"
  "request_addr idle_state = (1, 5000)" "no_ptt idle_state" "replied (trace idle_state) = []" "ptt_flag idle_state = 0"
  by (simp_all add: idle_state_def daemon_init_def gap_of_def gap_step_def no_ptt_def replied_def replied_step_def
      CWDAEMON_PTT_DELAY_DEFAULT_def)

theorem reply_request_delivered_witness:
  "\<exists>s1 s2 s3. cwdaemon_handle_escaped_request (example_env []) (ASCII_ESC # ''hok'') idle_state = Run () s1 \<and>
    act_on_request (example_env []) 2 ''cq'' (s1\<lparr>request_addr := (2, 6000)\<rparr>) = Run 1 s2 \<and>
    cwdaemon_tone_queue_low_callback (example_env []) s2 = Run () s3 \<and>
    replied (trace s3) = [(''hok'' @ CRLF, (1, 5000))]"
proof -
  let ?w = "example_env []" and ?s = idle_state
  have "is_run (cwdaemon_handle_escaped_request ?w (ASCII_ESC # CHR ''h'' # ''ok'') ?s)"
    by (simp add: cwdaemon_handle_escaped_request_def escape_code_def cwdaemon_prepare_reply_def cstr_def
        CWDAEMON_ESC_REQUEST_EXIT_def CWDAEMON_ESC_REQUEST_CWDEVICE_def CWDAEMON_ESC_REQUEST_REPLY_def
        CWDAEMON_REPLY_SIZE_MAX_def CWDAEMON_REQUEST_SIZE_MAX_def set_flag_def prog_simps)
  then obtain s1 where s1: "cwdaemon_handle_escaped_request ?w (ASCII_ESC # CHR ''h'' # ''ok'') ?s = Run () s1"
    by (cases "cwdaemon_handle_escaped_request ?w (ASCII_ESC # CHR ''h'' # ''ok'') ?s") simp_all
  note e = esc_reply_Run(1) [OF s1]
  have "no_ptt (s1\<lparr>request_addr := (2, 6000)\<rparr>)" "request_queue (s1\<lparr>request_addr := (2, 6000)\<rparr>) = []"
    using e idle_state_simps by (simp_all add: no_ptt_def)
  from act_on_text_returns [OF this(1) _ _ _ this(2), of "''cq''" ?w]
  obtain s2 where s2: "act_on_request ?w (int (length ''cq'')) ''cq'' (s1\<lparr>request_addr := (2, 6000)\<rparr>) = Run 1 s2"
    by (auto simp: ASCII_ESC_def CWDAEMON_REQUEST_SIZE_MAX_def)
  note play = act_on_text [OF s2]
  have cq: "cstr ''cq'' = ''cq''" by (simp add: cstr_def)
  have p: "cwdaemon_play_request ?w (s1\<lparr>request_addr := (2, 6000), request_queue := ''cq''\<rparr>) = Run () s2"
    using play e idle_state_simps by (simp add: cq ASCII_ESC_def CWDAEMON_REQUEST_SIZE_MAX_def)
  have "text_done [] ''cq'' (s1\<lparr>request_addr := (2, 6000), request_queue := ''cq''\<rparr>) (s2\<lparr>request_queue := []\<rparr>)"
    using e idle_state_simps by (intro play_request_done [OF example_gap_law _ _ p]) auto
  then have b: "bit (ptt_flag s2) 2" "reply_buffer s2 = ''hok''"
    using e by (auto simp: text_done_def sounded_def ptt_flag_bit_upd)
  have f: "ptt_flags_only (ptt_flag s2)"
    using preservesD [OF flags_only_play_request _ p] e idle_state_simps ptt_flags_only_upd(4) [of 0] by simp
  obtain s3 where s3: "cwdaemon_tone_queue_low_callback ?w s2 = Run () s3"
    using low_callback_returns [OF f b(1), of ?w] b(2) by (auto simp: CWDAEMON_REPLY_SIZE_MAX_def CWDAEMON_REQUEST_SIZE_MAX_def)
  from reply_request_delivered [OF example_gap_law idle_state_simps(1-3) _ _ s1 _ _ _ _ s2 s3]
  have "replied (trace s3) = [(''hok'' @ CRLF, (1, 5000))]"
    using idle_state_simps by (simp add: ASCII_ESC_def)
  with s1 s2 s3 show ?thesis
    by - (rule exI [of _ s1], rule exI [of _ s2], rule exI [of _ s3], simp)
qed



text \<open>The state after the abort request, up to the calls that switch PTT off.\<close>

lemma abort_state:
  assumes "esc_abort w s = Run () t" "wordmode s = 0"
  shows "ptt_flag t = 0" "request_queue t = []" "Cw_flush_tone_queue \<in> set (trace t)"
    "global_cwdevice s = Some d \<Longrightarrow> ptt_flag s \<noteq> 0 \<Longrightarrow> dev_wired w d s \<Longrightarrow> \<not> dev_level d t"
proof -
  let ?off = "look (\<lambda>s. guard (ptt_flag s \<noteq> 0) (with_device (cwdaemon_set_ptt_off w)))"
  let ?break = "guard (ptt_flag s AND PTT_ACTIVE_ECHO \<noteq> 0)
      (bnd (cwdaemon_sendto w (''break'' @ [CHR 0x0D, CHR 0x0A])) (\<lambda>_. ret ()))"
  have "\<exists>u. ?break s = Run () (s\<lparr>trace := u\<rparr>)"
  proof (cases "bit (ptt_flag s) 2")
    case True
    then show ?thesis by (auto simp: guard_def ptt_flag_bits cwdaemon_sendto_def prog_simps Let_def)
  next
    case False
    then show ?thesis by (intro exI [of _ "trace s"]) (simp add: guard_def ptt_flag_bits ret_def)
  qed
  then obtain u where b: "?break s = Run () (s\<lparr>trace := u\<rparr>)" ..
  let ?r = "s\<lparr>request_queue := [], trace := u @ [Cw_flush_tone_queue, Cw_wait_for_tone_queue]\<rparr>"
  have "esc_abort w s = bnd ?break (\<lambda>_. sq [put_queue [], emit Cw_flush_tone_queue, emit Cw_wait_for_tone_queue,
      ?off, set_flag (\<lambda>f. f AND 0)]) s"
    using assms(2) by (simp add: esc_abort_def look_def)
  also have "\<dots> = bnd ?off (\<lambda>_. set_flag (\<lambda>f. f AND 0)) ?r"
    unfolding bnd_def [of ?break] b by (simp add: bnd_ret_right put_queue_def) (simp add: bnd_def emit_def upd_def)
  finally obtain r where r: "?off ?r = Run () r" and t: "t = r\<lparr>ptt_flag := 0\<rparr>"
    using assms(1) by (auto simp: bnd_def [of ?off] set_flag_def upd_def split: outcome.splits)
  have 1: "r = ?r \<and> ptt_flag s = 0 \<or>
    (\<exists>d q. global_cwdevice s = Some d \<and> dev_ptt w d OFF ?r = Run () q \<and> r = q\<lparr>ptt_flag := 0\<rparr>)"
    using r by (cases "ptt_flag s = 0")
      (auto simp: look_def guard_def with_device_def cwdaemon_set_ptt_off_def bnd_ret_right set_flag_def
        ret_def halt_def bnd_def [of "dev_ptt w _ OFF"] upd_def split: option.splits outcome.splits)
  then have "request_queue r = [] \<and> (\<exists>v. trace r = trace ?r @ v)"
    by (elim disjE exE conjE) (auto dest!: within_Run [OF io_only_dev(2)] simp: extends_def)
  with t show "ptt_flag t = 0" "request_queue t = []" "Cw_flush_tone_queue \<in> set (trace t)" by auto
  show "\<not> dev_level d t" if d: "global_cwdevice s = Some d" "ptt_flag s \<noteq> 0" "dev_wired w d s"
  proof -
    from 1 d obtain q where q: "dev_ptt w d OFF ?r = Run () q" "r = q\<lparr>ptt_flag := 0\<rparr>" by auto
    have "dev_wired w d ?r" using d(3) by (simp add: dev_wired_cong [of ?r s])
    then have "\<not> dev_level d q" using dev.ptt_sets [OF q(1)] by (simp add: ON_def OFF_def)
    then show ?thesis using dev_level_cong [of t q d] q t by simp
  qed
qed

text \<open>
  C14: the abort request in character mode: the client that waits for a reply gets "break" (no other
  client gets anything), libcw's queue is flushed, the request queue and all PTT flags are cleared, and
  if PTT was in use the PTT line of the device is down.
\<close>

theorem abort_request:
  assumes "esc_abort w s = Run () t" "wordmode s = 0"
  shows "ptt_flag t = 0 \<and> request_queue t = [] \<and>
    replied (trace t) = replied (trace s) @ (if bit (ptt_flag s) 2 then [(''break'' @ CRLF, reply_addr s)] else []) \<and>
    Cw_flush_tone_queue \<in> set (trace t) \<and>
    (\<forall>d. global_cwdevice s = Some d \<and> ptt_flag s \<noteq> 0 \<and> dev_wired w d s \<longrightarrow> \<not> dev_level d t)"
proof -
  have "replied (trace t) = sent_letters (mailbox t)" by (simp add: mailbox_def)
  also have "\<dots> = replied (trace s) @ (if bit (ptt_flag s) 2 then [(''break'' @ CRLF, reply_addr s)] else [])"
    using abort_mailbox [OF assms(1)] assms(2) by (simp add: break_text_def CRLF_def)
  finally show ?thesis
    using abort_state [OF assms] by (auto simp: dev_wired_def)
qed

text \<open>A serial port that has PTT up for a request with a reply.\<close>

theorem abort_request_witness:
  "\<exists>t. esc_abort (example_env []) (tty_state\<lparr>ptt_flag := PTT_ACTIVE_ECHO, reply_addr := (1, 5000)\<rparr>) = Run () t \<and>
    replied (trace t) = [(''break'' @ CRLF, (1, 5000))] \<and> \<not> dev_level Dev_Ttys t"
proof -
  let ?w = "example_env []" and ?s = "tty_state\<lparr>ptt_flag := PTT_ACTIVE_ECHO, reply_addr := (1, 5000)\<rparr>"
  have "is_run (esc_abort ?w ?s)"
    by (simp add: esc_abort_def cwdaemon_set_ptt_off_def dev_ptt_def ttys_ptt_def cwdaemon_sendto_def put_queue_def
        set_flag_def with_device_def prog_simps tty_state_def daemon_init_def Let_def example_env_def answer_def
        PTT_ACTIVE_ECHO_def)
  then obtain t where t: "esc_abort ?w ?s = Run () t"
    by (cases "esc_abort ?w ?s") simp_all
  have "bit (ptt_flag ?s) 2" "ptt_flag ?s \<noteq> 0" "wordmode ?s = 0" "global_cwdevice ?s = Some Dev_Ttys"
    "dev_wired ?w Dev_Ttys ?s" "replied (trace ?s) = []"
    by (simp_all add: PTT_ACTIVE_ECHO_def tty_state_def daemon_init_def dev_wired_def tty_wired_def replied_def)
  with abort_request [OF t] t show ?thesis
    by - (rule exI [of _ t], simp)
qed

end
