(* ===== verification/Walk.thy ===== *)
theory Walk
  imports Reply
begin

text \<open>
  One walk over all operations of the daemon, for any invariant: the locale \<open>daemon_walk\<close> asks of the
  invariant that the few operations that touch the PTT line, the flags, the devices and the socket
  keep it, and that everything that leaves all of these alone keeps it; then every step keeps it.
\<close>

section \<open>A triple for the walk\<close>

text \<open>
  \<open>upholds I E m\<close>: from \<open>I\<close>, a run of \<open>m\<close> that returns ends with \<open>I\<close> and one that stops the process with
  \<open>E\<close>, which may be less.
\<close>

definition upholds :: "('s \<Rightarrow> bool) \<Rightarrow> ('s \<Rightarrow> bool) \<Rightarrow> ('s, 'a) prog \<Rightarrow> bool" where
  "upholds I E m \<longleftrightarrow> hoare I m (\<lambda>_. I) (\<lambda>_. E)"

lemma upholds_Run: "upholds I E m \<Longrightarrow> I s \<Longrightarrow> m s = Run x t \<Longrightarrow> I t"
  unfolding upholds_def by (rule hoare_Run)

lemma upholds_Halt: "upholds I E m \<Longrightarrow> I s \<Longrightarrow> m s = Halt h t \<Longrightarrow> E t"
  unfolding upholds_def by (rule hoare_Halt)

lemma upholds_preserves: "preserves I m \<Longrightarrow> upholds I (\<lambda>_. True) m"
  by (simp add: upholds_def preserves_def)

lemma upholds_within:
  "within R m \<Longrightarrow> (\<And>s t. R s t \<Longrightarrow> I s \<Longrightarrow> I t) \<Longrightarrow> (\<And>s. I s \<Longrightarrow> E s) \<Longrightarrow> upholds I E m"
  unfolding upholds_def hoare_def within_def by (fastforce split: outcome.splits)

lemma upholds_bnd: "upholds I E m \<Longrightarrow> (\<And>x. upholds I E (k x)) \<Longrightarrow> upholds I E (bnd m k)"
  unfolding upholds_def by (rule hoare_bnd)

lemma upholds_ret: "upholds I E (ret x)"
  by (simp add: upholds_def hoare_def ret_def)

lemma upholds_look: "(\<And>s. I s \<Longrightarrow> upholds I E (f s)) \<Longrightarrow> upholds I E (look f)"
  unfolding upholds_def hoare_def look_def by fast

lemma upholds_guard: "(b \<Longrightarrow> upholds I E m) \<Longrightarrow> upholds I E (guard b m)"
  by (simp add: guard_def upholds_ret)

lemma upholds_if: "(b \<Longrightarrow> upholds I E m) \<Longrightarrow> (\<not> b \<Longrightarrow> upholds I E n) \<Longrightarrow> upholds I E (if b then m else n)"
  by simp

lemma upholds_sq: "upholds I E (sq [])"
  "upholds I E m \<Longrightarrow> upholds I E (sq ms) \<Longrightarrow> upholds I E (sq (m # ms))"
  by (simp_all add: upholds_ret upholds_bnd)

lemma upholds_option:
  "(x = None \<Longrightarrow> upholds I E m) \<Longrightarrow> (\<And>y. x = Some y \<Longrightarrow> upholds I E (k y)) \<Longrightarrow>
    upholds I E (case x of None \<Rightarrow> m | Some y \<Rightarrow> k y)"
  by (cases x) simp_all

lemma upholds_prod:
  "(\<And>a b. x = (a, b) \<Longrightarrow> upholds I E (k a b)) \<Longrightarrow> upholds I E (case x of (a, b) \<Rightarrow> k a b)"
  by (cases x) simp

lemma upholds_replicate: "upholds I E m \<Longrightarrow> upholds I E (sq (replicate n m))"
  by (induction n) (simp_all add: upholds_ret upholds_bnd)

section \<open>Operations aside\<close>

text \<open>Calls that change no line, receive and send nothing and register no function for the exit.\<close>

fun plain_call :: "call \<Rightarrow> bool" where
  "plain_call (Ioctl _ _) = False"
| "plain_call (Recvfrom _ _) = False"
| "plain_call (Sendto _ _ _ _) = False"
| "plain_call (Atexit _) = False"
| "plain_call _ = True"

text \<open>The frame "makes plain calls only, and leaves the devices, the flags and the addresses alone".\<close>

definition aside :: "daemon \<Rightarrow> daemon \<Rightarrow> bool" where
  "aside s t \<longleftrightarrow> adds plain_call s t \<and> devs t = devs s \<and> global_cwdevice t = global_cwdevice s \<and>
     ptt_flag t = ptt_flag s \<and> reply_buffer t = reply_buffer s \<and> reply_addr t = reply_addr s \<and>
     request_addr t = request_addr s"

interpretation asd: frame aside
  by unfold_locales (auto simp: aside_def intro: add.R_refl add.R_trans)

lemma aside_ask: "plain_call c \<Longrightarrow> within aside (ask w c)"
  by (rule withinI) (auto simp: ask_def Let_def aside_def adds_def)

lemma aside_emit: "plain_call c \<Longrightarrow> within aside (emit c)"
  by (rule withinI) (auto simp: emit_def upd_def aside_def adds_def)

lemma aside_upd: "(\<And>s. aside s (f s)) \<Longrightarrow> within aside (upd f)"
  by (rule withinI) (simp add: upd_def)

lemma aside_io:
  assumes "io_only m" "within (adds plain_call) m"
  shows "within aside m"
proof (rule withinI)
  fix s
  show "case m s of Run x t \<Rightarrow> aside s t | Halt h t \<Rightarrow> orderly h \<and> aside s t"
    using withinD [OF assms(1), of s] withinD [OF assms(2), of s]
    by (auto simp: aside_def extends_def split: outcome.splits)
qed

lemma aside_queue: "within aside (put_queue q)"
  unfolding put_queue_def by (rule aside_upd) (simp add: aside_def adds_same)

lemma aside_open: "within aside (cwdaemon_open_libcw_output w a)"
proof -
  have "within (adds plain_call) (retry_oss w a n rv)" for n rv
    by (induction n arbitrary: rv) (auto intro!: adds_rules)
  then show ?thesis
    by (intro aside_io io_only_open) (unfold cwdaemon_open_libcw_output_def, intro adds_rules; simp)
qed

lemma aside_close: "within aside cwdaemon_close_libcw_output"
  by (intro aside_io io_only_close) (unfold cwdaemon_close_libcw_output_def, intro adds_rules; simp)

lemmas aside_rules = asd.within_ret asd.within_exit asd.within_bnd asd.within_look asd.within_guard asd.within_if
  asd.within_sq_Nil asd.within_sq_Cons asd.within_option asd.within_prod aside_ask aside_emit aside_queue

lemma aside_reset_all: "within aside (cwdaemon_reset_almost_all w d)"
  unfolding cwdaemon_reset_almost_all_def cwdaemon_reset_libcw_output_def
  by (intro aside_rules aside_open aside_close aside_upd; simp add: aside_def adds_same reset_current_def)

lemma aside_change_speed: "within aside (change_speed w x)"
  unfolding change_speed_def by (intro aside_rules aside_upd; simp add: aside_def adds_same)

lemma aside_settings:
  "within aside (esc_speed w arg)" "within aside (esc_volume w arg)" "within aside (esc_weighting arg)"
  "within aside esc_wordmode"
  unfolding esc_speed_def esc_volume_def esc_weighting_def esc_wordmode_def
  by (intro aside_rules aside_upd; simp add: aside_def adds_same)+

lemma aside_switch: "within aside (switch_sound_system w)"
  unfolding switch_sound_system_def
  by (intro aside_rules aside_open aside_close aside_upd; simp add: aside_def adds_same)

section \<open>The walk\<close>

locale daemon_walk =
  fixes w :: env and I E :: "daemon \<Rightarrow> bool"
  assumes at_halt: "I s \<Longrightarrow> E s"
    and aside_kept: "aside s t \<Longrightarrow> I s \<Longrightarrow> I t"
    and I_manual: "upholds I E (set_flag (\<lambda>f. f OR PTT_ACTIVE_MANUAL))"
      "upholds I E (set_flag (\<lambda>f. f AND NOT PTT_ACTIVE_MANUAL))"
    and I_auto: "upholds I E (set_flag (\<lambda>f. f OR PTT_ACTIVE_AUTO))"
    and I_echo: "upholds I E (set_flag (\<lambda>f. f AND NOT PTT_ACTIVE_ECHO))"
    and I_ptt: "upholds I E (with_device (cwdaemon_set_ptt_on w))" "upholds I E (with_device (cwdaemon_set_ptt_off w))"
    and I_reset: "upholds I E (sq [with_device (dev_reset_pins_state w), set_flag (\<lambda>_. 0)])"
    and I_off: "upholds I E (sq [look (\<lambda>s. guard (ptt_flag s \<noteq> 0) (with_device (cwdaemon_set_ptt_off w))),
      set_flag (\<lambda>f. f AND 0)])"
    and I_key: "upholds I E (dev_cw w d v)"
    and I_reply: "upholds I E (cwdaemon_prepare_reply r)"
      "upholds I E (upd (\<lambda>s. s\<lparr>reply_buffer := h s\<rparr>))"
    and I_socket: "upholds I E (cwdaemon_recvfrom w n)" "upholds I E (cwdaemon_sendto w r)"
    and I_device: "upholds I E (cwdaemon_option_cwdevice w arg)"
    and I_lp: "dev_ssbway w d = Some f \<Longrightarrow> upholds I E (f v)" "upholds I E (cwdaemon_switch_band w d b)"
      "dev_footswitch w d = Some g \<Longrightarrow> upholds I E (bnd g (\<lambda>state. dev_ptt w d (if state = 0 then 1 else 0)))"
begin

lemma I_aside: "within aside m \<Longrightarrow> upholds I E m"
  by (erule upholds_within) (rule aside_kept at_halt; assumption)+

lemma upholds_halt: "upholds I E (halt h)"
  by (simp add: upholds_def hoare_def halt_def at_halt)

lemma upholds_with_device: "(\<And>d. upholds I E (f d)) \<Longrightarrow> upholds I E (with_device f)"
  unfolding with_device_def by (intro upholds_look upholds_option upholds_halt)

lemmas upholds_rules = upholds_ret upholds_halt upholds_bnd upholds_look upholds_guard upholds_if upholds_sq
  upholds_option upholds_prod

lemmas walk_rules = upholds_rules I_aside [OF aside_ask] I_aside [OF aside_emit] I_aside [OF aside_queue] I_ptt

lemma walk_upd: "(\<And>s. aside s (f s)) \<Longrightarrow> upholds I E (upd f)"
  by (intro I_aside aside_upd)

lemma walk_play_from: "v = w \<Longrightarrow> upholds I E (play_from v pre x)"
proof (induction v pre x rule: play_from.induct)
  case (1 v pre)
  show ?case by (simp add: upholds_ret)
next
  case (2 v pre c x)
  from 2(6) have ptt: "\<And>s. upholds I E (with_device (cwdaemon_set_ptt_on v))" by (simp add: I_ptt)
  show ?case
    unfolding play_from.simps(2) Let_def play_character_def
    by (intro upholds_if upholds_bnd upholds_sq upholds_guard I_aside [OF aside_change_speed] I_reply(1)
        I_aside [OF aside_queue] ptt I_aside [OF aside_ask] I_aside [OF aside_emit] "2.IH" 2(6); simp)
qed

lemma walk_play_request: "upholds I E (cwdaemon_play_request w)"
  unfolding cwdaemon_play_request_def by (intro walk_rules walk_play_from refl)

lemma walk_esc_reset: "upholds I E (esc_reset w)"
proof -
  have "upholds I E (sq [put_queue [], with_device (\<lambda>dev. bnd (cwdaemon_reset_almost_all w dev) (\<lambda>_. ret ())),
     upd (\<lambda>s. s\<lparr>wordmode := 0\<rparr>), upd (\<lambda>s. s\<lparr>async_abort := 0\<rparr>)])"
    by (intro walk_rules upholds_with_device I_aside [OF aside_reset_all] walk_upd; simp add: aside_def adds_same)
  moreover have "esc_reset w = bnd (sq [put_queue [], with_device (\<lambda>dev. bnd (cwdaemon_reset_almost_all w dev) (\<lambda>_. ret ())),
     upd (\<lambda>s. s\<lparr>wordmode := 0\<rparr>), upd (\<lambda>s. s\<lparr>async_abort := 0\<rparr>)])
       (\<lambda>_. sq [with_device (dev_reset_pins_state w), set_flag (\<lambda>_. 0)])"
    by (simp add: esc_reset_def bnd_assoc)
  ultimately show ?thesis using upholds_bnd [OF _ I_reset] by simp
qed

lemma walk_esc_abort: "upholds I E (esc_abort w)"
proof -
  have "upholds I E (sq ([guard b (bnd (cwdaemon_sendto w t) (\<lambda>_. ret ())), put_queue [],
      emit Cw_flush_tone_queue, emit Cw_wait_for_tone_queue] @
      [look (\<lambda>s. guard (ptt_flag s \<noteq> 0) (with_device (cwdaemon_set_ptt_off w))), set_flag (\<lambda>f. f AND 0)]))" for b t
    unfolding sq_append by (intro upholds_bnd I_off walk_rules I_socket; simp)
  then show ?thesis
    unfolding esc_abort_def by (intro upholds_look upholds_guard) simp
qed

lemma walk_generator: "upholds I E configure_generator"
  unfolding configure_generator_def register_keying_callback_def
  by (intro walk_rules upholds_with_device; simp)

lemma walk_esc_tone: "upholds I E (esc_tone w arg)"
  unfolding esc_tone_def by (intro walk_rules walk_upd; simp add: aside_def adds_same)

lemma walk_esc_system: "upholds I E (esc_system w arg)"
  unfolding esc_system_def
  by (intro walk_rules walk_generator I_aside [OF aside_switch] walk_upd) (simp add: aside_def adds_same)

lemma walk_esc_cwdevice: "upholds I E (esc_cwdevice w arg)"
  unfolding esc_cwdevice_def register_keying_callback_def
  by (intro walk_rules upholds_with_device I_device; simp)

lemma walk_esc_tune: "upholds I E (esc_tune w arg)"
  unfolding esc_tune_def cwdaemon_tune_def by (intro walk_rules upholds_replicate; simp)

lemma walk_esc_pttdelay: "upholds I E (esc_pttdelay w arg)"
  unfolding esc_pttdelay_def by (intro walk_rules walk_upd) (simp add: aside_def adds_same)

lemma walk_ptt_on_off: "upholds I E (cwdaemon_params_ptt_on_off w arg)"
  unfolding cwdaemon_params_ptt_on_off_def by (intro walk_rules I_manual I_auto; simp)

lemma walk_esc_lp: "upholds I E (esc_ssbway w arg)" "upholds I E (esc_band w arg)"
  unfolding esc_ssbway_def esc_band_def
  by (intro upholds_guard upholds_option upholds_ret upholds_with_device I_lp(1) I_lp(2); assumption)+

lemma walk_escaped: "upholds I E (cwdaemon_handle_escaped_request w request)"
  unfolding cwdaemon_handle_escaped_request_def Let_def
  by (intro upholds_if upholds_ret upholds_halt upholds_bnd walk_esc_reset walk_esc_tone walk_esc_abort
      walk_esc_cwdevice walk_ptt_on_off walk_esc_lp walk_esc_tune walk_esc_pttdelay walk_esc_system I_reply(1)
      I_aside [OF aside_settings(1)] I_aside [OF aside_settings(2)] I_aside [OF aside_settings(3)]
      I_aside [OF aside_settings(4)])

lemma walk_receive: "upholds I E (cwdaemon_receive w)"
  unfolding cwdaemon_receive_def act_on_request_def
  by (intro upholds_bnd upholds_prod upholds_if upholds_ret upholds_halt upholds_look upholds_sq
      I_aside [OF aside_queue] walk_play_request walk_escaped I_socket)

lemma walk_send_reply: "upholds I E (send_reply w)"
  unfolding send_reply_def by (intro walk_rules I_echo I_socket I_reply(2)) simp_all

lemma walk_step: "upholds I E (daemon_step w e)"
proof (cases e)
  case Main_Loop
  then show ?thesis
    by (simp, unfold main_iteration_def) (intro walk_rules upholds_with_device walk_receive walk_upd I_lp(3);
      (assumption | simp add: aside_def adds_same)?)
next
  case Low_Queue
  then show ?thesis
    by (simp, unfold cwdaemon_tone_queue_low_callback_def) (intro walk_rules walk_send_reply; simp)
next
  case (Key d k)
  then show ?thesis
    by (simp, unfold cwdaemon_keyingevent_def) (intro walk_rules I_key walk_upd; simp add: aside_def adds_same)
qed

lemma walk_reaches: "reaches (daemon_step w) s t \<Longrightarrow> I s \<Longrightarrow> I t"
  by (induction rule: reaches.induct) (auto intro: upholds_Run [OF walk_step])

end

end
