(* ===== verification/Log.thy ===== *)
theory Log
  imports Options
begin

text \<open>
  Models \<^verbatim>\<open>src/src/log.c\<close>: the decision whether a message is written and where, and the opening
  and closing of the debug output. A message is given as the text that \<^verbatim>\<open>vsnprintf()\<close> makes of the
  format and the arguments; \<open>snprintf\<close> is the truncation to the buffer. The other theories leave
  messages out.
\<close>

section \<open>Model\<close>

definition PACKAGE :: string where "PACKAGE = ''cwdaemon''"
definition LOG_BUF_SIZE :: nat where "LOG_BUF_SIZE = 1024 + 1"

abbreviation newline :: string where "newline \<equiv> [CHR 0x0A]"
abbreviation quoted :: "string \<Rightarrow> string" where "quoted s \<equiv> CHR 0x22 # s @ [CHR 0x22]"

definition log_get_priority_label :: "int \<Rightarrow> string" where
  "log_get_priority_label priority =
     (if priority = LOG_ERR then ''EE''
      else if priority = LOG_WARNING then ''WW''
      else if priority = LOG_NOTICE then ''NN''
      else if priority = LOG_INFO then ''II''
      else if priority = LOG_DEBUG then ''DD''
      else ''??'')"

definition log_line :: "int \<Rightarrow> string \<Rightarrow> string" where
  "log_line priority buf =
     ''['' @ log_get_priority_label priority @ ''] '' @ PACKAGE @ '': '' @ buf @ newline"

definition cwdaemon_errmsg :: "env \<Rightarrow> string \<Rightarrow> unit act" where
  "cwdaemon_errmsg w msg = look (\<lambda>s.
     let buf = fst (snprintf LOG_BUF_SIZE msg) in
     if g_forking s then emit (Syslog LOG_ERR (buf @ newline))
     else sq [emit (Fprintf Stdout (PACKAGE @ '': '' @ buf @ '' failed: '' @
                quoted (strerror w (errno_of w (trace s))) @ newline)),
              emit (Fflush Stdout)])"

definition log_message :: "int \<Rightarrow> string \<Rightarrow> unit act" where
  "log_message priority msg = look (\<lambda>s.
     guard (\<not> priority > current_log_threshold s)
       (let buf = fst (snprintf LOG_BUF_SIZE msg) in
        case cwdaemon_debug_f s of
          None \<Rightarrow> emit (Syslog priority (buf @ newline))
        | Some f \<Rightarrow> emit (Fprintf f (log_line priority buf))))"

definition cwdaemon_debug :: "int \<Rightarrow> string \<Rightarrow> unit act" where
  "cwdaemon_debug verbosity msg = look (\<lambda>s.
     case cwdaemon_debug_f s of
       None \<Rightarrow> ret ()
     | Some f \<Rightarrow> guard (\<not> verbosity > current_log_threshold s)
         (sq [emit (Fprintf f (log_line verbosity (fst (snprintf LOG_BUF_SIZE msg)))), emit (Fflush f)]))"

definition set_debug_f :: "stream option \<Rightarrow> unit act" where
  "set_debug_f f = upd (\<lambda>s. s\<lparr>cwdaemon_debug_f := f\<rparr>)"

definition cwdaemon_debug_open :: "env \<Rightarrow> bool \<Rightarrow> unit act" where
  "cwdaemon_debug_open w forking = look (\<lambda>s. sq [
     guard forking
       (case cwdaemon_debug_f_path s of
          None \<Rightarrow> ret ()
        | Some path \<Rightarrow> guard (path = ''stdout'' \<or> path = ''stderr'')
            (sq [emit (Fprintf Stdout (''[ERROR] '' @ PACKAGE @ '': specified debug output to '' @
                   quoted path @ '' when forking'' @ newline)),
                 halt (Exit EXIT_FAILURE)])),
     case cwdaemon_debug_f_path s of
       None \<Rightarrow>
         if \<not> forking then sq [emit (Fprintf Stderr (''debug output: stdout'' @ newline)), set_debug_f (Some Stdout)]
         else set_debug_f None
     | Some path \<Rightarrow>
         if path = ''stdout'' then
           (if forking then halt Assert_Failed
            else sq [emit (Fprintf Stderr (''debug output: stdout'' @ newline)), set_debug_f (Some Stdout)])
         else if path = ''stderr'' then
           (if forking then halt Assert_Failed
            else sq [emit (Fprintf Stderr (''debug output: stderr'' @ newline)), set_debug_f (Some Stderr)])
         else sq [
           emit (Fprintf Stderr (''debug output: '' @ path @ newline)),
           bnd (ask w (Fopen path ''w+'')) (\<lambda>f. sq [
             set_debug_f (if f = 0 then None else Some (Disc_File f)),
             guard (f = 0)
               (sq [emit (Fprintf Stderr (PACKAGE @ '': failed to open output debug file '' @ quoted path @ newline)),
                    halt (Exit EXIT_FAILURE)])])]])"

definition cwdaemon_debug_close :: "unit act" where
  "cwdaemon_debug_close = look (\<lambda>s.
     case cwdaemon_debug_f s of
       Some (Disc_File f) \<Rightarrow> sq [emit (Fclose f), set_debug_f None]
     | _ \<Rightarrow> ret ())"

section \<open>Lemmas\<close>

lemma io_only_log [frame_rules]:
  "io_only (log_message priority msg)" "io_only (cwdaemon_debug verbosity msg)" "io_only (cwdaemon_errmsg w msg)"
  unfolding log_message_def cwdaemon_debug_def cwdaemon_errmsg_def Let_def by (intro frame_rules)+

lemma log_line_length: "length (log_line priority buf) = length buf + 16"
  by (simp add: log_line_def log_get_priority_label_def PACKAGE_def)

text \<open>The debug output that the command line asks for, given what \<^verbatim>\<open>fopen()\<close> answers.\<close>

fun debug_target :: "bool \<Rightarrow> string option \<Rightarrow> int \<Rightarrow> stream option option" where
  "debug_target forking None f = Some (if forking then None else Some Stdout)"
| "debug_target forking (Some path) f =
     (if path = ''stdout'' then if forking then None else Some (Some Stdout)
      else if path = ''stderr'' then if forking then None else Some (Some Stderr)
      else if f = 0 then None else Some (Some (Disc_File f)))"

definition fopen_answer :: "env \<Rightarrow> daemon \<Rightarrow> int" where
  "fopen_answer w s = (case cwdaemon_debug_f_path s of
     None \<Rightarrow> 0
   | Some path \<Rightarrow> ret_of w (trace s @ [Fprintf Stderr (''debug output: '' @ path @ newline), Fopen path ''w+'']))"

text \<open>The calls that opening makes.\<close>

fun opening_calls :: "bool \<Rightarrow> string option \<Rightarrow> call list" where
  "opening_calls forking None = (if forking then [] else [Fprintf Stderr (''debug output: stdout'' @ newline)])"
| "opening_calls forking (Some path) = Fprintf Stderr (''debug output: '' @ path @ newline) #
     (if path = ''stdout'' \<or> path = ''stderr'' then [] else [Fopen path ''w+''])"

lemma debug_open_Run:
  assumes "debug_target forking (cwdaemon_debug_f_path s) (fopen_answer w s) = Some f"
  shows "cwdaemon_debug_open w forking s = Run () (s\<lparr>cwdaemon_debug_f := f,
    trace := trace s @ opening_calls forking (cwdaemon_debug_f_path s)\<rparr>)"
proof (cases "cwdaemon_debug_f_path s")
  case None
  with assms show ?thesis
    by (cases forking) (auto simp: cwdaemon_debug_open_def set_debug_f_def prog_simps)
next
  case (Some path)
  consider "path = ''stdout''" | "path = ''stderr''" | "path \<noteq> ''stdout''" "path \<noteq> ''stderr''" by blast
  then show ?thesis
    using Some assms by cases
      (auto simp: cwdaemon_debug_open_def set_debug_f_def fopen_answer_def prog_simps Let_def split: if_splits)
qed

lemma debug_open_Halt:
  assumes "debug_target forking (cwdaemon_debug_f_path s) (fopen_answer w s) = None"
  shows "\<exists>t. cwdaemon_debug_open w forking s = Halt (Exit EXIT_FAILURE) t"
proof -
  obtain path where Some: "cwdaemon_debug_f_path s = Some path"
    using assms by (cases "cwdaemon_debug_f_path s") simp_all
  consider "path = ''stdout''" | "path = ''stderr''" | "path \<noteq> ''stdout''" "path \<noteq> ''stderr''" by blast
  then show ?thesis
    using Some assms by cases
      (auto simp: cwdaemon_debug_open_def set_debug_f_def fopen_answer_def prog_simps Let_def split: if_splits)
qed

section \<open>Properties\<close>

text \<open>
  C25: the debug output is opened as the command line asks or the process exits with a failure: a
  clash of a standard stream with forking and a file that cannot be opened are the only reasons to
  exit, and the assertions that repeat the first check never fail.
\<close>

theorem debug_open_verdict:
  "case debug_target forking (cwdaemon_debug_f_path s) (fopen_answer w s) of
     None \<Rightarrow> \<exists>t. cwdaemon_debug_open w forking s = Halt (Exit EXIT_FAILURE) t
   | Some f \<Rightarrow> \<exists>u. cwdaemon_debug_open w forking s = Run () (s\<lparr>cwdaemon_debug_f := f, trace := trace s @ u\<rparr>)"
proof (cases "debug_target forking (cwdaemon_debug_f_path s) (fopen_answer w s)")
  case None
  then show ?thesis using debug_open_Halt [OF None] by simp
next
  case (Some f)
  then show ?thesis unfolding Some option.case by (intro exI) (rule debug_open_Run [OF Some])
qed

text \<open>
  C26: after the debug output has been opened a message is written exactly once if its priority passes
  the threshold and not at all otherwise; it is cut to the size of the buffer; it goes to syslog
  exactly when the daemon has forked without a debug file, and a daemon that has forked never writes
  to its standard streams.
\<close>

theorem log_destination:
  assumes "cwdaemon_debug_open w forking s = Run () t"
  shows "\<exists>c. log_message priority msg t =
      Run () (if priority \<le> current_log_threshold s then t\<lparr>trace := trace t @ [c]\<rparr> else t) \<and>
    (case c of
       Syslog p x \<Rightarrow> p = priority \<and> length x \<le> 1025 \<and> forking \<and> cwdaemon_debug_f_path s = None
     | Fprintf f x \<Rightarrow> length x \<le> 1040 \<and> (f = Stdout \<or> f = Stderr \<longrightarrow> \<not> forking) \<and>
         \<not> (forking \<and> cwdaemon_debug_f_path s = None)
     | _ \<Rightarrow> False)"
proof -
  let ?target = "debug_target forking (cwdaemon_debug_f_path s) (fopen_answer w s)"
  let ?buf = "fst (snprintf LOG_BUF_SIZE msg)"
  from assms debug_open_verdict [where forking = forking and s = s and w = w] obtain f u
    where f: "?target = Some f" and t: "t = s\<lparr>cwdaemon_debug_f := f, trace := trace s @ u\<rparr>"
    by (auto split: option.splits)
  have "length ?buf \<le> 1024" by (simp add: snprintf_def LOG_BUF_SIZE_def)
  moreover have "f = None \<longleftrightarrow> forking \<and> cwdaemon_debug_f_path s = None"
    "f = Some Stdout \<or> f = Some Stderr \<longrightarrow> \<not> forking"
    using f by (cases "cwdaemon_debug_f_path s"; auto split: if_splits)+
  ultimately show ?thesis
    using t by (intro exI [of _ "case f of None \<Rightarrow> Syslog priority (?buf @ newline)
        | Some g \<Rightarrow> Fprintf g (log_line priority ?buf)"])
      (auto simp: log_message_def prog_simps Let_def log_line_length split: option.split)
qed

theorem log_destination_witness:
  "\<exists>t. cwdaemon_debug_open (example_env []) False daemon_init = Run () t \<and>
    log_message LOG_ERR ''no'' t = Run () (t\<lparr>trace := trace t @ [Fprintf Stdout (log_line LOG_ERR ''no'')]\<rparr>)"
proof -
  let ?w = "example_env []"
  obtain t where t: "cwdaemon_debug_open ?w False daemon_init = Run () t" "cwdaemon_debug_f t = Some Stdout"
    "current_log_threshold t = LOG_WARNING"
    by (simp add: cwdaemon_debug_open_def set_debug_f_def prog_simps daemon_init_def)
  from log_destination [OF t(1), of LOG_ERR "''no''"] t(2,3) show ?thesis
    by (intro exI [of _ t] conjI t(1))
      (simp add: log_message_def prog_simps Let_def snprintf_def LOG_BUF_SIZE_def LOG_ERR_def LOG_WARNING_def)
qed

text \<open>
  C27: closing the debug output leaves no pointer to a closed file: a second call, and any message
  written later, does not touch the file again.
\<close>

theorem debug_close_once:
  assumes "cwdaemon_debug_close s = Run () t"
  shows "cwdaemon_debug_close t = Run () t \<and> (\<forall>f. cwdaemon_debug_f t \<noteq> Some (Disc_File f)) \<and>
    (\<forall>f. cwdaemon_debug_f s = Some (Disc_File f) \<longrightarrow> trace t = trace s @ [Fclose f]) \<and>
    (log_message priority msg t = Run () u \<longrightarrow> (\<forall>f x. trace u \<noteq> trace t @ [Fprintf (Disc_File f) x]))"
proof -
  have "\<exists>g. cwdaemon_debug_close s = Run () (s\<lparr>cwdaemon_debug_f := g, trace := trace s @
      (case cwdaemon_debug_f s of Some (Disc_File f) \<Rightarrow> [Fclose f] | _ \<Rightarrow> [])\<rparr>) \<and> (\<forall>f. g \<noteq> Some (Disc_File f))"
  proof (cases "\<exists>f. cwdaemon_debug_f s = Some (Disc_File f)")
    case True
    then show ?thesis
      by (intro exI [of _ None]) (auto simp: cwdaemon_debug_close_def set_debug_f_def prog_simps)
  next
    case False
    then show ?thesis
      by (intro exI [of _ "cwdaemon_debug_f s"])
        (auto simp: cwdaemon_debug_close_def prog_simps split: option.splits stream.splits)
  qed
  with assms have t: "\<forall>f. cwdaemon_debug_f t \<noteq> Some (Disc_File f)"
    "\<forall>f. cwdaemon_debug_f s = Some (Disc_File f) \<longrightarrow> trace t = trace s @ [Fclose f]" by auto
  then have "cwdaemon_debug_close t = Run () t"
    by (auto simp: cwdaemon_debug_close_def prog_simps split: option.splits stream.splits)
  with t show ?thesis
    by (auto simp: log_message_def prog_simps Let_def split: option.splits if_splits)
qed

theorem debug_close_once_witness:
  "\<exists>t. cwdaemon_debug_close (daemon_init\<lparr>cwdaemon_debug_f := Some (Disc_File 7)\<rparr>) = Run () t \<and>
    cwdaemon_debug_close t = Run () t \<and> trace t = [Fclose 7]"
proof -
  let ?s = "daemon_init\<lparr>cwdaemon_debug_f := Some (Disc_File 7)\<rparr>"
  obtain t where t: "cwdaemon_debug_close ?s = Run () t"
    by (simp add: cwdaemon_debug_close_def set_debug_f_def prog_simps)
  from debug_close_once [OF t] t show ?thesis by (auto simp: daemon_init_def)
qed

end
