(* ===== verification/Help.thy ===== *)
theory Help
  imports Log
begin

text \<open>
  Models \<^verbatim>\<open>src/src/help.c\<close>: the text of the option \<open>-h\<close>. An entry of the text is the line that
  names an option and the lines that describe it.
\<close>

section \<open>Model\<close>

text \<open>The two lines with numbers that occur several times.\<close>

definition valid_range :: "int \<Rightarrow> int \<Rightarrow> string" where
  "valid_range lo hi =
     ''        Valid values are in range <'' @ show_long lo @ '' - '' @ show_long hi @ ''>, inclusive.''"

definition default_value :: "int \<Rightarrow> string" where
  "default_value v = ''        Default value is '' @ show_long v @ ''.''"

definition help_device_line :: "env \<Rightarrow> string" where
  "help_device_line w = (case lp_build w of
     Linux_ppdev \<Rightarrow> ''        (e.g. ttyS0,1,2, parport0,1, etc. default: parport0)''
   | BSD_ppi \<Rightarrow> ''        (e.g. ttyd0,1,2, ppi0,1, etc. default: ppi0)''
   | No_parport \<Rightarrow>
       if platform w = FreeBSD \<or> platform w = OpenBSD
       then ''        (e.g. ttyd0,1,2, etc. default: ttyd0)''
       else ''        (e.g. ttyS0,1,2, etc. default: ttyS0)'')"

definition help_entries :: "env \<Rightarrow> (string \<times> string list) list" where
  "help_entries w = [
     (''-h, --help'', [
        ''        Print this help and exit.'']),
     (''-V, --version'', [
        ''        Print version information and exit.'']),
     (''-d, --cwdevice <device>'', [
        ''        Use a keying device other than the default'',
        help_device_line w,
        ''        You can also specify a full path to the device in /dev/ dir.'',
        ''        Use '' @ [CHR 0x22] @ ''null'' @ [CHR 0x22] @ '' for dummy device (no rig keying, no ssb keying, etc.).'']),
     (''-o, --options <option>'', [
        ''        Specify <option> to configure device selected by -d / --cwdevice option.'',
        ''        Multiple <option> values can be passed in multiple -o invocations.'',
        ''        These options can be used only after the -d / --cwdevice option'',
        ''        on the command line (first use '' @ [CHR 0x27] @ ''-d'' @ [CHR 0x27] @ '' and only then you can append '' @ [CHR 0x27] @ ''-o'' @ [CHR 0x27] @ '').'',
        ''        Driver for serial line devices understands the following options:'',
        ''        key=DTR|RTS|none (without spaces, default is DTR)'',
        ''        ptt=RTS|DTR|none (without spaces, default is RTS)'']),
     (''-n, --nofork'', [
        ''        Do not fork. Print messages to stdout.'']),
     (''-p, --port <port>'', [
        ''        Set a number of UDP port to listen on.'',
        valid_range CWDAEMON_NETWORK_PORT_MIN CWDAEMON_NETWORK_PORT_MAX,
        default_value (uint CWDAEMON_NETWORK_PORT_DEFAULT)]),
     (''-P, --priority <priority>'', [
        ''        Set program'' @ [CHR 0x27] @ ''s priority (-20 - 20, default: 0).'']),
     (''-s, --wpm <speed>'', [
        ''        Set Morse speed [wpm].'',
        valid_range (CW_SPEED_MIN w) (CW_SPEED_MAX w),
        default_value CWDAEMON_MORSE_SPEED_DEFAULT]),
     (''-t, --pttdelay <time>'', [
        ''        Set PTT delay [ms].'',
        valid_range CWDAEMON_PTT_DELAY_MIN CWDAEMON_PTT_DELAY_MAX,
        default_value (uint CWDAEMON_PTT_DELAY_DEFAULT)]),
     (''-x, --system <sound system>'', [
        ''        Use a specific sound system:'',
        ''        c = console buzzer (default)'',
        ''        o = OSS'',
        ''        a = ALSA'',
        ''        p = PulseAudio'',
        ''        n = null (no audio)'',
        ''        s = soundcard (autoselect from OSS/ALSA/PulseAudio)'']),
     (''-v, --volume <volume>'', [
        ''        Set volume for soundcard output [%].'',
        valid_range (CW_VOLUME_MIN w) (CW_VOLUME_MAX w),
        default_value CWDAEMON_MORSE_VOLUME_DEFAULT]),
     (''-w, --weighting <weight>'', [
        ''        Set weighting of Morse code.'',
        valid_range CWDAEMON_MORSE_WEIGHTING_MIN CWDAEMON_MORSE_WEIGHTING_MAX,
        default_value CWDAEMON_MORSE_WEIGHTING_DEFAULT]),
     (''-T, --tone <tone>'', [
        ''        Set tone (frequency) of played Morse code [Hz].'',
        valid_range (CW_FREQUENCY_MIN w) (CW_FREQUENCY_MAX w),
        default_value CWDAEMON_MORSE_TONE_DEFAULT]),
     (''-i'', [
        ''        Increase verbosity of debug messages printed by cwdaemon.'',
        ''        Alternatively you can use -y/--verbosity option.'']),
     (''-y, --verbosity <threshold>'', [
        ''        Set verbosity threshold for debug messages printed by cwdaemon.'',
        ''        Recognized values:'',
        ''        n = none (don'' @ [CHR 0x27] @ ''t print any messages)'',
        ''        e = error'',
        ''        w = warning (default)'',
        ''        i = information'',
        ''        d = debug'',
        ''        Alternatively you can use -i option.'']),
     (''-I, --libcwflags <flags>'', [
        ''        Specify value (as decimal number) of flags passed to libcw for'',
        ''        purposes of debugging of the libcw library.'']),
     (''-f, --debugfile <output>'', [
        ''        Print debug information to <output> instead of stdout.'',
        ''        Value of <output> can be explicitly stated as '' @ [CHR 0x22] @ ''stdout'' @ [CHR 0x22],
        ''        (when not forking).'',
        ''        Value of <output> can be also '' @ [CHR 0x22] @ ''stderr'' @ [CHR 0x22] @ '' (when not forking).'',
        ''        Special value of <output> being '' @ [CHR 0x22] @ ''syslog'' @ [CHR 0x22] @ '' is reserved for'',
        ''        future use. For now it will be rejected as invalid.'',
        ''        Passing path to disc file as value of <output> works in both'',
        ''        situations: when forking and when not forking.''])
]"

definition cwdaemon_args_help :: "env \<Rightarrow> unit act" where
  "cwdaemon_args_help w =
     sq (map (\<lambda>line. emit (Fprintf Stdout (line @ newline)))
       ((''Usage: '' @ PACKAGE @ '' [options]'') # ''Available options:'' #
        concat (map (\<lambda>(heading, lines). heading # lines) (help_entries w)) @ ['''']))"

end
