(* ===== verification/Args.thy ===== *)
theory Args
  imports Cwdevice Help Ptt
begin

text \<open>
  Models the processing of the command line in \<^verbatim>\<open>src/src/cwdaemon.c\<close>: \<open>cwdaemon_args_parse\<close>,
  \<open>cwdaemon_args_process_long\<close>, \<open>cwdaemon_args_process_short\<close>, \<open>cwdaemon_params_options\<close> and
  \<open>cwdaemon_params_version\<close>. The scanning of \<^verbatim>\<open>argv\<close> itself is \<^verbatim>\<open>getopt_long()\<close>: the model gets the
  list of what its calls return, and the operands that are left.
\<close>

section \<open>The tables of options\<close>

definition cwdaemon_args_short :: string where
  "cwdaemon_args_short = ''d:hniy:I:f:o:p:P:s:t:T:v:Vw:x:''"

text \<open>Name, whether an argument is required, and the letter the option stands for, or NUL.\<close>

definition cwdaemon_args_long :: "(string \<times> bool \<times> char) list" where
  "cwdaemon_args_long = [
     (''cwdevice'', True, CHR 0x00),
     (''nofork'', False, CHR 0x00),
     (''port'', True, CHR ''p''),
     (''priority'', True, CHR 0x00),
     (''wpm'', True, CHR 0x00),
     (''pttdelay'', True, CHR 0x00),
     (''volume'', True, CHR 0x00),
     (''version'', False, CHR 0x00),
     (''weighting'', True, CHR 0x00),
     (''tone'', True, CHR 0x00),
     (''verbosity'', True, CHR ''y''),
     (''libcwflags'', True, CHR ''I''),
     (''debugfile'', True, CHR 0x00),
     (''system'', True, CHR 0x00),
     (''options'', True, CHR ''o''),
     (''help'', False, CHR ''h'')]"

section \<open>What getopt_long returns\<close>

text \<open>
  A call returns the letter of an option or the index of a long option without a letter; with it
  comes \<^verbatim>\<open>optarg\<close>, which is NULL for an option without an argument. For an option that is unknown
  or lacks its argument it returns a question mark.
\<close>

datatype getopt = Letter char "string option" | Long_Index nat "string option"

text \<open>\<open>getopt_law\<close>: only entries of the two tables are returned, with \<^verbatim>\<open>optarg\<close> as the tables say.\<close>

fun takes_argument :: "string \<Rightarrow> char \<Rightarrow> bool option" where
  "takes_argument [] c = None"
| "takes_argument [d] c = (if c = d then Some False else None)"
| "takes_argument (d # e # x) c =
     (if e = CHR '':'' then if c = d then Some True else takes_argument x c
      else if c = d then Some False else takes_argument (e # x) c)"

fun getopt_ok :: "getopt \<Rightarrow> bool" where
  "getopt_ok (Letter c arg) \<longleftrightarrow>
     c = CHR ''?'' \<and> arg = None \<or> takes_argument cwdaemon_args_short c = Some (arg \<noteq> None)"
| "getopt_ok (Long_Index i arg) \<longleftrightarrow> i < length cwdaemon_args_long \<and>
     (case cwdaemon_args_long ! i of (name, required, val) \<Rightarrow> val = CHR 0x00 \<and> required = (arg \<noteq> None))"

definition getopt_law :: "getopt list \<Rightarrow> bool" where
  "getopt_law opts \<longleftrightarrow> (\<forall>p \<in> set opts. getopt_ok p)"

section \<open>Model\<close>

definition VERSION :: string where "VERSION = ''0.13.0''"

definition cwdaemon_params_version :: "env \<Rightarrow> unit act" where
  "cwdaemon_params_version w = sq [
     emit (Fprintf Stdout (PACKAGE @ '' version '' @ VERSION @ newline)),
     bnd (ask w Cw_version) (\<lambda>r.
       let v = word_of_int r :: 32 word;
           current = drop_bit 16 (v AND 0xffff0000);
           revision = v AND 0x0000ffff
       in emit (Fprintf Stdout (''Linked with libcw version: '' @ show_long (uint current) @ ''.'' @
            show_long (uint revision) @ newline)))]"

definition cwdaemon_params_options :: "env \<Rightarrow> devid option \<Rightarrow> string option \<Rightarrow> bool act" where
  "cwdaemon_params_options w dev optarg = (case dev of
     None \<Rightarrow> bnd (cwdaemon_debug LOG_ERR ''-o option must be used after -d <device>'') (\<lambda>_. ret False)
   | Some d \<Rightarrow> (case dev_optparse w d of
       None \<Rightarrow> bnd (cwdaemon_debug LOG_ERR ''selected device does not support -o option'') (\<lambda>_. ret False)
     | Some optparse \<Rightarrow> (case optarg of
         None \<Rightarrow> halt Undefined
       | Some option \<Rightarrow> bnd (optparse option) (\<lambda>r. ret (0 = r)))))"

text \<open>
  The form that most options have: the parser is called with a pointer to a variable, and its refusal
  ends the process.
\<close>

definition exit_unless :: "bool \<Rightarrow> unit act" where
  "exit_unless accepted = guard (\<not> accepted) (halt (Exit EXIT_FAILURE))"

definition parse_into :: "('v \<Rightarrow> 'r \<times> 'v) \<Rightarrow> (daemon \<Rightarrow> 'v) \<Rightarrow> ('v \<Rightarrow> daemon \<Rightarrow> daemon) \<Rightarrow> ('r \<Rightarrow> unit act) \<Rightarrow> unit act" where
  "parse_into parse var assign k = look (\<lambda>s. case parse (var s) of (r, v) \<Rightarrow> sq [upd (assign v), k r])"

definition option_priority :: "string option \<Rightarrow> unit act" where
  "option_priority optarg = parse_into (cwdaemon_params_priority optarg)
     process_priority (\<lambda>v s. s\<lparr>process_priority := v\<rparr>) exit_unless"

definition option_wpm :: "env \<Rightarrow> string option \<Rightarrow> unit act" where
  "option_wpm w optarg = parse_into (cwdaemon_params_wpm w optarg)
     default_morse_speed (\<lambda>v s. s\<lparr>default_morse_speed := v\<rparr>) exit_unless"

definition option_pttdelay :: "string option \<Rightarrow> unit act" where
  "option_pttdelay optarg = parse_into (cwdaemon_params_pttdelay optarg)
     g_default_ptt_delay_ms (\<lambda>v s. s\<lparr>g_default_ptt_delay_ms := v\<rparr>) (\<lambda>r. guard (r \<noteq> 1) (sq [
       cwdaemon_debug LOG_ERR (''invalid requested PTT delay [ms]: '' @
         quoted (case optarg of None \<Rightarrow> ''(null)'' | Some x \<Rightarrow> x) @ '' (should be integer between '' @
         show_long CWDAEMON_PTT_DELAY_MIN @ '' and '' @ show_long CWDAEMON_PTT_DELAY_MAX @ '' inclusive)''),
       halt (Exit EXIT_FAILURE)]))"

definition option_volume :: "env \<Rightarrow> string option \<Rightarrow> unit act" where
  "option_volume w optarg = parse_into (cwdaemon_params_volume w optarg)
     default_morse_volume (\<lambda>v s. s\<lparr>default_morse_volume := v\<rparr>) exit_unless"

definition option_weighting :: "string option \<Rightarrow> unit act" where
  "option_weighting optarg = parse_into (cwdaemon_params_weighting optarg)
     default_weighting (\<lambda>v s. s\<lparr>default_weighting := v\<rparr>) exit_unless"

definition option_tone :: "env \<Rightarrow> string option \<Rightarrow> unit act" where
  "option_tone w optarg = parse_into (cwdaemon_params_tone w optarg)
     default_morse_tone (\<lambda>v s. s\<lparr>default_morse_tone := v\<rparr>) exit_unless"

definition option_system :: "string option \<Rightarrow> unit act" where
  "option_system optarg = parse_into (cwdaemon_params_system optarg)
     default_audio_system (\<lambda>v s. s\<lparr>default_audio_system := v\<rparr>) exit_unless"

definition option_debugfile :: "env \<Rightarrow> string option \<Rightarrow> unit act" where
  "option_debugfile w optarg = bnd (cwdaemon_params_debugfile w optarg) exit_unless"

definition option_cwdevice :: "env \<Rightarrow> string option \<Rightarrow> unit act" where
  "option_cwdevice w optarg = bnd (cwdaemon_option_cwdevice w optarg) (\<lambda>r. exit_unless (0 = r))"

text \<open>
  A letter without a case is logged and ignored. The cases \<^verbatim>\<open>':'\<close>, \<^verbatim>\<open>'?'\<close> and \<^verbatim>\<open>'h'\<close> print the help text.
\<close>

definition cwdaemon_args_process_short :: "env \<Rightarrow> char \<Rightarrow> string option \<Rightarrow> unit act" where
  "cwdaemon_args_process_short w c optarg =
     (if c = CHR '':'' \<or> c = CHR ''?'' \<or> c = CHR ''h''
        then sq [cwdaemon_args_help w, halt (Exit EXIT_SUCCESS)]
      else if c = CHR ''d'' then option_cwdevice w optarg
      else if c = CHR ''n'' then cwdaemon_params_nofork
      else if c = CHR ''p'' then parse_into (cwdaemon_option_network_port optarg)
        network_port (\<lambda>v s. s\<lparr>network_port := v\<rparr>) (\<lambda>r. exit_unless (0 = r))
      else if c = CHR ''P'' then option_priority optarg
      else if c = CHR ''s'' then option_wpm w optarg
      else if c = CHR ''t'' then option_pttdelay optarg
      else if c = CHR ''v'' then option_volume w optarg
      else if c = CHR ''V'' then sq [cwdaemon_params_version w, halt (Exit EXIT_SUCCESS)]
      else if c = CHR ''w'' then option_weighting optarg
      else if c = CHR ''T'' then option_tone w optarg
      else if c = CHR ''i''
        then upd (\<lambda>s. s\<lparr>default_log_threshold := cwdaemon_option_inc_verbosity (default_log_threshold s)\<rparr>)
      else if c = CHR ''y'' then parse_into (cwdaemon_option_set_verbosity optarg)
        default_log_threshold (\<lambda>v s. s\<lparr>default_log_threshold := v\<rparr>) (\<lambda>r. exit_unless (0 = r))
      else if c = CHR ''I'' then parse_into (cwdaemon_option_libcwflags optarg)
        g_libcw_debug_flags (\<lambda>v s. s\<lparr>g_libcw_debug_flags := v\<rparr>) (\<lambda>r. exit_unless (0 = r))
      else if c = CHR ''f'' then option_debugfile w optarg
      else if c = CHR ''x'' then option_system optarg
      else if c = CHR ''o'' then look (\<lambda>s. bnd (cwdaemon_params_options w (global_cwdevice s) optarg) exit_unless)
      else log_message LOG_ERR (''Unexpected command line option '' @ [CHR 0x27, c, CHR 0x27]))"

text \<open>A long option without a letter.\<close>

definition process_long_option :: "env \<Rightarrow> string \<Rightarrow> string option \<Rightarrow> unit act" where
  "process_long_option w optname optarg =
     (if optname = ''cwdevice'' then option_cwdevice w optarg
      else if optname = ''nofork'' then cwdaemon_params_nofork
      else if optname = ''priority'' then option_priority optarg
      else if optname = ''wpm'' then option_wpm w optarg
      else if optname = ''pttdelay'' then option_pttdelay optarg
      else if optname = ''volume'' then option_volume w optarg
      else if optname = ''version'' then sq [cwdaemon_params_version w, halt (Exit EXIT_SUCCESS)]
      else if optname = ''weighting'' then option_weighting optarg
      else if optname = ''tone'' then option_tone w optarg
      else if optname = ''debugfile'' then option_debugfile w optarg
      else if optname = ''system'' then option_system optarg
      else ret ())"

definition process_option :: "env \<Rightarrow> getopt \<Rightarrow> unit act" where
  "process_option w p = (case p of
     Letter c optarg \<Rightarrow> cwdaemon_args_process_short w c optarg
   | Long_Index i optarg \<Rightarrow>
       if i < length cwdaemon_args_long
       then let optname = fst (cwdaemon_args_long ! i) in sq [
         cwdaemon_debug LOG_DEBUG (''long option '' @ quoted optname @
           (case optarg of None \<Rightarrow> '''' | Some x \<Rightarrow> ''='' @ x) @ newline),
         process_long_option w optname optarg]
       else halt Undefined)"

definition cwdaemon_args_process_long :: "env \<Rightarrow> getopt list \<Rightarrow> string list \<Rightarrow> unit act" where
  "cwdaemon_args_process_long w opts operands = sq [
     sq (map (process_option w) opts),
     case operands of
       [] \<Rightarrow> ret ()
     | token # _ \<Rightarrow> sq [log_message LOG_ERR (''Unexpected token in command line: ['' @ token @ '']'' @ newline),
                       halt (Exit EXIT_FAILURE)]]"

definition cwdaemon_args_parse :: "env \<Rightarrow> getopt list \<Rightarrow> string list \<Rightarrow> unit act" where
  "cwdaemon_args_parse w opts operands = sq [
     cwdaemon_args_process_long w opts operands,
     look (\<lambda>s. case global_cwdevice s of
       None \<Rightarrow> ret ()
     | Some d \<Rightarrow> (case dev_optvalidate d of
         None \<Rightarrow> ret ()
       | Some optvalidate \<Rightarrow> bnd optvalidate (\<lambda>r. guard (0 \<noteq> r)
           (sq [cwdaemon_debug LOG_ERR ''cw device options are not valid'', halt (Exit EXIT_FAILURE)]))))]"

section \<open>Options and their documentation\<close>

text \<open>The letter, the long name if any, and whether there is an argument, read off a heading of the help text.\<close>

definition heading_option :: "string \<Rightarrow> char \<times> string \<times> bool" where
  "heading_option h = (h ! 1, takeWhile (\<lambda>c. c \<noteq> CHR '' '') (drop 6 h), CHR ''<'' \<in> set h)"

text \<open>A long option does the same as the letter it has in the table, or as the letter with this name in the help text.\<close>

definition same_option :: "env \<Rightarrow> char \<Rightarrow> string \<times> bool \<times> char \<Rightarrow> bool" where
  "same_option w c entry \<longleftrightarrow> (case entry of (name, required, val) \<Rightarrow>
     if val = CHR 0x00 then process_long_option w name = cwdaemon_args_process_short w c else val = c)"

lemma help_headings:
  "map (heading_option \<circ> fst) (help_entries w) =
    [(CHR ''h'', ''help'', False), (CHR ''V'', ''version'', False), (CHR ''d'', ''cwdevice'', True),
     (CHR ''o'', ''options'', True), (CHR ''n'', ''nofork'', False), (CHR ''p'', ''port'', True),
     (CHR ''P'', ''priority'', True), (CHR ''s'', ''wpm'', True), (CHR ''t'', ''pttdelay'', True),
     (CHR ''x'', ''system'', True), (CHR ''v'', ''volume'', True), (CHR ''w'', ''weighting'', True),
     (CHR ''T'', ''tone'', True), (CHR ''i'', [], False), (CHR ''y'', ''verbosity'', True),
     (CHR ''I'', ''libcwflags'', True), (CHR ''f'', ''debugfile'', True)]"
  by (simp add: help_entries_def heading_option_def)


end
