(* ===== verification/Startup.thy ===== *)
theory Startup
  imports Safety Args
begin

text \<open>
  Models the rest of \<open>main\<close> of \<^verbatim>\<open>src/src/cwdaemon.c\<close>: the steps from the start of the process to the
  main loop, in which \<open>main_start\<close> is the last, turning the process into a daemon, and the end of the
  process: \<^verbatim>\<open>exit()\<close> calls the functions registered with \<^verbatim>\<open>atexit()\<close>, the last one first. Which are
  registered is read from the history.
\<close>

section \<open>Model\<close>

definition syslog_exit :: "string \<Rightarrow> unit act" where
  "syslog_exit what = sq [emit (Syslog LOG_ERR (what @ newline)), halt (Exit EXIT_FAILURE)]"

text \<open>The branch of \<open>main\<close> for a process that forks; the parent exits in it.\<close>

definition main_detach :: "env \<Rightarrow> unit act" where
  "main_detach w =
     bnd (ask w Fork) (\<lambda>pid. sq [
       guard (pid < 0) (look (\<lambda>s. sq [
         emit (Fprintf Stdout (PACKAGE @ '': Fork failed: '' @ quoted (strerror w (errno_of w (trace s))) @ newline)),
         halt (Exit EXIT_FAILURE)])),
       guard (pid > 0) (halt (Exit EXIT_SUCCESS)),
       emit (Openlog ''netkeyer''),
       bnd (ask w Setsid) (\<lambda>sid. guard (sid < 0) (syslog_exit ''setsid'')),
       bnd (ask w (Chdir ''/'')) (\<lambda>r. guard (r < 0) (syslog_exit ''chdir'')),
       emit (Umask 0),
       bnd (ask w (Open ''/dev/null'' [O_RDWR])) (\<lambda>fd. sq [
         guard (fd = - 1) (syslog_exit ''open /dev/null''),
         bnd (ask w (Dup2 fd 0)) (\<lambda>r. guard (r = - 1) (syslog_exit ''dup2 stdin'')),
         bnd (ask w (Dup2 fd 1)) (\<lambda>r. guard (r = - 1) (syslog_exit ''dup2 stdout'')),
         bnd (ask w (Dup2 fd 2)) (\<lambda>r. guard (r = - 1) (syslog_exit ''dup2 stderr'')),
         guard (fd \<noteq> 0 \<and> fd \<noteq> 1 \<and> fd \<noteq> 2) (emit (Close fd))])])"

definition main_foreground :: "unit act" where
  "main_foreground = sq [emit (Fprintf Stdout (''Press ^C to quit'' @ newline)), emit Signal_Sigint]"

text \<open>\<open>main\<close> up to the main loop. The command line is given as what \<^verbatim>\<open>getopt_long()\<close> returns.\<close>

definition main_configure :: "env \<Rightarrow> getopt list \<Rightarrow> string list \<Rightarrow> unit act" where
  "main_configure w opts operands = sq [
     set_debug_f (Some Stdout),
     emit (Atexit Cwdevices_Free),
     bnd (cwdaemon_cwdevices_init w) (\<lambda>ok. guard (\<not> ok) (halt (Exit EXIT_FAILURE))),
     emit (Atexit Cwdevice_Free),
     cwdaemon_cwdevice_init,
     cwdaemon_args_parse w opts operands]"

definition main :: "env \<Rightarrow> getopt list \<Rightarrow> string list \<Rightarrow> unit act" where
  "main w opts operands = sq [
     main_configure w opts operands,
     with_device (\<lambda>dev. sq [
       emit (Atexit Debug_Close),
       look (\<lambda>s. cwdaemon_debug_open w (g_forking s)),
       look (\<lambda>s. if g_forking s then main_detach w else main_foreground),
       main_start w dev])]"

text \<open>The functions registered with \<^verbatim>\<open>atexit()\<close>.\<close>

definition cwdaemon_close_socket_wrapper :: "env \<Rightarrow> unit act" where
  "cwdaemon_close_socket_wrapper w = cwdaemon_close_socket w"

fun run_handler :: "env \<Rightarrow> handler \<Rightarrow> unit act" where
  "run_handler w Cwdevices_Free = cwdaemon_cwdevices_free"
| "run_handler w Cwdevice_Free = cwdaemon_cwdevice_free w"
| "run_handler w Debug_Close = cwdaemon_debug_close"
| "run_handler w Close_Socket_Wrapper = cwdaemon_close_socket_wrapper w"
| "run_handler w Close_Libcw_Output = cwdaemon_close_libcw_output"

definition registered_step :: "handler list \<Rightarrow> call \<Rightarrow> handler list" where
  "registered_step hs c = (case c of Atexit h \<Rightarrow> h # hs | _ \<Rightarrow> hs)"

definition registered :: "call list \<Rightarrow> handler list" where
  "registered tr = foldl registered_step [] tr"

text \<open>
  The end of the process with status \<open>n\<close>. Calling \<^verbatim>\<open>exit()\<close> a second time, from one of the functions,
  is undefined by the C standard.
\<close>

definition exit_process :: "env \<Rightarrow> int \<Rightarrow> unit act" where
  "exit_process w n s = (case sq (map (run_handler w) (registered (trace s))) s of
     Run x t \<Rightarrow> Halt (Exit n) t
   | Halt (Exit m) t \<Rightarrow> Halt Undefined t
   | Halt h t \<Rightarrow> Halt h t)"

text \<open>The handler of the signal that \<^verbatim>\<open>^C\<close> sends.\<close>

definition cwdaemon_catch_sigint :: "unit act" where
  "cwdaemon_catch_sigint = sq [emit (Fprintf Stdout (PACKAGE @ '': Exiting'' @ newline)), halt (Exit EXIT_SUCCESS)]"

section \<open>The command line leaves a valid configuration\<close>

text \<open>The state of the variables while the command line is processed.\<close>

definition configuring :: "env \<Rightarrow> daemon \<Rightarrow> bool" where
  "configuring w s \<longleftrightarrow> defaults_ok w s \<and> global_cwdevice s \<noteq> None \<and> ptt_flag s = 0 \<and> reply_buffer s = []"

lemma configuring_trace: "trace_free (configuring w)"
  by (simp add: trace_free_def configuring_def defaults_ok_def)

lemma keeps_conf_io: "io_only m \<Longrightarrow> keeps (configuring w) m"
  by (rule keeps_io_only [OF configuring_trace])

lemma keeps_conf_dev: "dev_only m \<Longrightarrow> keeps (configuring w) m"
  by (erule keeps_within) (auto simp: dev_frame_def configuring_def defaults_ok_def)

lemma keeps_parse_into:
  assumes "\<And>s r v. configuring w s \<Longrightarrow> parse (var s) = (r, v) \<Longrightarrow> configuring w (assign v s)"
    and "\<And>r. keeps (configuring w) (k r)"
  shows "keeps (configuring w) (parse_into parse var assign k)"
proof (rule keepsI)
  fix s assume s: "configuring w s"
  obtain r v where p: "parse (var s) = (r, v)" by fastforce
  have "parse_into parse var assign k s = bnd (k r) ret (assign v s)"
    by (simp add: parse_into_def look_def p upd_def bnd_def ret_def split: outcome.split)
  then have "parse_into parse var assign k s = k r (assign v s)" by (simp only: bnd_ret_right)
  with keepsD [OF assms(2) assms(1) [OF s p]]
  show "case parse_into parse var assign k s of Run x t \<Rightarrow> configuring w t | Halt h t \<Rightarrow> orderly h \<and> configuring w t"
    by simp
qed

lemma keeps_exit_unless: "keeps I (exit_unless b)"
  unfolding exit_unless_def by (intro keeps_guard keeps_exit)

text \<open>Each numeric option keeps its variable within bounds.\<close>

lemma keeps_option_wpm: "libcw_limits w \<Longrightarrow> keeps (configuring w) (option_wpm w arg)"
  unfolding option_wpm_def
  by (rule keeps_parse_into [OF _ keeps_exit_unless], drule (1) wpm.parse_kept)
    (auto simp: configuring_def defaults_ok_def)

lemma keeps_option_tone: "libcw_limits w \<Longrightarrow> keeps (configuring w) (option_tone w arg)"
  unfolding option_tone_def
  by (rule keeps_parse_into [OF _ keeps_exit_unless], drule (1) tone.parse_kept)
    (auto simp: configuring_def defaults_ok_def)

lemma keeps_option_volume: "libcw_limits w \<Longrightarrow> keeps (configuring w) (option_volume w arg)"
  unfolding option_volume_def
  by (rule keeps_parse_into [OF _ keeps_exit_unless], drule (1) volume.parse_kept)
    (auto simp: configuring_def defaults_ok_def)

lemma keeps_option_weighting: "keeps (configuring w) (option_weighting arg)"
  unfolding option_weighting_def
  by (rule keeps_parse_into [OF _ keeps_exit_unless], drule weighting.parse_kept [OF TrueI])
    (auto simp: configuring_def defaults_ok_def CWDAEMON_MORSE_WEIGHTING_MIN_def CWDAEMON_MORSE_WEIGHTING_MAX_def)

lemma pttdelay_kept: "old \<le> 50 \<Longrightarrow> cwdaemon_params_pttdelay arg old = (r, d) \<Longrightarrow> d \<le> 50"
proof -
  have "word_of_int v \<le> (50 :: 32 word)" if "0 \<le> v" "v \<le> 50" for v
    using that by (simp add: word_le_def uint_word_of_int_eq take_bit_int_eq_self)
  then show "old \<le> 50 \<Longrightarrow> cwdaemon_params_pttdelay arg old = (r, d) \<Longrightarrow> d \<le> 50"
    by (auto simp: cwdaemon_params_pttdelay_def CWDAEMON_PTT_DELAY_MIN_def CWDAEMON_PTT_DELAY_MAX_def
        split: option.splits if_splits)
qed

lemma keeps_option_pttdelay: "keeps (configuring w) (option_pttdelay arg)"
  unfolding option_pttdelay_def
proof (rule keeps_parse_into)
  show "configuring w (s\<lparr>g_default_ptt_delay_ms := v\<rparr>)"
    if "configuring w s" "cwdaemon_params_pttdelay arg (g_default_ptt_delay_ms s) = (r, v)" for s r v
    using that pttdelay_kept [OF _ that(2)] by (auto simp: configuring_def defaults_ok_def)
qed (intro keeps_conf_io frame_rules)

lemma keeps_other_options:
  "keeps (configuring w) (option_priority arg)" "keeps (configuring w) (option_system arg)"
  "keeps (configuring w) (parse_into (cwdaemon_option_network_port arg)
     network_port (\<lambda>v s. s\<lparr>network_port := v\<rparr>) (\<lambda>r. exit_unless (0 = r)))"
  "keeps (configuring w) (parse_into (cwdaemon_option_set_verbosity arg)
     default_log_threshold (\<lambda>v s. s\<lparr>default_log_threshold := v\<rparr>) (\<lambda>r. exit_unless (0 = r)))"
  "keeps (configuring w) (parse_into (cwdaemon_option_libcwflags arg)
     g_libcw_debug_flags (\<lambda>v s. s\<lparr>g_libcw_debug_flags := v\<rparr>) (\<lambda>r. exit_unless (0 = r)))"
  unfolding option_priority_def option_system_def
  by (rule keeps_parse_into [OF _ keeps_exit_unless]; simp add: configuring_def defaults_ok_def)+

lemma keeps_option_debugfile: "keeps (configuring w) (option_debugfile w arg)"
  unfolding option_debugfile_def cwdaemon_params_debugfile_def
  by (intro keeps_bnd keeps_exit_unless keeps_option keeps_ret keeps_if keeps_conf_io [OF io_only_strdup] keeps_upd)
    (simp add: configuring_def defaults_ok_def)

lemma keeps_option_cwdevice: "keeps (configuring w) (option_cwdevice w arg)"
  unfolding option_cwdevice_def
  by (intro keeps_bnd keeps_exit_unless keeps_conf_dev dev_only_option_cwdevice)

lemma keeps_nofork: "keeps (configuring w) cwdaemon_params_nofork"
  unfolding cwdaemon_params_nofork_def
  by (intro keeps_look keeps_guard keeps_upd) (simp add: configuring_def defaults_ok_def)

lemma io_only_args_help [frame_rules]: "io_only (cwdaemon_args_help w)"
proof -
  have "io_only (sq (map (\<lambda>line. emit (Fprintf Stdout (f line))) xs))" for f :: "string \<Rightarrow> string" and xs
    by (induction xs) (auto intro: frame_rules)
  then show ?thesis unfolding cwdaemon_args_help_def .
qed

lemma io_only_version [frame_rules]: "io_only (cwdaemon_params_version w)"
  unfolding cwdaemon_params_version_def Let_def by (intro frame_rules)

lemma dev_only_optparse: "dev_optparse w d = Some f \<Longrightarrow> dev_only (f option)"
proof (cases d)
  case Dev_Ttys
  assume "dev_optparse w d = Some f"
  with Dev_Ttys have f: "f = ttys_optparse w d" by (simp add: dev_optparse_def)
  have pins: "dev_only (bnd (sq [set_dev d g, ttys_cw w d 0]) (\<lambda>_. ret n))"
    "dev_only (bnd (sq [set_dev d g, ttys_ptt w d 0]) (\<lambda>_. ret n))" for g :: "cwdevice \<Rightarrow> cwdevice" and n :: int
    by (intro dvf.within_bnd dvf.within_sq_Cons dvf.within_sq_Nil dvf.within_ret dev_only_set_dev
        dev_only_io [OF io_only_ttys(1)] dev_only_io [OF io_only_ttys(2)])+
  show ?thesis
    unfolding f ttys_optparse_def
    by (auto intro!: pins dvf.within_ret split: prod.split opt_t.split option.split simp del: sq.simps)
qed (simp_all add: dev_optparse_def)

lemma keeps_options: "arg \<noteq> None \<Longrightarrow> keeps (configuring w) (cwdaemon_params_options w dev arg)"
  unfolding cwdaemon_params_options_def
  by (intro keeps_option keeps_bnd keeps_ret keeps_conf_io [OF io_only_log(2)] keeps_conf_dev [OF dev_only_optparse])
    simp_all

lemma keeps_process_short:
  assumes "libcw_limits w" "c = CHR ''o'' \<longrightarrow> arg \<noteq> None"
  shows "keeps (configuring w) (cwdaemon_args_process_short w c arg)"
  unfolding cwdaemon_args_process_short_def using assms
  by (intro keeps_if keeps_sq_Cons keeps_sq_Nil keeps_exit keeps_conf_io [OF io_only_args_help]
      keeps_conf_io [OF io_only_version] keeps_conf_io [OF io_only_log(1)] keeps_option_cwdevice keeps_nofork
      keeps_other_options keeps_option_wpm keeps_option_tone keeps_option_volume keeps_option_weighting
      keeps_option_pttdelay keeps_option_debugfile keeps_look keeps_bnd keeps_options keeps_exit_unless keeps_upd)
    (simp_all add: configuring_def defaults_ok_def)

lemma keeps_process_long:
  assumes "libcw_limits w"
  shows "keeps (configuring w) (process_long_option w name arg)"
  unfolding process_long_option_def
  by (intro keeps_if keeps_sq_Cons keeps_sq_Nil keeps_exit keeps_ret keeps_conf_io [OF io_only_version]
      keeps_option_cwdevice keeps_nofork keeps_other_options keeps_option_wpm keeps_option_tone
      keeps_option_volume keeps_option_weighting keeps_option_pttdelay keeps_option_debugfile assms)

lemma keeps_process_option:
  assumes "libcw_limits w" "getopt_ok p"
  shows "keeps (configuring w) (process_option w p)"
proof (cases p)
  case (Letter c arg)
  with assms(2) have "c = CHR ''o'' \<longrightarrow> arg \<noteq> None"
    by (auto simp: cwdaemon_args_short_def)
  with Letter assms(1) show ?thesis by (simp add: process_option_def keeps_process_short)
next
  case (Long_Index i arg)
  with assms show ?thesis
    by (auto simp: process_option_def Let_def simp del: sq.simps intro!: keeps_sq_Cons keeps_sq_Nil
        keeps_process_long keeps_conf_io [OF io_only_log(2)])
qed

lemma keeps_sq: "(\<And>m. m \<in> set ms \<Longrightarrow> keeps I m) \<Longrightarrow> keeps I (sq ms)"
  by (induction ms) (auto intro: keeps_ret keeps_bnd)

lemma keeps_args_parse:
  assumes "libcw_limits w" "getopt_law opts"
  shows "keeps (configuring w) (cwdaemon_args_parse w opts operands)"
proof -
  have "keeps (configuring w) (sq (map (process_option w) opts))"
    using assms by (intro keeps_sq) (auto simp: getopt_law_def intro: keeps_process_option)
  moreover have "keeps (configuring w) optvalidate" if "dev_optvalidate d = Some optvalidate" for d optvalidate
    using that by (auto simp: dev_optvalidate_def ttys_optvalidate_def Let_def intro!: keeps_look keeps_ret
        split: devid.splits)
  ultimately show ?thesis
    unfolding cwdaemon_args_parse_def cwdaemon_args_process_long_def
    by (intro keeps_sq_Cons keeps_sq_Nil keeps_look keeps_option keeps_ret keeps_bnd keeps_guard keeps_exit
        keeps_conf_io [OF io_only_log(2)] keeps_conf_io [OF io_only_log(1)])
      (auto split: list.split intro!: keeps_bnd keeps_ret keeps_exit keeps_conf_io [OF io_only_log(1)])
qed

section \<open>Start of the process\<close>

text \<open>The values that the program starts with are within the limits of libcw.\<close>

definition default_limits :: "env \<Rightarrow> bool" where
  "default_limits w \<longleftrightarrow> CW_SPEED_MIN w \<le> 24 \<and> 24 \<le> CW_SPEED_MAX w \<and> CW_FREQUENCY_MIN w \<le> 800 \<and>
     800 \<le> CW_FREQUENCY_MAX w \<and> CW_VOLUME_MIN w \<le> 70 \<and> 70 \<le> CW_VOLUME_MAX w"

definition unconfigured :: "env \<Rightarrow> daemon \<Rightarrow> bool" where
  "unconfigured w s \<longleftrightarrow> defaults_ok w s \<and> ptt_flag s = 0 \<and> reply_buffer s = []"

lemma unconfigured_init: "default_limits w \<Longrightarrow> unconfigured w daemon_init"
  by (simp add: unconfigured_def defaults_ok_def default_limits_def daemon_init_def
      CWDAEMON_MORSE_SPEED_DEFAULT_def CWDAEMON_MORSE_TONE_DEFAULT_def CWDAEMON_MORSE_VOLUME_DEFAULT_def
      CWDAEMON_MORSE_WEIGHTING_DEFAULT_def CWDAEMON_PTT_DELAY_DEFAULT_def)

lemma keeps_unconfigured_dev: "dev_only m \<Longrightarrow> keeps (unconfigured w) m"
  by (erule keeps_within) (auto simp: dev_frame_def unconfigured_def defaults_ok_def)

lemma dev_only_cwdevices_init: "dev_only (cwdaemon_cwdevices_init w)"
proof -
  have "dev_only (tty_init_cwdevice w d)" for d
    unfolding tty_init_cwdevice_def tty_default_desc_def
    by (cases "platform w") (auto simp del: sq.simps intro!: dvf.within_bnd dvf.within_sq_Cons dvf.within_sq_Nil
        dvf.within_ret dev_only_set_dev dev_only_io [OF io_only_strdup])
  then show ?thesis
    unfolding cwdaemon_cwdevices_init_def
    by (cases "lp_build w") (auto simp del: sq.simps intro!: dvf.within_bnd dvf.within_if dvf.within_ret
        dev_only_set_dev dev_only_io [OF io_only_strdup])
qed

lemma hoare_with_device:
  assumes "\<And>s. P s \<Longrightarrow> global_cwdevice s \<noteq> None"
    and "\<And>d. hoare (\<lambda>s. P s \<and> global_cwdevice s = Some d) (f d) Q E"
  shows "hoare P (with_device f) Q E"
  using assms unfolding hoare_def with_device_def look_def by (fastforce split: option.splits)

lemma configure_ok:
  assumes "libcw_limits w" "getopt_law opts"
  shows "hoare (unconfigured w) (main_configure w opts operands) (\<lambda>_. configuring w) (\<lambda>h t. orderly h)"
proof -
  have "hoare (unconfigured w) cwdaemon_cwdevice_init (\<lambda>_. configuring w) (\<lambda>h t. orderly h)"
    by (rule hoareI) (simp add: cwdaemon_cwdevice_init_def upd_def unconfigured_def configuring_def defaults_ok_def)
  moreover have "keeps (unconfigured w) (set_debug_f f)" for f
    unfolding set_debug_f_def by (rule keeps_upd) (simp add: unconfigured_def defaults_ok_def)
  moreover have "keeps (unconfigured w) (bnd (cwdaemon_cwdevices_init w) (\<lambda>ok. guard (\<not> ok) (halt (Exit EXIT_FAILURE))))"
    by (intro keeps_bnd keeps_unconfigured_dev [OF dev_only_cwdevices_init] keeps_guard keeps_exit)
  ultimately show ?thesis
    unfolding main_configure_def
    by - ((rule hoare_sq_Cons, (assumption | rule keeps_hoare, (assumption | rule keeps_unconfigured_dev [OF dev_only_io [OF io_only_emit]]
          | rule keeps_args_parse [OF assms])))+, rule keeps_hoare [OF keeps_sq_Nil])
qed

lemma io_only_detach: "io_only (main_detach w)"
  unfolding main_detach_def syslog_exit_def by (intro frame_rules)

lemma io_only_foreground: "io_only main_foreground"
  unfolding main_foreground_def by (intro frame_rules)

lemma debug_open_configured:
  "hoare (configured w d) (look (\<lambda>s. cwdaemon_debug_open w (g_forking s))) (\<lambda>_. configured w d) (\<lambda>h t. orderly h)"
proof (rule hoareI)
  fix s assume s: "configured w d s"
  let ?t = "debug_target (g_forking s) (cwdaemon_debug_f_path s) (fopen_answer w s)"
  show "case look (\<lambda>s. cwdaemon_debug_open w (g_forking s)) s of
      Run x t \<Rightarrow> configured w d t | Halt h t \<Rightarrow> orderly h"
  proof (cases ?t)
    case None
    from debug_open_Halt [OF this] show ?thesis by (auto simp: look_def)
  next
    case (Some f)
    from debug_open_Run [OF this] s show ?thesis
      by (simp add: look_def configured_def defaults_ok_def)
  qed
qed

lemma main_ok:
  assumes "libcw_limits w" "getopt_law opts"
  shows "hoare (unconfigured w) (main w opts operands) (\<lambda>_. ok w True) (\<lambda>h t. orderly h)"
  unfolding main_def
proof (rule hoare_sq_Cons [OF configure_ok [OF assms]], rule hoare_sq_Cons)
  show "hoare (configuring w) (with_device (\<lambda>dev. sq [
       emit (Atexit Debug_Close),
       look (\<lambda>s. cwdaemon_debug_open w (g_forking s)),
       look (\<lambda>s. if g_forking s then main_detach w else main_foreground),
       main_start w dev])) (\<lambda>_. ok w True) (\<lambda>h t. orderly h)"
  proof (rule hoare_with_device)
    fix d
    have io: "hoare (configured w d) m (\<lambda>_. configured w d) (\<lambda>h t. orderly h)" if "io_only m" for m :: "unit act"
      by (intro keeps_hoare keeps_io_only [OF configured_trace] that)
    have fork: "io_only (look (\<lambda>s. if g_forking s then main_detach w else main_foreground))"
      by (intro ext.within_look ext.within_if io_only_detach io_only_foreground)
    have "hoare (configured w d) (sq [
       emit (Atexit Debug_Close),
       look (\<lambda>s. cwdaemon_debug_open w (g_forking s)),
       look (\<lambda>s. if g_forking s then main_detach w else main_foreground),
       main_start w d]) (\<lambda>_. ok w True) (\<lambda>h t. orderly h)"
      by (rule hoare_sq_Cons [OF io [OF io_only_emit]] hoare_sq_Cons [OF debug_open_configured]
          hoare_sq_Cons [OF io [OF fork]] hoare_sq_Cons [OF start_ok] keeps_hoare [OF keeps_sq_Nil])+
    then show "hoare (\<lambda>s. configuring w s \<and> global_cwdevice s = Some d) (sq [
       emit (Atexit Debug_Close),
       look (\<lambda>s. cwdaemon_debug_open w (g_forking s)),
       look (\<lambda>s. if g_forking s then main_detach w else main_foreground),
       main_start w d]) (\<lambda>_. ok w True) (\<lambda>h t. orderly h)"
      by (rule hoare_conseq) (simp_all add: configuring_def configured_def)
  qed (simp add: configuring_def)
qed (rule keeps_hoare [OF keeps_sq_Nil])

section \<open>Properties\<close>


text \<open>The command line \<open>-n -s 30 --tone 700\<close>.\<close>

definition example_options :: "getopt list" where
  "example_options = [Letter CHR ''n'' None, Letter CHR ''s'' (Some ''30''), Long_Index 9 (Some ''700'')]"

lemma example_getopt_law: "getopt_law example_options"
  by (simp add: getopt_law_def example_options_def cwdaemon_args_short_def cwdaemon_args_long_def)

lemma example_main: "is_run (main (example_env msg) example_options [] daemon_init)"
proof -
  have "cwdaemon_get_long (Some ''30'') = Some 30" "cwdaemon_get_long (Some ''700'') = Some 700" by code_simp+
  then show ?thesis
    by (simp add: main_def main_configure_def example_options_def cwdaemon_args_parse_def
        cwdaemon_args_process_long_def process_option_def cwdaemon_args_process_short_def process_long_option_def
        cwdaemon_args_long_def cwdaemon_params_nofork_def option_wpm_def option_tone_def parse_into_def exit_unless_def
        cwdaemon_params_wpm_def cwdaemon_params_tone_def c_int_id cwdaemon_debug_def set_debug_f_def
        cwdaemon_cwdevices_init_def tty_init_cwdevice_def tty_default_desc_def cwdaemon_cwdevice_init_def
        dev_optvalidate_def with_device_def cwdaemon_debug_open_def main_foreground_def
        main_start_def cwdaemon_initialize_socket_def cwdaemon_reset_almost_all_def
        cwdaemon_reset_libcw_output_def cwdaemon_close_libcw_output_def cwdaemon_open_libcw_output_def
        prog_simps Let_def daemon_init_def example_env_def answer_def reset_current_def put_queue_def)
qed


end
