(* ===== verification/Boot.thy ===== *)
theory Boot
  imports Startup Observe
begin

text \<open>
  What the start of the process leaves behind: one walk over everything that \<open>main\<close> does in front of
  the main loop, for any invariant of the devices (the locale \<open>boot_walk\<close>), and its instances: the
  pins of the serial port, and the history in which no line was raised yet and every function for the
  exit is registered.
\<close>

section \<open>One walk over the start of the process\<close>

text \<open>Calls that raise no line of a serial port and register no function for the exit.\<close>

definition tame :: "call \<Rightarrow> bool" where
  "tame c = (case c of Ioctl _ (TIOCMBIS _) \<Rightarrow> False | Atexit _ \<Rightarrow> False | _ \<Rightarrow> True)"

text \<open>The frame "makes tame calls only, and leaves the devices alone".\<close>

definition setting :: "daemon \<Rightarrow> daemon \<Rightarrow> bool" where
  "setting s t \<longleftrightarrow> adds tame s t \<and> devs t = devs s \<and> global_cwdevice t = global_cwdevice s"

interpretation stg: frame setting
  by unfold_locales (auto simp: setting_def intro: add.R_refl add.R_trans)

lemma setting_ask: "tame c \<Longrightarrow> within setting (ask w c)"
  by (rule withinI) (auto simp: ask_def Let_def setting_def adds_def)

lemma setting_emit: "tame c \<Longrightarrow> within setting (emit c)"
  by (rule withinI) (auto simp: emit_def upd_def setting_def adds_def)

lemma setting_upd: "(\<And>s. setting s (f s)) \<Longrightarrow> within setting (upd f)"
  by (rule withinI) (simp add: upd_def)

lemma tame_simps [simp]:
  "tame (Ioctl fd (TIOCMBIS m)) = False" "tame (Atexit h) = False"
  "tame (Ioctl fd (TIOCMBIC m))" "tame (Ioctl fd TIOCMGET)" "tame (Ioctl fd PPGETMODE)" "tame (Ioctl fd PPISSTATUS)"
  "tame (Ioctl fd PPSETMODE)" "tame (Ioctl fd PPEXCL)" "tame (Ioctl fd PPCLAIM)" "tame (Ioctl fd PPRELEASE)"
  "tame (Ioctl fd (PPFCONTROL x y))" "tame (Ioctl fd PPIGCTRL)" "tame (Ioctl fd (PPISCTRL x))"
  "tame (Ioctl fd (PPWDATA x))" "tame (Ioctl fd (PPISDATA x))" "tame (Ioctl fd PPRSTATUS)"
  by (simp_all add: tame_def)

lemma tame_other: "(\<And>fd r. c \<noteq> Ioctl fd r) \<Longrightarrow> (\<And>h. c \<noteq> Atexit h) \<Longrightarrow> tame c"
  by (cases c) (auto simp: tame_def)

lemmas setting_rules = stg.within_ret stg.within_exit stg.within_bnd stg.within_look stg.within_guard stg.within_if
  stg.within_sq_Nil stg.within_sq_Cons stg.within_option stg.within_prod setting_ask setting_emit

lemma setting_log: "within setting (log_message p m)" "within setting (cwdaemon_debug p m)"
proof -
  show "within setting (log_message p m)"
    unfolding log_message_def Let_def by (intro setting_rules tame_other) simp_all
  show "within setting (cwdaemon_debug p m)"
    unfolding cwdaemon_debug_def by (intro setting_rules tame_other) simp_all
qed

lemma setting_help: "within setting (cwdaemon_args_help w)" "within setting (cwdaemon_params_version w)"
proof -
  have "within setting (sq (map (\<lambda>line. emit (Fprintf Stdout (f line))) xs))" for f :: "string \<Rightarrow> string" and xs
    by (induction xs) (auto intro!: setting_rules tame_other)
  then show "within setting (cwdaemon_args_help w)" unfolding cwdaemon_args_help_def .
  show "within setting (cwdaemon_params_version w)"
    unfolding cwdaemon_params_version_def Let_def by (intro setting_rules tame_other) simp_all
qed

lemma setting_detach: "within setting (main_detach w)" "within setting main_foreground"
  unfolding main_detach_def main_foreground_def syslog_exit_def
  by (intro setting_rules tame_other; simp)+

text \<open>The pieces of \<open>main_start\<close> between the registrations.\<close>

lemma setting_socket: "within setting (cwdaemon_initialize_socket w)"
  unfolding cwdaemon_initialize_socket_def
  by (intro setting_rules setting_upd tame_other) (simp_all add: setting_def adds_same)

lemma setting_open: "within setting (cwdaemon_open_libcw_output w a)"
proof -
  have "within setting (retry_oss w a n rv)" for n rv
    by (induction n arbitrary: rv) (auto intro!: setting_rules tame_other)
  then show ?thesis
    unfolding cwdaemon_open_libcw_output_def by (intro setting_rules tame_other) simp_all
qed

lemma setting_reset: "within setting (cwdaemon_reset_almost_all w d)"
  unfolding cwdaemon_reset_almost_all_def cwdaemon_reset_libcw_output_def cwdaemon_close_libcw_output_def
  by (intro setting_rules setting_open setting_upd tame_other; simp add: setting_def adds_same reset_current_def)

lemma setting_start:
  "within setting (bnd (cwdaemon_initialize_socket w) (\<lambda>opened. guard (\<not> opened) (halt (Exit EXIT_FAILURE))))"
  "within setting (look (\<lambda>s. guard (process_priority s \<noteq> 0)
         (bnd (ask w Getpid) (\<lambda>pid.
          bnd (ask w (Setpriority pid (process_priority s))) (\<lambda>r.
            guard (r < 0) (halt (Exit EXIT_FAILURE)))))))"
  "within setting (bnd (cwdaemon_reset_almost_all w dev) (\<lambda>r. guard (0 \<noteq> r) (halt (Exit EXIT_FAILURE))))"
  "within setting (look (\<lambda>s. guard (0 \<noteq> g_libcw_debug_flags s)
         (set_libcw_debugging (current_log_threshold s) (g_libcw_debug_flags s))))"
  "within setting (put_queue [])"
  unfolding set_libcw_debugging_def put_queue_def
  by (intro setting_rules setting_socket setting_reset setting_upd tame_other; simp add: setting_def adds_same)+

lemma setting_validate: "dev_optvalidate d = Some optvalidate \<Longrightarrow> within setting optvalidate"
  by (auto simp: dev_optvalidate_def ttys_optvalidate_def Let_def intro!: setting_rules split: devid.splits)

lemma debug_open_setting:
  assumes "cwdaemon_debug_open w forking s = Run x t"
  shows "setting s t"
proof (cases "debug_target forking (cwdaemon_debug_f_path s) (fopen_answer w s)")
  case None
  with debug_open_Halt [OF None] assms show ?thesis by simp
next
  case (Some f)
  have "\<forall>c \<in> set (opening_calls forking path). tame c" for path
    by (cases path) (auto simp: tame_def)
  with debug_open_Run [OF Some] assms show ?thesis by (auto simp: setting_def adds_def)
qed

locale boot_walk =
  fixes w :: env and I :: "daemon \<Rightarrow> bool"
  assumes setting_kept: "setting s t \<Longrightarrow> I s \<Longrightarrow> I t"
    and I_optparse: "preserves I (ttys_optparse w d option)"
    and I_cwdevice: "preserves I (cwdaemon_option_cwdevice w arg)"
begin

lemma I_setting: "within setting m \<Longrightarrow> preserves I m"
  by (erule preserves_within) (rule setting_kept)

lemma I_upd: "(\<And>s. setting s (f s)) \<Longrightarrow> preserves I (upd f)"
  by (intro I_setting setting_upd)

lemma exit_unless_keeps: "preserves I (exit_unless b)"
  unfolding exit_unless_def by (intro preserves_guard preserves_halt)

lemma parse_into_keeps:
  assumes "\<And>v s. setting s (assign v s)" "\<And>r. preserves I (k r)"
  shows "preserves I (parse_into parse var assign k)"
  unfolding parse_into_def using assms
  by (intro preserves_look preserves_prod preserves_sq I_upd)

lemma options_keep: "preserves I (cwdaemon_params_options w dev arg)"
proof -
  have "preserves I (f option)" if "dev_optparse w d = Some f" for d f option
    using that by (cases d) (auto simp: dev_optparse_def I_optparse)
  then show ?thesis
    unfolding cwdaemon_params_options_def
    by (auto intro!: preserves_bnd preserves_ret preserves_halt I_setting [OF setting_log(2)] split: option.split)
qed

lemma simple_options_keep:
  "preserves I (option_wpm w arg)" "preserves I (option_tone w arg)" "preserves I (option_volume w arg)"
  "preserves I (option_weighting arg)" "preserves I (option_priority arg)" "preserves I (option_system arg)"
  unfolding option_wpm_def option_tone_def option_volume_def option_weighting_def option_priority_def option_system_def
  by (intro parse_into_keeps exit_unless_keeps; simp add: setting_def adds_same)+

lemma other_options_keep:
  "preserves I (option_pttdelay arg)" "preserves I (option_debugfile w arg)" "preserves I (option_cwdevice w arg)"
  "preserves I cwdaemon_params_nofork"
  unfolding option_pttdelay_def option_debugfile_def cwdaemon_params_debugfile_def option_cwdevice_def strdup_def
    cwdaemon_params_nofork_def
  by (intro parse_into_keeps preserves_bnd preserves_option preserves_ret preserves_if preserves_look preserves_guard
      preserves_sq preserves_halt exit_unless_keeps I_upd I_cwdevice I_setting [OF setting_log(2)]
      I_setting [OF setting_ask] tame_other; simp add: setting_def adds_same)+

lemma short_keeps: "preserves I (cwdaemon_args_process_short w c arg)"
  unfolding cwdaemon_args_process_short_def
  by (intro preserves_if preserves_sq preserves_halt preserves_look preserves_bnd simple_options_keep
      other_options_keep parse_into_keeps options_keep exit_unless_keeps I_upd I_setting [OF setting_help(1)]
      I_setting [OF setting_help(2)] I_setting [OF setting_log(1)]; simp add: setting_def adds_same)

lemma long_keeps: "preserves I (process_long_option w name arg)"
  unfolding process_long_option_def
  by (intro preserves_if preserves_sq preserves_halt preserves_ret simple_options_keep other_options_keep
      I_setting [OF setting_help(2)])

lemma process_option_keeps: "preserves I (process_option w p)"
  unfolding process_option_def Let_def
  by (auto simp del: sq.simps intro!: short_keeps preserves_sq long_keeps preserves_halt
      I_setting [OF setting_log(2)] split: getopt.split)

lemma process_options_keep: "preserves I (cwdaemon_args_process_long w opts operands)"
proof -
  have "preserves I (sq (map (process_option w) opts))"
    by (induction opts) (auto intro: preserves_ret preserves_bnd process_option_keeps)
  then show ?thesis
    unfolding cwdaemon_args_process_long_def
    by (cases operands) (auto simp del: sq.simps intro!: preserves_sq preserves_ret preserves_halt
        I_setting [OF setting_log(1)])
qed

lemma args_parse_keeps: "preserves I (cwdaemon_args_parse w opts operands)"
  unfolding cwdaemon_args_parse_def
  by (intro preserves_sq process_options_keep preserves_look preserves_option preserves_ret preserves_bnd
      preserves_guard preserves_halt I_setting [OF setting_validate] I_setting [OF setting_log(2)])

lemma debug_open_keeps: "preserves I (cwdaemon_debug_open w forking)"
  by (rule preservesI) (blast dest: debug_open_setting intro: setting_kept)

end

section \<open>The serial lines after the command line\<close>

text \<open>The pins of the serial port are always among those that the option \<open>-o\<close> names.\<close>

definition pin_value :: "32 word \<Rightarrow> bool" where
  "pin_value p \<longleftrightarrow> p = 0 \<or> p = TIOCM_DTR \<or> p = TIOCM_RTS"

definition pins_ok :: "daemon \<Rightarrow> bool" where
  "pins_ok s \<longleftrightarrow> pin_value (opt_key (devs s Dev_Ttys)) \<and> pin_value (opt_ptt (devs s Dev_Ttys))"

lemma pins_io: "io_only m \<Longrightarrow> preserves pins_ok m"
  by (erule preserves_within) (auto simp: extends_def pins_ok_def)

lemma pins_fd: "within (fd_frame d) m \<Longrightarrow> preserves pins_ok m"
  by (erule preserves_within) (auto simp: fd_frame_def pins_ok_def split: if_splits)

lemma pins_upd: "(\<And>s. devs (f s) = devs s) \<Longrightarrow> preserves pins_ok (upd f)"
  by (rule preserves_upd) (simp add: pins_ok_def)

lemma pins_set_dev:
  "(\<And>x. opt_key (f x) = opt_key x \<and> opt_ptt (f x) = opt_ptt x) \<Longrightarrow> preserves pins_ok (set_dev d f)"
  unfolding set_dev_def by (rule preserves_upd) (simp add: pins_ok_def)

lemma pins_release: "preserves pins_ok (release_device w old)"
  unfolding release_device_def
  by (intro preserves_option preserves_ret preserves_sq pins_fd [OF fd_frame_free] pins_set_dev) simp

lemma pins_option_cwdevice: "preserves pins_ok (cwdaemon_option_cwdevice w arg)"
  unfolding cwdaemon_option_cwdevice_def cwdaemon_cwdevice_set_def Let_def
  by (intro preserves_option preserves_ret preserves_if preserves_bnd preserves_look preserves_prod preserves_sq
      pins_io [OF io_only_probe_all] pins_io [OF io_only_strdup] pins_upd pins_release pins_set_dev
      pins_fd [OF fd_frame_init]) simp_all

lemma pins_optparse: "preserves pins_ok (ttys_optparse w d option)"
proof -
  have pin: "pin_value p" if "tty_pin_value v = Some p" for v p
    using that by (auto simp: tty_pin_value_def pin_value_def split: if_splits)
  have set: "preserves pins_ok (set_dev d (\<lambda>x. x\<lparr>opt_key := p\<rparr>))" "preserves pins_ok (set_dev d (\<lambda>x. x\<lparr>opt_ptt := p\<rparr>))"
    if "tty_pin_value v = Some p" for d p v
    unfolding set_dev_def using pin [OF that] by (intro preserves_upd; auto simp: pins_ok_def)+
  show ?thesis
    unfolding ttys_optparse_def
    by (auto simp del: sq.simps intro!: preserves_bnd preserves_sq preserves_ret pins_io [OF io_only_ttys(1)]
        pins_io [OF io_only_ttys(2)] set split: prod.split opt_t.split option.split)
qed

interpretation pins: boot_walk w pins_ok for w
  by unfold_locales (auto simp: setting_def pins_ok_def intro: pins_optparse pins_option_cwdevice)

text \<open>With the validation at the end of the command line: keying and PTT do not share a line.\<close>

definition lines_apart :: "daemon \<Rightarrow> bool" where
  "lines_apart s \<longleftrightarrow> (global_cwdevice s = Some Dev_Ttys \<longrightarrow>
     opt_key (devs s Dev_Ttys) AND opt_ptt (devs s Dev_Ttys) = 0)"

lemma pins_apart: "pin_value p \<Longrightarrow> pin_value q \<Longrightarrow> p AND q = 0 \<longleftrightarrow> \<not> (p \<noteq> 0 \<and> q \<noteq> 0 \<and> p = q)"
  by (auto simp: pin_value_def)

lemma args_parse_lines:
  assumes "cwdaemon_args_parse w opts operands s = Run () t" "pins_ok s"
  shows "pins_ok t \<and> lines_apart t"
proof -
  let ?validate = "look (\<lambda>s. case global_cwdevice s of
       None \<Rightarrow> ret ()
     | Some d \<Rightarrow> (case dev_optvalidate d of
         None \<Rightarrow> ret ()
       | Some optvalidate \<Rightarrow> bnd optvalidate (\<lambda>r. guard (0 \<noteq> r)
           (sq [cwdaemon_debug LOG_ERR ''cw device options are not valid'', halt (Exit EXIT_FAILURE)]))))"
  have "bnd (cwdaemon_args_process_long w opts operands) (\<lambda>_. ?validate) s = Run () t"
    using assms(1) by (simp add: cwdaemon_args_parse_def bnd_ret_right)
  then obtain r where r: "cwdaemon_args_process_long w opts operands s = Run () r" "?validate r = Run () t"
    by (rule bnd_RunE) simp
  from preservesD [OF pins.process_options_keep assms(2) r(1)] have r_ok: "pins_ok r" .
  have "t = r \<and> (global_cwdevice r = Some Dev_Ttys \<longrightarrow>
      \<not> (opt_key (devs r Dev_Ttys) \<noteq> 0 \<and> opt_ptt (devs r Dev_Ttys) \<noteq> 0 \<and> opt_key (devs r Dev_Ttys) = opt_ptt (devs r Dev_Ttys)))"
  proof (cases "global_cwdevice r = Some Dev_Ttys")
    case True
    then have "?validate r = bnd (ttys_optvalidate Dev_Ttys) (\<lambda>r. guard (0 \<noteq> r)
        (sq [cwdaemon_debug LOG_ERR ''cw device options are not valid'', halt (Exit EXIT_FAILURE)])) r"
      by (simp add: look_def dev_optvalidate_def)
    with r(2) show ?thesis
      by (auto simp: ttys_optvalidate_def prog_simps Let_def split: if_splits outcome.splits)
  next
    case False
    with r(2) show ?thesis
      by (auto simp: prog_simps dev_optvalidate_def split: option.splits devid.splits)
  qed
  with r_ok show ?thesis by (auto simp: pins_ok_def lines_apart_def pins_apart)
qed

lemma pins_cwdevices_init: "hoare (\<lambda>_. True) (cwdaemon_cwdevices_init w) (\<lambda>_. pins_ok) (\<lambda>_ _. True)"
proof -
  have set: "hoare (\<lambda>_. True) (sq [set_dev Dev_Ttys (\<lambda>_. zero_device),
      set_dev Dev_Ttys (\<lambda>v. v\<lparr>opt_key := TIOCM_DTR, opt_ptt := TIOCM_RTS\<rparr>)]) (\<lambda>_. pins_ok) (\<lambda>_ _. True)"
    by (rule hoareI) (simp add: prog_simps pins_ok_def pin_value_def)
  have "preserves pins_ok (tty_default_desc w)"
    unfolding tty_default_desc_def by (cases "platform w") (auto intro: pins_io io_only_strdup preserves_ret)
  then have tty: "hoare (\<lambda>_. True) (tty_init_cwdevice w Dev_Ttys) (\<lambda>_. pins_ok) (\<lambda>_ _. True)"
    unfolding tty_init_cwdevice_def
    by (intro hoare_bnd [OF set] preserves_bnd [unfolded preserves_def] pins_set_dev [unfolded preserves_def]
        preserves_ret [unfolded preserves_def]) (simp_all add: preserves_def)
  have any: "hoare (\<lambda>_. True) m (\<lambda>_ _. True) (\<lambda>_ _. True)" for m :: "'a act"
    by (rule hoareI) (simp split: outcome.split)
  have null: "preserves pins_ok (if r \<noteq> 0 then ret False
       else bnd (strdup w ''null'') (\<lambda>null_desc.
         bnd (set_dev Dev_Null (\<lambda>v. v\<lparr>dev_desc := null_desc\<rparr>)) (\<lambda>_. ret True)))" for r :: int
    by (intro preserves_if preserves_ret preserves_bnd pins_io [OF io_only_strdup] pins_set_dev) simp
  show ?thesis
    unfolding cwdaemon_cwdevices_init_def
    by (rule hoare_bnd [OF any], rule hoare_bnd [OF any], rule hoare_bnd [OF tty], rule null [unfolded preserves_def])
qed

lemma apart_setting: "within setting m \<Longrightarrow> preserves lines_apart m"
  by (erule preserves_within) (simp add: setting_def lines_apart_def)

lemma apart_emit: "preserves lines_apart (emit c)"
  unfolding emit_def by (rule preserves_upd) (simp add: lines_apart_def)

lemma apart_debug_open: "preserves lines_apart (cwdaemon_debug_open w forking)"
  by (rule preservesI) (auto dest: debug_open_setting simp: setting_def lines_apart_def)

lemma apart_main_start: "preserves lines_apart (main_start w d)"
  unfolding main_start_def
  by (intro preserves_sq apart_emit apart_setting [OF setting_start(1)] apart_setting [OF setting_start(2)]
      apart_setting [OF setting_start(3)] apart_setting [OF setting_start(4)] apart_setting [OF setting_start(5)])

lemma configure_lines: "main_configure w opts operands s = Run () t \<Longrightarrow> lines_apart t"
proof -
  assume "main_configure w opts operands s = Run () t"
  moreover have "hoare (\<lambda>_. True) m (\<lambda>_ _. True) (\<lambda>_ _. True)" for m :: "unit act"
    by (rule hoareI) (simp split: outcome.split)
  moreover have "hoare (\<lambda>_. True) (bnd (cwdaemon_cwdevices_init w) (\<lambda>ok. guard (\<not> ok) (halt (Exit EXIT_FAILURE))))
      (\<lambda>_. pins_ok) (\<lambda>_ _. True)"
    by (rule hoare_bnd [OF pins_cwdevices_init])
      (intro preserves_guard [unfolded preserves_def] preserves_halt [unfolded preserves_def])
  moreover have "preserves pins_ok cwdaemon_cwdevice_init"
    unfolding cwdaemon_cwdevice_init_def by (rule pins_upd) simp
  moreover have "hoare pins_ok (cwdaemon_args_parse w opts operands) (\<lambda>_ t. lines_apart t) (\<lambda>_ _. True)"
    by (rule hoareI) (auto dest: args_parse_lines split: outcome.split)
  ultimately have "hoare (\<lambda>_. True) (main_configure w opts operands) (\<lambda>_. lines_apart) (\<lambda>_ _. True)"
    unfolding main_configure_def preserves_def
    by - (rule hoare_sq_Cons, assumption, rule hoare_sq_Cons, assumption, rule hoare_sq_Cons, assumption,
        rule hoare_sq_Cons, rule pins_io [OF io_only_emit, unfolded preserves_def], rule hoare_sq_Cons, assumption,
        rule hoare_sq_Cons, assumption, rule preserves_sq(1) [unfolded preserves_def])
  from hoare_Run [OF this TrueI] show "main_configure w opts operands s = Run () t \<Longrightarrow> lines_apart t" by simp
qed

section \<open>The history of the start\<close>

text \<open>
  \<open>untouched hs\<close>: no line of a serial port was ever raised, and the functions in \<open>hs\<close> are registered
  for the exit. With all five registered, the last one comes first.
\<close>

definition untouched :: "handler list \<Rightarrow> daemon \<Rightarrow> bool" where
  "untouched hs s \<longleftrightarrow> registered (trace s) = hs \<and> (\<forall>fd m. Ioctl fd (TIOCMBIS m) \<notin> set (trace s))"

definition all_handlers :: "handler list" where
  "all_handlers = [Close_Libcw_Output, Close_Socket_Wrapper, Debug_Close, Cwdevice_Free, Cwdevices_Free]"

interpretation registered_obs: observer registered_step tame
proof
  show "registered_step x c = x" if "tame c" for x c
    using that by (cases c) (simp_all add: registered_step_def)
qed

lemma registered_snoc: "registered (tr @ [c]) = registered_step (registered tr) c"
  by (simp add: registered_def)

lemma untouched_tame: "untouched hs t" if a: "adds tame s t" and s: "untouched hs s"
proof -
  from registered_obs.replay_adds [OF a] s have "registered (trace t) = hs"
    by (simp add: untouched_def registered_def)
  moreover have "Ioctl fd (TIOCMBIS m) \<notin> set (trace t)" for fd m
    using a s unfolding adds_def untouched_def by force
  ultimately show ?thesis by (simp add: untouched_def)
qed

lemma untouched_adds: "within (adds tame) m \<Longrightarrow> preserves (untouched hs) m"
  by (erule preserves_within) (rule untouched_tame)

lemma untouched_setting: "within setting m \<Longrightarrow> preserves (untouched hs) m"
  by (erule preserves_within) (auto simp: setting_def intro: untouched_tame)

lemma tame_ttys: "within (adds tame) (ttys_cw w d OFF)" "within (adds tame) (ttys_ptt w d OFF)"
  "within (adds tame) (ttys_reset_pins_state w d)"
  unfolding ttys_cw_def ttys_ptt_def ttys_reset_pins_state_def Let_def OFF_def
  by (intro adds_rules; simp)+

lemma tame_parport: "within (adds tame) (parport_control w fd m v)" "within (adds tame) (parport_write_data w fd p)"
  unfolding parport_control_def parport_write_data_def ioctl_or_exit_def Let_def
  by (cases "lp_build w"; simp only: lp_build.case; intro adds_rules; simp)+

lemma tame_lp: "within (adds tame) (lp_init w d fd)" "within (adds tame) (lp_free w d)"
proof -
  have reset: "within (adds tame) (lp_reset_pins_state w d)"
    unfolding lp_reset_pins_state_def lp_cw_def lp_ptt_def lp_ssbway_def lp_switchband_def Let_def
    by (intro adds_rules tame_parport)
  then show "within (adds tame) (lp_init w d fd)" "within (adds tame) (lp_free w d)"
    unfolding lp_init_def lp_free_def claim_or_exit_def
    by - (intro adds_rules tame_parport; simp add: tame_def)+
qed

lemma tame_open_close: "within (adds tame) (dev_init w d fd)" "within (adds tame) (dev_free w d)"
proof -
  have "within (adds tame) (ttys_init w d fd)" "within (adds tame) (ttys_close w d)"
    unfolding ttys_init_def ttys_close_def by (intro adds_rules tame_ttys adds_upd; simp add: tame_def)+
  moreover have "within (adds tame) (null_init d fd)" "within (adds tame) (null_free d)"
    unfolding null_init_def null_free_def by (intro adds_rules)+
  ultimately show "within (adds tame) (dev_init w d fd)" "within (adds tame) (dev_free w d)"
    unfolding dev_init_def dev_free_def using tame_lp by (cases d; simp)+
qed

lemma tame_probe: "within (adds tame) (probe_all w desc)"
proof -
  have probe: "within (adds tame) (probe_cwdevice w flags req fname)" if "tame (Ioctl 0 req)" for flags req fname
  proof -
    have "tame (Ioctl fd req)" for fd using that by (simp add: tame_def)
    then show ?thesis
      unfolding probe_cwdevice_def Let_def by (intro adds_rules) (simp_all add: tame_def)
  qed
  then have "within (adds tame) (lp_probe_cwdevice w desc)"
    unfolding lp_probe_cwdevice_def by (cases "lp_build w") (simp_all add: add.within_ret)
  with probe show ?thesis
    unfolding probe_all_def tty_probe_cwdevice_def by (intro adds_rules adds_upd; simp add: tame_def)
qed

lemma tame_cwdevice: "within (adds tame) (cwdaemon_option_cwdevice w arg)"
  unfolding cwdaemon_option_cwdevice_def cwdaemon_cwdevice_set_def release_device_def strdup_def Let_def
  by (intro adds_rules tame_probe tame_open_close adds_upd; simp add: tame_def)

lemma tame_optparse: "within (adds tame) (ttys_optparse w d option)"
  unfolding ttys_optparse_def
  by (auto simp del: sq.simps intro!: adds_rules tame_ttys [unfolded OFF_def]
      split: prod.split opt_t.split option.split)

lemma tame_cwdevices_init: "within (adds tame) (cwdaemon_cwdevices_init w)"
  unfolding cwdaemon_cwdevices_init_def tty_init_cwdevice_def tty_default_desc_def strdup_def
  by (cases "lp_build w"; cases "platform w"; simp del: sq.simps; intro adds_rules adds_upd; simp add: tame_def)

interpretation untouched: boot_walk w "untouched hs" for w hs
  by unfold_locales (auto simp: setting_def intro: untouched_tame untouched_adds tame_optparse tame_cwdevice)

lemma untouched_atexit:
  "hoare (untouched hs) (emit (Atexit h)) (\<lambda>_. untouched (h # hs)) (\<lambda>_ _. True)"
  by (rule hoareI) (auto simp: emit_def upd_def untouched_def registered_snoc registered_step_def)

lemma untouched_hoare: "preserves (untouched hs) m \<Longrightarrow> hoare (untouched hs) m (\<lambda>_. untouched hs) (\<lambda>_ _. True)"
  by (simp add: preserves_def)

lemma configure_untouched:
  "hoare (untouched []) (main_configure w opts operands) (\<lambda>_. untouched [Cwdevice_Free, Cwdevices_Free]) (\<lambda>_ _. True)"
proof -
  have upd: "preserves (untouched hs) (upd f)" if "\<And>s. trace (f s) = trace s" for hs and f :: "daemon \<Rightarrow> daemon"
    by (rule preserves_upd) (simp add: untouched_def that)
  have debug: "preserves (untouched hs) (set_debug_f f)" for hs f
    unfolding set_debug_f_def by (rule upd) simp
  have init: "preserves (untouched hs) (bnd (cwdaemon_cwdevices_init w) (\<lambda>ok. guard (\<not> ok) (halt (Exit EXIT_FAILURE))))" for hs
    by (intro preserves_bnd untouched_adds [OF tame_cwdevices_init] preserves_guard preserves_halt)
  have null: "preserves (untouched hs) cwdaemon_cwdevice_init" for hs
    unfolding cwdaemon_cwdevice_init_def by (rule upd) simp
  show ?thesis
    unfolding main_configure_def
    by (rule hoare_sq_Cons [OF untouched_hoare [OF debug]] hoare_sq_Cons [OF untouched_atexit]
        hoare_sq_Cons [OF untouched_hoare [OF init]] hoare_sq_Cons [OF untouched_hoare [OF null]]
        hoare_sq_Cons [OF untouched_hoare [OF untouched.args_parse_keeps]] untouched_hoare [OF preserves_sq(1)])+
qed

lemma start_untouched:
  "hoare (untouched [Debug_Close, Cwdevice_Free, Cwdevices_Free]) (main_start w d)
    (\<lambda>_. untouched all_handlers) (\<lambda>_ _. True)"
proof -
  note piece = untouched_hoare [OF untouched_setting]
  show ?thesis
    unfolding main_start_def all_handlers_def
    by (rule hoare_sq_Cons [OF untouched_atexit] hoare_sq_Cons [OF piece [OF setting_start(1)]]
        hoare_sq_Cons [OF piece [OF setting_start(2)]] hoare_sq_Cons [OF piece [OF setting_start(3)]]
        hoare_sq_Cons [OF piece [OF setting_start(4)]] hoare_sq_Cons [OF piece [OF setting_start(5)]]
        untouched_hoare [OF preserves_sq(1)])+
qed

lemma main_untouched:
  assumes "main w opts operands daemon_init = Run () s"
  shows "untouched all_handlers s"
proof -
  have fork: "within setting (look (\<lambda>s. if g_forking s then main_detach w else main_foreground))"
    by (intro setting_rules setting_detach)
  have debug: "preserves (untouched hs) (look (\<lambda>s. cwdaemon_debug_open w (g_forking s)))" for hs
    by (intro preserves_look untouched.debug_open_keeps)
  have "hoare (untouched [Cwdevice_Free, Cwdevices_Free]) (with_device (\<lambda>dev. sq [
       emit (Atexit Debug_Close),
       look (\<lambda>s. cwdaemon_debug_open w (g_forking s)),
       look (\<lambda>s. if g_forking s then main_detach w else main_foreground),
       main_start w dev])) (\<lambda>_. untouched all_handlers) (\<lambda>_ _. True)"
  proof -
    have "hoare (untouched [Cwdevice_Free, Cwdevices_Free]) (sq [
       emit (Atexit Debug_Close),
       look (\<lambda>s. cwdaemon_debug_open w (g_forking s)),
       look (\<lambda>s. if g_forking s then main_detach w else main_foreground),
       main_start w d]) (\<lambda>_. untouched all_handlers) (\<lambda>_ _. True)" for d
      by (rule hoare_sq_Cons [OF untouched_atexit] hoare_sq_Cons [OF untouched_hoare [OF debug]]
          hoare_sq_Cons [OF untouched_hoare [OF untouched_setting [OF fork]]] hoare_sq_Cons [OF start_untouched]
          untouched_hoare [OF preserves_sq(1)])+
    then show ?thesis
      unfolding hoare_def with_device_def look_def halt_def by (fastforce split: option.splits)
  qed
  then have "hoare (untouched []) (main w opts operands) (\<lambda>_. untouched all_handlers) (\<lambda>_ _. True)"
    unfolding main_def
    by - (rule hoare_sq_Cons [OF configure_untouched], erule hoare_sq_Cons, rule untouched_hoare [OF preserves_sq(1)])
  moreover have "untouched [] daemon_init"
    by (simp add: untouched_def daemon_init_def registered_def)
  ultimately show ?thesis using assms by (rule hoare_Run)
qed

section \<open>Properties\<close>

text \<open>
  C22: whatever the command line says, the daemon never serves requests with keying and PTT on the same
  line of its serial port: if PTT has a line at all, it can be switched without touching the key.
\<close>

theorem lines_of_serial_port:
  assumes "main w opts operands daemon_init = Run () s" "global_cwdevice s = Some Dev_Ttys"
    and "opt_ptt (devs s Dev_Ttys) \<noteq> 0"
  shows "dev_wired w Dev_Ttys s"
proof -
  let ?rest = "with_device (\<lambda>dev. sq [
       emit (Atexit Debug_Close),
       look (\<lambda>s. cwdaemon_debug_open w (g_forking s)),
       look (\<lambda>s. if g_forking s then main_detach w else main_foreground),
       main_start w dev])"
  have "bnd (main_configure w opts operands) (\<lambda>_. ?rest) daemon_init = Run () s"
    using assms(1) by (simp add: main_def bnd_ret_right)
  then obtain r where r: "main_configure w opts operands daemon_init = Run () r" "?rest r = Run () s"
    by (rule bnd_RunE) simp
  have "preserves lines_apart ?rest"
    unfolding with_device_def
    by (intro preserves_look preserves_option preserves_halt preserves_sq apart_emit apart_debug_open
        preserves_if apart_setting [OF setting_detach(1)] apart_setting [OF setting_detach(2)] apart_main_start)
  from preservesD [OF this configure_lines [OF r(1)] r(2)] assms(2,3) show ?thesis
    by (simp add: lines_apart_def dev_wired_def tty_wired_def)
qed

text \<open>The command line \<open>-n -d ttyS0 -o key=rts -o ptt=dtr\<close> swaps the lines.\<close>

definition swapped_pins :: "getopt list" where
  "swapped_pins = [Letter CHR ''n'' None, Letter CHR ''d'' (Some ''ttyS0''), Letter CHR ''o'' (Some ''key=rts''),
     Letter CHR ''o'' (Some ''ptt=dtr'')]"

text \<open>Evaluation of such a command line and of a device request.\<close>

definition serial_env :: "char list \<Rightarrow> env" where
  "serial_env msg = (example_env msg)\<lparr>ret_of := (\<lambda>tr. case last tr of
     Open path _ \<Rightarrow> if path = ''/dev/ttyS0'' then 3 else - 1 | _ \<Rightarrow> answer msg tr)\<rparr>"

lemma serial_env_sel:
  "ret_of (serial_env msg) tr = (case last tr of Open path _ \<Rightarrow> if path = ''/dev/ttyS0'' then 3 else - 1 | _ \<Rightarrow> answer msg tr)"
  "out_int (serial_env msg) tr = 8192" "out_bytes (serial_env msg) tr = msg"
  "out_addr (serial_env msg) tr = ((1, 5000), 16)" "lp_build (serial_env msg) = Linux_ppdev" "platform (serial_env msg) = Linux"
  "CW_FAILURE (serial_env msg) = 0" "CW_SUCCESS (serial_env msg) = 1"
  by (simp_all add: serial_env_def example_env_def)

lemma serial_probe:
  "tty_probe_cwdevice (serial_env msg) ''ttyS0'' s = Run 3 (s\<lparr>trace := trace s @
      [Open ''/dev/ttyS0'' [O_RDWR, O_NOCTTY, O_NONBLOCK], Fstat 3, Ioctl 3 TIOCMGET]\<rparr>)"
  "tty_probe_cwdevice (serial_env msg) ''null'' s = Run (- 1) (s\<lparr>trace := trace s @
      [Open ''/dev/null'' [O_RDWR, O_NOCTTY, O_NONBLOCK]]\<rparr>)"
  "lp_probe_cwdevice (serial_env msg) ''null'' s = Run (- 1) (s\<lparr>trace := trace s @ [Open ''/dev/null'' [O_RDWR, O_NONBLOCK]]\<rparr>)"
  by (simp_all add: tty_probe_cwdevice_def lp_probe_cwdevice_def probe_cwdevice_def build_full_device_path_spec
      MAXPATHLEN_def dev_path_def INT_MAX_def prog_simps Let_def serial_env_sel answer_def S_IFMT_def S_IFCHR_def)

lemma example_pins:
  "find_opt_value ''key=rts'' ''key'' = (opt_success, Some ''rts'')"
  "find_opt_value ''ptt=dtr'' ''key'' = (opt_key_not_found, None)"
  "find_opt_value ''ptt=dtr'' ''ptt'' = (opt_success, Some ''dtr'')"
  "tty_pin_value ''rts'' = Some TIOCM_RTS" "tty_pin_value ''dtr'' = Some TIOCM_DTR" by code_simp+

lemmas command_line_evaluation = main_def main_configure_def cwdaemon_args_parse_def
  cwdaemon_args_process_long_def process_option_def cwdaemon_args_process_short_def
  cwdaemon_params_nofork_def option_cwdevice_def cwdaemon_option_cwdevice_def cwdaemon_cwdevice_set_def
  probe_all_def serial_probe release_device_def dev_free_def null_free_def dev_init_def ttys_init_def
  ttys_reset_pins_state_def ttys_cw_def ttys_ptt_def cwdaemon_params_options_def dev_optparse_def
  ttys_optparse_def example_pins exit_unless_def set_debug_f_def ttys_optvalidate_def
  cwdaemon_cwdevices_init_def tty_init_cwdevice_def tty_default_desc_def cwdaemon_cwdevice_init_def
  dev_optvalidate_def with_device_def cwdaemon_debug_open_def main_foreground_def
  main_start_def cwdaemon_initialize_socket_def cwdaemon_reset_almost_all_def
  cwdaemon_reset_libcw_output_def cwdaemon_close_libcw_output_def cwdaemon_open_libcw_output_def
  prog_simps Let_def daemon_init_def reset_current_def put_queue_def serial_env_sel answer_def OFF_def
  pins_distinct(5) [symmetric]

lemma swapped_main:
  "\<exists>s. main (serial_env msg) swapped_pins [] daemon_init = Run () s \<and> global_cwdevice s = Some Dev_Ttys \<and>
    opt_ptt (devs s Dev_Ttys) = TIOCM_DTR"
  by (simp add: command_line_evaluation swapped_pins_def)

theorem lines_of_serial_port_witness:
  "\<exists>s. main (serial_env []) swapped_pins [] daemon_init = Run () s \<and> opt_ptt (devs s Dev_Ttys) = TIOCM_DTR \<and>
    dev_wired (serial_env []) Dev_Ttys s"
proof -
  obtain s where s: "main (serial_env []) swapped_pins [] daemon_init = Run () s" "global_cwdevice s = Some Dev_Ttys"
    "opt_ptt (devs s Dev_Ttys) = TIOCM_DTR"
    using swapped_main [of "[]"] by blast
  with lines_of_serial_port [OF s(1,2)] show ?thesis by auto
qed

text \<open>
  C33: the validation of the pins covers the device that is selected at the end of the command line only:
  after \<open>-d ttyS0 -o key=rts -d null\<close> an Escape request 8 selects the serial port with keying and PTT
  on the same line.
\<close>

definition shared_pins :: "getopt list" where
  "shared_pins = [Letter CHR ''n'' None, Letter CHR ''d'' (Some ''ttyS0''), Letter CHR ''o'' (Some ''key=rts''),
     Letter CHR ''d'' (Some ''null'')]"

theorem request_skips_validation:
  "\<exists>s t. main (serial_env []) shared_pins [] daemon_init = Run () s \<and> global_cwdevice s = Some Dev_Null \<and>
    cwdaemon_handle_escaped_request (serial_env []) (ASCII_ESC # ''8ttyS0'') s = Run () t \<and>
    global_cwdevice t = Some Dev_Ttys \<and> opt_key (devs t Dev_Ttys) = TIOCM_RTS \<and> opt_ptt (devs t Dev_Ttys) = TIOCM_RTS"
proof -
  have m: "\<exists>s. main (serial_env []) shared_pins [] daemon_init = Run () s \<and> global_cwdevice s = Some Dev_Null \<and>
      opt_key (devs s Dev_Ttys) = TIOCM_RTS \<and> opt_ptt (devs s Dev_Ttys) = TIOCM_RTS"
    by (simp add: command_line_evaluation shared_pins_def null_probe_cwdevice_def null_init_def ttys_close_def)
  then obtain s where s: "main (serial_env []) shared_pins [] daemon_init = Run () s" "global_cwdevice s = Some Dev_Null"
      "opt_key (devs s Dev_Ttys) = TIOCM_RTS" "opt_ptt (devs s Dev_Ttys) = TIOCM_RTS" by blast
  have "\<exists>t. esc_cwdevice (serial_env []) (Some ''ttyS0'') s = Run () t \<and>
      global_cwdevice t = Some Dev_Ttys \<and> opt_key (devs t Dev_Ttys) = TIOCM_RTS \<and> opt_ptt (devs t Dev_Ttys) = TIOCM_RTS"
    using s(2-4) by (simp add: command_line_evaluation esc_cwdevice_def register_keying_callback_def)
  with s(1,2) show ?thesis
    by (auto simp: cwdaemon_handle_escaped_request_def escape_code_def payload_def cstr_def
        CWDAEMON_ESC_REQUEST_EXIT_def CWDAEMON_ESC_REQUEST_CWDEVICE_def)
qed

end
