(* ===== verification/Ending.thy ===== *)
theory Ending
  imports Boot
begin

text \<open>
  The end of the process: what \<open>exit_process\<close> of the theory \<open>Startup\<close> leaves of the devices, the
  socket and the generator, and which exits go wrong.
\<close>

section \<open>Releasing a device\<close>

text \<open>The PTT line of \<open>d\<close> as it was wired in \<open>s\<close>, at the end of the history of \<open>t\<close>.\<close>

definition level_since :: "devid \<Rightarrow> daemon \<Rightarrow> daemon \<Rightarrow> bool" where
  "level_since d s t = dev_level d (t\<lparr>devs := devs s\<rparr>)"

lemma level_since_same: "devs t = devs s \<Longrightarrow> level_since d s t = dev_level d t"
  by (simp add: level_since_def dev_level_cong)

text \<open>Calls that no line sees.\<close>

fun off_line :: "call \<Rightarrow> bool" where
  "off_line (Ioctl _ (TIOCMBIS _)) = False"
| "off_line (Ioctl _ (TIOCMBIC _)) = False"
| "off_line (Ioctl _ (PPFCONTROL _ _)) = False"
| "off_line (Ioctl _ (PPISCTRL _)) = False"
| "off_line _ = True"

interpretation tty_line_obs: observer "line_step fd p" off_line for fd p
  by unfold_locales (auto simp: line_step_def elim: off_line.elims)

interpretation ctrl_obs: observer "ctrl_step fd n" off_line for fd n
  by unfold_locales (auto simp: ctrl_step_def elim: off_line.elims)

lemma level_off_line:
  assumes "trace u = trace t @ v" "\<forall>c \<in> set v. off_line c"
  shows "level_since d s u = level_since d s t"
proof -
  have "tty_line fd p (trace u) = tty_line fd p (trace t)" "ctrl_bit fd n (trace u) = ctrl_bit fd n (trace t)" for fd p n
    using tty_line_obs.replay_quiet [OF assms(2)] ctrl_obs.replay_quiet [OF assms(2)] assms(1)
    by (simp_all add: tty_line_def ctrl_bit_def)
  then show ?thesis
    by (cases d) (simp_all add: level_since_def dev_level_def tty_level_def lp_level_def)
qed

text \<open>The calls a program makes, from its two end states.\<close>

definition new_calls :: "daemon \<Rightarrow> daemon \<Rightarrow> call list" where
  "new_calls s t = drop (length (trace s)) (trace t)"

lemma new_calls_eq: "trace t = trace s @ u \<Longrightarrow> new_calls s t = u"
  by (simp add: new_calls_def)

text \<open>On FreeBSD the release of the parallel port does not reset the PTT line but disables the outputs.\<close>

lemma dev_free_lowers:
  assumes "dev_free w d s = Run () t" "dev_wired w d s" "\<not> (d = Dev_Lp \<and> lp_build w = BSD_ppi)"
  shows "\<not> level_since d s t"
proof (cases d)
  case Dev_Null
  with assms(2) show ?thesis by (simp add: dev_wired_def)
next
  case Dev_Ttys
  with assms(1) obtain r where r: "ttys_reset_pins_state w d s = Run () r"
    and t: "t = r\<lparr>trace := trace r @ [Close (dev_fd (devs r d))], devs := (devs r)(d := (devs r d)\<lparr>dev_fd := - 1\<rparr>)\<rparr>"
    by (auto simp: dev_free_def ttys_close_def prog_simps split: outcome.splits)
  from within_Run [OF io_only_ttys(3) r] have "devs r = devs s" by (auto simp: extends_def)
  moreover have "\<not> tty_level d r"
    using tty.reset_lowers [OF r] assms(2) Dev_Ttys by (simp add: dev_wired_def)
  ultimately have "\<not> level_since d s r" using Dev_Ttys by (simp add: level_since_same dev_level_def)
  then show ?thesis using level_off_line [of t r "[Close (dev_fd (devs r d))]" d s] t by simp
next
  case Dev_Lp
  with assms have linux: "lp_build w = Linux_ppdev" by (auto simp: dev_wired_def lp_wired_def)
  with assms(1) Dev_Lp obtain r q where r: "lp_reset_pins_state w d s = Run () r"
    and q: "parport_control w (dev_fd (devs r d)) PARPORT_CONTROL_STROBE 0 r = Run () q"
    and t: "t = q\<lparr>trace := trace q @ [Ioctl (dev_fd (devs q d)) PPRELEASE, Close (dev_fd (devs q d))]\<rparr>"
    by (auto simp: dev_free_def lp_free_def prog_simps split: outcome.splits)
  have "devs r = devs s" "devs q = devs r"
    using within_Run [OF io_only_lp_reset r] within_Run [OF io_only_parport_control q] by (auto simp: extends_def)
  moreover have "\<not> lp_level d r"
    using lpt.reset_lowers [OF r] linux by (simp add: lp_wired_def)
  moreover have "lp_level d q = lp_level d r"
    using lp_level_frame [OF q] linux by (simp add: lp_wired_def PARPORT_CONTROL_STROBE_def)
  ultimately have "\<not> level_since d s q" using Dev_Lp by (simp add: level_since_same dev_level_def)
  then show ?thesis
    using level_off_line [of t q "[Ioctl (dev_fd (devs q d)) PPRELEASE, Close (dev_fd (devs q d))]" d s] t by simp
qed

lemma dev_free_closes:
  assumes "dev_free w d s = Run () t" "d \<noteq> Dev_Null"
  shows "\<exists>u. trace t = trace s @ u @ [Close (dev_fd (devs s d))]"
proof (cases d)
  case Dev_Ttys
  with assms(1) obtain r where r: "ttys_reset_pins_state w d s = Run () r"
    and t: "trace t = trace r @ [Close (dev_fd (devs r d))]"
    by (auto simp: dev_free_def ttys_close_def prog_simps split: outcome.splits)
  from within_Run [OF io_only_ttys(3) r] t show ?thesis by (auto simp: extends_def)
next
  case Dev_Lp
  let ?m = "sq [guard (lp_build w = Linux_ppdev) (lp_reset_pins_state w d),
         look (\<lambda>s. parport_control w (dev_fd (devs s d)) PARPORT_CONTROL_STROBE 0),
         guard (lp_build w = Linux_ppdev) (look (\<lambda>s. emit (Ioctl (dev_fd (devs s d)) PPRELEASE)))]"
  have io: "io_only ?m" by (intro frame_rules)
  have "dev_free w d s = bnd ?m (\<lambda>_. look (\<lambda>s. emit (Close (dev_fd (devs s d))))) s"
    using Dev_Lp by (simp add: dev_free_def lp_free_def bnd_assoc bnd_ret_right)
  with assms(1) have "bnd ?m (\<lambda>_. look (\<lambda>s. emit (Close (dev_fd (devs s d))))) s = Run () t" by simp
  then obtain r where r: "?m s = Run () r" and "look (\<lambda>s. emit (Close (dev_fd (devs s d)))) r = Run () t"
    by (rule bnd_RunE) (simp del: sq.simps)
  then have t: "trace t = trace r @ [Close (dev_fd (devs r d))]" by (auto simp: prog_simps)
  from within_Run [OF io r] t show ?thesis by (auto simp: extends_def)
qed (simp add: assms(2))

section \<open>The functions registered for the exit\<close>

lemma close_socket_Run:
  assumes "cwdaemon_close_socket_wrapper w s = Run () t"
  shows "t = s\<lparr>socket_descriptor := - 1, trace := trace s @
    (if socket_descriptor s = - 1 then [] else [Close (socket_descriptor s)])\<rparr>"
  using assms by (auto simp: cwdaemon_close_socket_wrapper_def cwdaemon_close_socket_def prog_simps Let_def
      split: if_splits)

lemma debug_close_Run:
  assumes "cwdaemon_debug_close s = Run () t"
  shows "\<exists>f v. t = s\<lparr>cwdaemon_debug_f := f, trace := trace s @ v\<rparr> \<and> (\<forall>n. f \<noteq> Some (Disc_File n)) \<and>
    v = (case cwdaemon_debug_f s of Some (Disc_File n) \<Rightarrow> [Fclose n] | _ \<Rightarrow> [])"
proof (cases "\<exists>n. cwdaemon_debug_f s = Some (Disc_File n)")
  case True
  then obtain n where n: "cwdaemon_debug_f s = Some (Disc_File n)" ..
  with assms have "t = s\<lparr>cwdaemon_debug_f := None, trace := trace s @ [Fclose n]\<rparr>"
    by (auto simp: cwdaemon_debug_close_def set_debug_f_def prog_simps)
  with n show ?thesis by (intro exI [of _ None]) simp
next
  case False
  with assms have t: "t = s"
    by (simp add: cwdaemon_debug_close_def prog_simps split: option.splits stream.splits)
  have v: "(case cwdaemon_debug_f s of Some (Disc_File n) \<Rightarrow> [Fclose n] | _ \<Rightarrow> []) = []"
    using False by (simp split: option.split stream.split)
  show ?thesis
    unfolding t v using False by (intro exI [of _ "cwdaemon_debug_f s"] exI [of _ "[]"]) simp
qed

lemma debug_close_returns: "\<exists>f v. cwdaemon_debug_close s = Run () (s\<lparr>cwdaemon_debug_f := f, trace := trace s @ v\<rparr>)"
proof (cases "cwdaemon_debug_close s")
  case (Run x t)
  with debug_close_Run [of s t] show ?thesis by auto
next
  case (Halt h t)
  then show ?thesis
    by (simp add: cwdaemon_debug_close_def set_debug_f_def prog_simps split: option.splits stream.splits)
qed

text \<open>Releasing a serial port that answers no \<open>ioctl\<close> exits.\<close>

lemma ttys_close_fails:
  assumes "opt_key (devs s d) \<noteq> 0" "\<forall>tr req. ret_of w (tr @ [Ioctl (dev_fd (devs s d)) req]) = - 1"
  shows "\<exists>t. ttys_close w d s = Halt (Exit 1) t"
  using assms by (simp add: ttys_close_def ttys_reset_pins_state_def ttys_cw_def prog_simps Let_def)

text \<open>The five one after the other.\<close>

lemma exit_stages:
  assumes "exit_process w n t = Halt (Exit m) u" "registered (trace t) = all_handlers" "global_cwdevice t = Some d"
  obtains a b where "m = n"
    "devs a = devs t" "socket_descriptor a = - 1" "global_cwdevice a = Some d"
    "\<forall>f. cwdaemon_debug_f a \<noteq> Some (Disc_File f)"
    "trace a = trace t @ [Cw_generator_stop, Cw_generator_delete] @
      (if socket_descriptor t = - 1 then [] else [Close (socket_descriptor t)]) @
      (case cwdaemon_debug_f t of Some (Disc_File f) \<Rightarrow> [Fclose f] | _ \<Rightarrow> [])"
    "dev_free w d a = Run () b" "trace u = trace b" "socket_descriptor u = - 1"
    "cwdaemon_debug_f u = cwdaemon_debug_f a" "\<forall>e. dev_desc (devs u e) = None"
proof -
  have run: "sq [cwdaemon_close_libcw_output, cwdaemon_close_socket_wrapper w, cwdaemon_debug_close,
      cwdaemon_cwdevice_free w, cwdaemon_cwdevices_free] t = Run () u \<and> m = n"
    using assms(1,2) by (auto simp: exit_process_def all_handlers_def simp del: sq.simps split: outcome.splits halt.splits)
  let ?g = "t\<lparr>trace := trace t @ [Cw_generator_stop, Cw_generator_delete]\<rparr>"
  have "cwdaemon_close_libcw_output t = Run () ?g"
    by (simp add: cwdaemon_close_libcw_output_def prog_simps)
  with run have "bnd (cwdaemon_close_socket_wrapper w) (\<lambda>_. bnd cwdaemon_debug_close (\<lambda>_.
      bnd (cwdaemon_cwdevice_free w) (\<lambda>_. cwdaemon_cwdevices_free))) ?g = Run () u"
    by (simp add: bnd_ret_right bnd_Run)
  then obtain s1 s2 b where s1: "cwdaemon_close_socket_wrapper w ?g = Run () s1"
    and s2: "cwdaemon_debug_close s1 = Run () s2" and b: "cwdaemon_cwdevice_free w s2 = Run () b"
    and u: "cwdaemon_cwdevices_free b = Run () u"
    by (auto elim!: bnd_RunE)
  note s1 = close_socket_Run [OF s1]
  from debug_close_Run [OF s2] obtain f where s2: "\<forall>n. f \<noteq> Some (Disc_File n)"
    "s2 = s1\<lparr>cwdaemon_debug_f := f, trace := trace s1 @
      (case cwdaemon_debug_f s1 of Some (Disc_File n) \<Rightarrow> [Fclose n] | _ \<Rightarrow> [])\<rparr>" by auto
  from b s1 s2 assms(3) have b: "dev_free w d s2 = Run () b"
    by (simp add: cwdaemon_cwdevice_free_def look_def)
  have "dev_desc (devs u e) = None" for e
    using u by (cases e) (auto simp: cwdaemon_cwdevices_free_def prog_simps)
  moreover have "trace u = trace b" "socket_descriptor u = - 1" "cwdaemon_debug_f u = f"
    using u within_Run [OF fd_frame_free b] s1 s2 by (auto simp: cwdaemon_cwdevices_free_def prog_simps fd_frame_def)
  ultimately show thesis using run s1 s2 b assms(3) by - (rule that [of s2 b], simp_all)
qed

lemma level_since_cong: "devs a = devs t \<Longrightarrow> trace u = trace b \<Longrightarrow> level_since d a b = level_since d t u"
  by (simp add: level_since_def dev_level_cong [of "b\<lparr>devs := devs t\<rparr>" "u\<lparr>devs := devs t\<rparr>"])

lemma view_after_delete:
  "view_of (tr @ [Cw_generator_stop, Cw_generator_delete] @ (if fd = - 1 then [] else [Close fd]) @
    (case f of Some (Disc_File n) \<Rightarrow> [Fclose n] | _ \<Rightarrow> [])) = fresh_view"
  by (simp add: view_of_append view_step_def split: option.split stream.split)

section \<open>Properties\<close>

text \<open>
  When the process ends in an orderly way, nothing is left behind: the status is the one passed to
  \<open>exit\<close>; the PTT line is down if the device has one (on FreeBSD's parallel port the release disables
  the outputs instead); the descriptors of the device and of the socket are closed; libcw's generator
  is deleted, so that no callback comes any more; and the debug file is closed exactly once. The theory
  \<open>Lines\<close> shows that the functions for the exit are registered whenever the running daemon exits.
\<close>

lemma exit_cleans_up:
  assumes "exit_process w n t = Halt (Exit m) u" "registered (trace t) = all_handlers" "global_cwdevice t = Some d"
  shows "m = n \<and>
    (dev_wired w d t \<and> \<not> (d = Dev_Lp \<and> lp_build w = BSD_ppi) \<longrightarrow> \<not> level_since d t u) \<and>
    (d \<noteq> Dev_Null \<longrightarrow> last (new_calls t u) = Close (dev_fd (devs t d))) \<and>
    (socket_descriptor t \<noteq> - 1 \<longrightarrow> Close (socket_descriptor t) \<in> set (new_calls t u)) \<and> socket_descriptor u = - 1 \<and>
    view_of (trace u) = fresh_view \<and>
    (\<forall>f. cwdaemon_debug_f u \<noteq> Some (Disc_File f)) \<and>
    (\<forall>f. cwdaemon_debug_f t = Some (Disc_File f) \<longrightarrow> count_list (new_calls t u) (Fclose f) = 1)"
proof -
  obtain a b where n: "m = n" and a: "devs a = devs t" "socket_descriptor a = - 1" "global_cwdevice a = Some d"
    "\<forall>f. cwdaemon_debug_f a \<noteq> Some (Disc_File f)"
    "trace a = trace t @ [Cw_generator_stop, Cw_generator_delete] @
      (if socket_descriptor t = - 1 then [] else [Close (socket_descriptor t)]) @
      (case cwdaemon_debug_f t of Some (Disc_File f) \<Rightarrow> [Fclose f] | _ \<Rightarrow> [])"
    and b: "dev_free w d a = Run () b" "trace u = trace b" "socket_descriptor u = - 1"
    "cwdaemon_debug_f u = cwdaemon_debug_f a"
    by (rule exit_stages [OF assms])
  note device = within_Run [OF device_calls_methods(5) b(1)]
  then obtain v where v: "trace b = trace a @ v" "\<forall>c \<in> set v. device_call c" by (auto simp: adds_def)
  then have new: "new_calls t u = [Cw_generator_stop, Cw_generator_delete] @
      (if socket_descriptor t = - 1 then [] else [Close (socket_descriptor t)]) @
      (case cwdaemon_debug_f t of Some (Disc_File f) \<Rightarrow> [Fclose f] | _ \<Rightarrow> []) @ v"
    using a b by (intro new_calls_eq) simp
  have "count_list v (Fclose f) = 0" for f using v(2) by (force simp: count_list_0_iff)
  moreover have "\<not> level_since d t u" if "dev_wired w d t" "\<not> (d = Dev_Lp \<and> lp_build w = BSD_ppi)"
    using dev_free_lowers [OF b(1) _ that(2)] that(1) dev_wired_cong [OF a(1)] level_since_cong [OF a(1) b(2)] by simp
  moreover have "last (new_calls t u) = Close (dev_fd (devs t d))" if "d \<noteq> Dev_Null"
    using dev_free_closes [OF b(1) that] v(1) new a(1) by auto
  moreover have "view_of (trace u) = fresh_view"
    using device_calls_unseen(2) [OF device] view_after_delete a(5) b(2) by simp
  ultimately show ?thesis using n a b new by simp
qed

text \<open>A process with a serial port, a socket and a debug file.\<close>

definition running_state :: daemon where
  "running_state = tty_state\<lparr>socket_descriptor := 4, cwdaemon_debug_f := Some (Disc_File 7),
     trace := map Atexit (rev all_handlers) @ [Ioctl 3 (TIOCMBIS TIOCM_RTS)]\<rparr>"

lemma running_state_simps:
  "registered (trace running_state) = all_handlers" "global_cwdevice running_state = Some Dev_Ttys"
  "socket_descriptor running_state = 4" "cwdaemon_debug_f running_state = Some (Disc_File 7)"
  "dev_fd (devs running_state Dev_Ttys) = 3" "opt_key (devs running_state Dev_Ttys) = TIOCM_DTR"
  "opt_ptt (devs running_state Dev_Ttys) = TIOCM_RTS"
  by (simp_all add: running_state_def registered_def registered_step_def all_handlers_def tty_state_def)

lemmas exit_evaluation = exit_process_def running_state_simps all_handlers_def cwdaemon_close_libcw_output_def
  cwdaemon_close_socket_wrapper_def cwdaemon_close_socket_def cwdaemon_debug_close_def set_debug_f_def
  cwdaemon_cwdevice_free_def cwdaemon_cwdevices_free_def dev_free_def ttys_close_def ttys_reset_pins_state_def
  ttys_cw_def ttys_ptt_def prog_simps Let_def

text \<open>
  C30: but when the serial port is gone (an adapter that was unplugged: every \<open>ioctl\<close> on it fails) the
  process does not end in an orderly way: keying it exits, the exit function \<open>cwdaemon_cwdevice_free\<close>
  resets the lines, this fails too and calls \<open>exit\<close> from within \<open>exit\<close>.
\<close>

theorem unplugged_port_exits_twice:
  assumes "registered (trace t) = all_handlers" "global_cwdevice t = Some Dev_Ttys" "opt_key (devs t Dev_Ttys) \<noteq> 0"
    and "\<forall>tr req. ret_of w (tr @ [Ioctl (dev_fd (devs t Dev_Ttys)) req]) = - 1"
    and "\<forall>tr fd. ret_of w (tr @ [Close fd]) = 0"
  shows "\<exists>r u. cwdaemon_keyingevent w Dev_Ttys keystate t = Halt (Exit 1) r \<and> exit_process w 1 r = Halt Undefined u"
proof -
  let ?dev = "devs t Dev_Ttys"
  let ?req = "if keystate = 1 then TIOCMBIS (opt_key ?dev) else TIOCMBIC (opt_key ?dev)"
  let ?r = "t\<lparr>trace := trace t @ [Ioctl (dev_fd ?dev) ?req]\<rparr>"
  have key: "cwdaemon_keyingevent w Dev_Ttys keystate t = Halt (Exit 1) ?r"
    using assms(3,4) by (simp add: cwdaemon_keyingevent_def dev_cw_def ttys_cw_def prog_simps Let_def ON_def OFF_def)
  have "cwdaemon_close_socket_wrapper w s = Run () (s\<lparr>socket_descriptor := - 1, trace := trace s @
      (if socket_descriptor s = - 1 then [] else [Close (socket_descriptor s)])\<rparr>)" for s
    using assms(5) by (auto simp: cwdaemon_close_socket_wrapper_def cwdaemon_close_socket_def prog_simps Let_def)
  then obtain v where v: "sq [cwdaemon_close_libcw_output, cwdaemon_close_socket_wrapper w] ?r =
      Run () (t\<lparr>socket_descriptor := - 1, trace := v\<rparr>)"
    by (simp add: cwdaemon_close_libcw_output_def prog_simps)
  let ?s = "t\<lparr>socket_descriptor := - 1, trace := v\<rparr>"
  obtain f v' where f: "cwdaemon_debug_close ?s = Run () (?s\<lparr>cwdaemon_debug_f := f, trace := trace ?s @ v'\<rparr>)"
    using debug_close_returns [of ?s] by blast
  obtain u where u: "cwdaemon_cwdevice_free w (?s\<lparr>cwdaemon_debug_f := f, trace := trace ?s @ v'\<rparr>) = Halt (Exit 1) u"
    using ttys_close_fails [of "?s\<lparr>cwdaemon_debug_f := f, trace := trace ?s @ v'\<rparr>" Dev_Ttys w] assms(2-4)
    by (auto simp: cwdaemon_cwdevice_free_def look_def dev_free_def)
  have "sq ([cwdaemon_close_libcw_output, cwdaemon_close_socket_wrapper w] @
      [cwdaemon_debug_close, cwdaemon_cwdevice_free w, cwdaemon_cwdevices_free]) ?r = Halt (Exit 1) u"
    unfolding sq_append bnd_Run [where m = "sq [cwdaemon_close_libcw_output, cwdaemon_close_socket_wrapper w]", OF v]
    by (simp only: sq.simps bnd_Run [where m = cwdaemon_debug_close, OF f] bnd_Halt [where m = "cwdaemon_cwdevice_free w", OF u])
  then have "exit_process w 1 ?r = Halt Undefined u"
    using assms(1) by (simp add: exit_process_def registered_def registered_step_def all_handlers_def)
  with key show ?thesis by blast
qed

theorem unplugged_port_exits_twice_witness:
  "\<exists>r u. cwdaemon_keyingevent ((example_env [])\<lparr>ret_of := (\<lambda>tr. case last tr of Ioctl _ _ \<Rightarrow> - 1 | _ \<Rightarrow> 0)\<rparr>)
      Dev_Ttys 1 running_state = Halt (Exit 1) r \<and>
    exit_process ((example_env [])\<lparr>ret_of := (\<lambda>tr. case last tr of Ioctl _ _ \<Rightarrow> - 1 | _ \<Rightarrow> 0)\<rparr>) 1 r = Halt Undefined u"
  by (rule unplugged_port_exits_twice) (simp_all add: running_state_simps)

text \<open>
  C31: a daemon that forks with a parallel port on Linux: the parent exits while its child goes on, and
  the exit function releases the port, whose claim belongs to the open file that the two processes
  share; after that the child has no access to it.
\<close>

theorem parent_releases_parport:
  assumes "lp_build w = Linux_ppdev" "global_cwdevice s = Some Dev_Lp"
    and "registered (trace s) = [Debug_Close, Cwdevice_Free, Cwdevices_Free]"
    and "ret_of w (trace s @ [Fork]) > 0" "\<forall>tr req. ret_of w (tr @ [Ioctl (dev_fd (devs s Dev_Lp)) req]) = 0"
  shows "\<exists>t u. main_detach w s = Halt (Exit EXIT_SUCCESS) t \<and> exit_process w EXIT_SUCCESS t = Halt (Exit EXIT_SUCCESS) u \<and>
    Ioctl (dev_fd (devs s Dev_Lp)) PPRELEASE \<in> set (new_calls s u)"
proof -
  let ?t = "s\<lparr>trace := trace s @ [Fork]\<rparr>"
  have t: "main_detach w s = Halt (Exit EXIT_SUCCESS) ?t"
    using assms(4) by (simp add: main_detach_def prog_simps Let_def)
  obtain f v where f: "cwdaemon_debug_close ?t = Run () (?t\<lparr>cwdaemon_debug_f := f, trace := trace ?t @ v\<rparr>)"
    using debug_close_returns by blast
  let ?q = "?t\<lparr>cwdaemon_debug_f := f, trace := trace ?t @ v\<rparr>"
  have "\<exists>b. dev_free w Dev_Lp ?q = Run () b \<and> Ioctl (dev_fd (devs s Dev_Lp)) PPRELEASE \<in> set (new_calls s b)"
    using assms(1,5)
    by (simp add: dev_free_def lp_free_def lp_reset_pins_state_def lp_cw_def lp_ptt_def lp_ssbway_def lp_switchband_def
        parport_control_def parport_write_data_def ioctl_or_exit_def prog_simps Let_def new_calls_def
        append_assoc [symmetric] del: append_assoc)
  then obtain b where b: "dev_free w Dev_Lp ?q = Run () b" "Ioctl (dev_fd (devs s Dev_Lp)) PPRELEASE \<in> set (new_calls s b)"
    by blast
  have "cwdaemon_cwdevice_free w ?q = Run () b"
    using b(1) assms(2) by (simp add: cwdaemon_cwdevice_free_def look_def)
  then have "sq [cwdaemon_debug_close, cwdaemon_cwdevice_free w, cwdaemon_cwdevices_free] ?t = cwdaemon_cwdevices_free b"
    using f by (simp add: bnd_Run bnd_ret_right)
  moreover have "registered (trace ?t) = [Debug_Close, Cwdevice_Free, Cwdevices_Free]"
    using assms(3) by (simp add: registered_def registered_step_def)
  moreover obtain u where "cwdaemon_cwdevices_free b = Run () u" "trace u = trace b"
    by (simp add: cwdaemon_cwdevices_free_def prog_simps)
  ultimately have "exit_process w EXIT_SUCCESS ?t = Halt (Exit EXIT_SUCCESS) u"
    by (simp add: exit_process_def del: sq.simps)
  with t b(2) \<open>trace u = trace b\<close> show ?thesis by (auto simp: new_calls_def)
qed

text \<open>A daemon for the first parallel port, in front of the fork; the environment of its parent.\<close>

definition forking_state :: daemon where
  "forking_state = daemon_init\<lparr>global_cwdevice := Some Dev_Lp, devs := (\<lambda>_. zero_device)(Dev_Lp :=
       \<lparr>dev_fd = 3, dev_desc = Some ''parport0'', opt_key = 0, opt_ptt = 0\<rparr>),
     trace := [Atexit Cwdevices_Free, Atexit Cwdevice_Free, Atexit Debug_Close]\<rparr>"

theorem parent_releases_parport_witness:
  "\<exists>t u. main_detach ((example_env [])\<lparr>ret_of := (\<lambda>tr. case last tr of Fork \<Rightarrow> 4711 | _ \<Rightarrow> 0)\<rparr>) forking_state =
      Halt (Exit EXIT_SUCCESS) t \<and>
    exit_process ((example_env [])\<lparr>ret_of := (\<lambda>tr. case last tr of Fork \<Rightarrow> 4711 | _ \<Rightarrow> 0)\<rparr>) EXIT_SUCCESS t =
      Halt (Exit EXIT_SUCCESS) u \<and>
    Ioctl 3 PPRELEASE \<in> set (new_calls forking_state u)"
  using parent_releases_parport [of "(example_env [])\<lparr>ret_of := (\<lambda>tr. case last tr of Fork \<Rightarrow> 4711 | _ \<Rightarrow> 0)\<rparr>"
      forking_state]
  by (simp add: forking_state_def registered_def registered_step_def example_env_def)

end
