(* ===== verification/Lines.thy ===== *)
theory Lines
  imports Walk Ending
begin

text \<open>
  Two invariants of the running daemon, by the walk of the theory \<open>Walk\<close> from the state that \<open>main\<close>
  leaves (the theory \<open>Boot\<close>): the functions for the exit stay registered, so that every exit cleans up
  behind the daemon; and a PTT line of a serial port that is up belongs to the current device, and is
  known to the daemon.
\<close>

section \<open>The functions for the exit\<close>

interpretation atexit_obs: observer registered_step "\<lambda>c. \<forall>h. c \<noteq> Atexit h"
proof
  show "registered_step x c = x" if "\<forall>h. c \<noteq> Atexit h" for x c
    using that by (cases c) (simp_all add: registered_step_def)
qed

abbreviation stays :: "handler list \<Rightarrow> 'a act \<Rightarrow> bool" where
  "stays hs \<equiv> upholds (\<lambda>s. registered (trace s) = hs) (\<lambda>s. registered (trace s) = hs)"

lemma registered_adds: "adds P s t \<Longrightarrow> (\<And>h. \<not> P (Atexit h)) \<Longrightarrow> registered (trace t) = registered (trace s)"
  unfolding registered_def by (rule atexit_obs.replay_adds, erule adds_mono) auto

lemma stays_adds: "within (adds P) m \<Longrightarrow> (\<And>h. \<not> P (Atexit h)) \<Longrightarrow> stays hs m"
  by (erule upholds_within) (simp_all add: registered_adds)

lemma stays_upd: "(\<And>s. trace (f s) = trace s) \<Longrightarrow> stays hs (upd f)"
  by (simp add: upholds_def hoare_def upd_def)

lemma stays_flag: "stays hs (set_flag f)"
  unfolding set_flag_def by (rule stays_upd) simp

lemma stays_halt: "stays hs (halt h)"
  by (simp add: upholds_def hoare_def halt_def)

lemma stays_with_device: "(\<And>d. stays hs (f d)) \<Longrightarrow> stays hs (with_device f)"
  unfolding with_device_def by (intro upholds_look upholds_option stays_halt)

lemma stays_device: "device_calls m \<Longrightarrow> stays hs m"
  by (erule stays_adds) simp

lemmas stays_rules = upholds_ret stays_halt upholds_bnd upholds_look upholds_guard upholds_if upholds_sq
  upholds_option upholds_prod stays_with_device stays_flag

lemma stays_ptt: "stays hs (with_device (cwdaemon_set_ptt_on w))" "stays hs (with_device (cwdaemon_set_ptt_off w))"
  unfolding cwdaemon_set_ptt_on_def cwdaemon_set_ptt_off_def
  by (intro stays_rules stays_device device_calls_methods(2) device_calls_sleep)+

lemma stays_network: "stays hs (cwdaemon_recvfrom w n)" "stays hs (cwdaemon_sendto w r)"
proof -
  show "stays hs (cwdaemon_recvfrom w n)"
    by (simp add: upholds_def hoare_def cwdaemon_recvfrom_def Let_def registered_snoc registered_step_def)
  have "stays hs (ask w (Sendto fd r a n))" for fd r a n
    by (simp add: upholds_def hoare_def ask_def Let_def registered_snoc registered_step_def)
  then show "stays hs (cwdaemon_sendto w r)"
    unfolding cwdaemon_sendto_def Let_def by (intro stays_rules)
qed

interpretation handlers: daemon_walk w "\<lambda>s. registered (trace s) = hs" "\<lambda>s. registered (trace s) = hs" for w hs
proof (unfold_locales, goal_cases)
  case (2 s t)
  then show ?case by (auto simp: aside_def dest: registered_adds [of plain_call])
next
  case (9)
  show ?case by (intro stays_rules stays_device device_calls_methods(3))
next
  case (10)
  show ?case by (intro stays_rules stays_ptt)
next
  case (11 d v)
  show ?case by (intro stays_device device_calls_methods(1))
next
  case (12 r)
  show ?case unfolding cwdaemon_prepare_reply_def by (intro stays_rules stays_upd) simp_all
next
  case (13 h)
  show ?case by (rule stays_upd) simp
next
  case (16 arg)
  show ?case by (intro stays_device device_calls_option_cwdevice)
next
  case (17 d f v)
  then show ?case by (auto simp: dev_ssbway_def intro!: stays_device device_calls_lp split: devid.splits)
next
  case (18 d b)
  show ?case unfolding cwdaemon_switch_band_def Let_def
    by (auto simp: dev_switchband_def intro!: stays_rules stays_device device_calls_lp split: option.split devid.splits)
next
  case (19 d g)
  then have g: "stays hs g"
    by (auto simp: dev_footswitch_def intro!: stays_device device_calls_lp split: devid.splits)
  show ?case by (intro upholds_bnd g stays_device [OF device_calls_methods(2)])
qed (simp | rule stays_flag stays_ptt stays_network)+

section \<open>The PTT line of the serial port\<close>

text \<open>Whether the line that the serial port uses for PTT is up at the descriptor \<open>fd\<close>.\<close>

definition ptt_up :: "int \<Rightarrow> daemon \<Rightarrow> bool" where
  "ptt_up fd s \<longleftrightarrow> tty_line fd (opt_ptt (devs s Dev_Ttys)) (trace s) = Some True"

text \<open>
  \<open>ptt_known\<close>: where the pins are apart, a PTT line that is up belongs to the descriptor of the current
  device, and the flag says so.
\<close>

definition ptt_known :: "daemon \<Rightarrow> bool" where
  "ptt_known s \<longleftrightarrow> (tty_wired Dev_Ttys s \<longrightarrow> (\<forall>fd. ptt_up fd s \<longrightarrow>
     global_cwdevice s = Some Dev_Ttys \<and> fd = dev_fd (devs s Dev_Ttys) \<and> bit (ptt_flag s) 0))"

lemma tty_level_up: "tty_level Dev_Ttys s = ptt_up (dev_fd (devs s Dev_Ttys)) s"
  by (simp add: tty_level_def ptt_up_def)

text \<open>Only one kind of call raises a line, and tame calls are not of it.\<close>

lemma line_up_raised:
  assumes "foldl (line_step fd p) l u = Some True" "l \<noteq> Some True"
  shows "\<exists>m. Ioctl fd (TIOCMBIS m) \<in> set u"
  using assms
proof (induction u arbitrary: l)
  case (Cons c u)
  then show ?case
  proof (cases "line_step fd p l c = Some True")
    case True
    with Cons.prems(2) show ?thesis
      by (auto simp: line_step_def split: call.splits ioctl_req.splits if_splits)
  next
    case False
    with Cons.IH [of "line_step fd p l c"] Cons.prems(1) show ?thesis by auto
  qed
qed simp

lemma tame_lowers: "\<forall>c \<in> set u. tame c \<Longrightarrow> foldl (line_step fd p) l u = Some True \<Longrightarrow> l = Some True"
  using line_up_raised [of fd p l u] by fastforce

lemma untouched_known: "untouched hs s \<Longrightarrow> ptt_known s"
  using line_up_raised [of _ _ None "trace s"]
  by (auto simp: untouched_def ptt_known_def ptt_up_def tty_line_def)

lemma ptt_up_tame:
  assumes "adds tame s t" "opt_ptt (devs t Dev_Ttys) = opt_ptt (devs s Dev_Ttys)" "ptt_up fd t"
  shows "ptt_up fd s"
proof -
  from assms(1) obtain u where u: "trace t = trace s @ u" "\<forall>c \<in> set u. tame c" by (auto simp: adds_def)
  with assms(2,3) show ?thesis
    by (auto simp: ptt_up_def tty_line_def dest: tame_lowers)
qed

text \<open>The frame "raises no line, and leaves the device alone and the flag that PTT is on".\<close>

definition lowering :: "daemon \<Rightarrow> daemon \<Rightarrow> bool" where
  "lowering s t \<longleftrightarrow> adds tame s t \<and> devs t = devs s \<and> global_cwdevice t = global_cwdevice s \<and>
     (bit (ptt_flag s) 0 \<longrightarrow> bit (ptt_flag t) 0)"

interpretation lwr: frame lowering
  by unfold_locales (auto simp: lowering_def intro: add.R_refl add.R_trans)

lemma lowering_known: "lowering s t \<Longrightarrow> ptt_known s \<Longrightarrow> ptt_known t"
  by (auto simp: lowering_def ptt_known_def tty_wired_def dest: ptt_up_tame)

abbreviation known :: "'a act \<Rightarrow> bool" where
  "known \<equiv> upholds ptt_known (\<lambda>_. True)"

lemma known_halt: "known (halt h)"
  by (simp add: upholds_def hoare_def halt_def)

lemma known_lowering: "within lowering m \<Longrightarrow> known m"
  by (erule upholds_within) (auto intro: lowering_known)

lemma lowering_flag: "(\<And>f. bit f 0 \<Longrightarrow> bit (g f) 0) \<Longrightarrow> within lowering (set_flag g)"
  unfolding set_flag_def by (rule withinI) (simp add: upd_def lowering_def adds_same)

lemma lowering_upd: "(\<And>s. lowering s (f s)) \<Longrightarrow> within lowering (upd f)"
  by (rule withinI) (simp add: upd_def)

lemma lowering_io:
  assumes "io_only m" "within (adds tame) m"
  shows "within lowering m"
proof (rule withinI)
  fix s
  show "case m s of Run x t \<Rightarrow> lowering s t | Halt h t \<Rightarrow> orderly h \<and> lowering s t"
    using withinD [OF assms(1), of s] withinD [OF assms(2), of s]
    by (auto simp: lowering_def extends_def split: outcome.splits)
qed

lemma lowering_ask: "tame c \<Longrightarrow> within lowering (ask w c)"
  by (intro lowering_io io_only_ask adds_ask)

text \<open>Where no line is up nothing needs to be known.\<close>

lemma known_down: "(\<And>fd. tty_wired Dev_Ttys s \<Longrightarrow> \<not> ptt_up fd s) \<Longrightarrow> ptt_known s"
  by (auto simp: ptt_known_def)

text \<open>The methods of a serial port: PTT moves its own line, and keying none.\<close>

lemma ttys_ptt_up:
  assumes "ttys_ptt w Dev_Ttys v s = Run () t" "tty_wired Dev_Ttys s"
  shows "ptt_up fd t \<longleftrightarrow> (if fd = dev_fd (devs s Dev_Ttys) then v \<noteq> 0 else ptt_up fd s)"
  using assms(2) unfolding ttys_ptt_Run [OF assms(1)]
  by (auto simp: ptt_up_def tty_wired_def tty_line_snoc line_step_def)

lemma ttys_cw_up:
  assumes "ttys_cw w Dev_Ttys v s = Run () t" "tty_wired Dev_Ttys s"
  shows "ptt_up fd t \<longleftrightarrow> ptt_up fd s"
  using assms(2) unfolding ttys_cw_Run [OF assms(1)]
  by (auto simp: ptt_up_def tty_wired_def tty_line_snoc line_step_def)

lemma tame_lp_methods:
  "within (adds tame) (lp_cw w d v)" "within (adds tame) (lp_ptt w d v)" "within (adds tame) (lp_ssbway w d v)"
  "within (adds tame) (lp_switchband w d p)" "within (adds tame) (lp_reset_pins_state w d)"
  "within (adds tame) (lp_footswitch w d)"
proof -
  show "within (adds tame) (lp_cw w d v)" "within (adds tame) (lp_ptt w d v)" "within (adds tame) (lp_ssbway w d v)"
    "within (adds tame) (lp_switchband w d p)" for d v p
    unfolding lp_cw_def lp_ptt_def lp_ssbway_def lp_switchband_def Let_def by (intro adds_rules tame_parport)+
  then show "within (adds tame) (lp_reset_pins_state w d)"
    unfolding lp_reset_pins_state_def by (intro adds_rules)
  have "within (adds tame) (parport_read_data w fd)" for fd
    unfolding parport_read_data_def ioctl_or_exit_def
    by (cases "lp_build w"; simp only: lp_build.case; intro adds_rules; simp)
  then show "within (adds tame) (lp_footswitch w d)"
    unfolding lp_footswitch_def by (intro adds_rules)
qed

lemmas lowering_lp = lowering_io [OF io_only_lp(1) tame_lp_methods(1)] lowering_io [OF io_only_lp(2) tame_lp_methods(2)]
  lowering_io [OF io_only_lp(3) tame_lp_methods(3)] lowering_io [OF io_only_lp(4) tame_lp_methods(4)]

lemma known_dev_cw: "known (dev_cw w d v)"
proof (cases d)
  case Dev_Ttys
  have "ptt_known t" if s: "ptt_known s" and t: "ttys_cw w Dev_Ttys v s = Run () t" for s t
    using s ttys_cw_up [OF t] within_Run [OF io_only_ttys(1) t]
    by (auto simp: ptt_known_def extends_def tty_wired_def)
  with Dev_Ttys show ?thesis
    by (simp add: upholds_preserves preservesI dev_cw_def)
next
  case Dev_Lp
  then show ?thesis by (simp add: dev_cw_def known_lowering lowering_lp)
qed (simp add: dev_cw_def null_cw_def upholds_ret)

text \<open>Switching PTT on raises at most the line of the current device, and sets the flag with it.\<close>

lemma dev_ptt_up:
  assumes "dev_ptt w d v s = Run () t" "ptt_up fd t" "tty_wired Dev_Ttys s"
  shows "ptt_up fd s \<or> d = Dev_Ttys \<and> fd = dev_fd (devs s Dev_Ttys)"
proof (cases d)
  case Dev_Ttys
  with assms show ?thesis using ttys_ptt_up [of w v s t fd] by (auto simp: dev_ptt_def split: if_splits)
next
  case Dev_Lp
  with assms(1) have "lp_ptt w d v s = Run () t" by (simp add: dev_ptt_def)
  from within_Run [OF tame_lp_methods(2) this] within_Run [OF io_only_lp(2) this] assms(2) show ?thesis
    by (auto simp: extends_def dest: ptt_up_tame)
next
  case Dev_Null
  with assms show ?thesis by (simp add: dev_ptt_def null_ptt_def ret_def)
qed

lemma tame_sleep: "within (adds tame) (millisleep_nonintr w ms)"
  by (rule adds_sleep) (simp add: tame_def)

lemma set_ptt_on_known:
  assumes s: "ptt_known s" "global_cwdevice s = Some d" and t: "cwdaemon_set_ptt_on w d s = Run () t"
  shows "ptt_known t"
proof (cases "g_current_ptt_delay_ms s \<noteq> 0 \<and> \<not> bit (ptt_flag s) 0")
  case False
  with s t show ?thesis by (auto simp: cwdaemon_set_ptt_on_def prog_simps ptt_flag_bits)
next
  case True
  with t obtain r q x where r: "dev_ptt w d ON s = Run () r"
    and q: "millisleep_nonintr w (g_current_ptt_delay_ms s) r = Run x q"
    and tq: "t = q\<lparr>ptt_flag := ptt_flag q OR PTT_ACTIVE_AUTO\<rparr>"
    by (auto simp: cwdaemon_set_ptt_on_def set_flag_def prog_simps ptt_flag_bits split: outcome.splits)
  have same: "devs t = devs s" "global_cwdevice t = Some d" "devs r = devs s" "devs q = devs r"
    using within_Run [OF io_only_dev(2) r] within_Run [OF io_only_millisleep q] tq s(2) by (auto simp: extends_def)
  have "d = Dev_Ttys \<and> fd = dev_fd (devs s Dev_Ttys)" if "tty_wired Dev_Ttys s" "ptt_up fd t" for fd
  proof -
    have "ptt_up fd q" using that(2) tq by (simp add: ptt_up_def)
    then have "ptt_up fd r" using ptt_up_tame [OF within_Run [OF tame_sleep q]] same by simp
    from dev_ptt_up [OF r this that(1)] show ?thesis using s that(1) by (auto simp: ptt_known_def)
  qed
  then show ?thesis using same tq
    by (auto simp: ptt_known_def tty_wired_def ptt_flag_bit_upd)
qed

text \<open>Switching PTT off, and resetting the pins, leave no line up.\<close>

lemma dev_off_down:
  assumes s: "ptt_known s" "global_cwdevice s = Some d" "tty_wired Dev_Ttys s"
    and t: "dev_ptt w d OFF s = Run () t \<or> dev_reset_pins_state w d s = Run () t"
  shows "\<not> ptt_up fd t"
proof (cases "d = Dev_Ttys")
  case True
  obtain r where r: "ttys_ptt w Dev_Ttys OFF r = Run () t" "tty_wired Dev_Ttys r" "devs r = devs s"
    "\<And>fd. ptt_up fd r = ptt_up fd s"
  proof (cases "dev_ptt w d OFF s = Run () t")
    case dev: True
    with that [of s] True s(3) show thesis by (simp add: dev_ptt_def)
  next
    case False
    with t True obtain r where r: "ttys_cw w Dev_Ttys OFF s = Run () r" "ttys_ptt w Dev_Ttys OFF r = Run () t"
      by (auto simp: dev_reset_pins_state_def ttys_reset_pins_state_def prog_simps split: outcome.splits)
    with that [of r] ttys_cw_up [OF r(1) s(3)] within_Run [OF io_only_ttys(1) r(1)] s(3) show thesis
      by (auto simp: extends_def tty_wired_def)
  qed
  with ttys_ptt_up [OF r(1,2), of fd] s show ?thesis by (auto simp: ptt_known_def OFF_def)
next
  case False
  have "\<not> ptt_up fd s" using s False by (auto simp: ptt_known_def)
  moreover have "within (adds tame) (dev_ptt w d OFF)" "within (adds tame) (dev_reset_pins_state w d)"
    using False by (cases d; simp add: dev_ptt_def dev_reset_pins_state_def tame_lp_methods null_ptt_def
        null_reset_pins_state_def add.within_ret)+
  then have "adds tame s t" using t by (auto dest: within_Run)
  moreover have "devs t = devs s"
    using t within_Run [OF io_only_dev(2)] within_Run [OF io_only_dev(3)] by (fastforce simp: extends_def)
  ultimately show ?thesis by (auto dest: ptt_up_tame)
qed

lemma known_after_off:
  assumes s: "ptt_known s" "global_cwdevice s = Some d"
    and r: "dev_ptt w d OFF s = Run () r \<or> dev_reset_pins_state w d s = Run () r"
  shows "ptt_known (r\<lparr>ptt_flag := 0\<rparr>)"
proof (rule known_down)
  fix fd assume "tty_wired Dev_Ttys (r\<lparr>ptt_flag := 0\<rparr>)"
  moreover have "extends s r" using r by (auto dest: within_Run [OF io_only_dev(2)] within_Run [OF io_only_dev(3)])
  ultimately have "tty_wired Dev_Ttys s" by (auto simp: extends_def tty_wired_def)
  from dev_off_down [OF s this r] show "\<not> ptt_up fd (r\<lparr>ptt_flag := 0\<rparr>)" by (simp add: ptt_up_def)
qed

lemma set_ptt_off_known: "known (with_device (cwdaemon_set_ptt_off w))"
proof (intro upholds_preserves preservesI)
  fix s x t assume s: "ptt_known s" and t: "with_device (cwdaemon_set_ptt_off w) s = Run x t"
  then obtain d r where d: "global_cwdevice s = Some d" and r: "dev_ptt w d OFF s = Run () r"
    and tr: "t = r\<lparr>ptt_flag := 0\<rparr>"
    by (auto simp: with_device_def cwdaemon_set_ptt_off_def set_flag_def prog_simps split: option.splits outcome.splits)
  from known_after_off [OF s d] r tr show "ptt_known t" by blast
qed

lemma set_ptt_on_with: "known (with_device (cwdaemon_set_ptt_on w))"
proof (intro upholds_preserves preservesI)
  fix s x t assume "ptt_known s" "with_device (cwdaemon_set_ptt_on w) s = Run x t"
  then show "ptt_known t"
    by (auto simp: with_device_def look_def halt_def intro: set_ptt_on_known split: option.splits)
qed

lemma reset_known: "known (sq [with_device (dev_reset_pins_state w), set_flag (\<lambda>_. 0)])"
proof (intro upholds_preserves preservesI)
  fix s x t assume s: "ptt_known s"
    and t: "sq [with_device (dev_reset_pins_state w), set_flag (\<lambda>_. 0)] s = Run x t"
  then obtain d r where d: "global_cwdevice s = Some d" and r: "dev_reset_pins_state w d s = Run () r"
    and tr: "t = r\<lparr>ptt_flag := 0\<rparr>"
    by (auto simp: with_device_def set_flag_def prog_simps split: option.splits outcome.splits)
  from known_after_off [OF s d] r tr show "ptt_known t" by blast
qed

lemma abort_tail_known:
  "known (sq [look (\<lambda>s. guard (ptt_flag s \<noteq> 0) (with_device (cwdaemon_set_ptt_off w))), set_flag (\<lambda>f. f AND 0)])"
proof (intro upholds_preserves preservesI)
  fix s x t assume s: "ptt_known s"
    and t: "sq [look (\<lambda>s. guard (ptt_flag s \<noteq> 0) (with_device (cwdaemon_set_ptt_off w))), set_flag (\<lambda>f. f AND 0)] s = Run x t"
  show "ptt_known t"
  proof (cases "ptt_flag s = 0")
    case True
    with s t show ?thesis
      by (auto simp: set_flag_def prog_simps ptt_known_def tty_wired_def ptt_up_def)
  next
    case False
    with t obtain r where r: "with_device (cwdaemon_set_ptt_off w) s = Run () r" and tr: "t = r\<lparr>ptt_flag := 0\<rparr>"
      by (auto simp: set_flag_def prog_simps split: outcome.splits)
    from r have "ptt_flag r = 0"
      by (auto simp: with_device_def cwdaemon_set_ptt_off_def set_flag_def prog_simps split: option.splits outcome.splits)
    then have "t = r" using tr by simp
    with upholds_Run [OF set_ptt_off_known s r] show ?thesis by simp
  qed
qed

section \<open>Changing the device\<close>

text \<open>The frame "raises no line and keeps the pins".\<close>

definition pinned :: "daemon \<Rightarrow> daemon \<Rightarrow> bool" where
  "pinned s t \<longleftrightarrow> adds tame s t \<and>
     (\<forall>e. opt_key (devs t e) = opt_key (devs s e) \<and> opt_ptt (devs t e) = opt_ptt (devs s e))"

interpretation pnd: frame pinned
  by unfold_locales (auto simp: pinned_def intro: add.R_refl add.R_trans)

definition all_down :: "daemon \<Rightarrow> bool" where
  "all_down s \<longleftrightarrow> (tty_wired Dev_Ttys s \<longrightarrow> (\<forall>fd. \<not> ptt_up fd s))"

lemma pinned_down: "pinned s t \<Longrightarrow> all_down s \<Longrightarrow> all_down t"
  by (auto simp: pinned_def all_down_def tty_wired_def dest: ptt_up_tame)

lemma down_known: "all_down s \<Longrightarrow> ptt_known s"
  by (simp add: all_down_def ptt_known_def)

lemma pinned_fd:
  assumes "within (fd_frame d) m" "within (adds tame) m"
  shows "within pinned m"
proof (rule withinI)
  fix s
  show "case m s of Run x t \<Rightarrow> pinned s t | Halt h t \<Rightarrow> orderly h \<and> pinned s t"
    using withinD [OF assms(1), of s] withinD [OF assms(2), of s]
    by (auto simp: pinned_def fd_frame_def split: outcome.splits)
qed

lemma pinned_set_dev: "(\<And>x. opt_key (f x) = opt_key x \<and> opt_ptt (f x) = opt_ptt x) \<Longrightarrow> within pinned (set_dev d f)"
  by (rule withinI) (simp add: set_dev_def upd_def pinned_def adds_same)

lemma pinned_strdup: "within pinned (strdup w str)"
  unfolding strdup_def by (rule withinI) (simp add: prog_simps Let_def pinned_def adds_def tame_def)

lemmas pinned_methods = pinned_fd [OF fd_frame_init tame_open_close(1)] pinned_fd [OF fd_frame_free tame_open_close(2)]

text \<open>Releasing the current device leaves no line up.\<close>

lemma release_down:
  assumes s: "ptt_known s" and t: "release_device w (global_cwdevice s) (s\<lparr>global_cwdevice := g\<rparr>) = Run () t"
  shows "all_down t"
proof (cases "global_cwdevice s = Some Dev_Ttys")
  case False
  with s have down: "all_down (s\<lparr>global_cwdevice := g\<rparr>)"
    by (auto simp: all_down_def ptt_known_def tty_wired_def ptt_up_def)
  have release: "within pinned (release_device w (global_cwdevice s))"
    unfolding release_device_def
    by (intro pnd.within_option pnd.within_ret pnd.within_sq_Cons pnd.within_sq_Nil pinned_methods pinned_set_dev) simp
  show ?thesis by (rule pinned_down [OF within_Run [OF release t] down])
next
  case True
  let ?s = "s\<lparr>global_cwdevice := Some Dev_Ttys\<rparr>" and ?g = "s\<lparr>global_cwdevice := g\<rparr>"
  from t True obtain r q where r: "ttys_reset_pins_state w Dev_Ttys ?g = Run () r"
    and q: "trace t = trace r @ [Close (dev_fd (devs r Dev_Ttys))]"
    "opt_ptt (devs t Dev_Ttys) = opt_ptt (devs r Dev_Ttys)" "opt_key (devs t Dev_Ttys) = opt_key (devs r Dev_Ttys)"
    by (auto simp: release_device_def dev_free_def ttys_close_def prog_simps split: outcome.splits)
  from r obtain m where m: "ttys_cw w Dev_Ttys OFF ?g = Run () m" "ttys_ptt w Dev_Ttys OFF m = Run () r"
    by (auto simp: ttys_reset_pins_state_def prog_simps split: outcome.splits)
  have same: "devs m = devs s" "devs r = devs s"
    using within_Run [OF io_only_ttys(1) m(1)] within_Run [OF io_only_ttys(2) m(2)] by (auto simp: extends_def)
  have "\<not> ptt_up fd r" if w: "tty_wired Dev_Ttys s" for fd
  proof -
    have "ptt_up fd m = ptt_up fd ?g" using ttys_cw_up [OF m(1)] w by (simp add: tty_wired_def)
    moreover have "ptt_up fd r \<longleftrightarrow> fd \<noteq> dev_fd (devs s Dev_Ttys) \<and> ptt_up fd m"
      using ttys_ptt_up [OF m(2), of fd] w same by (auto simp: tty_wired_def OFF_def)
    ultimately show ?thesis using s w by (auto simp: ptt_known_def ptt_up_def)
  qed
  moreover have "ptt_up fd t \<Longrightarrow> ptt_up fd r" for fd
    by (rule ptt_up_tame [of r t]) (simp_all add: q adds_def tame_def)
  moreover have "tty_wired Dev_Ttys t = tty_wired Dev_Ttys s" by (simp add: tty_wired_def q same)
  ultimately show ?thesis by (auto simp: all_down_def)
qed

text \<open>A selection that succeeds leaves no line up.\<close>

lemma cwdevice_set_down:
  assumes s: "ptt_known s" and run: "cwdaemon_cwdevice_set w desc s = Run x t"
  shows "all_down t \<or> \<not> x \<and> ptt_known t"
proof -
  from run obtain found r where probe: "probe_all w desc s = Run found r"
    by (auto simp: cwdaemon_cwdevice_set_def look_def Let_def bnd_def split: outcome.splits)
  have lower: "lowering s r"
    using within_Run [OF lowering_io [OF io_only_probe_all tame_probe] probe] .
  have r: "ptt_known r" by (rule lowering_known [OF lower s])
  have g: "global_cwdevice r = global_cwdevice s" using lower by (simp add: lowering_def)
  show ?thesis
  proof (cases found)
    case None
    with run probe have "t = r \<and> \<not> x"
      by (simp add: cwdaemon_cwdevice_set_def look_def Let_def bnd_def [of "probe_all w desc"] ret_def)
    with r show ?thesis by simp
  next
    case (Some p)
    obtain d fd where p: "p = (d, fd)" by fastforce
    let ?rest = "bnd (sq [set_dev d (\<lambda>v. v\<lparr>dev_desc := None\<rparr>)]) (\<lambda>_.
           bnd (strdup w desc) (\<lambda>copy.
           bnd (set_dev d (\<lambda>v. v\<lparr>dev_desc := copy\<rparr>)) (\<lambda>_.
             if copy = None then ret False
             else bnd (dev_init w d fd) (\<lambda>_. ret True))))"
    have "cwdaemon_cwdevice_set w desc s =
        bnd (release_device w (global_cwdevice s)) (\<lambda>_. ?rest) (r\<lparr>global_cwdevice := Some d\<rparr>)"
      using probe Some p
      by (simp add: cwdaemon_cwdevice_set_def look_def Let_def bnd_def [of "probe_all w desc"] bnd_assoc)
        (simp add: bnd_def [of "upd (\<lambda>s. s\<lparr>global_cwdevice := Some d\<rparr>)"] upd_def)
    with run g have "bnd (release_device w (global_cwdevice r)) (\<lambda>_. ?rest) (r\<lparr>global_cwdevice := Some d\<rparr>) = Run x t"
      by simp
    then obtain q where q: "release_device w (global_cwdevice r) (r\<lparr>global_cwdevice := Some d\<rparr>) = Run () q"
      and t: "?rest q = Run x t" by (rule bnd_RunE) simp
    have "within pinned ?rest"
      by (intro pnd.within_bnd pnd.within_sq_Cons pnd.within_sq_Nil pnd.within_if pnd.within_ret pinned_set_dev
          pinned_strdup pinned_methods) simp_all
    from pinned_down [OF within_Run [OF this t] release_down [OF r q]] show ?thesis ..
  qed
qed

lemma cwdevice_set_known: "known (cwdaemon_cwdevice_set w desc)"
  by (intro upholds_preserves preservesI) (blast dest: cwdevice_set_down intro: down_known)

lemma option_cwdevice_known: "known (cwdaemon_option_cwdevice w arg)"
  unfolding cwdaemon_option_cwdevice_def
  by (intro upholds_option upholds_ret upholds_if upholds_bnd cwdevice_set_known)

section \<open>The walk\<close>

lemma known_network: "known (cwdaemon_recvfrom w n)" "known (cwdaemon_sendto w r)"
proof -
  show "known (cwdaemon_recvfrom w n)"
  proof (intro upholds_preserves preservesI)
    fix s x t assume s: "ptt_known s" and t: "cwdaemon_recvfrom w n s = Run x t"
    then have "lowering s t"
      by (auto simp: cwdaemon_recvfrom_def Let_def lowering_def adds_def tame_def split: if_splits)
    then show "ptt_known t" using s by (rule lowering_known)
  qed
  show "known (cwdaemon_sendto w r)"
    unfolding cwdaemon_sendto_def Let_def
    by (intro upholds_if upholds_look known_halt known_lowering [OF lowering_ask]) (simp add: tame_def)
qed

interpretation ptt: daemon_walk w ptt_known "\<lambda>_. True" for w
proof (unfold_locales, goal_cases)
  case (2 s t)
  have "plain_call c \<Longrightarrow> tame c" for c by (cases c) (simp_all add: tame_def)
  with 2 have "lowering s t" by (auto simp: aside_def lowering_def intro: adds_mono)
  then show ?case using 2(2) by (rule lowering_known)
next
  case (12 r)
  show ?case
    unfolding cwdaemon_prepare_reply_def
    by (intro upholds_sq upholds_if known_halt known_lowering [OF lowering_flag] known_lowering [OF lowering_upd])
      (simp_all add: ptt_flag_bit_upd lowering_def adds_same)
next
  case (13 h)
  show ?case by (intro known_lowering lowering_upd) (simp add: lowering_def adds_same)
next
  case (17 d f v)
  then show ?case by (auto simp: dev_ssbway_def intro!: known_lowering lowering_lp split: devid.splits)
next
  case (18 d b)
  show ?case unfolding cwdaemon_switch_band_def Let_def
    by (auto simp: dev_switchband_def intro!: upholds_ret known_lowering lowering_lp split: option.split devid.splits)
next
  case (19 d g)
  then have "d = Dev_Lp" "g = lp_footswitch w Dev_Lp" by (auto simp: dev_footswitch_def split: devid.splits)
  moreover have "known (bnd (lp_footswitch w Dev_Lp) (\<lambda>state. lp_ptt w Dev_Lp (if state = 0 then 1 else 0)))"
    by (intro upholds_bnd known_lowering [OF lowering_lp(2)]
        known_lowering [OF lowering_io [OF io_only_optional(3) [where d = Dev_Lp and w = w] tame_lp_methods(6)]]) (simp add: dev_footswitch_def)
  ultimately show ?case by (simp add: dev_ptt_def)
qed (rule TrueI set_ptt_on_with set_ptt_off_known reset_known abort_tail_known known_dev_cw known_network
    option_cwdevice_known | (rule known_lowering, rule lowering_flag, simp add: ptt_flag_bit_upd))+

section \<open>Properties\<close>

text \<open>
  C3: from the start of the process with any command line through any requests, callbacks and changes of
  the device: where keying and PTT have separate lines, a serial port whose PTT line is up is the current
  device, and the flag says that PTT is on. So no port that was given up keeps its transmitter on the
  air, and the daemon knows of the line that it has to lower.
\<close>

theorem ptt_line_known:
  assumes "main w opts operands daemon_init = Run () s" "reaches (daemon_step w) s t"
    and "tty_wired Dev_Ttys t" "ptt_up fd t"
  shows "global_cwdevice t = Some Dev_Ttys \<and> fd = dev_fd (devs t Dev_Ttys) \<and> bit (ptt_flag t) 0"
  using ptt.walk_reaches [OF assms(2) untouched_known [OF main_untouched [OF assms(1)]]] assms(3,4)
  by (simp add: ptt_known_def)


text \<open>
  The command line \<open>-n -d ttyS0 -t 10\<close>; then the request to switch PTT on, or the one to exit.
\<close>

definition serial_options :: "getopt list" where
  "serial_options = [Letter CHR ''n'' None, Letter CHR ''d'' (Some ''ttyS0''), Letter CHR ''t'' (Some ''10'')]"

lemma serial_numbers: "cwdaemon_get_long (Some ''10'') = Some 10" "cwdaemon_get_long (Some ''1'') = Some 1"
  by code_simp+

lemma serial_main:
  "\<exists>s. main (serial_env msg) serial_options [] daemon_init = Run () s \<and> global_cwdevice s = Some Dev_Ttys \<and>
    dev_fd (devs s Dev_Ttys) = 3 \<and> opt_key (devs s Dev_Ttys) = TIOCM_DTR \<and> opt_ptt (devs s Dev_Ttys) = TIOCM_RTS \<and>
    ptt_flag s = 0 \<and> g_current_ptt_delay_ms s = 10 \<and> inactivity_seconds s = 9999 \<and>
    cwdaemon_debug_f s = Some Stdout \<and> gap_of (trace s) = Some 0"
  by (simp add: command_line_evaluation serial_options_def option_pttdelay_def parse_into_def
      cwdaemon_params_pttdelay_def serial_numbers CWDAEMON_PTT_DELAY_MIN_def CWDAEMON_PTT_DELAY_MAX_def
      gap_of_def gap_step_def)

lemma serial_sleep: "\<exists>a b. millisleep_nonintr (serial_env msg) n s = Run 0 (s\<lparr>trace := trace s @ [Nanosleep a b]\<rparr>)"
  by (simp add: millisleep_nonintr_def microsleep_nonintr_def nanosleep_nonintr_def nanosleep_loop.simps Let_def
      serial_env_sel answer_def) (intro exI, rule refl)

lemma serial_ptt_on:
  assumes "dev_fd (devs s Dev_Ttys) = 3" "opt_ptt (devs s Dev_Ttys) = TIOCM_RTS"
    and "ptt_flag s = 0" "g_current_ptt_delay_ms s = 10"
  shows "\<exists>a b. cwdaemon_set_ptt_on (serial_env msg) Dev_Ttys s =
    Run () (s\<lparr>trace := trace s @ [Ioctl 3 (TIOCMBIS TIOCM_RTS), Nanosleep a b], ptt_flag := PTT_ACTIVE_AUTO\<rparr>)"
proof -
  let ?r = "s\<lparr>trace := trace s @ [Ioctl 3 (TIOCMBIS TIOCM_RTS)]\<rparr>"
  obtain a b where "millisleep_nonintr (serial_env msg) 10 ?r = Run 0 (?r\<lparr>trace := trace ?r @ [Nanosleep a b]\<rparr>)"
    using serial_sleep by blast
  then have "cwdaemon_set_ptt_on (serial_env msg) Dev_Ttys s =
    Run () (s\<lparr>trace := trace s @ [Ioctl 3 (TIOCMBIS TIOCM_RTS), Nanosleep a b], ptt_flag := PTT_ACTIVE_AUTO\<rparr>)"
    using assms by (simp add: cwdaemon_set_ptt_on_def dev_ptt_def ttys_ptt_def set_flag_def prog_simps Let_def
        serial_env_sel answer_def ON_def)
  then show ?thesis by blast
qed

text \<open>The request to switch PTT on, in the daemon that has just started: the line of PTT goes up.\<close>

lemma serial_ptt_request:
  "\<exists>s t. main (serial_env (ASCII_ESC # ''a1'')) serial_options [] daemon_init = Run () s \<and>
    daemon_step (serial_env (ASCII_ESC # ''a1'')) Main_Loop s = Run () t \<and> ptt_up 3 t \<and> tty_wired Dev_Ttys t \<and>
    global_cwdevice t = Some Dev_Ttys \<and> dev_fd (devs t Dev_Ttys) = 3 \<and> bit (ptt_flag t) 0 \<and>
    opt_key (devs t Dev_Ttys) = TIOCM_DTR \<and> opt_ptt (devs t Dev_Ttys) = TIOCM_RTS"
proof -
  let ?w = "serial_env (ASCII_ESC # ''a1'')"
  obtain s where s: "main ?w serial_options [] daemon_init = Run () s" "global_cwdevice s = Some Dev_Ttys"
    "dev_fd (devs s Dev_Ttys) = 3" "opt_key (devs s Dev_Ttys) = TIOCM_DTR" "opt_ptt (devs s Dev_Ttys) = TIOCM_RTS"
    "ptt_flag s = 0" "g_current_ptt_delay_ms s = 10" "inactivity_seconds s = 9999"
    using serial_main by blast
  let ?s = "s\<lparr>trace := trace s @ [Select (socket_descriptor s) 86400, Recvfrom (socket_descriptor s) 256],
    request_addr := (1, 5000), request_addrlen := 16\<rparr>"
  have "\<exists>a b. cwdaemon_set_ptt_on ?w Dev_Ttys ?s =
      Run () (?s\<lparr>trace := trace ?s @ [Ioctl 3 (TIOCMBIS TIOCM_RTS), Nanosleep a b], ptt_flag := PTT_ACTIVE_AUTO\<rparr>)"
    by (rule serial_ptt_on) (simp_all add: s)
  then obtain a b where on: "cwdaemon_set_ptt_on ?w Dev_Ttys ?s =
      Run () (?s\<lparr>trace := trace ?s @ [Ioctl 3 (TIOCMBIS TIOCM_RTS), Nanosleep a b], ptt_flag := PTT_ACTIVE_AUTO\<rparr>)"
    by blast
  have "\<exists>t. daemon_step ?w Main_Loop s = Run () t \<and> ptt_up 3 t \<and> tty_wired Dev_Ttys t \<and>
    global_cwdevice t = Some Dev_Ttys \<and> dev_fd (devs t Dev_Ttys) = 3 \<and> bit (ptt_flag t) 0 \<and>
    opt_key (devs t Dev_Ttys) = TIOCM_DTR \<and> opt_ptt (devs t Dev_Ttys) = TIOCM_RTS"
    using on s
    by (simp add: main_iteration_def cwdaemon_receive_def cwdaemon_recvfrom_def act_on_request_def
        cwdaemon_handle_escaped_request_def escape_code_def payload_def cwdaemon_params_ptt_on_off_def
        CWDAEMON_ESC_REQUEST_EXIT_def CWDAEMON_ESC_REQUEST_CWDEVICE_def CWDAEMON_REQUEST_SIZE_MAX_def
        serial_env_sel answer_def prog_simps with_device_def is_crlf_def ASCII_ESC_def cstr_def serial_numbers Let_def
        set_flag_def dev_footswitch_def ptt_up_def tty_line_def line_step_def tty_wired_def ptt_flag_bit_upd PTT_ACTIVE_AUTO_def)
  with s(1) show ?thesis by blast
qed

theorem ptt_line_known_witness:
  "\<exists>s t. main (serial_env (ASCII_ESC # ''a1'')) serial_options [] daemon_init = Run () s \<and>
    daemon_step (serial_env (ASCII_ESC # ''a1'')) Main_Loop s = Run () t \<and> ptt_up 3 t \<and>
    global_cwdevice t = Some Dev_Ttys \<and> dev_fd (devs t Dev_Ttys) = 3 \<and> bit (ptt_flag t) 0"
proof -
  obtain s t where s: "main (serial_env (ASCII_ESC # ''a1'')) serial_options [] daemon_init = Run () s"
    and t: "daemon_step (serial_env (ASCII_ESC # ''a1'')) Main_Loop s = Run () t" "ptt_up 3 t" "tty_wired Dev_Ttys t"
    using serial_ptt_request by blast
  have "reaches (daemon_step (serial_env (ASCII_ESC # ''a1''))) s t" using t(1) by (rule reaches.step [OF reaches.here])
  from ptt_line_known [OF s this t(3,2)] s t show ?thesis by auto
qed


end
