(* ===== verification/Transmit.thy ===== *)
theory Transmit
  imports Lines
begin

text \<open>
  The end of a transmission: which callbacks deliver a reply that is owed and switch PTT off; the manual
  PTT request; and two interleavings that go wrong: a callback in the middle of the preparation of a
  reply, and a change of the device while PTT is on.
\<close>

section \<open>The end of a transmission\<close>

text \<open>The device answers, and libcw has played all but the last tone of its queue.\<close>

definition device_answers :: "env \<Rightarrow> bool" where
  "device_answers w \<longleftrightarrow> (\<forall>tr fd r. ret_of w (tr @ [Ioctl fd r]) = 0)"

definition tones_played :: "env \<Rightarrow> bool" where
  "tones_played w \<longleftrightarrow> (\<forall>tr. ret_of w (tr @ [Cw_get_tone_queue_length]) \<le> tq_low_watermark)"

lemma device_answersD:
  assumes "device_answers w"
  shows "ret_of w (tr @ [Ioctl fd r]) = 0" "ret_of w (tr @ [c, Ioctl fd r]) = 0"
  using assms [unfolded device_answers_def, rule_format, of tr] assms [unfolded device_answers_def, rule_format, of "tr @ [c]"]
  by simp_all

lemma tones_playedD:
  assumes "tones_played w"
  shows "ret_of w (tr @ [Cw_get_tone_queue_length]) \<le> tq_low_watermark"
    "ret_of w (tr @ [c, Cw_get_tone_queue_length]) \<le> tq_low_watermark"
  using assms [unfolded tones_played_def, rule_format, of tr] assms [unfolded tones_played_def, rule_format, of "tr @ [c]"]
  by simp_all

lemma dev_ptt_returns:
  assumes "device_answers w"
  shows "\<exists>t. dev_ptt w d v s = Run () t"
proof (cases d)
  case Dev_Lp
  have "\<exists>t. parport_control w fd m x s = Run () t" for fd m x
    using device_answersD [OF assms] by (cases "lp_build w") (simp_all add: parport_control_def ioctl_or_exit_def prog_simps Let_def)
  with Dev_Lp show ?thesis by (simp add: dev_ptt_def lp_ptt_def look_def Let_def)
qed (use device_answersD [OF assms] in \<open>simp_all add: dev_ptt_def ttys_ptt_def null_ptt_def prog_simps Let_def\<close>)

text \<open>Switching PTT off lowers the line, clears all flags and sends nothing.\<close>

lemma set_ptt_off_ends:
  assumes "device_answers w"
  shows "\<exists>t. cwdaemon_set_ptt_off w d s = Run () t \<and> ptt_flag t = 0 \<and> replied (trace t) = replied (trace s) \<and>
    (dev_wired w d s \<longrightarrow> \<not> dev_level d t) \<and> (\<exists>u. trace t = trace s @ u \<and> (\<forall>c \<in> set u. device_call c))"
proof -
  obtain r where r: "dev_ptt w d OFF s = Run () r" using dev_ptt_returns [OF assms] by blast
  let ?t = "r\<lparr>ptt_flag := 0\<rparr>"
  have "cwdaemon_set_ptt_off w d s = Run () ?t"
    using r by (simp add: cwdaemon_set_ptt_off_def set_flag_def prog_simps)
  moreover note device = within_Run [OF device_calls_methods(2) r]
  from device have "\<exists>u. trace ?t = trace s @ u \<and> (\<forall>c \<in> set u. device_call c)" by (auto simp: adds_def)
  moreover have "replied (trace ?t) = replied (trace s)"
    using device_calls_unseen(4) [OF device] by simp
  moreover have "\<not> dev_level d ?t" if "dev_wired w d s"
  proof -
    have "dev_level d ?t = dev_level d r" by (rule dev_level_cong) simp_all
    then show ?thesis using dev.ptt_sets [OF r that] by (simp add: ON_def OFF_def)
  qed
  ultimately show ?thesis by (intro exI [of _ ?t]) simp
qed

text \<open>A question about the tone queue moves no line.\<close>

lemma level_tone_queue:
  assumes "trace t = trace s @ v" "set v \<subseteq> {Cw_get_tone_queue_length}" "devs t = devs s"
  shows "dev_level d t = dev_level d s"
proof -
  have "\<forall>c \<in> set v. off_line c" using assms(2) by auto
  from level_off_line [OF assms(1) this, of d s] assms(3) show ?thesis by (simp add: level_since_same)
qed

text \<open>With automatic PTT only, nothing queued and the tones played, the callback switches PTT off.\<close>

lemma low_callback_off:
  assumes "ptt_flag s = PTT_ACTIVE_AUTO" "request_queue s = []" "global_cwdevice s = Some d"
    and "tones_played w" "device_answers w"
  shows "\<exists>t. cwdaemon_tone_queue_low_callback w s = Run () t \<and> ptt_flag t = 0 \<and>
    replied (trace t) = replied (trace s) \<and> (dev_wired w d s \<longrightarrow> \<not> dev_level d t) \<and>
    (\<exists>u. trace t = trace s @ u \<and> Cw_queue_tone 1 0 \<notin> set u)"
proof -
  let ?s = "s\<lparr>trace := trace s @ [Cw_get_tone_queue_length, Cw_get_tone_queue_length]\<rparr>"
  from set_ptt_off_ends [OF assms(5), of d ?s] obtain r u where r: "cwdaemon_set_ptt_off w d ?s = Run () r" "ptt_flag r = 0"
    "replied (trace r) = replied (trace ?s)" "dev_wired w d ?s \<longrightarrow> \<not> dev_level d r"
    "trace r = trace ?s @ u" "\<forall>c \<in> set u. device_call c" by blast
  let ?t = "r\<lparr>trace := trace r @ [Cw_get_tone_queue_length]\<rparr>"
  have "cwdaemon_tone_queue_low_callback w s = Run () ?t"
    using assms(1-3) r(1) tones_playedD [OF assms(4)]
    by (simp add: cwdaemon_tone_queue_low_callback_def with_device_def prog_simps Let_def)
  moreover have "\<exists>u. trace ?t = trace s @ u \<and> Cw_queue_tone 1 0 \<notin> set u"
    using r(5,6) by (intro exI [of _ "[Cw_get_tone_queue_length, Cw_get_tone_queue_length] @ u @ [Cw_get_tone_queue_length]"]) auto
  moreover have "replied (trace ?t) = replied (trace s)"
    using r(3) by (simp add: replied_def replied_step_def)
  moreover have "dev_wired w d s \<longrightarrow> \<not> dev_level d ?t"
    using r(4) dev_wired_cong [of ?s s w d] level_tone_queue [of ?t r "[Cw_get_tone_queue_length]" d] by simp
  ultimately show ?thesis using r(2) by (intro exI [of _ ?t]) simp
qed

text \<open>With a reply owed, the callback sends it, and asks for another callback if only PTT is left.\<close>

lemma low_callback_reply:
  assumes "ptt_flags_only (ptt_flag s)" "bit (ptt_flag s) 2" "length (reply_buffer s) + 2 \<le> CWDAEMON_REPLY_SIZE_MAX"
  shows "cwdaemon_tone_queue_low_callback w s = Run () (s\<lparr>ptt_flag := ptt_flag s AND NOT PTT_ACTIVE_ECHO,
    reply_buffer := reply_buffer s @ CRLF, trace := trace s @ [Cw_get_tone_queue_length,
      Sendto (socket_descriptor s) (reply_buffer s @ CRLF) (reply_addr s) (reply_addrlen s)] @
      (if ptt_flag s AND NOT PTT_ACTIVE_ECHO = PTT_ACTIVE_AUTO then [Cw_queue_tone 1 0, Cw_queue_tone 1 0] else []) @
      [Cw_get_tone_queue_length]\<rparr>)"
proof -
  let ?s = "s\<lparr>trace := trace s @ [Cw_get_tone_queue_length]\<rparr>"
  have len: "length (reply_buffer ?s) + 2 \<le> CWDAEMON_REPLY_SIZE_MAX" using assms(3) by simp
  have "send_reply w ?s = Run () (s\<lparr>ptt_flag := ptt_flag s AND NOT PTT_ACTIVE_ECHO,
    reply_buffer := reply_buffer s @ CRLF, trace := trace s @ [Cw_get_tone_queue_length,
      Sendto (socket_descriptor s) (reply_buffer s @ CRLF) (reply_addr s) (reply_addrlen s)] @
      (if ptt_flag s AND NOT PTT_ACTIVE_ECHO = PTT_ACTIVE_AUTO then [Cw_queue_tone 1 0, Cw_queue_tone 1 0] else [])\<rparr>)"
    unfolding send_reply_eq [OF len] by (simp add: cwdaemon_sendto_def CRLF_def nth_append prog_simps Let_def)
  moreover have "ptt_flag s \<noteq> PTT_ACTIVE_AUTO" using assms(1,2) by (simp add: ptt_flag_eq_auto)
  ultimately show ?thesis
    using assms(2) by (simp add: cwdaemon_tone_queue_low_callback_def ptt_flag_bits prog_simps Let_def)
qed

lemma flags_without_echo:
  assumes "ptt_flags_only f" "bit f 0" "\<not> bit f 1"
  shows "f AND NOT PTT_ACTIVE_ECHO = PTT_ACTIVE_AUTO"
  using assms by (simp add: ptt_flag_eq_auto ptt_flag_bit_upd)

text \<open>The two callbacks one after the other.\<close>

lemma transmission_end:
  assumes t: "ok w True t" and flags: "bit (ptt_flag t) 0" "\<not> bit (ptt_flag t) 1"
    and w: "tones_played w" "device_answers w" and d: "global_cwdevice t = Some d"
  shows "\<exists>u. run_events (daemon_step w) (if bit (ptt_flag t) 2 then [Low_Queue, Low_Queue] else [Low_Queue]) t = Run () u \<and>
    ptt_flag u = 0 \<and> (dev_wired w d t \<longrightarrow> \<not> dev_level d u) \<and>
    replied (trace u) = replied (trace t) @ (if bit (ptt_flag t) 2 then [(reply_buffer t @ CRLF, reply_addr t)] else []) \<and>
    count_list (new_calls t u) (Cw_queue_tone 1 0) = (if bit (ptt_flag t) 2 then 2 else 0)"
proof (cases "bit (ptt_flag t) 2")
  case False
  with t flags have "ptt_flag t = PTT_ACTIVE_AUTO" by (simp add: ok_defs ptt_flag_eq_auto)
  from low_callback_off [OF this _ d w] t obtain u v where u: "cwdaemon_tone_queue_low_callback w t = Run () u"
    "ptt_flag u = 0" "replied (trace u) = replied (trace t)" "dev_wired w d t \<longrightarrow> \<not> dev_level d u"
    "trace u = trace t @ v" "Cw_queue_tone 1 0 \<notin> set v"
    by (auto simp: ok_def)
  with False show ?thesis
    by (intro exI [of _ u]) (simp add: bnd_ret_right new_calls_def count_list_0_iff)
next
  case True
  let ?r = "t\<lparr>ptt_flag := PTT_ACTIVE_AUTO,
    reply_buffer := reply_buffer t @ CRLF, trace := trace t @ [Cw_get_tone_queue_length,
      Sendto (socket_descriptor t) (reply_buffer t @ CRLF) (reply_addr t) (reply_addrlen t),
      Cw_queue_tone 1 0, Cw_queue_tone 1 0, Cw_get_tone_queue_length]\<rparr>"
  have r: "cwdaemon_tone_queue_low_callback w t = Run () ?r"
    using low_callback_reply [of t w] t True flags_without_echo [of "ptt_flag t"] flags by (simp add: ok_defs)
  have "ptt_flag ?r = PTT_ACTIVE_AUTO" "request_queue ?r = []" "global_cwdevice ?r = Some d"
    using t d by (simp_all add: ok_def)
  from low_callback_off [OF this w] obtain u v where u: "cwdaemon_tone_queue_low_callback w ?r = Run () u"
    "ptt_flag u = 0" "replied (trace u) = replied (trace ?r)" "dev_wired w d ?r \<longrightarrow> \<not> dev_level d u"
    "trace u = trace ?r @ v" "Cw_queue_tone 1 0 \<notin> set v"
    by auto
  have "run_events (daemon_step w) [Low_Queue, Low_Queue] t = bnd (cwdaemon_tone_queue_low_callback w) ret ?r"
    by (simp add: bnd_def r)
  with u(1) have "run_events (daemon_step w) [Low_Queue, Low_Queue] t = Run () u" by (simp add: bnd_ret_right)
  moreover have "dev_wired w d ?r = dev_wired w d t" by (rule dev_wired_cong) simp
  moreover have "replied (trace ?r) = replied (trace t) @ [(reply_buffer t @ CRLF, reply_addr t)]"
    by (simp add: replied_def replied_step_def)
  ultimately show ?thesis
    using True u by (intro exI [of _ u]) (simp add: new_calls_def count_list_0_iff del: run_events.simps)
qed

text \<open>
  C6: a transmission comes to an end: in whatever state the daemon is, when PTT was switched on
  automatically, libcw has played its tones and the device answers, at most two callbacks bring it to
  rest. If a reply is owed, the first one sends it to the client that waits and queues the two silent
  tones that make libcw call back again; the last one lowers the PTT line and clears all flags.
\<close>

theorem transmission_ends:
  assumes "libcw_limits w" "default_limits w" "recv_law w" "getopt_law opts"
    and "main w opts operands daemon_init = Run () s" "reaches (daemon_step w) s t"
    and "bit (ptt_flag t) 0" "\<not> bit (ptt_flag t) 1" "tones_played w" "device_answers w"
  shows "\<exists>u d. global_cwdevice t = Some d \<and>
    run_events (daemon_step w) (if bit (ptt_flag t) 2 then [Low_Queue, Low_Queue] else [Low_Queue]) t = Run () u \<and>
    ptt_flag u = 0 \<and> (dev_wired w d t \<longrightarrow> \<not> dev_level d u) \<and>
    replied (trace u) = replied (trace t) @ (if bit (ptt_flag t) 2 then [(reply_buffer t @ CRLF, reply_addr t)] else []) \<and>
    count_list (new_calls t u) (Cw_queue_tone 1 0) = (if bit (ptt_flag t) 2 then 2 else 0)"
proof -
  have "ok w True s" using hoare_Run [OF main_ok [OF assms(1,4)] unconfigured_init [OF assms(2)] assms(5)] .
  then have t: "ok w True t" using machine.reaches_keeps [OF assms(6)] assms(1,3) by blast
  then obtain d where d: "global_cwdevice t = Some d" using ok_device by blast
  from transmission_end [OF t assms(7-10) d] d show ?thesis by blast
qed


text \<open>
  The serial daemon of the theory \<open>Lines\<close>, with a text of one character that ends in a caret: PTT goes on
  and a reply is owed.
\<close>

theorem transmission_ends_witness:
  "\<exists>s t u. main (serial_env ''e^'') serial_options [] daemon_init = Run () s \<and>
    daemon_step (serial_env ''e^'') Main_Loop s = Run () t \<and> ptt_up 3 t \<and>
    run_events (daemon_step (serial_env ''e^'')) [Low_Queue, Low_Queue] t = Run () u \<and>
    ptt_flag u = 0 \<and> \<not> dev_level Dev_Ttys u \<and> replied (trace u) = replied (trace t) @ [(''e'' @ CRLF, (1, 5000))]"
proof -
  let ?w = "serial_env ''e^''"
  obtain s where s: "main ?w serial_options [] daemon_init = Run () s" "global_cwdevice s = Some Dev_Ttys"
    "dev_fd (devs s Dev_Ttys) = 3" "opt_key (devs s Dev_Ttys) = TIOCM_DTR" "opt_ptt (devs s Dev_Ttys) = TIOCM_RTS"
    "ptt_flag s = 0" "g_current_ptt_delay_ms s = 10" "inactivity_seconds s = 9999" "gap_of (trace s) = Some 0"
    using serial_main by blast
  have laws: "libcw_limits ?w" "default_limits ?w" "recv_law ?w" "getopt_law serial_options"
    by (simp_all add: libcw_limits_def default_limits_def recv_law_def serial_env_def example_env_def answer_def Let_def
        getopt_law_def serial_options_def cwdaemon_args_short_def CWDAEMON_REQUEST_SIZE_MAX_def)
  have played: "tones_played ?w" "device_answers ?w"
    by (simp_all add: tones_played_def device_answers_def serial_env_sel answer_def tq_low_watermark_def)
  have "ok ?w True s" using hoare_Run [OF main_ok [OF laws(1,4)] unconfigured_init [OF laws(2)] s(1)] .
  then have queue: "request_queue s = []" by (simp add: ok_def)
  let ?s = "s\<lparr>trace := trace s @ [Select (socket_descriptor s) 86400, Recvfrom (socket_descriptor s) 256],
    request_addr := (1, 5000), request_addrlen := 16, request_queue := ''e^''\<rparr>"
  have "\<exists>a b. cwdaemon_set_ptt_on ?w Dev_Ttys ?s =
      Run () (?s\<lparr>trace := trace ?s @ [Ioctl 3 (TIOCMBIS TIOCM_RTS), Nanosleep a b], ptt_flag := PTT_ACTIVE_AUTO\<rparr>)"
    by (rule serial_ptt_on) (simp_all add: s)
  then obtain a b where on: "cwdaemon_set_ptt_on ?w Dev_Ttys ?s =
      Run () (?s\<lparr>trace := trace ?s @ [Ioctl 3 (TIOCMBIS TIOCM_RTS), Nanosleep a b], ptt_flag := PTT_ACTIVE_AUTO\<rparr>)"
    by blast
  have "\<exists>t. daemon_step ?w Main_Loop s = Run () t \<and> ptt_up 3 t \<and> ptt_flag t = PTT_ACTIVE_AUTO OR PTT_ACTIVE_ECHO \<and>
      reply_buffer t = ''e'' \<and> reply_addr t = (1, 5000) \<and> global_cwdevice t = Some Dev_Ttys \<and> dev_wired ?w Dev_Ttys t"
    using on s queue
    by (simp add: main_iteration_def cwdaemon_receive_def cwdaemon_recvfrom_def act_on_request_def
        cwdaemon_play_request_def play_character_def cwdaemon_prepare_reply_def put_queue_def speed_mark_def
        CWDAEMON_REPLY_SIZE_MAX_def snprintf_def CWDAEMON_REQUEST_QUEUE_SIZE_MAX_def gap_of_def gap_step_def
        CWDAEMON_REQUEST_SIZE_MAX_def star_to_plus_def
        serial_env_sel answer_def prog_simps with_device_def is_crlf_def ASCII_ESC_def cstr_def Let_def
        set_flag_def dev_footswitch_def ptt_up_def tty_line_def line_step_def tty_wired_def dev_wired_def butlast_append)
  then obtain t where t: "daemon_step ?w Main_Loop s = Run () t" "ptt_up 3 t"
    "ptt_flag t = PTT_ACTIVE_AUTO OR PTT_ACTIVE_ECHO" "reply_buffer t = ''e''" "reply_addr t = (1, 5000)"
    "global_cwdevice t = Some Dev_Ttys" "dev_wired ?w Dev_Ttys t" by blast
  have "reaches (daemon_step ?w) s t" using t(1) by (rule reaches.step [OF reaches.here])
  moreover have "bit (ptt_flag t) 0" "\<not> bit (ptt_flag t) 1" "bit (ptt_flag t) 2"
    using t(3) by (simp_all add: PTT_ACTIVE_AUTO_def PTT_ACTIVE_ECHO_def bit_or_iff)
  ultimately show ?thesis
    using transmission_ends [OF laws s(1) _ _ _ played, of t] s(1) t by auto
qed

section \<open>The manual PTT request\<close>

text \<open>
  C15: the Escape request \<open>a\<close> without a PTT delay. A number other than 0 only remembers that PTT is manual:
  no line is raised, so that the transmitter is not keyed. The number 0 does nothing unless PTT is manual;
  while text or tones are left it hands PTT over to the automatic control, and otherwise it lowers the line
  and clears every flag. With them goes the flag that a reply is owed, and the reply is not sent.
\<close>

theorem manual_ptt_request:
  assumes "cwdaemon_get_long (Some (cstr txt)) = Some n" "n \<noteq> 0 \<longrightarrow> g_current_ptt_delay_ms s = 0"
    and "global_cwdevice s = Some d" "device_answers w"
  shows "\<exists>t. cwdaemon_handle_escaped_request w (ASCII_ESC # CHR ''a'' # txt) s = Run () t \<and>
    ptt_flag t = (if n \<noteq> 0 then ptt_flag s OR PTT_ACTIVE_MANUAL
      else if \<not> bit (ptt_flag s) 1 then ptt_flag s
      else if request_queue s = [] \<and> ret_of w (trace s @ [Cw_get_tone_queue_length]) \<le> 1 then 0
      else ptt_flag s AND NOT PTT_ACTIVE_MANUAL OR PTT_ACTIVE_AUTO) \<and>
    (dev_wired w d s \<longrightarrow> dev_level d t = (dev_level d s \<and> (ptt_flag t \<noteq> 0 \<or> ptt_flag s = 0))) \<and>
    replied (trace t) = replied (trace s)"
proof -
  let ?run = "cwdaemon_handle_escaped_request w (ASCII_ESC # CHR ''a'' # txt) s"
  have run: "?run = bnd (cwdaemon_params_ptt_on_off w (Some (cstr txt))) (\<lambda>_. ret ()) s"
    by (simp add: cwdaemon_handle_escaped_request_def escape_code_def payload_def Let_def
        CWDAEMON_ESC_REQUEST_EXIT_def CWDAEMON_ESC_REQUEST_CWDEVICE_def)
  have "logical_not PTT_ACTIVE_AUTO = 0" by (simp add: logical_not_def PTT_ACTIVE_AUTO_def)
  note eval = run cwdaemon_params_ptt_on_off_def assms(1) this set_flag_def with_device_def prog_simps Let_def
  have quiet: "dev_level d (s\<lparr>ptt_flag := f\<rparr>) = dev_level d s" for f
    by (rule dev_level_cong) simp_all
  have man: "ptt_flag s OR PTT_ACTIVE_MANUAL \<noteq> 0" using ptt_flag_bit_upd(2) [of "ptt_flag s" 1] by auto
  have aut: "ptt_flag s AND NOT PTT_ACTIVE_MANUAL OR PTT_ACTIVE_AUTO \<noteq> 0"
    using ptt_flag_bit_upd(1) [of "ptt_flag s AND NOT PTT_ACTIVE_MANUAL" 0] by auto
  consider "n \<noteq> 0" | "n = 0" "\<not> bit (ptt_flag s) 1"
    | "n = 0" "bit (ptt_flag s) 1" "request_queue s \<noteq> []"
    | "n = 0" "bit (ptt_flag s) 1" "request_queue s = []" "1 < ret_of w (trace s @ [Cw_get_tone_queue_length])"
    | "n = 0" "bit (ptt_flag s) 1" "request_queue s = []" "ret_of w (trace s @ [Cw_get_tone_queue_length]) \<le> 1"
    by linarith
  then show ?thesis
  proof cases
    case 1
    with assms(2) have "?run = Run () (s\<lparr>ptt_flag := ptt_flag s OR PTT_ACTIVE_MANUAL\<rparr>)" by (simp add: eval)
    with 1 man quiet show ?thesis by simp
  next
    case 2
    then have "?run = Run () s" by (simp add: eval ptt_flag_bits)
    with 2 show ?thesis by auto
  next
    case 3
    then have "?run = Run () (s\<lparr>ptt_flag := ptt_flag s AND NOT PTT_ACTIVE_MANUAL OR PTT_ACTIVE_AUTO\<rparr>)"
      by (simp add: eval ptt_flag_bits)
    with 3 aut quiet show ?thesis by simp
  next
    case 4
    let ?t = "s\<lparr>ptt_flag := ptt_flag s AND NOT PTT_ACTIVE_MANUAL OR PTT_ACTIVE_AUTO, trace := trace s @ [Cw_get_tone_queue_length]\<rparr>"
    have "?run = Run () ?t" using 4 by (simp add: eval ptt_flag_bits)
    moreover have "dev_level d ?t = dev_level d s"
      using level_tone_queue [of ?t s "[Cw_get_tone_queue_length]" d] by simp
    ultimately show ?thesis using 4 aut by (intro exI [of _ ?t]) (simp add: replied_def replied_step_def)
  next
    case 5
    let ?s = "s\<lparr>ptt_flag := ptt_flag s AND NOT PTT_ACTIVE_MANUAL, trace := trace s @ [Cw_get_tone_queue_length]\<rparr>"
    from set_ptt_off_ends [OF assms(4), of d ?s] obtain t where t: "cwdaemon_set_ptt_off w d ?s = Run () t" "ptt_flag t = 0"
      "replied (trace t) = replied (trace ?s)" "dev_wired w d ?s \<longrightarrow> \<not> dev_level d t" by blast
    have "?run = Run () t" using 5 t(1) assms(3) by (simp add: eval ptt_flag_bits)
    moreover have "dev_wired w d s \<longrightarrow> \<not> dev_level d t" using t(4) dev_wired_cong [of ?s s w d] by simp
    moreover have "ptt_flag s \<noteq> 0" using 5 by auto
    ultimately show ?thesis using 5 t(2,3) by (intro exI [of _ t]) (simp add: replied_def replied_step_def)
  qed
qed

text \<open>
  PTT is manual, the tones are played and a reply is owed: the request to switch PTT off clears the flags,
  and the reply stays where it is.
\<close>

theorem manual_ptt_request_witness:
  "\<exists>t. cwdaemon_handle_escaped_request (example_env []) (ASCII_ESC # CHR ''a'' # ''0'')
      (idle_state\<lparr>ptt_flag := PTT_ACTIVE_MANUAL OR PTT_ACTIVE_ECHO, reply_buffer := ''hok''\<rparr>) = Run () t \<and>
    ptt_flag t = 0 \<and> replied (trace t) = []"
proof -
  let ?s = "idle_state\<lparr>ptt_flag := PTT_ACTIVE_MANUAL OR PTT_ACTIVE_ECHO, reply_buffer := ''hok''\<rparr>"
  have "cwdaemon_get_long (Some (cstr ''0'')) = Some 0" by code_simp
  moreover have "global_cwdevice ?s = Some Dev_Null" "device_answers (example_env [])"
    "bit (ptt_flag ?s) 1" "request_queue ?s = []" "ret_of (example_env []) (trace ?s @ [Cw_get_tone_queue_length]) = 0"
    "replied (trace ?s) = []"
    by (simp_all add: idle_state_def daemon_init_def dev_wired_def device_answers_def example_env_def answer_def
        PTT_ACTIVE_MANUAL_def PTT_ACTIVE_ECHO_def replied_def replied_step_def)
  ultimately show ?thesis
    using manual_ptt_request [of "''0''" 0 ?s Dev_Null "example_env []"] by auto
qed

section \<open>A callback in the middle of the preparation of a reply\<close>

text \<open>
  libcw calls back from a thread of its own. \<open>interrupted k\<close> lets the callback run after \<open>k\<close> of the three
  statements of \<open>cwdaemon_prepare_reply\<close>: the flag, the address, the text.
\<close>

definition reply_statements :: "string \<Rightarrow> unit act list" where
  "reply_statements request = [
     set_flag (\<lambda>f. f OR PTT_ACTIVE_ECHO),
     upd (\<lambda>s. s\<lparr>reply_addr := request_addr s, reply_addrlen := request_addrlen s\<rparr>),
     if length request < CWDAEMON_REPLY_SIZE_MAX + 1
     then upd (\<lambda>s. s\<lparr>reply_buffer := request\<rparr>) else halt Undefined]"

definition interrupted :: "env \<Rightarrow> nat \<Rightarrow> string \<Rightarrow> unit act" where
  "interrupted w k request =
     sq (take k (reply_statements request) @ [cwdaemon_tone_queue_low_callback w] @ drop k (reply_statements request))"

lemma prepare_reply_statements: "cwdaemon_prepare_reply request = sq (reply_statements request)"
  by (simp add: cwdaemon_prepare_reply_def reply_statements_def)

text \<open>The callback does nothing when PTT is off and no reply is owed.\<close>

lemma low_callback_rest:
  "ptt_flag s = 0 \<Longrightarrow> cwdaemon_tone_queue_low_callback w s =
     Run () (s\<lparr>trace := trace s @ [Cw_get_tone_queue_length, Cw_get_tone_queue_length]\<rparr>)"
  by (simp add: cwdaemon_tone_queue_low_callback_def PTT_ACTIVE_AUTO_def prog_simps Let_def)

lemma low_callback_echo:
  assumes "ptt_flag s = PTT_ACTIVE_ECHO" "length (reply_buffer s) + 2 \<le> CWDAEMON_REPLY_SIZE_MAX"
  shows "cwdaemon_tone_queue_low_callback w s = Run () (s\<lparr>ptt_flag := 0, reply_buffer := reply_buffer s @ CRLF,
    trace := trace s @ [Cw_get_tone_queue_length,
      Sendto (socket_descriptor s) (reply_buffer s @ CRLF) (reply_addr s) (reply_addrlen s), Cw_get_tone_queue_length]\<rparr>)"
proof -
  have "ptt_flags_only (ptt_flag s)" "bit (ptt_flag s) 2"
    using ptt_flag_bit_upd(3) [of 0] assms(1) by (auto simp: ptt_flags_only_def)
  then show ?thesis using low_callback_reply [of s w] assms
    by (simp add: PTT_ACTIVE_ECHO_def PTT_ACTIVE_AUTO_def)
qed



section \<open>A change of the device while PTT is on\<close>

text \<open>The Escape request for a device: it has succeeded when the last call registers the keying callback again.\<close>

lemma device_request_Run:
  assumes "ptt_known s" "cwdaemon_handle_escaped_request w (ASCII_ESC # CHR ''8'' # desc) s = Run () t"
    and "last (trace t) = Cw_register_keying_callback (Some d)"
  shows "all_down t \<and> ptt_flag t = ptt_flag s \<and> global_cwdevice t = Some d"
proof -
  let ?s = "s\<lparr>trace := trace s @ [Cw_register_keying_callback None]\<rparr>"
  have "bnd (cwdaemon_option_cwdevice w (Some (cstr desc))) (\<lambda>r. guard (0 = r) register_keying_callback) ?s = Run () t"
    using assms(2) by (simp add: cwdaemon_handle_escaped_request_def escape_code_def payload_def esc_cwdevice_def Let_def
        CWDAEMON_ESC_REQUEST_EXIT_def CWDAEMON_ESC_REQUEST_CWDEVICE_def prog_simps bnd_ret_right)
  then obtain r q where q: "cwdaemon_option_cwdevice w (Some (cstr desc)) ?s = Run r q"
    and t: "guard (0 = r) register_keying_callback q = Run () t" by (rule bnd_RunE)
  obtain v where v: "trace q = trace ?s @ v" "\<forall>c \<in> set v. device_call c"
    using within_Run [OF device_calls_option_cwdevice q] by (auto simp: adds_def)
  have "r = 0"
  proof (rule ccontr)
    assume "r \<noteq> 0"
    with t have "t = q" by (simp add: guard_def ret_def)
    with v assms(3) show False by (cases v rule: rev_cases) auto
  qed
  with q have set: "cwdaemon_cwdevice_set w (cstr desc) ?s = Run True q"
    by (auto simp: cwdaemon_option_cwdevice_def bnd_def ret_def split: if_splits outcome.splits)
  have "ptt_known ?s" using assms(1)
    by (simp add: ptt_known_def ptt_up_def tty_wired_def tty_line_snoc line_step_def)
  from cwdevice_set_down [OF this set] have down: "all_down q" by simp
  have flag: "ptt_flag q = ptt_flag s"
    using within_Run [OF dev_only_option_cwdevice q] by (auto simp: dev_frame_def)
  from t \<open>r = 0\<close> have reg: "t = q\<lparr>trace := trace q @ [Cw_register_keying_callback (global_cwdevice q)]\<rparr>"
    by (auto simp: guard_def register_keying_callback_def with_device_def prog_simps split: option.splits)
  with assms(3) have "global_cwdevice t = Some d" by simp
  moreover have "all_down t" using down reg
    by (simp add: all_down_def ptt_up_def tty_wired_def tty_line_snoc line_step_def)
  ultimately show ?thesis using flag reg by simp
qed

text \<open>
  C29: a change of the device by request while PTT is on loses PTT. The old device is released and the new
  one starts with its line down, but the flag that PTT is on stays; with it every character that follows
  is sent without switching PTT on, until some other operation clears the flag.
\<close>

theorem device_change_loses_ptt:
  assumes "main w opts operands daemon_init = Run () s" "reaches (daemon_step w) s t"
    and "cwdaemon_handle_escaped_request w (ASCII_ESC # CHR ''8'' # desc) t = Run () u"
    and "last (trace u) = Cw_register_keying_callback (Some d)" "bit (ptt_flag t) 0" "tty_wired Dev_Ttys u"
  shows "global_cwdevice u = Some d \<and> bit (ptt_flag u) 0 \<and> (\<forall>fd. \<not> ptt_up fd u) \<and>
    play_character w c u = Run () (u\<lparr>trace := trace u @ (if c = CHR 0xFF then [] else [Cw_send_character c])\<rparr>)"
proof -
  have "ptt_known t" by (rule ptt.walk_reaches [OF assms(2) untouched_known [OF main_untouched [OF assms(1)]]])
  from device_request_Run [OF this assms(3,4)]
  have u: "all_down u" "ptt_flag u = ptt_flag t" "global_cwdevice u = Some d" by simp_all
  with assms(5) have "play_character w c u = Run () (u\<lparr>trace := trace u @ (if c = CHR 0xFF then [] else [Cw_send_character c])\<rparr>)"
    by (simp add: play_character_def with_device_def cwdaemon_set_ptt_on_def ptt_flag_bits prog_simps)
  with u assms(5,6) show ?thesis by (simp add: all_down_def)
qed

text \<open>PTT of the serial daemon is on by request; then the same port is selected again.\<close>

theorem device_change_loses_ptt_witness:
  "\<exists>s t u. main (serial_env (ASCII_ESC # ''a1'')) serial_options [] daemon_init = Run () s \<and>
    daemon_step (serial_env (ASCII_ESC # ''a1'')) Main_Loop s = Run () t \<and> ptt_up 3 t \<and>
    cwdaemon_handle_escaped_request (serial_env (ASCII_ESC # ''a1'')) (ASCII_ESC # CHR ''8'' # ''ttyS0'') t = Run () u \<and>
    \<not> ptt_up 3 u \<and> play_character (serial_env (ASCII_ESC # ''a1'')) CHR ''e'' u =
      Run () (u\<lparr>trace := trace u @ [Cw_send_character CHR ''e'']\<rparr>)"
proof -
  let ?w = "serial_env (ASCII_ESC # ''a1'')"
  obtain s t where s: "main ?w serial_options [] daemon_init = Run () s"
    and t: "daemon_step ?w Main_Loop s = Run () t" "ptt_up 3 t" "bit (ptt_flag t) 0" "global_cwdevice t = Some Dev_Ttys"
      "opt_key (devs t Dev_Ttys) = TIOCM_DTR" "opt_ptt (devs t Dev_Ttys) = TIOCM_RTS"
    using serial_ptt_request by blast
  have "\<exists>u. esc_cwdevice ?w (Some ''ttyS0'') t = Run () u \<and> last (trace u) = Cw_register_keying_callback (Some Dev_Ttys) \<and>
      tty_wired Dev_Ttys u"
    using t(4-) by (simp add: command_line_evaluation esc_cwdevice_def register_keying_callback_def ttys_close_def tty_wired_def)
  then obtain u where u: "cwdaemon_handle_escaped_request ?w (ASCII_ESC # CHR ''8'' # ''ttyS0'') t = Run () u"
    "last (trace u) = Cw_register_keying_callback (Some Dev_Ttys)" "tty_wired Dev_Ttys u"
    by (auto simp: cwdaemon_handle_escaped_request_def escape_code_def payload_def cstr_def
        CWDAEMON_ESC_REQUEST_EXIT_def CWDAEMON_ESC_REQUEST_CWDEVICE_def)
  have "reaches (daemon_step ?w) s t" using t(1) by (rule reaches.step [OF reaches.here])
  from device_change_loses_ptt [OF s this u(1,2) t(3) u(3), of "CHR ''e''"] s t(1,2) u(1) show ?thesis by auto
qed

end
