(* ===== verification/Threads.thy ===== *)
theory Threads
  imports Lines
begin

text \<open>
  The playing of a text in small steps, with the callbacks of libcw's thread between them: the same
  statements as \<open>cwdaemon_play_request\<close>, one at a time. Without callbacks the steps compute what the
  theory \<open>Play\<close> does; with them, every character is still sent with PTT on.
\<close>

section \<open>Model\<close>

text \<open>
  Where the loop stands: at the \<^verbatim>\<open>switch\<close>, in front of \<^verbatim>\<open>cw_send_character\<close> with its argument, or in front of
  the question for the gap; and the two parts of the text.
\<close>

datatype place = Switch | Send char | Gap

type_synonym point = "place \<times> string \<times> string"

text \<open>What follows the character: the question for the gap, and the two parts of the text after it.\<close>

definition play_gap :: "env \<Rightarrow> string \<Rightarrow> string \<Rightarrow> (string \<times> string) act" where
  "play_gap w pre x = bnd (ask w Cw_get_gap) (\<lambda>gap.
     if gap = 2 then if x \<noteq> [] \<and> hd x = CHR ''^'' then ret (pre @ [hd x], tl x)
       else bnd (emit (Cw_set_gap 0)) (\<lambda>_. ret (pre, x))
     else ret (pre, x))"

inductive play_step :: "env \<Rightarrow> point \<Rightarrow> daemon \<Rightarrow> point \<Rightarrow> daemon \<Rightarrow> bool" for w where
  speed: "speed_mark c \<Longrightarrow> change_speed w (c # x) s = Run () t \<Longrightarrow>
    play_step w (Switch, pre, c # x) s (Switch, pre @ takeWhile speed_mark (c # x), dropWhile speed_mark (c # x)) t"
| tilde: "emit (Cw_set_gap 2) s = Run () t \<Longrightarrow>
    play_step w (Switch, pre, CHR ''~'' # x) s (Switch, pre @ ''~'', x) t"
| caret: "sq [put_queue pre, cwdaemon_prepare_reply pre] s = Run () t \<Longrightarrow>
    play_step w (Switch, pre, CHR ''^'' # x) s (Switch, pre, []) t"
| key_up: "\<not> speed_mark c \<Longrightarrow> c \<noteq> CHR ''~'' \<Longrightarrow> c \<noteq> CHR ''^'' \<Longrightarrow> pre' = pre @ [star_to_plus c] \<Longrightarrow>
    sq [guard (c = CHR ''*'') (put_queue (pre' @ x)), with_device (cwdaemon_set_ptt_on w)] s = Run () t \<Longrightarrow>
    play_step w (Switch, pre, c # x) s (Send (star_to_plus c), pre', x) t"
| send: "guard (c \<noteq> CHR 0xFF) (emit (Cw_send_character c)) s = Run () t \<Longrightarrow>
    play_step w (Send c, pre, x) s (Gap, pre, x) t"
| gap: "play_gap w pre x s = Run (pre', x') t \<Longrightarrow>
    play_step w (Gap, pre, x) s (Switch, pre', x') t"

text \<open>Between two steps libcw calls back: its queue of tones is low, or the key of the current device moves.\<close>

inductive called_back :: "env \<Rightarrow> daemon \<Rightarrow> daemon \<Rightarrow> bool" for w where
  low: "cwdaemon_tone_queue_low_callback w s = Run () t \<Longrightarrow> called_back w s t"
| key: "global_cwdevice s = Some d \<Longrightarrow> cwdaemon_keyingevent w d v s = Run () t \<Longrightarrow> called_back w s t"

inductive playing :: "env \<Rightarrow> point \<Rightarrow> daemon \<Rightarrow> point \<Rightarrow> daemon \<Rightarrow> bool" for w where
  start: "playing w p s p s"
| main: "playing w p s q t \<Longrightarrow> play_step w q t r u \<Longrightarrow> playing w p s r u"
| callback: "playing w p s q t \<Longrightarrow> called_back w t u \<Longrightarrow> playing w p s q u"

section \<open>The steps compute what the play function does\<close>

text \<open>What is left to do at a point: the whole function at the switch, and its last parts behind it.\<close>

fun rest :: "env \<Rightarrow> point \<Rightarrow> unit act" where
  "rest w (Switch, pre, x) = play_from w pre x"
| "rest w (Gap, pre, x) = bnd (play_gap w pre x) (\<lambda>(pre', x'). play_from w pre' x')"
| "rest w (Send c, pre, x) =
     bnd (guard (c \<noteq> CHR 0xFF) (emit (Cw_send_character c))) (\<lambda>_.
     bnd (play_gap w pre x) (\<lambda>(pre', x'). play_from w pre' x'))"

lemma bnd_play_gap:
  "bnd (play_gap w pre x) k = bnd (ask w Cw_get_gap) (\<lambda>gap.
     if gap = 2 then if x \<noteq> [] \<and> hd x = CHR ''^'' then k (pre @ [hd x], tl x)
       else bnd (emit (Cw_set_gap 0)) (\<lambda>_. k (pre, x))
     else k (pre, x))"
  by (simp add: play_gap_def bnd_assoc if_distrib [of "\<lambda>m. bnd m k"] cong: if_cong)

lemma play_from_rest:
  assumes "\<not> speed_mark c" "c \<noteq> CHR ''~''" "c \<noteq> CHR ''^''" "pre' = pre @ [star_to_plus c]"
  shows "play_from w pre (c # x) =
    bnd (sq [guard (c = CHR ''*'') (put_queue (pre' @ x)), with_device (cwdaemon_set_ptt_on w)])
      (\<lambda>_. rest w (Send (star_to_plus c), pre', x))"
proof -
  have char: "sq [m, play_character w e] = bnd (sq [m, with_device (cwdaemon_set_ptt_on w)])
      (\<lambda>_. guard (e \<noteq> CHR 0xFF) (emit (Cw_send_character e)))" for m e
    by (simp add: play_character_def bnd_assoc bnd_ret_right)
  have "play_from w pre (c # x) = bnd (sq [guard (c = CHR ''*'') (put_queue (pre' @ x)), play_character w (star_to_plus c)])
      (\<lambda>_. bnd (play_gap w pre' x) (\<lambda>(pre', x'). play_from w pre' x'))"
    using assms(1-3) unfolding assms(4) bnd_play_gap prod.case by (simp add: Let_def del: sq.simps)
  then show ?thesis unfolding char by (simp add: bnd_assoc)
qed

text \<open>A step does the first part of the rest.\<close>

lemma step_rest: "play_step w p s q t \<Longrightarrow> rest w p s = rest w q t"
proof (induction rule: play_step.induct)
  case (key_up c pre' pre x s t)
  then show ?case using play_from_rest [OF key_up(1-4), of w x] by (simp add: bnd_Run del: sq.simps)
qed (simp_all add: bnd_Run speed_mark_def ret_def del: sq.simps)
abbreviation steps :: "env \<Rightarrow> point \<Rightarrow> daemon \<Rightarrow> point \<Rightarrow> daemon \<Rightarrow> bool" where
  "steps w p s q t \<equiv> (\<lambda>(p, s) (q, t). play_step w p s q t)\<^sup>*\<^sup>* (p, s) (q, t)"

lemma steps_first: "play_step w p s q t \<Longrightarrow> steps w q t r u \<Longrightarrow> steps w p s r u"
  by (rule converse_rtranclp_into_rtranclp [where b = "(q, t)"]) simp_all

lemma steps_rest: "steps w p s q t \<Longrightarrow> rest w p s = rest w q t"
  by (induction "(p, s)" arbitrary: p s rule: converse_rtranclp_induct) (auto simp: step_rest)

lemma play_from_steps:
  assumes "play_from w pre x s = Run () t"
  shows "\<exists>pre'. steps w (Switch, pre, x) s (Switch, pre', []) t"
  using assms
proof (induction x arbitrary: pre s rule: measure_induct_rule [of length])
  case (less x)
  show ?case
  proof (cases x)
    case Nil
    with less.prems show ?thesis by (auto simp: ret_def)
  next
    case (Cons c y)
    consider "speed_mark c" | "\<not> speed_mark c" "c = CHR ''~''" | "\<not> speed_mark c" "c = CHR ''^''"
      | "\<not> speed_mark c" "c \<noteq> CHR ''~''" "c \<noteq> CHR ''^''" by blast
    then show ?thesis
    proof cases
      case 1
      with less.prems Cons obtain r where r: "change_speed w (c # y) s = Run () r"
        "play_from w (pre @ takeWhile speed_mark (c # y)) (dropWhile speed_mark (c # y)) r = Run () t"
        by (auto simp del: takeWhile.simps dropWhile.simps elim!: bnd_RunE)
      moreover have "length (dropWhile speed_mark (c # y)) < length x"
        using 1 Cons by (simp add: less_Suc_eq_le length_dropWhile_le)
      ultimately show ?thesis
        using less.IH play_step.speed [OF 1 r(1)] Cons by (blast intro: steps_first)
    next
      case 2
      with less.prems Cons obtain r where "emit (Cw_set_gap 2) s = Run () r" "play_from w (pre @ [c]) y r = Run () t"
        by (auto elim!: bnd_RunE)
      with less.IH [of y] play_step.tilde Cons 2 show ?thesis by (fastforce intro: steps_first)
    next
      case 3
      with less.prems Cons have "sq [put_queue pre, cwdaemon_prepare_reply pre] s = Run () t"
        by (simp del: sq.simps)
      from play_step.caret [OF this] 3 Cons show ?thesis by (blast intro: steps_first)
    next
      case 4
      let ?pre = "pre @ [star_to_plus c]"
      obtain r1 r2 pre' x' r3 where
        r: "sq [guard (c = CHR ''*'') (put_queue (?pre @ y)), with_device (cwdaemon_set_ptt_on w)] s = Run () r1"
          "guard (star_to_plus c \<noteq> CHR 0xFF) (emit (Cw_send_character (star_to_plus c))) r1 = Run () r2"
          "play_gap w ?pre y r2 = Run (pre', x') r3"
        and left: "play_from w pre' x' r3 = Run () t"
        using less.prems play_from_rest [OF 4 refl, of w pre y] Cons
        by (auto elim!: bnd_RunE simp del: sq.simps play_from.simps split: prod.splits)
      from r(3) have "length x' < length x"
        using Cons by (auto simp: play_gap_def prog_simps Let_def split: if_splits)
      from less.IH [OF this left] obtain q where q: "steps w (Switch, pre', x') r3 (Switch, q, []) t" ..
      show ?thesis
        using steps_first [OF play_step.key_up [OF 4 refl r(1)] steps_first [OF play_step.send [OF r(2)]
            steps_first [OF play_step.gap [OF r(3)] q]]] Cons by blast
    qed
  qed
qed

text \<open>Without callbacks the steps reach the end exactly where the function returns, in the same state.\<close>

lemma play_from_iff_steps:
  "play_from w pre x s = Run () t \<longleftrightarrow> (\<exists>pre'. steps w (Switch, pre, x) s (Switch, pre', []) t)"
  using play_from_steps by (auto dest: steps_rest simp: ret_def)

lemma steps_playing: "steps w p s q t \<Longrightarrow> playing w p s q t"
  by (induction "(q, t)" arbitrary: q t rule: rtranclp_induct) (auto intro: playing.intros)

section \<open>What the steps and the callbacks keep\<close>

text \<open>
  The daemon plays a text on the wired device \<open>d\<close> with a PTT delay. \<open>q\<close> is the text in the queue, and \<open>b\<close>
  tells that PTT has been switched on for it; the flag that PTT is on is true of the line.
\<close>

definition on_air :: "env \<Rightarrow> devid \<Rightarrow> string \<Rightarrow> bool \<Rightarrow> daemon \<Rightarrow> bool" where
  "on_air w d q b s \<longleftrightarrow> global_cwdevice s = Some d \<and> dev_wired w d s \<and> g_current_ptt_delay_ms s \<noteq> 0 \<and>
     (bit (ptt_flag s) 0 \<longrightarrow> dev_level d s) \<and> (b \<longrightarrow> bit (ptt_flag s) 0) \<and> request_queue s = q"

text \<open>Programs that leave the device, its lines, the delay, the queue and the flag of automatic PTT.\<close>

lemma on_air_same:
  assumes "on_air w d q b s" "adds off_line s t" "devs t = devs s" "global_cwdevice t = global_cwdevice s"
    and "g_current_ptt_delay_ms t = g_current_ptt_delay_ms s" "request_queue t = request_queue s"
    and "bit (ptt_flag t) 0 = bit (ptt_flag s) 0"
  shows "on_air w d q b t"
proof -
  from assms(2) obtain v where "trace t = trace s @ v" "\<forall>c \<in> set v. off_line c" by (auto simp: adds_def)
  from level_off_line [OF this, of d s] have "dev_level d t = dev_level d s" using assms(3) by (simp add: level_since_same)
  with assms(1,3-) dev_wired_cong [of t s w d] show ?thesis by (simp add: on_air_def)
qed

lemma air_calls:
  assumes "off_line c"
  shows "preserves (on_air w d q b) (emit c)" "preserves (on_air w d q b) (ask w c)"
proof -
  have "on_air w d q b s \<Longrightarrow> on_air w d q b (s\<lparr>trace := trace s @ [c]\<rparr>)" for s
    by (erule on_air_same) (simp_all add: adds_def assms)
  then show "preserves (on_air w d q b) (emit c)" "preserves (on_air w d q b) (ask w c)"
    by (auto simp: emit_def upd_def ask_def Let_def intro!: preservesI)
qed

lemma air_flag: "(\<And>f. bit (g f) 0 = bit f 0) \<Longrightarrow> preserves (on_air w d q b) (set_flag g)"
  unfolding set_flag_def by (intro preserves_upd, erule on_air_same) (simp_all add: adds_same)

lemma air_upd:
  assumes "\<And>s. trace (f s) = trace s \<and> devs (f s) = devs s \<and> global_cwdevice (f s) = global_cwdevice s \<and>
    g_current_ptt_delay_ms (f s) = g_current_ptt_delay_ms s \<and> request_queue (f s) = request_queue s \<and> ptt_flag (f s) = ptt_flag s"
  shows "preserves (on_air w d q b) (upd f)"
  by (intro preserves_upd, erule on_air_same) (simp_all add: adds_same assms)

lemma air_queue: "on_air w d q b s \<Longrightarrow> put_queue q' s = Run () t \<Longrightarrow> on_air w d q' b t"
  using dev_wired_cong [of "s\<lparr>request_queue := q'\<rparr>" s w d] dev_level_cong [of "s\<lparr>request_queue := q'\<rparr>" s d]
  by (auto simp: on_air_def put_queue_def upd_def)

lemmas air_rules = preserves_rules air_calls air_flag air_upd

lemma air_reply: "preserves (on_air w d q b) (send_reply w)"
  unfolding send_reply_def cwdaemon_sendto_def Let_def by (intro air_rules) (simp_all add: ptt_flag_bit_upd)

lemma air_low_callback:
  assumes "q \<noteq> []"
  shows "preserves (on_air w d q b) (cwdaemon_tone_queue_low_callback w)"
proof (rule preservesI)
  fix s x t assume s: "on_air w d q b s" and t: "cwdaemon_tone_queue_low_callback w s = Run x t"
  let ?m = "bnd (ask w Cw_get_tone_queue_length) (\<lambda>_. sq [
    look (\<lambda>s. guard (ptt_flag s AND PTT_ACTIVE_ECHO \<noteq> 0) (send_reply w)), emit Cw_get_tone_queue_length])"
  have "request_queue s \<noteq> []" using s assms by (simp add: on_air_def)
  then have m: "cwdaemon_tone_queue_low_callback w s = ?m s"
    by (simp add: cwdaemon_tone_queue_low_callback_def bnd_def ask_def look_def ret_def Let_def del: sq.simps)
  have "preserves (on_air w d q b) ?m"
    by (intro air_rules air_reply) simp_all
  from preservesD [OF this s t [unfolded m]] show "on_air w d q b t" .
qed

lemma air_keying: "on_air w d q b s \<Longrightarrow> cwdaemon_keyingevent w d v s = Run () t \<Longrightarrow> on_air w d q b t"
proof -
  assume s: "on_air w d q b s" and t: "cwdaemon_keyingevent w d v s = Run () t"
  then obtain r where r: "dev_cw w d (if v = 1 then ON else OFF) s = Run () r" and tr: "t = r\<lparr>inactivity_seconds := 0\<rparr>"
    by (auto simp: cwdaemon_keyingevent_def prog_simps split: outcome.splits)
  have "extends s r" by (rule within_Run [OF io_only_dev(1) r])
  moreover have "dev_level d r = dev_level d s" using dev.cw_frames [OF r] s by (simp add: on_air_def)
  moreover have "dev_level d t = dev_level d r" using tr by (intro dev_level_cong) simp_all
  moreover have "dev_wired w d t = dev_wired w d r" using tr by (intro dev_wired_cong) simp
  moreover have "dev_wired w d r = dev_wired w d s" using \<open>extends s r\<close> by (rule dev.wired_extends)
  ultimately show ?thesis using s tr by (auto simp: on_air_def extends_def)
qed

text \<open>Switching PTT on: the line is up when the daemon knows so, and with a delay it always is afterwards.\<close>

lemma air_ptt_on:
  assumes s: "on_air w d q b s" and t: "with_device (cwdaemon_set_ptt_on w) s = Run () t"
  shows "on_air w d q True t"
proof (cases "bit (ptt_flag s) 0")
  case True
  with s t show ?thesis by (simp add: on_air_def with_device_def cwdaemon_set_ptt_on_def ptt_flag_bits prog_simps)
next
  case False
  with s t obtain r x u where r: "dev_ptt w d ON s = Run () r" and u: "millisleep_nonintr w (g_current_ptt_delay_ms s) r = Run x u"
    and tu: "t = u\<lparr>ptt_flag := ptt_flag u OR PTT_ACTIVE_AUTO\<rparr>"
    by (auto simp: on_air_def with_device_def cwdaemon_set_ptt_on_def set_flag_def prog_simps ptt_flag_bits split: outcome.splits)
  have same: "extends s r" "extends r u"
    using within_Run [OF io_only_dev(2) r] within_Run [OF io_only_millisleep u] .
  have "dev_level d r" using dev.ptt_sets [OF r] s by (simp add: on_air_def)
  moreover have "dev_level d t = dev_level d r"
  proof -
    obtain v where "trace u = trace r @ v" "\<forall>c \<in> set v. off_line c"
      using within_Run [OF adds_sleep u, of off_line] by (auto simp: adds_def)
    then have "trace t = trace r @ v" "\<forall>c \<in> set v. off_line c" "devs t = devs r"
      using tu same(2) by (auto simp: extends_def)
    from level_off_line [OF this(1,2), of d r] this(3) show ?thesis by (simp add: level_since_same)
  qed
  moreover have "dev_wired w d t = dev_wired w d s"
    using tu same by (intro dev_wired_cong) (auto simp: extends_def)
  ultimately show ?thesis using s tu same by (auto simp: on_air_def extends_def ptt_flag_bit_upd)
qed

text \<open>The same for a point in the text: as long as there is text, PTT is as \<open>on_air\<close> says.\<close>

definition covered :: "env \<Rightarrow> devid \<Rightarrow> bool \<Rightarrow> point \<Rightarrow> daemon \<Rightarrow> bool" where
  "covered w d b p s \<longleftrightarrow> (case p of (ph, pre, x) \<Rightarrow> (ph \<noteq> Switch \<longrightarrow> pre \<noteq> []) \<and>
     (pre @ x \<noteq> [] \<longrightarrow> (\<exists>q. q \<noteq> [] \<and> on_air w d q (b \<or> ph \<noteq> Switch) s)))"

lemma on_air_less: "on_air w d q b s \<Longrightarrow> (c \<Longrightarrow> b) \<Longrightarrow> on_air w d q c s"
  by (simp add: on_air_def)

lemma air_speed: "preserves (on_air w d q b) (change_speed w x)"
  unfolding change_speed_def by (intro air_rules) simp_all

lemma air_prepare: "preserves (on_air w d q b) (cwdaemon_prepare_reply r)"
  unfolding cwdaemon_prepare_reply_def by (intro air_rules) (simp_all add: ptt_flag_bit_upd)

lemma air_gap: "preserves (on_air w d q b) (play_gap w pre x)"
  unfolding play_gap_def by (intro air_rules) simp_all

lemma gap_place: "play_gap w pre x s = Run (pre', x') t \<Longrightarrow> pre' @ x' = pre @ x"
  unfolding play_gap_def by (cases x) (auto simp: prog_simps Let_def split: if_splits)

lemma step_covered: "play_step w p s p' t \<Longrightarrow> covered w d b p s \<Longrightarrow> covered w d b p' t"
proof (induction rule: play_step.induct)
  case (speed c x s t pre)
  then show ?case by (auto simp: covered_def dest: preservesD [OF air_speed])
next
  case (tilde s t pre x)
  then show ?case by (auto simp: covered_def dest: preservesD [OF air_calls(1), rotated])
next
  case (caret pre s t x)
  then obtain q where q: "on_air w d q b s" by (auto simp: covered_def)
  from caret obtain r where r: "put_queue pre s = Run () r" "cwdaemon_prepare_reply pre r = Run () t"
    by (auto simp: bnd_ret_right elim!: bnd_RunE)
  from preservesD [OF air_prepare air_queue [OF q r(1)] r(2)] show ?case by (auto simp: covered_def)
next
  case (key_up c pre' pre x s t)
  then obtain q where q: "q \<noteq> []" "on_air w d q b s" by (auto simp: covered_def)
  from key_up obtain r where r: "guard (c = CHR ''*'') (put_queue (pre' @ x)) s = Run () r"
    "with_device (cwdaemon_set_ptt_on w) r = Run () t"
    by (auto simp: bnd_ret_right elim!: bnd_RunE)
  have "\<exists>q'. q' \<noteq> [] \<and> on_air w d q' b r"
  proof (cases "c = CHR ''*''")
    case True
    with r(1) air_queue [OF q(2), of "pre' @ x"] key_up(4) show ?thesis by (auto simp: guard_def)
  next
    case False
    with r(1) q show ?thesis by (auto simp: guard_def ret_def)
  qed
  with air_ptt_on [OF _ r(2)] key_up(4) show ?case by (auto simp: covered_def)
next
  case (send c s t pre x)
  have "preserves (on_air w d q b) (guard (c \<noteq> CHR 0xFF) (emit (Cw_send_character c)))" for q b
    by (intro air_rules) simp
  with send show ?case by (auto simp: covered_def dest: preservesD)
next
  case (gap x pre s pre' x' t)
  from gap_place [OF gap(1)] gap(2) obtain q where q: "q \<noteq> []" "on_air w d q True s" by (auto simp: covered_def)
  have "on_air w d q b t" by (rule on_air_less [OF preservesD [OF air_gap q(2) gap(1)]]) simp
  with q(1) show ?case by (auto simp: covered_def)
qed

lemma callback_covered:
  assumes "called_back w s t" "covered w d b (ph, pre, x) s"
  shows "covered w d b (ph, pre, x) t"
proof -
  have "on_air w d q c t" if "q \<noteq> []" "on_air w d q c s" for q c
    using assms(1)
  proof cases
    case low
    from preservesD [OF air_low_callback [OF that(1)] that(2) this] show ?thesis .
  next
    case (key e v)
    then have "e = d" using that(2) by (simp add: on_air_def)
    with air_keying [OF that(2)] key(2) show ?thesis by blast
  qed
  with assms(2) show ?thesis by (auto simp: covered_def)
qed

lemma playing_covered: "playing w p s q t \<Longrightarrow> covered w d b p s \<Longrightarrow> covered w d b q t"
  by (induction rule: playing.induct) (auto intro: step_covered callback_covered)

section \<open>Properties\<close>

text \<open>
  C4: with a PTT delay, every character of a text is on the air with PTT on, however libcw's thread
  interrupts the playing: the daemon knows of the PTT line as the text starts, and callbacks for the low
  queue of tones and for keying come between any two steps. Then from the moment a character is about to
  be sent until the whole text is handed over, the flag is set and the line of the wired device is up; no
  callback switches PTT off in the middle, although the queue of tones may run empty there.
\<close>

theorem ptt_covers_text:
  assumes "global_cwdevice s = Some d" "dev_wired w d s" "g_current_ptt_delay_ms s \<noteq> 0"
    and "bit (ptt_flag s) 0 \<longrightarrow> dev_level d s"
    and "playing w (Switch, [], request_queue s) s (ph, pre, x) t" "ph \<noteq> Switch"
    and "playing w (ph, pre, x) t (ph', pre', x') u" "pre' @ x' \<noteq> []"
  shows "bit (ptt_flag t) 0 \<and> dev_level d t \<and> bit (ptt_flag u) 0 \<and> dev_level d u"
proof -
  have "covered w d False (Switch, [], request_queue s) s"
    using assms(1-4) by (simp add: covered_def on_air_def)
  from playing_covered [OF assms(5) this] assms(6) have "covered w d True (ph, pre, x) t"
    by (auto simp: covered_def)
  with playing_covered [OF assms(7) this] assms(6,8) show ?thesis by (auto simp: covered_def on_air_def)
qed

text \<open>
  The text \<open>e\<close> on a serial port with a delay of 10 ms: PTT goes on, libcw calls back for its empty queue,
  and then the character is sent.
\<close>

theorem ptt_covers_text_witness:
  "\<exists>s t r u. playing (serial_env []) (Switch, [], ''e'') s (Send CHR ''e'', ''e'', []) t \<and>
    cwdaemon_tone_queue_low_callback (serial_env []) t = Run () r \<and> ret_of (serial_env []) (trace t @ [Cw_get_tone_queue_length]) = 0 \<and>
    u = r\<lparr>trace := trace r @ [Cw_send_character CHR ''e'']\<rparr> \<and>
    playing (serial_env []) (Send CHR ''e'', ''e'', []) t (Gap, ''e'', []) u \<and>
    bit (ptt_flag u) 0 \<and> dev_level Dev_Ttys u"
proof -
  let ?w = "serial_env []" and ?s = "tty_state\<lparr>g_current_ptt_delay_ms := 10, request_queue := ''e''\<rparr>"
  have s: "global_cwdevice ?s = Some Dev_Ttys" "dev_wired ?w Dev_Ttys ?s" "g_current_ptt_delay_ms ?s \<noteq> 0"
    "ptt_flag ?s = 0" "dev_fd (devs ?s Dev_Ttys) = 3" "opt_ptt (devs ?s Dev_Ttys) = TIOCM_RTS" "g_current_ptt_delay_ms ?s = 10"
    by (simp_all add: tty_state_def daemon_init_def dev_wired_def tty_wired_def)
  from serial_ptt_on [OF s(5,6,4,7), of "[]"] obtain t where t: "cwdaemon_set_ptt_on ?w Dev_Ttys ?s = Run () t"
    "ptt_flag t = PTT_ACTIVE_AUTO" "request_queue t = ''e''"
    by auto
  have "play_step ?w (Switch, [], CHR ''e'' # []) ?s (Send (star_to_plus CHR ''e''), ''e'', []) t"
    by (rule play_step.key_up) (use t(1) s(1) in \<open>simp_all add: speed_mark_def star_to_plus_def with_device_def prog_simps\<close>)
  then have pt: "playing ?w (Switch, [], request_queue ?s) ?s (Send CHR ''e'', ''e'', []) t"
    by (auto simp: star_to_plus_def intro: playing.intros)
  let ?r = "t\<lparr>trace := trace t @ [Cw_get_tone_queue_length, Cw_get_tone_queue_length]\<rparr>"
    and ?u = "t\<lparr>trace := trace t @ [Cw_get_tone_queue_length, Cw_get_tone_queue_length, Cw_send_character CHR ''e'']\<rparr>"
  have r: "cwdaemon_tone_queue_low_callback ?w t = Run () ?r"
    using t(2,3) by (simp add: cwdaemon_tone_queue_low_callback_def prog_simps Let_def PTT_ACTIVE_AUTO_def PTT_ACTIVE_ECHO_def)
  have "play_step ?w (Send CHR ''e'', ''e'', []) ?r (Gap, ''e'', []) ?u"
    by (rule play_step.send) (simp add: prog_simps)
  then have pu: "playing ?w (Send CHR ''e'', ''e'', []) t (Gap, ''e'', []) ?u"
    using r by (blast intro: playing.intros called_back.low)
  from ptt_covers_text [OF s(1-3) _ pt _ pu] s(4) have on: "bit (ptt_flag ?u) 0" "dev_level Dev_Ttys ?u" by simp_all
  have u: "?u = ?r\<lparr>trace := trace ?r @ [Cw_send_character CHR ''e'']\<rparr>" by simp
  have pt': "playing ?w (Switch, [], ''e'') ?s (Send CHR ''e'', ''e'', []) t" using pt by simp
  have "ret_of ?w (trace t @ [Cw_get_tone_queue_length]) = 0" by (simp add: serial_env_sel answer_def)
  with pt' r u pu on show ?thesis
    by - (rule exI [of _ ?s], rule exI [of _ t], rule exI [of _ ?r], rule exI [of _ ?u], intro conjI)
qed

end
