(* ===== verification/Weighting.thy ===== *)
theory Weighting
  imports Receive
begin

text \<open>
  The weighting that is told to libcw: the double arithmetic of \<^verbatim>\<open>cwdaemon.c\<close>, which the theory
  \<open>Output\<close> writes out, agrees with a formula over the integers for every value the daemon accepts.
\<close>

section \<open>Rounding to 53 bits\<close>

lemma bit_length_eq: "2 ^ k \<le> n \<Longrightarrow> n < 2 ^ Suc k \<Longrightarrow> bit_length n = Suc k"
proof (induction k arbitrary: n)
  case 0
  then have "n = 1" by simp
  then show ?case by (simp add: bit_length.simps)
next
  case (Suc k)
  then have "2 ^ k \<le> n div 2" "n div 2 < 2 ^ Suc k" by simp_all
  with Suc.IH [of "n div 2"] have "bit_length (n div 2) = Suc k" by simp
  moreover have "0 < n" using Suc.prems(1) by (rule less_le_trans [rotated]) simp
  ultimately show ?case by (simp add: bit_length.simps [of n])
qed

text \<open>Rounding a number that has \<open>e\<close> bits too many.\<close>

definition nearest :: "nat \<Rightarrow> int \<Rightarrow> int" where
  "nearest e n = (let q = n div 2 ^ e; r = n mod 2 ^ e; half = 2 ^ (e - 1)
     in (if r > half \<or> r = half \<and> odd q then q + 1 else q) * 2 ^ e)"

lemma round53_nearest:
  assumes "2 ^ (52 + e) \<le> \<bar>n\<bar>" "\<bar>n\<bar> < 2 ^ (53 + e)"
  shows "round53 n = (if e = 0 then n else nearest e n)"
proof -
  have "bit_length \<bar>n\<bar> = 53 + e" using bit_length_eq [of "52 + e" "\<bar>n\<bar>"] assms by simp
  then show ?thesis by (simp add: round53_def nearest_def Let_def)
qed

lemma round53_zero: "round53 0 = 0" by (simp add: round53_def bit_length.simps)

lemma round53_table:
  assumes "n \<noteq> 0 \<Longrightarrow> 4503599627370496 \<le> \<bar>n\<bar>" "\<bar>n\<bar> < 1152921504606846976"
  shows "round53 n = (if \<bar>n\<bar> < 9007199254740992 then n else if \<bar>n\<bar> < 18014398509481984 then nearest 1 n
    else if \<bar>n\<bar> < 36028797018963968 then nearest 2 n else if \<bar>n\<bar> < 72057594037927936 then nearest 3 n
    else if \<bar>n\<bar> < 144115188075855872 then nearest 4 n else if \<bar>n\<bar> < 288230376151711744 then nearest 5 n
    else if \<bar>n\<bar> < 576460752303423488 then nearest 6 n else nearest 7 n)"
  using assms round53_nearest [of 0 n] round53_nearest [of 1 n] round53_nearest [of 2 n] round53_nearest [of 3 n]
    round53_nearest [of 4 n] round53_nearest [of 5 n] round53_nearest [of 6 n] round53_nearest [of 7 n] round53_zero
  by (cases "n = 0") simp_all
section \<open>The formula\<close>

lemma weighting_formula:
  assumes "- 50 \<le> n" "n \<le> 50"
  shows "weighting_arg n = (3 * n + 250) div 5"
proof -
  have "list_all (\<lambda>n. weighting_arg n = (3 * n + 250) div 5) [-50 .. 50]"
    by (simp add: weighting_arg_def round53_table nearest_def CWDAEMON_MORSE_WEIGHTING_MAX_def upto.simps)
  then have "\<forall>n \<in> set [-50 .. 50]. weighting_arg n = (3 * n + 250) div 5" unfolding list_all_iff .
  moreover have "n \<in> set [-50 .. 50]" using assms by (simp only: set_upto atLeastAtMost_iff)
  ultimately show ?thesis ..
qed

section \<open>Properties\<close>

text \<open>
  C24: the Escape request for the weighting: a number from -50 to 50 is stored, and libcw is told the
  integer part of \<open>0.6 n + 50\<close>, which lies between 20 and 80, with no error from the multiplication in
  double; everything else changes nothing and tells libcw nothing.
\<close>

theorem weighting_request:
  "cwdaemon_handle_escaped_request w (ASCII_ESC # CHR ''7'' # txt) s = Run () (case cwdaemon_get_long (Some (cstr txt)) of
     None \<Rightarrow> s
   | Some n \<Rightarrow> if n \<in> {-50..50}
       then s\<lparr>current_weighting := n, trace := trace s @ [Cw_set_weighting ((3 * n + 250) div 5)]\<rparr> else s)"
  by (simp add: cwdaemon_handle_escaped_request_def escape_code_def payload_def esc_weighting_def
      cwdaemon_params_weighting_def CWDAEMON_MORSE_WEIGHTING_MIN_def CWDAEMON_MORSE_WEIGHTING_MAX_def weighting_formula
      CWDAEMON_ESC_REQUEST_EXIT_def c_int_id prog_simps Let_def split: option.split)

end
