(* ===== verification/Client.thy ===== *)
theory Client
  imports Reply
begin

text \<open>
  Models \<^verbatim>\<open>src/examples/example.c\<close>, the client that comes with the daemon: how it builds the datagram of
  a request, connects, runs its session and aborts it from the handler of a signal. Its requests are
  related to what the daemon does with them.
\<close>

section \<open>The client and its environment\<close>

definition K_RESET :: int where "K_RESET = 0"
definition K_MESSAGE :: int where "K_MESSAGE = 1"
definition K_SPEED :: int where "K_SPEED = 2"
definition K_TONE :: int where "K_TONE = 3"
definition K_ABORT :: int where "K_ABORT = 4"
definition K_STOP :: int where "K_STOP = 5"
definition K_WORDMODE :: int where "K_WORDMODE = 6"
definition K_WEIGHT :: int where "K_WEIGHT = 7"
definition K_DEVICE :: int where "K_DEVICE = 8"
definition K_TOD :: int where "K_TOD = 9"
definition K_TUNE :: int where "K_TUNE = 12"
definition K_PTT :: int where "K_PTT = 13"
definition K_SDEVICE :: int where "K_SDEVICE = 15"
definition K_VOLUME :: int where "K_VOLUME = 16"
definition K_REPLY :: int where "K_REPLY = 17"

lemmas K_defs = K_RESET_def K_MESSAGE_def K_SPEED_def K_TONE_def K_ABORT_def K_STOP_def K_WORDMODE_def K_WEIGHT_def
  K_DEVICE_def K_TOD_def K_TUNE_def K_PTT_def K_SDEVICE_def K_VOLUME_def K_REPLY_def

definition BUF_SIZE :: nat where "BUF_SIZE = 80"
definition CHAR_ESC :: char where "CHAR_ESC = CHR 0x1B"

text \<open>The calls that the client makes; an address is given by its position in the list of \<^verbatim>\<open>getaddrinfo()\<close>.\<close>

datatype client_call =
    Getaddrinfo string string | Freeaddrinfo | New_Socket nat | Connect int nat | Close_Socket int
  | Send int "char list" | Print string | Print_Error string | Perror string | Nap nat
  | Signal_Sigalrm | Alarm nat

record client_env =
  client_ret :: "client_call list \<Rightarrow> int"
  client_errno :: "client_call list \<Rightarrow> int"
  addresses :: "client_call list \<Rightarrow> nat"
  client_strerror :: "int \<Rightarrow> string"
  gai_strerror :: "int \<Rightarrow> string"

record client =
  g_socket :: int
  calls :: "client_call list"

definition client_init :: client where
  "client_init = \<lparr>g_socket = - 1, calls = []\<rparr>"

type_synonym 'a client_act = "(client, 'a) prog"

definition client_ask :: "client_env \<Rightarrow> client_call \<Rightarrow> int client_act" where
  "client_ask v c s = (let t = calls s @ [c] in Run (client_ret v t) (s\<lparr>calls := t\<rparr>))"

definition client_emit :: "client_call \<Rightarrow> unit client_act" where
  "client_emit c = upd (\<lambda>s. s\<lparr>calls := calls s @ [c]\<rparr>)"

declare client_ask_def [prog_simps] client_emit_def [prog_simps]

section \<open>Model\<close>

text \<open>The loop over the addresses.\<close>

fun connect_any :: "client_env \<Rightarrow> nat list \<Rightarrow> int client_act" where
  "connect_any v [] = ret (- 1)"
| "connect_any v (rp # rps) =
     bnd (client_ask v (New_Socket rp)) (\<lambda>fd.
       if fd = - 1 then connect_any v rps
       else bnd (client_ask v (Connect fd rp)) (\<lambda>r.
         if r \<noteq> - 1 then ret fd
         else bnd (client_emit (Close_Socket fd)) (\<lambda>_. connect_any v rps)))"

definition netkeyer_init :: "client_env \<Rightarrow> string \<Rightarrow> string \<Rightarrow> int client_act" where
  "netkeyer_init v address port =
     bnd (client_ask v (Getaddrinfo address port)) (\<lambda>rv.
       if rv \<noteq> 0
       then bnd (client_emit (Print_Error (''getaddrinfo(): '' @ gai_strerror v rv @ [CHR 0x0A]))) (\<lambda>_. ret (- 1))
       else bnd (look (\<lambda>s. connect_any v [0..<addresses v (calls s)])) (\<lambda>fd.
         bnd (sq [client_emit Freeaddrinfo,
                  guard (- 1 = fd) (client_emit (Print_Error (''Could not connect'' @ [CHR 0x0A])))]) (\<lambda>_. ret fd)))"

definition netkeyer_close :: "client_env \<Rightarrow> int \<Rightarrow> int client_act" where
  "netkeyer_close v fd =
     (if fd < 0 then ret 0
      else bnd (client_ask v (Close_Socket fd)) (\<lambda>r.
        if r = - 1 then bnd (client_emit (Perror ''close call failed'')) (\<lambda>_. ret (- 1)) else ret 0))"

text \<open>\<^verbatim>\<open>sprintf (buf + n, "%s", x)\<close>; \<open>None\<close> when it writes past the end of \<^verbatim>\<open>buf\<close>.\<close>

definition sprintf_at :: "nat \<Rightarrow> string \<Rightarrow> char list \<Rightarrow> char list option" where
  "sprintf_at n x buf =
     (if n + length x < length buf
      then Some (take n buf @ x @ CHR 0x00 # drop (Suc (n + length x)) buf) else None)"

text \<open>The \<^verbatim>\<open>switch\<close> of \<open>netkeyer\<close>: what it leaves in \<^verbatim>\<open>buf\<close>.\<close>

definition netkeyer_buf :: "int \<Rightarrow> string \<Rightarrow> char list option" where
  "netkeyer_buf request val =
     (let buf = replicate BUF_SIZE CHR 0x00;
          plain = (\<lambda>code. sprintf_at 1 [code] (buf[0 := CHAR_ESC]));
          valued = (\<lambda>code. case plain code of None \<Rightarrow> None | Some b \<Rightarrow> sprintf_at 2 val b)
      in if request = K_RESET then plain CHR ''0''
         else if request = K_MESSAGE then sprintf_at 0 val buf
         else if request = K_SPEED then valued CHR ''2''
         else if request = K_TONE then valued CHR ''3''
         else if request = K_ABORT then plain CHR ''4''
         else if request = K_STOP then plain CHR ''5''
         else if request = K_WORDMODE then plain CHR ''6''
         else if request = K_WEIGHT then valued CHR ''7''
         else if request = K_DEVICE then valued CHR ''8''
         else if request = K_PTT then valued CHR ''a''
         else if request = K_TUNE then valued CHR ''c''
         else if request = K_TOD then valued CHR ''d''
         else if request = K_SDEVICE then valued CHR ''f''
         else if request = K_VOLUME then valued CHR ''g''
         else if request = K_REPLY then valued CHR ''h''
         else Some (buf[0 := CHR 0x00]))"

definition netkeyer :: "client_env \<Rightarrow> int \<Rightarrow> int \<Rightarrow> string \<Rightarrow> int client_act" where
  "netkeyer v fd request val = (case netkeyer_buf request val of
     None \<Rightarrow> halt Undefined
   | Some buf \<Rightarrow>
       bnd (if buf ! 0 \<noteq> CHR 0x00
            then bnd (client_ask v (Send fd buf)) (\<lambda>rc. look (\<lambda>s. ret (rc, client_errno v (calls s))))
            else ret (- 1, 0)) (\<lambda>(send_rc, errno).
         if send_rc = - 1
         then bnd (client_emit (Print (''Keyer send failed ('' @ client_strerror v errno @ '')!'' @ [CHR 0x0A]))) (\<lambda>_. ret (- 1))
         else ret 0))"

text \<open>
  The session. \<^verbatim>\<open>while (1) {}\<close> ends only with the signal that \<^verbatim>\<open>alarm()\<close> sends, whose handler is
  \<open>catchint\<close>; what is written behind the loop, with \<open>netkeyer_close\<close>, is never reached.
\<close>

definition tell :: "client_env \<Rightarrow> int \<Rightarrow> string \<Rightarrow> unit client_act" where
  "tell v r val = look (\<lambda>s. bnd (netkeyer v (g_socket s) r val) (\<lambda>_. ret ()))"

definition say :: "string \<Rightarrow> unit client_act" where
  "say x = client_emit (Print (x @ [CHR 0x0A]))"

definition nap :: "nat \<Rightarrow> unit client_act" where
  "nap n = client_emit (Nap n)"

definition catchint :: "client_env \<Rightarrow> unit client_act" where
  "catchint v = sq [tell v K_ABORT '''', halt (Exit EXIT_SUCCESS)]"

definition client_session :: "client_env \<Rightarrow> string option \<Rightarrow> unit client_act list" where
  "client_session v argv1 = [
     (case argv1 of None \<Rightarrow> ret ()
      | Some port \<Rightarrow> sq [tell v K_DEVICE port, say (''opening port '' @ port)]),
     say ''first message at initial speed'', tell v K_MESSAGE ''paris'', nap 3,
     say ''speed 40'', tell v K_SPEED ''40'', tell v K_MESSAGE ''paris'', nap 2,
     say ''tone 1000, speed 40'', tell v K_TONE ''1000'', tell v K_SPEED ''40'',
       tell v K_MESSAGE ''paris'', nap 2,
     say ''tone 800, weight +20'', tell v K_TONE ''800'', tell v K_WEIGHT ''20'',
       tell v K_MESSAGE ''paris'', nap 2,
     say ''weight -20'', tell v K_WEIGHT ''-20'', tell v K_MESSAGE ''paris'', nap 2,
     say ''weight 0'', tell v K_WEIGHT ''0'', say ''speed increase / decrease'',
       tell v K_MESSAGE ''p++++++++++aris----------'', nap 2,
     say ''half gap'', tell v K_MESSAGE ''p~ari~s'', nap 2,
     say ''tune 3 seconds'', tell v K_TUNE ''3'', nap 4,
     say ''test message abort'', tell v K_MESSAGE ''paris paris'', nap 1, tell v K_ABORT '''', nap 1,
     say ''switch to soundcard'', tell v K_SDEVICE ''s'', tell v K_MESSAGE ''paris'', nap 2,
     say ''volume 30'', tell v K_VOLUME ''30'', tell v K_MESSAGE ''paris'', nap 2,
     say ''prosigns: SK BK SN AS AR'', tell v K_MESSAGE ''< > ! & *'', nap 4,
     say ''set volume back to 70'', tell v K_VOLUME ''70'', tell v K_MESSAGE ''paris'', nap 2,
     say ''back to console'', tell v K_SDEVICE ''c'', tell v K_MESSAGE ''paris'', nap 2,
     say ''message with PTT on'', tell v K_PTT ''1'', tell v K_MESSAGE ''paris'', nap 2, tell v K_PTT ''0'',
     say ''same with different TOD'', tell v K_TOD ''20'', tell v K_PTT ''1'', tell v K_MESSAGE ''paris'',
       nap 2, tell v K_PTT ''0'', tell v K_TOD ''0'',
     say ''almost done, reset'', tell v K_RESET '''',
     say ''test message abort with SIGALRM'', client_emit Signal_Sigalrm, tell v K_MESSAGE ''paris paris'',
       client_emit (Alarm 2), halt Hangs]"

definition client_main :: "client_env \<Rightarrow> string option \<Rightarrow> unit client_act" where
  "client_main v argv1 = bnd (netkeyer_init v ''127.0.0.1'' ''6789'') (\<lambda>fd. sq
     (upd (\<lambda>s. s\<lparr>g_socket := fd\<rparr>) # guard (fd = - 1) (halt (Exit EXIT_FAILURE)) # client_session v argv1))"

section \<open>What a request says and what the daemon does\<close>

text \<open>The code of a request, and whether a value follows; the bytes of a request, without the padding.\<close>

definition request_code :: "int \<Rightarrow> (char \<times> bool) option" where
  "request_code = map_of [
     (K_RESET, CHR ''0'', False), (K_SPEED, CHR ''2'', True), (K_TONE, CHR ''3'', True),
     (K_ABORT, CHR ''4'', False), (K_STOP, CHR ''5'', False), (K_WORDMODE, CHR ''6'', False),
     (K_WEIGHT, CHR ''7'', True), (K_DEVICE, CHR ''8'', True), (K_PTT, CHR ''a'', True),
     (K_TUNE, CHR ''c'', True), (K_TOD, CHR ''d'', True), (K_SDEVICE, CHR ''f'', True),
     (K_VOLUME, CHR ''g'', True), (K_REPLY, CHR ''h'', True)]"

definition request_bytes :: "int \<Rightarrow> string \<Rightarrow> char list" where
  "request_bytes request val =
     (if request = K_MESSAGE then val
      else case request_code request of
        None \<Rightarrow> []
      | Some (code, valued) \<Rightarrow> CHAR_ESC # code # (if valued then val else []))"

definition pad :: "char list \<Rightarrow> char list" where
  "pad x = x @ replicate (BUF_SIZE - length x) CHR 0x00"

text \<open>The operation of the daemon that a request of the client names.\<close>

definition performs :: "env \<Rightarrow> int \<Rightarrow> string \<Rightarrow> int act" where
  "performs w request val =
     (if request = K_MESSAGE then act_on_request w (int (length val)) val
      else bnd
        (if request = K_RESET then esc_reset w
         else if request = K_SPEED then esc_speed w (Some val)
         else if request = K_TONE then esc_tone w (Some val)
         else if request = K_ABORT then esc_abort w
         else if request = K_STOP then halt (Exit EXIT_SUCCESS)
         else if request = K_WORDMODE then esc_wordmode
         else if request = K_WEIGHT then esc_weighting (Some val)
         else if request = K_DEVICE then esc_cwdevice w (Some val)
         else if request = K_PTT then bnd (cwdaemon_params_ptt_on_off w (Some val)) (\<lambda>_. ret ())
         else if request = K_TUNE then esc_tune w (Some val)
         else if request = K_TOD then esc_pttdelay w (Some val)
         else if request = K_SDEVICE then esc_system w (Some val)
         else if request = K_VOLUME then esc_volume w (Some val)
         else cwdaemon_prepare_reply (CHR ''h'' # val)) (\<lambda>_. ret 0))"

lemma sprintf_zeros:
  "length x \<le> BUF_SIZE \<Longrightarrow> n = length x \<Longrightarrow>
    sprintf_at n y (pad x) = (if length (x @ y) < BUF_SIZE then Some (pad (x @ y)) else None)"
proof -
  assume "length x \<le> BUF_SIZE" "n = length x"
  moreover have "replicate (BUF_SIZE - (length x + length y)) CHR 0x00 =
      CHR 0x00 # replicate (BUF_SIZE - Suc (length x + length y)) CHR 0x00" if "length x + length y < BUF_SIZE"
    using Suc_diff_Suc [OF that] by (metis replicate_Suc)
  ultimately show ?thesis by (simp add: sprintf_at_def pad_def)
qed

lemma netkeyer_buf_pad:
  "netkeyer_buf request val =
    (if length (request_bytes request val) < BUF_SIZE then Some (pad (request_bytes request val)) else None)"
proof -
  have z: "replicate BUF_SIZE CHR 0x00 = pad []" by (simp add: pad_def)
  have e: "(pad [])[0 := CHAR_ESC] = pad [CHAR_ESC]" by (simp add: pad_def BUF_SIZE_def eval_nat_numeral)
  have p: "sprintf_at 1 [code] (pad [CHAR_ESC]) = Some (pad [CHAR_ESC, code])" for code
    by (subst sprintf_zeros) (simp_all add: BUF_SIZE_def)
  have u: "sprintf_at 2 val (pad [CHAR_ESC, code]) =
      (if length (CHAR_ESC # code # val) < BUF_SIZE then Some (pad (CHAR_ESC # code # val)) else None)" for code
    by (subst sprintf_zeros) (simp_all add: BUF_SIZE_def)
  have m: "sprintf_at 0 val (pad []) = (if length val < BUF_SIZE then Some (pad val) else None)"
    by (subst sprintf_zeros) (simp_all add: BUF_SIZE_def)
  have n: "(pad [])[0 := CHR 0x00] = pad []" by (simp add: pad_def BUF_SIZE_def eval_nat_numeral)
  have l: "(2::nat) < BUF_SIZE" by (simp add: BUF_SIZE_def)
  show ?thesis
    unfolding netkeyer_buf_def Let_def z e p u m n option.case request_bytes_def request_code_def
    by (simp add: K_defs l) (simp add: BUF_SIZE_def)
qed

text \<open>The daemon sees the bytes in front of the padding.\<close>

lemma trim_pad:
  assumes "length x < BUF_SIZE"
  shows "trim_crlf (pad x) (length (pad x)) = BUF_SIZE" "length (pad x) = BUF_SIZE"
proof -
  show len: "length (pad x) = BUF_SIZE" using assms by (simp add: pad_def)
  have "pad x ! 79 = CHR 0x00" using assms by (simp add: pad_def BUF_SIZE_def nth_append)
  then have "trim_crlf (pad x) (Suc 79) = Suc 79" by (simp add: is_crlf_def del: Suc_numeral)
  then show "trim_crlf (pad x) (length (pad x)) = BUF_SIZE" using len by (simp add: BUF_SIZE_def)
qed

lemma cstr_no_nul_pad: "CHR 0x00 \<notin> set x \<Longrightarrow> cstr (x @ replicate n CHR 0x00) = x"
  by (cases n) (auto simp: cstr_def takeWhile_append)

lemma cstr_pad: "CHR 0x00 \<notin> set x \<Longrightarrow> cstr (pad x) = x"
  by (simp add: pad_def cstr_no_nul_pad)

text \<open>The state in which the daemon acts on a datagram.\<close>

definition arrived :: "env \<Rightarrow> daemon \<Rightarrow> daemon" where
  "arrived w s = (let t = trace s @ [Recvfrom (socket_descriptor s) CWDAEMON_REQUEST_SIZE_MAX] in
     s\<lparr>trace := t, request_addr := fst (out_addr w t), request_addrlen := snd (out_addr w t)\<rparr>)"

lemma receive_pad:
  assumes "length x < BUF_SIZE"
    and "ret_of w (trace s @ [Recvfrom (socket_descriptor s) CWDAEMON_REQUEST_SIZE_MAX]) = int (length (pad x))"
    and "out_bytes w (trace s @ [Recvfrom (socket_descriptor s) CWDAEMON_REQUEST_SIZE_MAX]) = pad x"
  shows "cwdaemon_receive w s = act_on_request w 80 (pad x) (arrived w s)"
  using assms trim_pad [OF assms(1)]
  by (simp add: cwdaemon_receive_def cwdaemon_recvfrom_def arrived_def Let_def bnd_def BUF_SIZE_def)

lemma act_on_padded_text:
  assumes "CHR 0x00 \<notin> set x" "x \<noteq> []" "hd x \<noteq> ASCII_ESC" "length x < BUF_SIZE"
  shows "act_on_request w 80 (pad x) = act_on_request w (int (length x)) x"
proof -
  have "hd (pad x) = hd x" using assms(2) by (simp add: pad_def)
  moreover have c: "cstr x = x" "cstr (pad x) = x" using cstr_no_nul_pad [OF assms(1), of 0] cstr_pad [OF assms(1)] by simp_all
  ultimately show ?thesis using assms(2,3) unfolding act_on_request_def c by simp
qed

lemma act_on_padded_escape:
  assumes "CHR 0x00 \<notin> set val" "request_code request = Some (code, valued)"
  shows "act_on_request w 80 (pad (CHAR_ESC # code # (if valued then val else []))) = performs w request val"
proof -
  let ?v = "if valued then val else []"
  have v: "CHR 0x00 \<notin> set ?v" using assms(1) by simp
  have b: "pad (CHAR_ESC # code # ?v) = CHAR_ESC # code # ?v @ replicate (78 - length ?v) CHR 0x00"
    by (simp add: pad_def BUF_SIZE_def)
  have act: "act_on_request w 80 (pad (CHAR_ESC # code # ?v)) =
      bnd (cwdaemon_handle_escaped_request w (pad (CHAR_ESC # code # ?v))) (\<lambda>_. ret 0)"
    unfolding act_on_request_def using b by (simp add: CHAR_ESC_def ASCII_ESC_def)
  have parts: "escape_code (pad (CHAR_ESC # code # ?v)) = code" "payload (pad (CHAR_ESC # code # ?v)) = Some ?v"
    "cstr (drop 1 (pad (CHAR_ESC # code # ?v))) = cstr (code # ?v @ replicate (78 - length ?v) CHR 0x00)"
    unfolding b escape_code_def payload_def using cstr_no_nul_pad [OF v] by simp_all
  have reply_text: "cstr (CHR ''h'' # val @ replicate (78 - length val) CHR 0x00) = CHR ''h'' # val"
    using cstr_no_nul_pad [of "CHR ''h'' # val"] assms(1) by simp
  have run: "act_on_request w 80 (pad (CHAR_ESC # code # ?v)) = bnd (
      if code = CHR ''0'' then esc_reset w
      else if code = CHR ''2'' then esc_speed w (Some ?v)
      else if code = CHR ''3'' then esc_tone w (Some ?v)
      else if code = CHR ''4'' then esc_abort w
      else if code = CWDAEMON_ESC_REQUEST_EXIT then halt (Exit EXIT_SUCCESS)
      else if code = CHR ''6'' then esc_wordmode
      else if code = CHR ''7'' then esc_weighting (Some ?v)
      else if code = CWDAEMON_ESC_REQUEST_CWDEVICE then esc_cwdevice w (Some ?v)
      else if code = CHR ''9'' then ret ()
      else if code = CHR ''a'' then bnd (cwdaemon_params_ptt_on_off w (Some ?v)) (\<lambda>_. ret ())
      else if code = CHR ''b'' then esc_ssbway w (Some ?v)
      else if code = CHR ''c'' then esc_tune w (Some ?v)
      else if code = CHR ''d'' then esc_pttdelay w (Some ?v)
      else if code = CHR ''e'' then esc_band w (Some ?v)
      else if code = CHR ''f'' then esc_system w (Some ?v)
      else if code = CHR ''g'' then esc_volume w (Some ?v)
      else if code = CWDAEMON_ESC_REQUEST_REPLY
        then cwdaemon_prepare_reply (cstr (code # ?v @ replicate (78 - length ?v) CHR 0x00))
      else ret ()) (\<lambda>_. ret 0)"
    unfolding act cwdaemon_handle_escaped_request_def Let_def parts ..
  have "(request, code, valued) \<in> set [
     (K_RESET, CHR ''0'', False), (K_SPEED, CHR ''2'', True), (K_TONE, CHR ''3'', True),
     (K_ABORT, CHR ''4'', False), (K_STOP, CHR ''5'', False), (K_WORDMODE, CHR ''6'', False),
     (K_WEIGHT, CHR ''7'', True), (K_DEVICE, CHR ''8'', True), (K_PTT, CHR ''a'', True),
     (K_TUNE, CHR ''c'', True), (K_TOD, CHR ''d'', True), (K_SDEVICE, CHR ''f'', True),
     (K_VOLUME, CHR ''g'', True), (K_REPLY, CHR ''h'', True)]"
    using assms(2) unfolding request_code_def by (rule map_of_SomeD)
  then show ?thesis
    unfolding run performs_def list.set insert_iff empty_iff prod.inject
    by (elim disjE conjE FalseE) (simp_all add: K_defs CWDAEMON_ESC_REQUEST_EXIT_def
        CWDAEMON_ESC_REQUEST_CWDEVICE_def CWDAEMON_ESC_REQUEST_REPLY_def reply_text)
qed

lemma netkeyer_sent:
  assumes "netkeyer v fd request val c = Run 0 c'"
  shows "length (request_bytes request val) < BUF_SIZE" "request_bytes request val \<noteq> []"
    "last (calls c') = Send fd (pad (request_bytes request val))"
proof -
  let ?b = "request_bytes request val"
  show l: "length ?b < BUF_SIZE"
    using assms by (auto simp: netkeyer_def netkeyer_buf_pad halt_def split: if_splits)
  with assms have "pad ?b ! 0 \<noteq> CHR 0x00 \<and> last (calls c') = Send fd (pad ?b)"
    by (auto simp: netkeyer_def netkeyer_buf_pad prog_simps Let_def split: if_splits)
  then show "?b \<noteq> []" "last (calls c') = Send fd (pad ?b)"
    by (auto simp: pad_def BUF_SIZE_def)
qed

lemma tell_completes: "length (request_bytes r val) < BUF_SIZE \<Longrightarrow> completes (\<lambda>_. True) (tell v r val)"
  by (rule completesI) (auto simp: tell_def netkeyer_def netkeyer_buf_pad prog_simps Let_def)

lemma tell_overflow: "\<not> length (request_bytes r val) < BUF_SIZE \<Longrightarrow> tell v r val s = Halt Undefined s"
  by (simp add: tell_def netkeyer_def netkeyer_buf_pad prog_simps)

lemma emit_completes: "completes (\<lambda>_. True) (client_emit c)" "completes (\<lambda>_. True) (say x)" "completes (\<lambda>_. True) (nap n)"
  unfolding say_def nap_def client_emit_def by (intro completes_upd TrueI)+

text \<open>A program that runs into the endless loop.\<close>

definition waits :: "unit client_act \<Rightarrow> bool" where
  "waits m \<longleftrightarrow> (\<forall>s. \<exists>t. m s = Halt Hangs t)"

lemma waits_here: "waits (sq [halt Hangs])"
  by (simp add: waits_def halt_def)

lemma waits_after: "completes (\<lambda>_. True) m \<Longrightarrow> waits (sq ms) \<Longrightarrow> waits (sq (m # ms))"
  unfolding waits_def sq.simps bnd_def by (metis completesD outcome.case(1))

lemma session_waits:
  assumes "\<And>port. argv1 = Some port \<Longrightarrow> length port \<le> 77"
  shows "\<exists>t. sq (client_session v argv1) s = Halt Hangs t"
proof -
  have device: "completes (\<lambda>_. True) (case argv1 of None \<Rightarrow> ret ()
      | Some port \<Rightarrow> sq [tell v K_DEVICE port, say (''opening port '' @ port)])"
    using assms
    by (cases argv1) (auto simp del: sq.simps simp: completes_ret request_bytes_def request_code_def K_defs BUF_SIZE_def
        intro!: completes_sq tell_completes emit_completes)
  have "waits (sq (client_session v argv1))"
    unfolding client_session_def
    by (intro waits_here waits_after device emit_completes tell_completes;
        simp add: request_bytes_def request_code_def K_defs BUF_SIZE_def)
  then show ?thesis by (simp add: waits_def)
qed

section \<open>Properties\<close>

text \<open>
  C7: the example client and the daemon agree on the protocol: when a request was sent (not: refused by
  the kernel) and the daemon receives its datagram, the daemon performs exactly the operation that the
  request names, with exactly the value given to the client, as if the padding of the datagram were not
  there. A reply request is answered with the value behind the letter h.
\<close>

theorem client_request_performed:
  assumes "netkeyer v fd request val c = Run 0 c'" "last (calls c') = Send fd b"
    and "CHR 0x00 \<notin> set val" "request = K_MESSAGE \<longrightarrow> hd val \<noteq> ASCII_ESC"
    and "ret_of w (trace s @ [Recvfrom (socket_descriptor s) CWDAEMON_REQUEST_SIZE_MAX]) = int (length b)"
    and "out_bytes w (trace s @ [Recvfrom (socket_descriptor s) CWDAEMON_REQUEST_SIZE_MAX]) = b"
  shows "cwdaemon_receive w s = performs w request val (arrived w s)"
proof -
  let ?b = "request_bytes request val"
  note sent = netkeyer_sent [OF assms(1)]
  then have b: "b = pad ?b" using assms(2) by simp
  have receive: "cwdaemon_receive w s = act_on_request w 80 (pad ?b) (arrived w s)"
    using receive_pad [OF sent(1)] assms(5,6) b by simp
  show ?thesis
  proof (cases "request = K_MESSAGE")
    case True
    then have "?b = val" by (simp add: request_bytes_def)
    with True sent assms(3,4) act_on_padded_text [of val w] receive show ?thesis by (simp add: performs_def)
  next
    case False
    with sent(2) obtain code valued where c: "request_code request = Some (code, valued)"
      by (cases "request_code request") (auto simp: request_bytes_def)
    with False have "?b = CHAR_ESC # code # (if valued then val else [])" by (simp add: request_bytes_def)
    with act_on_padded_escape [OF assms(3) c, of w] receive show ?thesis by simp
  qed
qed

text \<open>A kernel for the client in which every call succeeds, and \<^verbatim>\<open>getaddrinfo()\<close> finds one address.\<close>

definition open_kernel :: client_env where
  "open_kernel = \<lparr>client_ret = (\<lambda>t. case last t of New_Socket _ \<Rightarrow> 3 | Send _ b \<Rightarrow> int (length b) | _ \<Rightarrow> 0),
     client_errno = (\<lambda>_. 0), addresses = (\<lambda>_. 1), client_strerror = (\<lambda>_. ''error''), gai_strerror = (\<lambda>_. ''error'')\<rparr>"

theorem client_request_performed_witness:
  "\<exists>c b t. netkeyer open_kernel 3 K_SPEED ''40'' client_init = Run 0 c \<and> last (calls c) = Send 3 b \<and>
    cwdaemon_receive (example_env b) idle_state = Run 0 t \<and> current_morse_speed t = 40"
proof -
  let ?b = "pad (CHAR_ESC # ''240'')"
  let ?w = "example_env ?b"
  have b: "length ?b = 80" by (simp add: pad_def BUF_SIZE_def)
  have bytes: "request_bytes K_SPEED ''40'' = CHAR_ESC # ''240''"
    by (simp add: request_bytes_def request_code_def K_defs)
  have sent: "netkeyer open_kernel 3 K_SPEED ''40'' client_init = Run 0 (client_init\<lparr>calls := [Send 3 ?b]\<rparr>)"
    by (simp add: netkeyer_def netkeyer_buf_pad bytes BUF_SIZE_def)
      (simp add: prog_simps Let_def open_kernel_def client_init_def pad_def BUF_SIZE_def CHAR_ESC_def)
  have "cwdaemon_receive ?w idle_state = performs ?w K_SPEED ''40'' (arrived ?w idle_state)"
    by (rule client_request_performed [OF sent]) (simp_all add: K_defs b example_env_def answer_def)
  moreover have "\<exists>t. performs ?w K_SPEED ''40'' (arrived ?w idle_state) = Run 0 t \<and> current_morse_speed t = 40"
  proof -
    have "cwdaemon_get_long (Some ''40'') = Some 40" by code_simp
    then have "cwdaemon_params_wpm ?w (Some ''40'') v = (True, 40)" for v
      by (simp add: cwdaemon_params_wpm_def c_int_id example_env_def)
    then show ?thesis
      by (simp add: performs_def K_defs esc_speed_def prog_simps)
  qed
  ultimately show ?thesis using sent by (auto intro!: exI [of _ ?b])
qed



end
