(* ===== verification/Serial.thy ===== *)
theory Serial
  imports Ttys
begin

text \<open>
  Models \<^verbatim>\<open>src/tools/serial.c\<close>, the program that tells whether a user may access a serial port: it opens
  the device named on its command line and reads the modem lines that the daemon will drive.
\<close>

section \<open>Model\<close>

definition serial_error :: "env \<Rightarrow> string \<Rightarrow> string \<Rightarrow> unit act" where
  "serial_error w what path = look (\<lambda>s.
     sq [emit (Fprintf Stderr (''[EE] '' @ what @ ''('' @ path @ ''): '' @ strerror w (errno_of w (trace s)) @ '' / '' @
           show_long (errno_of w (trace s)) @ [CHR 0x0A])),
         halt (Exit EXIT_FAILURE)])"

definition line_report :: "string \<Rightarrow> 32 word \<Rightarrow> unit act" where
  "line_report name v = emit (Fprintf Stderr (''[II] '' @ name @ '' = '' @ show_long (sint v) @ [CHR 0x0A]))"

text \<open>\<open>argv\<close> is the vector of arguments with the name of the program.\<close>

definition serial_tool :: "env \<Rightarrow> string list \<Rightarrow> unit act" where
  "serial_tool w argv =
     (if length argv < 2
      then sq [emit (Fprintf Stderr (''[EE] Pass path to the serial device. Call the program like this: '' @ hd argv @
                 '' /dev/ttyS0'' @ [CHR 0x0A])),
               halt (Exit EXIT_FAILURE)]
      else let dev_path = argv ! 1
        in bnd (ask w (Open dev_path [O_RDWR])) (\<lambda>fd.
             if fd < 0 then serial_error w ''open'' dev_path
             else bnd (ask w (Ioctl fd TIOCMGET)) (\<lambda>r. look (\<lambda>s.
               if 0 > r then serial_error w ''ioctl'' dev_path
               else let state = word_of_int (out_int w (trace s)) :: 32 word
                 in sq [emit (Close fd),
                        line_report ''DTR'' (state AND TIOCM_DTR),
                        line_report ''RTS'' (state AND TIOCM_RTS),
                        halt (Exit EXIT_SUCCESS)]))))"

section \<open>The verdict\<close>

lemma masked_pins: "v AND TIOCM_DTR = (if bit v 1 then 2 else 0)" "v AND TIOCM_RTS = (if bit v 2 then 4 else 0)"
  for v :: "32 word"
proof -
  have "v AND 2 ^ n = (if bit v n then 2 ^ n else 0)" if "n < 32" for n
    using that bit_exp_iff [where 'a = "32 word", of n]
    by (intro bit_eqI) (auto simp: bit_and_iff)
  from this [of 1] this [of 2] show "v AND TIOCM_DTR = (if bit v 1 then 2 else 0)" "v AND TIOCM_RTS = (if bit v 2 then 4 else 0)"
    by (simp_all add: TIOCM_DTR_def TIOCM_RTS_def)
qed

text \<open>
  The program succeeds for exactly the ports that can be opened and asked for their lines. Then it has
  closed the port, and reported 2 or 0 for DTR and 4 or 0 for RTS, as the bits of the answer say.
\<close>

lemma serial_tool_verdict:
  assumes "serial_tool w [program, path] s = Halt h t"
  shows "let op = trace s @ [Open path [O_RDWR]]; get = op @ [Ioctl (ret_of w op) TIOCMGET];
      v = word_of_int (out_int w get) :: 32 word
    in (h = Exit EXIT_SUCCESS \<longleftrightarrow> 0 \<le> ret_of w op \<and> 0 \<le> ret_of w get) \<and>
      (h = Exit EXIT_SUCCESS \<longrightarrow> trace t = get @ [Close (ret_of w op),
        Fprintf Stderr (''[II] DTR = '' @ show_long (if bit v 1 then 2 else 0) @ [CHR 0x0A]),
        Fprintf Stderr (''[II] RTS = '' @ show_long (if bit v 2 then 4 else 0) @ [CHR 0x0A])])"
  using assms
  by (auto simp: serial_tool_def serial_error_def line_report_def masked_pins prog_simps Let_def EXIT_SUCCESS_def
      EXIT_FAILURE_def split: if_splits)

lemma serial_tool_ends: "\<exists>n t. serial_tool w argv s = Halt (Exit n) t"
  by (simp add: serial_tool_def serial_error_def line_report_def prog_simps Let_def)

end
