(* ===== verification/Spec2Isabelle.thy ===== *)
theory Spec2Isabelle
  imports Transmit Threads Weighting Client Serial
begin

text \<open>
  cwdaemon is a daemon for amateur radio. It receives datagrams from clients (contest loggers), plays their
  text as Morse code through the library libcw, and drives a transmitter over a keying device: a serial
  port, a parallel port, or none. This development models the whole of the daemon (\<^verbatim>\<open>src/src\<close>), the client
  that comes with it (\<^verbatim>\<open>src/examples/example.c\<close>) and the tool \<^verbatim>\<open>src/tools/serial.c\<close>.

  \<^bold>\<open>How the program works.\<close> \<open>main\<close> processes the command line, sets up the keying device, detaches from the
  terminal, opens the socket and libcw's generator, and runs the main loop. A turn of the loop waits for a
  datagram (\<open>cwdaemon_receive\<close>). A text is put into the request queue and played at once
  (\<open>cwdaemon_play_request\<close>): each character switches PTT on, if that is configured, and is handed to
  libcw. A datagram that starts with ESC is an Escape request (\<open>cwdaemon_handle_escaped_request\<close>), which
  changes a parameter, the device or the sound system, aborts, resets, tunes, exits, or asks for a reply.
  libcw calls back from a thread of its own: \<open>cwdaemon_keyingevent\<close> when the key goes down or up, and
  \<open>cwdaemon_tone_queue_low_callback\<close> when its queue of tones runs low, which sends the reply that is owed and
  switches PTT off. The three flags of \<^verbatim>\<open>ptt_flag\<close> (automatic, manual, echo) tie all of them together.

  \<^bold>\<open>The shape of the model.\<close> A C function with effects is a program of type \<open>'a act\<close> (theory \<open>Prelude\<close>):
  a function from the state to \<open>Run\<close> with a result and the new state, or to \<open>Halt\<close> with the reason why
  the process ends: \<open>Exit n\<close>, a failed \<open>assert\<close>, undefined behaviour, or a call that never returns. The
  state is the record \<open>daemon\<close> (theory \<open>Daemon\<close>), the file-scope variables of \<^verbatim>\<open>cwdaemon.c\<close>, and its field
  \<open>trace\<close>, the list of all calls made so far of libcw and the operating system. What these calls answer is
  the environment \<open>env\<close>, a function of the history of calls, over which every theorem quantifies. Words
  are \<open>8 word\<close> or \<open>32 word\<close> where the code has unsigned types or masks; numbers that are parsed are integers with
  the conversion to \<^verbatim>\<open>int\<close> written out (\<open>c_int\<close>). The pins, PTT line, settings of the generator, sent characters
  and replies are read off the history by folds (\<open>tty_line\<close>, \<open>view_of\<close>, \<open>sent\<close>, \<open>replied\<close>).

  \<^bold>\<open>Theories and sources.\<close> In the order of their imports:

    \<^item> \<open>Prelude\<close>: programs, their composition, the Hoare triple, the partial-correctness triple \<open>preserves\<close> and
      the frames (\<open>within R m\<close>: the program \<open>m\<close> relates its two states by \<open>R\<close>), as the locale \<open>frame\<close>.
    \<^item> \<open>Utils\<close>: \<^verbatim>\<open>utils.c\<close>. \<open>cwdaemon_get_long\<close> against a grammar of decimal notations, its round trip with
      printing, \<open>find_opt_value\<close> and \<open>build_full_device_path\<close> with their verdicts.
    \<^item> \<open>Daemon\<close>: constants, types and variables of \<^verbatim>\<open>cwdaemon.h\<close> and \<^verbatim>\<open>cwdaemon.c\<close>; calls and environment.
    \<^item> \<open>Sleep\<close>: \<^verbatim>\<open>sleep.c\<close>. An uninterrupted sleep is exact, and returns after finitely many signals.
    \<^item> \<open>Ttys\<close>, \<open>Lp\<close>: \<^verbatim>\<open>ttys.c\<close>, \<^verbatim>\<open>lp.c\<close>, \<^verbatim>\<open>null.c\<close>. The three keying devices, \<open>lp.c\<close> in its three builds.
    \<^item> \<open>Cwdevice\<close>: the method tables and the selection of the device (\<open>cwdaemon_cwdevice_set\<close> and the functions
      around it; \<open>cwdaemon_option_cwdevice\<close> of \<^verbatim>\<open>options.c\<close>). The contract that the rest relies on is the locale
      \<open>keyer\<close>, and \<open>ptt_keyer\<close> for wired devices, both interpreted on the methods of all devices.
    \<^item> \<open>Options\<close>: \<open>cwdaemon_params_*\<close> of \<^verbatim>\<open>cwdaemon.c\<close> and \<^verbatim>\<open>options.c\<close>, with the locale \<open>ranged_option\<close>.
    \<^item> \<open>Output\<close>, \<open>Weighting\<close>: libcw's generator (open, close, reset) and the weighting in double arithmetic,
      which is proved equal to a formula over the integers.
    \<^item> \<open>Ptt\<close>, \<open>Socket\<close>, \<open>Play\<close>, \<open>Receive\<close>, \<open>Machine\<close>: PTT and tuning; \<^verbatim>\<open>socket.c\<close> and \<open>cwdaemon_prepare_reply\<close>; the
      playing of a text; the Escape requests; the callbacks and the main loop as the steps of a machine.
    \<^item> \<open>Log\<close>, \<open>Help\<close>, \<open>Args\<close>, \<open>Startup\<close>: \<^verbatim>\<open>log.c\<close>, \<^verbatim>\<open>help.c\<close>, the command line, and \<open>main\<close> with its fork and the
      functions registered for the exit.
    \<^item> \<open>Transition\<close>, \<open>Observe\<close>, \<open>Walk\<close>, \<open>Boot\<close>: the means of proof. Machines whose steps are programs, with
      reachability and the locales \<open>kept_machine\<close>, \<open>refined_machine\<close>, \<open>safe_machine\<close>; observers of the history;
      one walk over all operations of the daemon for an arbitrary invariant (locale \<open>daemon_walk\<close>), and one
      over the start of the process (locale \<open>boot_walk\<close>).
    \<^item> \<open>Client\<close>, \<open>Serial\<close>: the example client and the tool for serial ports.

  \<^bold>\<open>What is shown.\<close>

    \<^item> Safety: no datagram, callback or answer makes the daemon fail an assertion or reach undefined behaviour,
      from the start of the process (\<open>Safety\<close>, \<open>Startup\<close>).
    \<^item> PTT: a serial PTT line that is up is known to the daemon (\<open>Lines\<close>); every character of a text is sent with
      PTT on, however callbacks interrupt the playing (\<open>Threads\<close>, a small-step relation that agrees with \<open>play_from\<close>
      without callbacks); a transmission ends with PTT off after at most two callbacks (\<open>Transmit\<close>); the exit lowers the line and
      releases everything (\<open>Ending\<close>, \<open>Lines\<close>); no command line starts the daemon with both signals on one pin
      (\<open>Boot\<close>).
    \<^item> Replies: the daemon refines a mailbox with at most one reply that is owed (\<open>Reply\<close>).
    \<^item> Settings: libcw was told exactly the current parameters in every reachable state, and a reset restores
      the defaults (\<open>Sync\<close>).
    \<^item> Text: what is sent to libcw for a text, with marks for speed, gap and reply (\<open>Morse\<close>).
    \<^item> Client and daemon: a request of the client makes the daemon do what the request names (\<open>Client\<close>).
    \<^item> Behaviour that differs from what the code or its documents mean to do, each proved of the code as it is:
      the change of the device that loses PTT, the callback in the middle of the preparation of a reply, and
      manual PTT (\<open>Transmit\<close>); the caret after a gap (\<open>Morse\<close>); a refused device name (\<open>Sync\<close>); pins that a request leaves
      unchecked (\<open>Boot\<close>); a port that is gone or shared at the exit (\<open>Ending\<close>); the buffer of the client (\<open>Client\<close>).

  \<^bold>\<open>Hypotheses.\<close> They state what the documents of libcw and of the system calls say of the answers:
  \<open>libcw_limits\<close> and \<open>default_limits\<close> (the limits of speed, tone and volume are sensible and contain the defaults),
  \<open>recv_law\<close> (\<^verbatim>\<open>recvfrom\<close> returns -1 or as many bytes as it says, at most the size of the buffer), \<open>getopt_law\<close> (options with
  an argument have one), \<open>gap_law\<close> (libcw returns the gap last set), \<open>device_answers\<close> (no \<^verbatim>\<open>ioctl\<close> fails) and \<open>tones_played\<close>
  (the queue of tones is low when libcw says so). Every property that has hypotheses has a witness, a concrete
  run in which they hold.

  \<^bold>\<open>Termination and bounds.\<close> All functions are total. The loop over a text has the length of the rest as its
  measure; the retries for OSS count down; the sleep that resumes after a signal is a partial function, where
  sleeping on for ever is \<open>Halt Hangs\<close>. No fuel is used: the main loop is the reachability relation \<open>reaches\<close> over the events
  of the machine, of any length.

  \<^bold>\<open>The build.\<close> Long options and \<^verbatim>\<open>setpriority\<close> are available (\<^verbatim>\<open>HAVE_GETOPT_H\<close>, \<^verbatim>\<open>HAVE_SETPRIORITY\<close>), the
  macro \<^verbatim>\<open>CWDAEMON_GITHUB_ISSUE_6_FIXED\<close> is defined as in the source, and the build of the parallel port and the
  platform are fields of the environment.

  \<^bold>\<open>Not modelled.\<close> The unit, functional and fuzzing tests of \<^verbatim>\<open>src/tests\<close> and their library, which are not part
  of the program. libcw, the C library and the kernel are the environment; \<^verbatim>\<open>getopt_long\<close> is the list of what it
  returns. The messages that other components pass to the functions of \<^verbatim>\<open>log.c\<close> are left out, except where the
  command line prints them. A callback is one step: it comes between two operations of the main thread, in the playing
  of a text and in the preparation of a reply between two statements, but never in the middle of one, so data races at
  the level of memory are not modelled. Of a fork, the parent and the child are two runs in two environments. SIGINT
  is modelled by its handler, not as an event at every point.
\<close>

end
